(* ===== verification/Py_Prelude.thy ===== *)
theory Py_Prelude
  imports Main
begin

text \<open>
  The shared prelude. A Python call either returns a value, raises an exception or
  does not return (it waits for a lock that nobody will release, or the fuel given to
  a polling loop is used up); in each case it leaves the objects it changed changed.
  Such a call is a function from the world to an outcome and a world. This theory has
  the outcome type, the statements of the source language as combinators (sequencing,
  \<^verbatim>\<open>raise\<close>, \<^verbatim>\<open>try/except\<close>, \<^verbatim>\<open>try/finally\<close>, \<^verbatim>\<open>for\<close>), and two small program logics for
  them: \<open>keeps\<close> for what a call leaves true and \<open>hoare\<close> for what a call
  establishes, each with its rules in a collection.
\<close>

named_theorems keeps_rules \<open>rules that show a call keeps a predicate on the world\<close>
named_theorems hoare_rules \<open>rules that establish a postcondition of a call\<close>
named_theorems settles_rules \<open>rules that show a call ends\<close>
named_theorems run_eqs \<open>when a simple call has an outcome\<close>
named_theorems py_simps \<open>equations that run the statement combinators\<close>

section \<open>Outcomes and calls\<close>

datatype hang = Deadlock | OutOfFuel

datatype ('e, 'a) outcome = Val 'a | Exc 'e | Hang hang

type_synonym ('w, 'e, 'a) py = "'w \<Rightarrow> ('e, 'a) outcome \<times> 'w"

definition ret :: "'a \<Rightarrow> ('w, 'e, 'a) py" where
  "ret a = (\<lambda>w. (Val a, w))"

definition raise :: "'e \<Rightarrow> ('w, 'e, 'a) py" where
  "raise e = (\<lambda>w. (Exc e, w))"

definition hang :: "hang \<Rightarrow> ('w, 'e, 'a) py" where
  "hang h = (\<lambda>w. (Hang h, w))"

definition bind :: "('w, 'e, 'a) py \<Rightarrow> ('a \<Rightarrow> ('w, 'e, 'b) py) \<Rightarrow> ('w, 'e, 'b) py" where
  "bind m f = (\<lambda>w. case m w of
      (Val a, w') \<Rightarrow> f a w'
    | (Exc e, w') \<Rightarrow> (Exc e, w')
    | (Hang h, w') \<Rightarrow> (Hang h, w'))"

abbreviation seq :: "('w, 'e, 'a) py \<Rightarrow> ('w, 'e, 'b) py \<Rightarrow> ('w, 'e, 'b) py" where
  "seq m n \<equiv> bind m (\<lambda>_. n)"

definition gets :: "('w \<Rightarrow> 'a) \<Rightarrow> ('w, 'e, 'a) py" where
  "gets f = (\<lambda>w. (Val (f w), w))"

definition modify :: "('w \<Rightarrow> 'w) \<Rightarrow> ('w, 'e, unit) py" where
  "modify f = (\<lambda>w. (Val (), f w))"

text \<open>\<^verbatim>\<open>if condition: raise e\<close>\<close>

definition guard :: "('w \<Rightarrow> bool) \<Rightarrow> 'e \<Rightarrow> ('w, 'e, unit) py" where
  "guard b e = (\<lambda>w. if b w then (Exc e, w) else (Val (), w))"

text \<open>A computation without effects that may raise.\<close>

definition lift :: "'e + 'a \<Rightarrow> ('w, 'e, 'a) py" where
  "lift r = (\<lambda>w. case r of Inl e \<Rightarrow> (Exc e, w) | Inr a \<Rightarrow> (Val a, w))"

text \<open>\<^verbatim>\<open>try: m except BaseException as e: h(e)\<close>\<close>

definition catch :: "('w, 'e, 'a) py \<Rightarrow> ('e \<Rightarrow> ('w, 'e, 'a) py) \<Rightarrow> ('w, 'e, 'a) py" where
  "catch m h = (\<lambda>w. case m w of
      (Val a, w') \<Rightarrow> (Val a, w')
    | (Exc e, w') \<Rightarrow> h e w'
    | (Hang x, w') \<Rightarrow> (Hang x, w'))"

text \<open>
  \<^verbatim>\<open>try: m finally: f(error)\<close>, where the source keeps the exception of the body in a
  local variable: \<open>f\<close> gets \<open>Some\<close> of it. An exception of the cleanup replaces the
  outcome of the body.
\<close>

definition tryfinally :: "('w, 'e, 'a) py \<Rightarrow> ('e option \<Rightarrow> ('w, 'e, unit) py) \<Rightarrow> ('w, 'e, 'a) py" where
  "tryfinally m f = (\<lambda>w. case m w of
      (Val a, w') \<Rightarrow> bind (f None) (\<lambda>_. ret a) w'
    | (Exc e, w') \<Rightarrow> bind (f (Some e)) (\<lambda>_. raise e) w'
    | (Hang x, w') \<Rightarrow> (Hang x, w'))"

text \<open>\<^verbatim>\<open>for x in xs: f(x)\<close>\<close>

fun for_each :: "'x list \<Rightarrow> ('x \<Rightarrow> ('w, 'e, unit) py) \<Rightarrow> ('w, 'e, unit) py" where
  "for_each [] f = ret ()"
| "for_each (x # xs) f = bind (f x) (\<lambda>_. for_each xs f)"

text \<open>An optional step: \<^verbatim>\<open>if condition: m\<close>\<close>

definition onlyif :: "bool \<Rightarrow> ('w, 'e, unit) py \<Rightarrow> ('w, 'e, unit) py" where
  "onlyif b m = (if b then m else ret ())"

text \<open>Sequencing of computations without effects that may raise.\<close>

definition rbind :: "'e + 'a \<Rightarrow> ('a \<Rightarrow> 'e + 'b) \<Rightarrow> 'e + 'b" where
  "rbind r f = (case r of Inl e \<Rightarrow> Inl e | Inr a \<Rightarrow> f a)"

lemma rbind_simps [simp]: "rbind (Inl e) f = Inl e" "rbind (Inr a) f = f a"
  by (simp_all add: rbind_def)

lemma rbind_eq_Inr: "rbind r f = Inr b \<longleftrightarrow> (\<exists>a. r = Inr a \<and> f a = Inr b)"
  by (cases r) simp_all

lemma rbind_eq_Inl: "rbind r f = Inl e \<longleftrightarrow> r = Inl e \<or> (\<exists>a. r = Inr a \<and> f a = Inl e)"
  by (cases r) simp_all

lemma rbind_cong [fundef_cong]:
  "r = r' \<Longrightarrow> (\<And>a. r' = Inr a \<Longrightarrow> f a = f' a) \<Longrightarrow> rbind r f = rbind r' f'"
  by (cases r') simp_all

lemmas py_defs = ret_def raise_def hang_def bind_def gets_def modify_def guard_def lift_def
  catch_def tryfinally_def onlyif_def

section \<open>Equations that run a call\<close>

lemma run_ret [py_simps]: "ret a w = (Val a, w)"
  and run_raise [py_simps]: "raise e w = (Exc e, w)"
  and run_hang [py_simps]: "hang h w = (Hang h, w)"
  and run_gets [py_simps]: "gets f w = (Val (f w), w)"
  and run_modify [py_simps]: "modify u w = (Val (), u w)"
  and run_guard [py_simps]: "guard b e w = (if b w then (Exc e, w) else (Val (), w))"
  by (simp_all add: py_defs)

lemma run_lift [py_simps]:
  "lift (Inl e) w = (Exc e, w)" "lift (Inr a) w = (Val a, w)"
  by (simp_all add: py_defs)

lemma run_bind_Val [py_simps]: "m w = (Val a, w') \<Longrightarrow> bind m f w = f a w'"
  and run_bind_Exc [py_simps]: "m w = (Exc e, w') \<Longrightarrow> bind m f w = (Exc e, w')"
  and run_bind_Hang [py_simps]: "m w = (Hang h, w') \<Longrightarrow> bind m f w = (Hang h, w')"
  by (simp_all add: py_defs)

lemma run_catch_Val [py_simps]: "m w = (Val a, w') \<Longrightarrow> catch m h w = (Val a, w')"
  and run_catch_Exc [py_simps]: "m w = (Exc e, w') \<Longrightarrow> catch m h w = h e w'"
  and run_catch_Hang [py_simps]: "m w = (Hang x, w') \<Longrightarrow> catch m h w = (Hang x, w')"
  by (simp_all add: py_defs)

lemma run_finally_Val [py_simps]:
    "m w = (Val a, w') \<Longrightarrow> tryfinally m f w = bind (f None) (\<lambda>_. ret a) w'"
  and run_finally_Exc [py_simps]:
    "m w = (Exc e, w') \<Longrightarrow> tryfinally m f w = bind (f (Some e)) (\<lambda>_. raise e) w'"
  and run_finally_Hang [py_simps]: "m w = (Hang x, w') \<Longrightarrow> tryfinally m f w = (Hang x, w')"
  by (simp_all add: tryfinally_def)

lemma bind_assoc: "bind (bind m f) g = bind m (\<lambda>x. bind (f x) g)"
  by (auto simp: bind_def fun_eq_iff split: prod.splits outcome.splits)

lemma bind_ret_left [simp]: "bind (ret a) f = f a"
  by (simp add: bind_def ret_def)

lemma bind_raise_left [simp]: "bind (raise e) f = raise e"
  by (simp add: bind_def raise_def)

lemma bind_hang_left [simp]: "bind (hang h) f = hang h"
  by (simp add: bind_def hang_def)

lemma lift_Inl: "lift (Inl e) = raise e"
  by (simp add: lift_def raise_def)

lemma lift_Inr: "lift (Inr a) = ret a"
  by (simp add: lift_def ret_def)

lemma bind_ret_right [simp]: "bind m ret = m"
  by (auto simp: bind_def ret_def fun_eq_iff split: prod.splits outcome.splits)

lemma catch_ret [simp]: "catch (ret a) h = ret a"
  and catch_raise [simp]: "catch (raise e) h = h e"
  by (simp_all add: catch_def ret_def raise_def)

lemma bind_eq_Val:
  "bind m f w = (Val b, w'') \<longleftrightarrow> (\<exists>a w'. m w = (Val a, w') \<and> f a w' = (Val b, w''))"
  by (auto simp: bind_def split: prod.splits outcome.splits)

lemma bind_eq_Exc:
  "bind m f w = (Exc e, w'') \<longleftrightarrow>
     m w = (Exc e, w'') \<or> (\<exists>a w'. m w = (Val a, w') \<and> f a w' = (Exc e, w''))"
  by (auto simp: bind_def split: prod.splits outcome.splits)

lemma catch_eq_Val:
  "catch m h w = (Val b, w'') \<longleftrightarrow>
     m w = (Val b, w'') \<or> (\<exists>e w'. m w = (Exc e, w') \<and> h e w' = (Val b, w''))"
  by (auto simp: catch_def split: prod.splits outcome.splits)

lemma catch_eq_Exc:
  "catch m h w = (Exc x, w'') \<longleftrightarrow> (\<exists>e w'. m w = (Exc e, w') \<and> h e w' = (Exc x, w''))"
  by (auto simp: catch_def split: prod.splits outcome.splits)

lemma tryfinally_eq_Val:
  "tryfinally m f w = (Val a, w'') \<longleftrightarrow> (\<exists>w'. m w = (Val a, w') \<and> f None w' = (Val (), w''))"
  by (auto simp: tryfinally_def bind_eq_Val ret_def raise_def split: prod.splits outcome.splits)

lemma tryfinally_eq_Exc:
  "tryfinally m f w = (Exc e, w'') \<longleftrightarrow>
     (\<exists>a w'. m w = (Val a, w') \<and> f None w' = (Exc e, w'')) \<or>
     (\<exists>e' w'. m w = (Exc e', w') \<and> (f (Some e') w' = (Exc e, w'') \<or> f (Some e') w' = (Val (), w'') \<and> e = e'))"
  by (auto simp: tryfinally_def bind_eq_Exc ret_def raise_def split: prod.splits outcome.splits)

lemma for_each_append: "for_each (xs @ ys) f = bind (for_each xs f) (\<lambda>_. for_each ys f)"
  by (induction xs) (simp_all add: bind_assoc)

lemma gets_eq [run_eqs]: "gets f w = (out, w') \<longleftrightarrow> out = Val (f w) \<and> w' = w"
  by (auto simp: gets_def)

lemma lift_eq_Val [run_eqs]: "lift r w = (Val a, w') \<longleftrightarrow> r = Inr a \<and> w' = w"
  by (cases r) (auto simp: lift_def)

lemma lift_eq_Exc [run_eqs]: "lift r w = (Exc e, w') \<longleftrightarrow> r = Inl e \<and> w' = w"
  by (cases r) (auto simp: lift_def)

lemma bind_gets: "bind (gets f) g w = g (f w) w"
  and bind_modify: "bind (modify u) h w = h () (u w)"
  by (simp_all add: bind_def gets_def modify_def)

lemma ret_eq [run_eqs]: "ret a w = (out, w') \<longleftrightarrow> out = Val a \<and> w' = w"
  by (auto simp: ret_def)

lemma raise_eq [run_eqs]: "raise e w = (out, w') \<longleftrightarrow> out = Exc e \<and> w' = w"
  by (auto simp: raise_def)

lemma modify_eq [run_eqs]: "modify f w = (out, w') \<longleftrightarrow> out = Val () \<and> w' = f w"
  by (auto simp: modify_def)

section \<open>What a call leaves true\<close>

text \<open>
  \<open>keeps I m\<close>: from a world with \<open>I\<close>, if \<open>m\<close> returns or raises then \<open>I\<close> still holds. (A
  call that never returns has no world to speak of.) With \<open>I = (\<lambda>w. f w = v)\<close> for every \<open>v\<close>
  it says that \<open>m\<close> does not change \<open>f\<close>.
\<close>

definition keeps :: "('w \<Rightarrow> bool) \<Rightarrow> ('w, 'e, 'a) py \<Rightarrow> bool" where
  "keeps I m \<longleftrightarrow> (\<forall>w. I w \<longrightarrow>
     (case m w of (Val a, w') \<Rightarrow> I w' | (Exc e, w') \<Rightarrow> I w' | (Hang h, w') \<Rightarrow> True))"

lemma keepsI:
  assumes "\<And>w a w'. I w \<Longrightarrow> m w = (Val a, w') \<Longrightarrow> I w'"
    and "\<And>w e w'. I w \<Longrightarrow> m w = (Exc e, w') \<Longrightarrow> I w'"
  shows "keeps I m"
  unfolding keeps_def by (intro allI impI) (auto split: prod.splits outcome.splits dest: assms)

lemma keeps_Val: "keeps I m \<Longrightarrow> I w \<Longrightarrow> m w = (Val a, w') \<Longrightarrow> I w'"
  unfolding keeps_def by (drule spec [of _ w]) simp

lemma keeps_Exc: "keeps I m \<Longrightarrow> I w \<Longrightarrow> m w = (Exc e, w') \<Longrightarrow> I w'"
  unfolding keeps_def by (drule spec [of _ w]) simp

lemma keeps_out: "keeps I m \<Longrightarrow> I w \<Longrightarrow> m w = (out, w') \<Longrightarrow> \<forall>h. out \<noteq> Hang h \<Longrightarrow> I w'"
  by (cases out) (auto dest: keeps_Val keeps_Exc)

lemma keeps_ret [keeps_rules]: "keeps I (ret a)"
  and keeps_raise [keeps_rules]: "keeps I (raise e)"
  and keeps_hang [keeps_rules]: "keeps I (hang h)"
  and keeps_gets [keeps_rules]: "keeps I (gets f)"
  and keeps_guard [keeps_rules]: "keeps I (guard b e)"
  by (simp_all add: keeps_def py_simps)

lemma keeps_lift [keeps_rules]: "keeps I (lift r)"
  by (cases r) (simp_all add: keeps_def py_simps)

lemma keeps_modify: "(\<And>w. I w \<Longrightarrow> I (u w)) \<Longrightarrow> keeps I (modify u)"
  by (simp add: keeps_def py_simps)

lemma keeps_bind [keeps_rules]:
  assumes "keeps I m" and "\<And>a. keeps I (f a)"
  shows "keeps I (bind m f)"
  by (rule keepsI) (auto simp: bind_eq_Val bind_eq_Exc dest: assms[THEN keeps_Val] assms[THEN keeps_Exc])

text \<open>The value read from the world may be used: what holds of it there is known.\<close>

lemma keeps_gets_bind:
  assumes "\<And>w. I w \<Longrightarrow> P (g w) w" and "\<And>v. keeps (\<lambda>w. I w \<and> P v w) (f v)"
  shows "keeps I (bind (gets g) f)"
proof -
  have run: "bind (gets g) f w = f (g w) w" for w by (simp add: bind_def gets_def)
  show ?thesis
    by (rule keepsI; simp only: run)
      (blast dest: assms(1) keeps_Val[OF assms(2), OF conjI] keeps_Exc[OF assms(2), OF conjI])+
qed

lemma keeps_catch [keeps_rules]:
  assumes "keeps I m" and "\<And>e. keeps I (h e)"
  shows "keeps I (catch m h)"
  by (rule keepsI) (auto simp: catch_eq_Val catch_eq_Exc dest: assms[THEN keeps_Val] assms[THEN keeps_Exc])

lemma keeps_finally [keeps_rules]:
  assumes m: "keeps I m" and f: "\<And>e. keeps I (f e)"
  shows "keeps I (tryfinally m f)"
proof -
  have "keeps I (bind (f None) (\<lambda>_. ret a))" "keeps I (bind (f (Some e)) (\<lambda>_. raise e))"
    for a :: 'c and e by (intro keeps_bind keeps_ret keeps_raise f)+
  note * = this[THEN keeps_Val] this[THEN keeps_Exc]
  show ?thesis
    by (rule keepsI) (auto simp: tryfinally_def split: prod.splits outcome.splits
        dest: m[THEN keeps_Val] m[THEN keeps_Exc] *)
qed

lemma keeps_onlyif [keeps_rules]: "keeps I m \<Longrightarrow> keeps I (onlyif b m)"
  by (simp add: onlyif_def keeps_ret)

lemma keeps_for_each [keeps_rules]: "(\<And>x. keeps I (f x)) \<Longrightarrow> keeps I (for_each xs f)"
  by (induction xs) (auto intro: keeps_rules)

lemma keeps_if [keeps_rules]: "keeps I m \<Longrightarrow> keeps I n \<Longrightarrow> keeps I (if b then m else n)"
  by simp

lemma keeps_option [keeps_rules]:
  "keeps I m \<Longrightarrow> (\<And>x. keeps I (f x)) \<Longrightarrow> keeps I (case y of None \<Rightarrow> m | Some x \<Rightarrow> f x)"
  by (simp split: option.split)

lemma keeps_sum [keeps_rules]:
  "(\<And>x. keeps I (f x)) \<Longrightarrow> (\<And>x. keeps I (g x)) \<Longrightarrow>
   keeps I (case y of Inl x \<Rightarrow> f x | Inr x \<Rightarrow> g x)"
  by (simp split: sum.split)

lemma keeps_prod [keeps_rules]:
  "(\<And>a b. keeps I (f a b)) \<Longrightarrow> keeps I (case p of (a, b) \<Rightarrow> f a b)"
  by (simp split: prod.split)

lemma keeps_list [keeps_rules]:
  "keeps I m \<Longrightarrow> (\<And>x xs. keeps I (f x xs)) \<Longrightarrow>
   keeps I (case ys of [] \<Rightarrow> m | x # xs \<Rightarrow> f x xs)"
  by (simp split: list.split)

lemma keeps_case_bool:
  "keeps I m \<Longrightarrow> keeps I n \<Longrightarrow> keeps I (case b of True \<Rightarrow> m | False \<Rightarrow> n)"
  by (simp split: bool.split)

lemma keeps_for_each_in: "(\<And>x. x \<in> set xs \<Longrightarrow> keeps I (f x)) \<Longrightarrow> keeps I (for_each xs f)"
  by (induction xs) (auto intro: keeps_rules)

lemma keeps_Let [keeps_rules]: "(\<And>x. keeps I (f x)) \<Longrightarrow> keeps I (let x = a in f x)"
  by (simp add: Let_def)

lemma keeps_conj: "keeps I m \<Longrightarrow> keeps J m \<Longrightarrow> keeps (\<lambda>w. I w \<and> J w) m"
  by (rule keepsI) (blast dest: keeps_Val keeps_Exc)+

lemma keeps_frame_Val: "(\<And>v. keeps (\<lambda>w. f w = v) m) \<Longrightarrow> m w = (Val a, w') \<Longrightarrow> f w' = f w"
  by (drule meta_spec [of _ "f w"]) (auto dest: keeps_Val)

lemma keeps_frame_Exc: "(\<And>v. keeps (\<lambda>w. f w = v) m) \<Longrightarrow> m w = (Exc e, w') \<Longrightarrow> f w' = f w"
  by (drule meta_spec [of _ "f w"]) (auto dest: keeps_Exc)

section \<open>What a call establishes\<close>

text \<open>
  \<open>hoare P m Q E\<close>: from a world with \<open>P\<close>, if \<open>m\<close> returns \<open>a\<close> then \<open>Q a\<close> holds and
  if it raises \<open>e\<close> then \<open>E e\<close> holds of the world it leaves.
\<close>

definition hoare ::
  "('w \<Rightarrow> bool) \<Rightarrow> ('w, 'e, 'a) py \<Rightarrow> ('a \<Rightarrow> 'w \<Rightarrow> bool) \<Rightarrow> ('e \<Rightarrow> 'w \<Rightarrow> bool) \<Rightarrow> bool" where
  "hoare P m Q E \<longleftrightarrow> (\<forall>w. P w \<longrightarrow>
     (case m w of (Val a, w') \<Rightarrow> Q a w' | (Exc e, w') \<Rightarrow> E e w' | (Hang h, w') \<Rightarrow> True))"

lemma hoare_Val: "hoare P m Q E \<Longrightarrow> P w \<Longrightarrow> m w = (Val a, w') \<Longrightarrow> Q a w'"
  unfolding hoare_def by (drule spec [of _ w]) simp

lemma hoare_Exc: "hoare P m Q E \<Longrightarrow> P w \<Longrightarrow> m w = (Exc e, w') \<Longrightarrow> E e w'"
  unfolding hoare_def by (drule spec [of _ w]) simp

lemma hoareI:
  assumes "\<And>w a w'. P w \<Longrightarrow> m w = (Val a, w') \<Longrightarrow> Q a w'"
    and "\<And>w e w'. P w \<Longrightarrow> m w = (Exc e, w') \<Longrightarrow> E e w'"
  shows "hoare P m Q E"
  unfolding hoare_def by (intro allI impI) (auto split: prod.splits outcome.splits dest: assms)

lemma hoare_pre: "hoare P' m Q E \<Longrightarrow> (\<And>w. P w \<Longrightarrow> P' w) \<Longrightarrow> hoare P m Q E"
  by (auto simp: hoare_def)

lemma hoare_post:
  "hoare P m Q' E' \<Longrightarrow> (\<And>a w. Q' a w \<Longrightarrow> Q a w) \<Longrightarrow> (\<And>e w. E' e w \<Longrightarrow> E e w) \<Longrightarrow> hoare P m Q E"
  by (rule hoareI) (blast dest: hoare_Val hoare_Exc)+

lemma hoare_ret [hoare_rules]: "hoare (Q a) (ret a) Q E"
  and hoare_raise [hoare_rules]: "hoare (E e) (raise e) Q E"
  and hoare_hang [hoare_rules]: "hoare P (hang h) Q E"
  and hoare_gets [hoare_rules]: "hoare (\<lambda>w. Q (f w) w) (gets f) Q E"
  and hoare_modify [hoare_rules]: "hoare (\<lambda>w. Q () (u w)) (modify u) Q E"
  and hoare_guard [hoare_rules]:
    "hoare (\<lambda>w. if b w then E x w else Q () w) (guard b x) Q E"
  by (simp_all add: hoare_def py_simps)

lemma hoare_bind [hoare_rules]:
  assumes "\<And>a. hoare (R a) (f a) Q E" and "hoare P m R E"
  shows "hoare P (bind m f) Q E"
  by (rule hoareI) (auto simp: bind_eq_Val bind_eq_Exc dest: assms[THEN hoare_Val] assms[THEN hoare_Exc])

lemma hoare_catch [hoare_rules]:
  assumes "\<And>e. hoare (R e) (h e) Q E" and "hoare P m Q R"
  shows "hoare P (catch m h) Q E"
  by (rule hoareI) (auto simp: catch_eq_Val catch_eq_Exc dest: assms[THEN hoare_Val] assms[THEN hoare_Exc])

lemma keeps_hoare_iff: "keeps I m \<longleftrightarrow> hoare I m (\<lambda>_. I) (\<lambda>_. I)"
  by (simp add: keeps_def hoare_def)

lemma hoare_assuming: "(P \<Longrightarrow> hoare A m Q E) \<Longrightarrow> hoare (\<lambda>w. A w \<and> P) m Q E"
  by (auto simp: hoare_def)

lemma keeps_hoare: "keeps I m \<Longrightarrow> hoare I m (\<lambda>_. I) (\<lambda>_. I)"
  by (rule hoareI) (blast intro: keeps_Val keeps_Exc)+

section \<open>Calls that end\<close>

text \<open>\<open>settles I m\<close>: from a world with \<open>I\<close> the call \<open>m\<close> returns or raises, and \<open>I\<close> still holds.\<close>

definition settles :: "('w \<Rightarrow> bool) \<Rightarrow> ('w, 'e, 'a) py \<Rightarrow> bool" where
  "settles I m \<longleftrightarrow> (\<forall>w. I w \<longrightarrow> (case m w of (Val a, w') \<Rightarrow> I w' | (Exc e, w') \<Rightarrow> I w' | (Hang h, w') \<Rightarrow> False))"

lemma settlesD: "settles I m \<Longrightarrow> I w \<Longrightarrow> m w = (out, w') \<Longrightarrow> (\<forall>h. out \<noteq> Hang h) \<and> I w'"
  unfolding settles_def by (drule spec [of _ w]) (auto split: outcome.splits)

lemma settlesI: 
  assumes "\<And>w out w'. I w \<Longrightarrow> m w = (out, w') \<Longrightarrow> (\<forall>h. out \<noteq> Hang h) \<and> I w'"
  shows "settles I m"
  unfolding settles_def
  by (intro allI impI) (auto split: prod.splits outcome.splits dest: assms)

lemma settles_simple [settles_rules]:
  "settles I (ret a)" "settles I (raise e)" "settles I (gets f)" "settles I (guard b e)" "settles I (lift r)"
  by (auto simp: settles_def py_defs split: sum.splits)

lemma settles_modify: "(\<And>w. I w \<Longrightarrow> I (u w)) \<Longrightarrow> settles I (modify u)"
  by (simp add: settles_def py_simps)

lemma settles_bind [settles_rules]:
  assumes "settles I m" and "\<And>a. settles I (f a)"
  shows "settles I (bind m f)"
proof (rule settlesI)
  fix w out w' assume w: "I w" "bind m f w = (out, w')"
  obtain o1 w1 where m: "m w = (o1, w1)" by (cases "m w")
  from settlesD [OF assms(1) w(1) m] settlesD [OF assms(2)] w(2) m
  show "(\<forall>h. out \<noteq> Hang h) \<and> I w'" by (cases o1) (auto simp: bind_def)
qed

lemma settles_if [settles_rules]: "settles I m \<Longrightarrow> settles I n \<Longrightarrow> settles I (if b then m else n)"
  by simp

lemma settles_catch [settles_rules]:
  assumes "settles I m" and "\<And>e. settles I (h e)"
  shows "settles I (catch m h)"
proof (rule settlesI)
  fix w out w' assume w: "I w" "catch m h w = (out, w')"
  obtain o1 w1 where m: "m w = (o1, w1)" by (cases "m w")
  from settlesD [OF assms(1) w(1) m] settlesD [OF assms(2)] w(2) m
  show "(\<forall>h. out \<noteq> Hang h) \<and> I w'" by (cases o1) (auto simp: catch_def)
qed

section \<open>Items in transit\<close>

text \<open>
  \<open>row_flow buffer seen out buffer' seen'\<close>: the items handed out, followed by those still buffered,
  are the old buffer followed by new ones, and as many were counted.
\<close>

definition row_flow :: "'a list \<Rightarrow> int \<Rightarrow> 'a list \<Rightarrow> 'a list \<Rightarrow> int \<Rightarrow> bool" where
  "row_flow b n out b' n' \<longleftrightarrow> (\<exists>new. out @ b' = b @ new \<and> n' = n + int (length new))"

lemma row_flow_refl: "row_flow b n [] b n"
  by (simp add: row_flow_def)

lemma row_flow_arrive: "row_flow b n [] (b @ new) (n + int (length new))"
  by (simp add: row_flow_def)

lemma row_flow_trans:
  assumes "row_flow b n out b1 n1" and "row_flow b1 n1 out' b2 n2"
  shows "row_flow b n (out @ out') b2 n2"
proof -
  from assms obtain x y where xy: "out @ b1 = b @ x" "n1 = n + int (length x)" "out' @ b2 = b1 @ y" "n2 = n1 + int (length y)"
    by (auto simp: row_flow_def)
  then have "(out @ out') @ b2 = b @ x @ y" by (metis append.assoc)
  then show ?thesis using xy(2,4) unfolding row_flow_def by (intro exI [of _ "x @ y"]) simp
qed

end
