(* ===== verification/Py_Text.thy ===== *)
theory Py_Text
  imports Py_Prelude
begin

text \<open>
  Python text and bytes. A \<^verbatim>\<open>str\<close> is a list of code points, a \<^verbatim>\<open>bytes\<close> a list of
  numbers below 256. The classification of characters (\<^verbatim>\<open>isdigit\<close>, \<^verbatim>\<open>isspace\<close>, \<^verbatim>\<open>upper\<close>
  and so on) is the Unicode Character Database, which is data outside of the repository:
  the definitions that classify characters take it as the argument \<open>U\<close>. The locale
  \<open>unicode\<close> states what it says of ASCII; \<open>latin1\<close> is a concrete database, exact on
  the code points below 256, on which the model runs and which interprets the locale.
  The rest is what the sources use of the language: decimal printing and parsing of
  integers, UTF-8, searching, splitting.
\<close>

type_synonym cp = nat
type_synonym pystr = "cp list"
type_synonym pybytes = "nat list"

definition lit :: "string \<Rightarrow> pystr" where
  "lit = map of_char"

section \<open>The Unicode database\<close>

record unidb =
  isdigit :: "cp \<Rightarrow> bool"
  isalpha :: "cp \<Rightarrow> bool"
  isalnum :: "cp \<Rightarrow> bool"
  isspace :: "cp \<Rightarrow> bool"
  decimal :: "cp \<Rightarrow> nat option"
  upper_cp :: "cp \<Rightarrow> pystr"
  lower_cp :: "cp \<Rightarrow> pystr"

definition upper :: "unidb \<Rightarrow> pystr \<Rightarrow> pystr" where
  "upper U s = concat (map (upper_cp U) s)"

definition lower :: "unidb \<Rightarrow> pystr \<Rightarrow> pystr" where
  "lower U s = concat (map (lower_cp U) s)"

definition ascii_digit :: "cp \<Rightarrow> bool" where
  "ascii_digit c \<longleftrightarrow> 48 \<le> c \<and> c \<le> 57"

definition ascii_alpha :: "cp \<Rightarrow> bool" where
  "ascii_alpha c \<longleftrightarrow> 65 \<le> c \<and> c \<le> 90 \<or> 97 \<le> c \<and> c \<le> 122"

definition ascii_space :: "cp \<Rightarrow> bool" where
  "ascii_space c \<longleftrightarrow> 9 \<le> c \<and> c \<le> 13 \<or> 28 \<le> c \<and> c \<le> 32"

definition ascii_upper :: "cp \<Rightarrow> cp" where
  "ascii_upper c = (if 97 \<le> c \<and> c \<le> 122 then c - 32 else c)"

definition ascii_lower :: "cp \<Rightarrow> cp" where
  "ascii_lower c = (if 65 \<le> c \<and> c \<le> 90 then c + 32 else c)"

lemmas ascii_defs = ascii_digit_def ascii_alpha_def ascii_space_def ascii_upper_def ascii_lower_def

locale unicode =
  fixes U :: unidb
  assumes isdigit_ascii: "c < 128 \<Longrightarrow> isdigit U c \<longleftrightarrow> ascii_digit c"
    and isalpha_ascii: "c < 128 \<Longrightarrow> isalpha U c \<longleftrightarrow> ascii_alpha c"
    and isalnum_ascii: "c < 128 \<Longrightarrow> isalnum U c \<longleftrightarrow> ascii_alpha c \<or> ascii_digit c"
    and isspace_ascii: "c < 128 \<Longrightarrow> isspace U c \<longleftrightarrow> ascii_space c"
    and decimal_ascii: "c < 128 \<Longrightarrow> decimal U c = (if ascii_digit c then Some (c - 48) else None)"
    and upper_ascii: "c < 128 \<Longrightarrow> upper_cp U c = [ascii_upper c]"
    and lower_ascii: "c < 128 \<Longrightarrow> lower_cp U c = [ascii_lower c]"
begin

lemma upper_ascii_str: "(\<And>c. c \<in> set s \<Longrightarrow> c < 128) \<Longrightarrow> upper U s = map ascii_upper s"
  by (induction s) (simp_all add: upper_def upper_ascii)

lemma isspace_ascii_digit: "ascii_digit c \<Longrightarrow> \<not> isspace U c"
  by (simp add: isspace_ascii ascii_defs)

lemma decimal_ascii_digit: "ascii_digit c \<Longrightarrow> decimal U c = Some (c - 48) \<and> isdigit U c"
  by (simp add: decimal_ascii isdigit_ascii ascii_defs)

end

text \<open>
  The Latin-1 range as Python classifies it: the superscripts 178, 179 and 185 are digits
  without being decimals, the fractions 188 to 190 are alphanumeric, 223 is the sharp s
  whose upper case is \<^verbatim>\<open>SS\<close>, 181 and 255 have their upper case outside the range.
\<close>

definition latin1 :: unidb where
  "latin1 =
    \<lparr>isdigit = (\<lambda>c. ascii_digit c \<or> c \<in> {178, 179, 185}),
     isalpha = (\<lambda>c. ascii_alpha c \<or> c \<in> {170, 181, 186} \<or> 192 \<le> c \<and> c \<le> 255 \<and> c \<noteq> 215 \<and> c \<noteq> 247),
     isalnum = (\<lambda>c. ascii_alpha c \<or> ascii_digit c \<or> c \<in> {170, 178, 179, 181, 185, 186, 188, 189, 190}
        \<or> 192 \<le> c \<and> c \<le> 255 \<and> c \<noteq> 215 \<and> c \<noteq> 247),
     isspace = (\<lambda>c. ascii_space c \<or> c = 133 \<or> c = 160),
     decimal = (\<lambda>c. if ascii_digit c then Some (c - 48) else None),
     upper_cp = (\<lambda>c. if c = 223 then [83, 83] else if c = 181 then [924] else if c = 255 then [376]
        else if 224 \<le> c \<and> c \<le> 254 \<and> c \<noteq> 247 then [c - 32] else [ascii_upper c]),
     lower_cp = (\<lambda>c. if 192 \<le> c \<and> c \<le> 222 \<and> c \<noteq> 215 then [c + 32] else [ascii_lower c])\<rparr>"

interpretation latin1: unicode latin1
  by unfold_locales (auto simp: latin1_def ascii_defs)

section \<open>Searching and splitting\<close>

definition startswith_at :: "pystr \<Rightarrow> pystr \<Rightarrow> nat \<Rightarrow> bool" where
  "startswith_at s p i \<longleftrightarrow> take (length p) (drop i s) = p"

text \<open>\<^verbatim>\<open>s.find(p, i)\<close> for a non-empty \<open>p\<close>; \<open>None\<close> is the answer \<open>-1\<close>.\<close>

function find_from :: "pystr \<Rightarrow> pystr \<Rightarrow> nat \<Rightarrow> nat option" where
  "find_from s p i =
     (if length s < i + length p then None
      else if startswith_at s p i then Some i
      else if i < length s then find_from s p (Suc i) else None)"
  by pat_completeness auto
termination
  by (relation "measure (\<lambda>(s, p, i). length s - i)") auto

declare find_from.simps [simp del]

lemma find_from_Some:
  "find_from s p i = Some j \<Longrightarrow> i \<le> j \<and> j + length p \<le> length s \<and> startswith_at s p j"
proof (induction s p i rule: find_from.induct)
  case (1 s p i)
  from "1.prems" show ?case
    by (subst (asm) find_from.simps) (auto split: if_splits dest: "1.IH")
qed

definition lstrip :: "(cp \<Rightarrow> bool) \<Rightarrow> pystr \<Rightarrow> pystr" where
  "lstrip ws s = dropWhile ws s"

definition rstrip :: "(cp \<Rightarrow> bool) \<Rightarrow> pystr \<Rightarrow> pystr" where
  "rstrip ws s = rev (dropWhile ws (rev s))"

definition strip :: "(cp \<Rightarrow> bool) \<Rightarrow> pystr \<Rightarrow> pystr" where
  "strip ws s = rstrip ws (lstrip ws s)"

text \<open>\<^verbatim>\<open>s.split()\<close>: the maximal runs of non-space characters.\<close>

function split_ws :: "(cp \<Rightarrow> bool) \<Rightarrow> pystr \<Rightarrow> pystr list" where
  "split_ws ws s =
     (case dropWhile ws s of
        [] \<Rightarrow> []
      | c # r \<Rightarrow> (c # takeWhile (\<lambda>x. \<not> ws x) r) # split_ws ws (dropWhile (\<lambda>x. \<not> ws x) r))"
  by pat_completeness auto
termination
proof (relation "measure (\<lambda>(ws, s). length s)")
  fix ws :: "cp \<Rightarrow> bool" and s c r
  assume "dropWhile ws s = c # r"
  then have "length (c # r) \<le> length s" by (metis length_dropWhile_le)
  moreover have "length (dropWhile (\<lambda>x. \<not> ws x) r) \<le> length r" by (rule length_dropWhile_le)
  ultimately show "((ws, dropWhile (\<lambda>x. \<not> ws x) r), ws, s) \<in> measure (\<lambda>(ws, s). length s)"
    by simp
qed simp

declare split_ws.simps [simp del]

text \<open>\<^verbatim>\<open>s.replace(c, r)\<close> for a single character \<open>c\<close>.\<close>

definition replace_cp :: "cp \<Rightarrow> pystr \<Rightarrow> pystr \<Rightarrow> pystr" where
  "replace_cp c r s = concat (map (\<lambda>x. if x = c then r else [x]) s)"

text \<open>\<^verbatim>\<open>sep.join(parts)\<close>\<close>

fun join :: "pystr \<Rightarrow> pystr list \<Rightarrow> pystr" where
  "join sep [] = []"
| "join sep [s] = s"
| "join sep (s # t # ss) = s @ sep @ join sep (t # ss)"

section \<open>Integers in text\<close>

fun digits_of :: "nat \<Rightarrow> pystr" where
  "digits_of n = (if n < 10 then [48 + n] else digits_of (n div 10) @ [48 + n mod 10])"

declare digits_of.simps [simp del]

definition str_int :: "int \<Rightarrow> pystr" where
  "str_int i = (if i < 0 then 45 # digits_of (nat (- i)) else digits_of (nat i))"

text \<open>\<^verbatim>\<open>f"{n:0wd}"\<close> for \<open>n\<close> not negative.\<close>

definition zfill :: "nat \<Rightarrow> nat \<Rightarrow> pystr" where
  "zfill w n = replicate (w - length (digits_of n)) 48 @ digits_of n"

definition digit_value :: "cp \<Rightarrow> nat" where
  "digit_value c = (if 48 \<le> c \<and> c \<le> 57 then c - 48
     else if 97 \<le> c \<and> c \<le> 122 then c - 87
     else if 65 \<le> c \<and> c \<le> 90 then c - 55 else 37)"

definition nat_of_digits :: "nat \<Rightarrow> pystr \<Rightarrow> nat" where
  "nat_of_digits b s = foldl (\<lambda>a c. a * b + digit_value c) 0 s"

fun double_underscore :: "pystr \<Rightarrow> bool" where
  "double_underscore (c # d # s) = (c = 95 \<and> d = 95 \<or> double_underscore (d # s))"
| "double_underscore _ = False"

text \<open>The interpreter's default limit on the digits of a decimal conversion.\<close>

definition max_str_digits :: nat where
  "max_str_digits = 4300"

lemma max_str_digits_pos: "0 < max_str_digits"
  by (simp add: max_str_digits_def)

text \<open>
  \<^verbatim>\<open>int(s, base)\<close> on ASCII text: surrounding white space, a sign, the prefix \<^verbatim>\<open>0x\<close> in base
  16, then digits with single underscores between them. \<open>None\<close> is \<^verbatim>\<open>ValueError\<close>.
\<close>

definition int_literal :: "nat \<Rightarrow> pystr \<Rightarrow> nat option" where
  "int_literal b s =
     (let ok = (\<lambda>c. digit_value c < b \<or> c = 95);
          run = takeWhile ok s; ds = filter (\<lambda>c. c \<noteq> 95) run
      in if dropWhile ok s \<noteq> [] \<or> run = [] \<or> hd run = 95 \<or> last run = 95 \<or> double_underscore run
           \<or> b = 10 \<and> max_str_digits < length ds
         then None else Some (nat_of_digits b ds))"

definition strip_hex_prefix :: "pystr \<Rightarrow> pystr" where
  "strip_hex_prefix s =
     (if take 2 s = [48, 120] \<or> take 2 s = [48, 88]
      then (if take 1 (drop 2 s) = [95] then drop 3 s else drop 2 s) else s)"

definition py_int :: "(cp \<Rightarrow> bool) \<Rightarrow> nat \<Rightarrow> pystr \<Rightarrow> int option" where
  "py_int ws b s =
     (let t = strip ws s;
          neg = (take 1 t = [45]);
          u = (if take 1 t = [45] \<or> take 1 t = [43] then drop 1 t else t);
          v = (if b = 16 then strip_hex_prefix u else u)
      in map_option (\<lambda>n. if neg then - int n else int n) (int_literal b v))"

text \<open>The white space of \<^verbatim>\<open>int(bytes)\<close>.\<close>

definition bytes_space :: "nat \<Rightarrow> bool" where
  "bytes_space c \<longleftrightarrow> 9 \<le> c \<and> c \<le> 13 \<or> c = 32"

lemma digits_of_ascii: "c \<in> set (digits_of n) \<Longrightarrow> ascii_digit c"
proof (induction n rule: digits_of.induct)
  case (1 n)
  then show ?case
    by (cases "n < 10") (auto simp: digits_of.simps [of n] ascii_digit_def split: if_splits)
qed

lemma digits_of_nonempty [simp]: "digits_of n \<noteq> []"
  by (simp add: digits_of.simps)

lemma ascii_digit_value: "ascii_digit c \<Longrightarrow> digit_value c = c - 48 \<and> digit_value c < 10 \<and> c \<noteq> 95"
  by (auto simp: ascii_digit_def digit_value_def)

lemma nat_of_digits_append:
  "nat_of_digits b (s @ [c]) = nat_of_digits b s * b + digit_value c"
  by (simp add: nat_of_digits_def)

lemma nat_of_digits_digits_of [simp]: "nat_of_digits 10 (digits_of n) = n"
proof (induction n rule: digits_of.induct)
  case (1 n)
  then show ?case
    by (cases "n < 10")
       (auto simp: digits_of.simps [of n] nat_of_digits_append digit_value_def nat_of_digits_def)
qed

lemma nat_of_digits_zeros [simp]:
  "nat_of_digits 10 (replicate k 48 @ s) = nat_of_digits 10 s"
  by (induction k) (simp_all add: nat_of_digits_def digit_value_def)

lemma no_double_underscore: "95 \<notin> set s \<Longrightarrow> \<not> double_underscore s"
  by (induction s rule: double_underscore.induct) auto

lemma int_literal_ascii_digits:
  assumes "\<And>c. c \<in> set s \<Longrightarrow> ascii_digit c" and "s \<noteq> []" and "length s \<le> max_str_digits"
  shows "int_literal 10 s = Some (nat_of_digits 10 s)"
proof -
  have ok: "digit_value c < 10" "c \<noteq> 95" if "c \<in> set s" for c
    using ascii_digit_value [OF assms(1) [OF that]] by simp_all
  have run: "takeWhile (\<lambda>c. digit_value c < 10 \<or> c = 95) s = s"
    and rest: "dropWhile (\<lambda>c. digit_value c < 10 \<or> c = 95) s = []"
    by (auto simp: takeWhile_eq_all_conv dropWhile_eq_Nil_conv ok)
  have us: "95 \<notin> set s" using ok(2) by auto
  then have "filter (\<lambda>c. c \<noteq> 95) s = s" by (metis (mono_tags, lifting) filter_True)
  moreover from us assms(2) have "hd s \<noteq> 95" "last s \<noteq> 95"
    by (metis hd_in_set) (metis assms(2) last_in_set us)
  ultimately show ?thesis
    using us assms(2,3) ok(1) by (simp add: int_literal_def Let_def run rest no_double_underscore)
qed

lemma strip_id:
  assumes "s \<noteq> []" and "\<not> ws (hd s)" and "\<not> ws (last s)"
  shows "strip ws s = s"
proof -
  have "dropWhile ws s = s" using assms(1,2) by (cases s) auto
  moreover have "dropWhile ws (rev s) = rev s"
    using assms(1,3) by (cases s rule: rev_cases) auto
  ultimately show ?thesis by (simp add: strip_def lstrip_def rstrip_def)
qed

lemma py_int_digits:
  assumes "\<And>c. c \<in> set s \<Longrightarrow> ascii_digit c" and "s \<noteq> []" and "length s \<le> max_str_digits"
    and ws: "\<And>c. ascii_digit c \<Longrightarrow> \<not> ws c"
  shows "py_int ws 10 s = Some (int (nat_of_digits 10 s))"
proof -
  have "strip ws s = s" using assms by (intro strip_id) auto
  moreover have "take 1 s \<noteq> [45]" "take 1 s \<noteq> [43]"
    using assms(1,2) by (cases s; fastforce simp: ascii_digit_def)+
  ultimately show ?thesis
    using assms(1-3) by (simp add: py_int_def Let_def int_literal_ascii_digits)
qed

lemma length_digits_of_less:
  "0 < k \<Longrightarrow> n < 10 ^ k \<Longrightarrow> length (digits_of n) \<le> k"
proof (induction n arbitrary: k rule: digits_of.induct)
  case (1 n)
  show ?case
  proof (cases "n < 10")
    case True
    with "1.prems" show ?thesis by (simp add: digits_of.simps [of n])
  next
    case False
    with "1.prems" have "k \<noteq> 1" by auto
    with "1.prems"(1) obtain k' where k: "k = Suc k'" "0 < k'"
      by (cases k) auto
    with "1.prems" have "n div 10 < 10 ^ k'"
      by (simp add: less_mult_imp_div_less mult.commute)
    with "1.IH" [OF False k(2)] k False show ?thesis by (simp add: digits_of.simps [of n])
  qed
qed

lemma py_int_str_int:
  assumes "\<bar>i\<bar> < 10 ^ max_str_digits" and ws: "\<And>c. ascii_digit c \<Longrightarrow> \<not> ws c" and "\<not> ws 45"
  shows "py_int ws 10 (str_int i) = Some i"
proof -
  define ds where "ds = digits_of (nat \<bar>i\<bar>)"
  have "nat \<bar>i\<bar> < 10 ^ max_str_digits" using assms(1) by (simp add: nat_less_iff)
  then have len: "length ds \<le> max_str_digits"
    unfolding ds_def by (intro length_digits_of_less max_str_digits_pos)
  have ad: "ascii_digit c" if "c \<in> set ds" for c
    using that digits_of_ascii ds_def by blast
  have ne: "ds \<noteq> []" by (simp add: ds_def)
  show ?thesis
  proof (cases "i < 0")
    case True
    have "last ds \<in> set ds" using ne by simp
    then have "\<not> ws (last ds)" using ad ws by blast
    then have "strip ws (45 # ds) = 45 # ds" using ne assms(3) by (intro strip_id) auto
    then have "py_int ws 10 (45 # ds) = Some (- int (nat_of_digits 10 ds))"
      using int_literal_ascii_digits [OF ad ne len] by (simp add: py_int_def Let_def)
    moreover have "str_int i = 45 # ds" using True by (simp add: str_int_def ds_def)
    ultimately show ?thesis using True by (simp add: ds_def)
  next
    case False
    then have "str_int i = ds" by (simp add: str_int_def ds_def)
    then show ?thesis using False py_int_digits [OF ad ne len ws] by (simp add: ds_def)
  qed
qed

lemma zfill_props:
  assumes "0 < w" and "n < 10 ^ w"
  shows "length (zfill w n) = w" and "list_all ascii_digit (zfill w n)" and "nat_of_digits 10 (zfill w n) = n"
proof -
  show "length (zfill w n) = w" using length_digits_of_less [OF assms] by (simp add: zfill_def)
  show "list_all ascii_digit (zfill w n)"
    using digits_of_ascii [of _ n] by (auto simp: zfill_def list_all_iff) (simp add: ascii_digit_def)
  show "nat_of_digits 10 (zfill w n) = n" by (simp add: zfill_def)
qed

end
