(* ===== verification/Pg_Errors.thy ===== *)
theory Pg_Errors
  imports Py_Text
begin

text \<open>
  The exceptions: the PEP 249 classes of \<^verbatim>\<open>_errors.py\<close> with their inheritance, the error the
  native module raises, the built-in exceptions the package raises or catches, and the
  translation of a native diagnostic into a public exception.
\<close>

named_theorems error_defs \<open>definitions of the error translation\<close>

section \<open>Classes\<close>

datatype pg_class =
    Error | InterfaceError | DatabaseError | DataError | OperationalError | IntegrityError
  | InternalError | ProgrammingError | NotSupportedError | QueryCanceledError
  | QueryTimeoutError | ForkedProcessError

fun pg_base :: "pg_class \<Rightarrow> pg_class option" where
  "pg_base Error = None"
| "pg_base InterfaceError = Some Error"
| "pg_base DatabaseError = Some Error"
| "pg_base DataError = Some DatabaseError"
| "pg_base OperationalError = Some DatabaseError"
| "pg_base IntegrityError = Some DatabaseError"
| "pg_base InternalError = Some DatabaseError"
| "pg_base ProgrammingError = Some DatabaseError"
| "pg_base NotSupportedError = Some DatabaseError"
| "pg_base QueryCanceledError = Some OperationalError"
| "pg_base QueryTimeoutError = Some OperationalError"
| "pg_base ForkedProcessError = Some InterfaceError"

text \<open>\<^verbatim>\<open>issubclass\<close>: the reflexive transitive closure of the base classes.\<close>

inductive issubclass :: "pg_class \<Rightarrow> pg_class \<Rightarrow> bool" where
  issubclass_refl: "issubclass c c"
| issubclass_step: "pg_base c = Some d \<Longrightarrow> issubclass d e \<Longrightarrow> issubclass c e"

code_pred issubclass .

inductive_cases issubclass_cases: "issubclass c d"

section \<open>Diagnostics and exceptions\<close>

record diagnostic =
  message :: pystr
  status :: "int option"
  status_name :: "pystr option"
  sqlstate :: "pystr option"
  severity :: "pystr option"
  detail :: "pystr option"
  hint :: "pystr option"

text \<open>
  \<open>PgError\<close> is an instance of a public class, \<open>NativeError\<close> the exception of the native
  module with the attributes it carries. \<open>TimeoutErr\<close> and \<open>CancelledErr\<close> are the exceptions of
  \<^verbatim>\<open>asyncio\<close> when a wait times out or its task is cancelled. \<open>OtherExc\<close> is any exception of the host: an
  interrupt, an exception of an application callback.
\<close>

datatype exc =
    PgError pg_class diagnostic
  | NativeError diagnostic
  | TypeErr pystr
  | ValueErr pystr
  | UnicodeErr pystr
  | OverflowErr pystr
  | RuntimeErr pystr
  | KeyErr pystr
  | AssertionErr
  | DecimalInvalid
  | BlockingIOErr pystr
  | StopIter
  | StopAsyncIter
  | TimeoutErr
  | CancelledErr
  | OtherExc nat pystr

type_synonym 'a res = "exc + 'a"

definition plain :: "pystr \<Rightarrow> diagnostic" where
  "plain m = \<lparr>message = m, status = None, status_name = None, sqlstate = None,
     severity = None, detail = None, hint = None\<rparr>"

definition interface_error :: "string \<Rightarrow> exc" where
  "interface_error m = PgError InterfaceError (plain (lit m))"

definition programming_error :: "string \<Rightarrow> exc" where
  "programming_error m = PgError ProgrammingError (plain (lit m))"

text \<open>The exceptions that \<^verbatim>\<open>except (UnicodeError, ValueError, OverflowError)\<close> catches.\<close>

fun is_value_error :: "exc \<Rightarrow> bool" where
  "is_value_error (ValueErr _) = True"
| "is_value_error (UnicodeErr _) = True"
| "is_value_error (OverflowErr _) = True"
| "is_value_error _ = False"

section \<open>Status codes of the native module\<close>

definition PGM_STATUS_INVALID_ARGUMENT :: int where "PGM_STATUS_INVALID_ARGUMENT = 1"
definition PGM_STATUS_BUSY :: int where "PGM_STATUS_BUSY = 2"
definition PGM_STATUS_TIMEOUT :: int where "PGM_STATUS_TIMEOUT = 3"
definition PGM_STATUS_CANCELED :: int where "PGM_STATUS_CANCELED = 4"
definition PGM_STATUS_IO_ERROR :: int where "PGM_STATUS_IO_ERROR = 5"
definition PGM_STATUS_POSTGRES_ERROR :: int where "PGM_STATUS_POSTGRES_ERROR = 6"
definition PGM_STATUS_CONNECTION_FAILED :: int where "PGM_STATUS_CONNECTION_FAILED = 7"
definition PGM_STATUS_INSTANCE_FAILED :: int where "PGM_STATUS_INSTANCE_FAILED = 8"
definition PGM_STATUS_FORKED_PROCESS :: int where "PGM_STATUS_FORKED_PROCESS = 9"
definition PGM_STATUS_VERSION_MISMATCH :: int where "PGM_STATUS_VERSION_MISMATCH = 10"
definition PGM_STATUS_UNSUPPORTED :: int where "PGM_STATUS_UNSUPPORTED = 11"
definition PGM_STATUS_OUT_OF_MEMORY :: int where "PGM_STATUS_OUT_OF_MEMORY = 12"
definition PGM_STATUS_INTERNAL_ERROR :: int where "PGM_STATUS_INTERNAL_ERROR = 13"
definition PGM_STATUS_REENTRANT_CALL :: int where "PGM_STATUS_REENTRANT_CALL = 14"

lemmas status_defs = PGM_STATUS_INVALID_ARGUMENT_def PGM_STATUS_BUSY_def PGM_STATUS_TIMEOUT_def
  PGM_STATUS_CANCELED_def PGM_STATUS_IO_ERROR_def PGM_STATUS_POSTGRES_ERROR_def
  PGM_STATUS_CONNECTION_FAILED_def PGM_STATUS_INSTANCE_FAILED_def PGM_STATUS_FORKED_PROCESS_def
  PGM_STATUS_VERSION_MISMATCH_def PGM_STATUS_UNSUPPORTED_def PGM_STATUS_OUT_OF_MEMORY_def
  PGM_STATUS_INTERNAL_ERROR_def PGM_STATUS_REENTRANT_CALL_def

section \<open>Translation\<close>

definition exception_class :: "diagnostic \<Rightarrow> pg_class" where
  "exception_class e =
     (let st = status e; ss = sqlstate e; cls = map_option (take 2) ss in
      if st = Some PGM_STATUS_FORKED_PROCESS then ForkedProcessError
      else if st = Some PGM_STATUS_UNSUPPORTED then NotSupportedError
      else if st = Some PGM_STATUS_TIMEOUT then QueryTimeoutError
      else if st = Some PGM_STATUS_CANCELED \<or> ss = Some (lit ''57014'') then QueryCanceledError
      else if st \<in> {Some PGM_STATUS_INVALID_ARGUMENT, Some PGM_STATUS_VERSION_MISMATCH}
        then InterfaceError
      else if st = Some PGM_STATUS_BUSY then OperationalError
      else if st \<in> {Some PGM_STATUS_IO_ERROR, Some PGM_STATUS_CONNECTION_FAILED,
                    Some PGM_STATUS_INSTANCE_FAILED, Some PGM_STATUS_OUT_OF_MEMORY}
        then OperationalError
      else if st \<in> {Some PGM_STATUS_INTERNAL_ERROR, Some PGM_STATUS_REENTRANT_CALL}
        then InternalError
      else if cls = Some (lit ''22'') then DataError
      else if cls = Some (lit ''23'') then IntegrityError
      else if cls \<in> {Some (lit ''08''), Some (lit ''40''), Some (lit ''53''), Some (lit ''54''),
                     Some (lit ''55''), Some (lit ''57''), Some (lit ''58'')} then OperationalError
      else if cls \<in> {Some (lit ''0A'')} then NotSupportedError
      else if cls \<in> {Some (lit ''2D''), Some (lit ''2F''), Some (lit ''34''), Some (lit ''3D''),
                     Some (lit ''3F''), Some (lit ''42'')} then ProgrammingError
      else if cls = Some (lit ''XX'') then InternalError
      else DatabaseError)"

text \<open>The exception that \<^verbatim>\<open>raise_translated(error)\<close> raises.\<close>

definition translated :: "diagnostic \<Rightarrow> exc" where
  "translated e =
     PgError (exception_class e)
       \<lparr>message = message e, status = status e, status_name = status_name e,
        sqlstate = sqlstate e, severity = severity e, detail = detail e, hint = hint e\<rparr>"

definition raise_translated :: "diagnostic \<Rightarrow> ('w, exc, 'a) py" where
  "raise_translated e = raise (translated e)"

text \<open>\<^verbatim>\<open>try: m except NativeError as error: raise_translated(error)\<close>\<close>

definition translating :: "('w, exc, 'a) py \<Rightarrow> ('w, exc, 'a) py" where
  "translating m = catch m (\<lambda>e. case e of NativeError d \<Rightarrow> raise_translated d | _ \<Rightarrow> raise e)"

lemmas [error_defs] = exception_class_def translated_def raise_translated_def translating_def

section \<open>Properties\<close>

lemma issubclass_Error: "issubclass c Error"
proof -
  have e: "issubclass Error Error" by (rule issubclass_refl)
  have i: "issubclass InterfaceError Error" by (rule issubclass_step [OF _ e]) simp
  have d: "issubclass DatabaseError Error" by (rule issubclass_step [OF _ e]) simp
  have o: "issubclass OperationalError Error" by (rule issubclass_step [OF _ d]) simp
  show ?thesis
    by (cases c) (simp_all add: e i d o issubclass_step [OF _ i] issubclass_step [OF _ d]
        issubclass_step [OF _ o])
qed

lemma translated_diagnostic: "translated e = PgError (exception_class e) e"
  by (simp add: translated_def)

lemma exception_class_postgres:
  assumes "status e = Some PGM_STATUS_POSTGRES_ERROR"
  shows "exception_class e =
    (if sqlstate e = Some (lit ''57014'') then QueryCanceledError
     else case map_option (take 2) (sqlstate e) of
       None \<Rightarrow> DatabaseError
     | Some c \<Rightarrow>
        (if c = lit ''22'' then DataError
         else if c = lit ''23'' then IntegrityError
         else if c \<in> {lit ''08'', lit ''40'', lit ''53'', lit ''54'', lit ''55'', lit ''57'', lit ''58''}
           then OperationalError
         else if c = lit ''0A'' then NotSupportedError
         else if c \<in> {lit ''2D'', lit ''2F'', lit ''34'', lit ''3D'', lit ''3F'', lit ''42''}
           then ProgrammingError
         else if c = lit ''XX'' then InternalError
         else DatabaseError))"
  using assms by (cases "sqlstate e") (simp_all add: exception_class_def status_defs)

lemma keeps_translating [keeps_rules]: "keeps I m \<Longrightarrow> keeps I (translating m)"
  unfolding translating_def raise_translated_def
  by (rule keeps_catch) (auto split: exc.split intro: keeps_rules)

lemma run_translating [py_simps]:
  "m w = (Val a, w') \<Longrightarrow> translating m w = (Val a, w')"
  "m w = (Exc (NativeError d), w') \<Longrightarrow> translating m w = (Exc (translated d), w')"
  "m w = (Hang h, w') \<Longrightarrow> translating m w = (Hang h, w')"
  by (simp_all add: translating_def raise_translated_def py_simps)

lemma run_translating_other [py_simps]:
  "m w = (Exc e, w') \<Longrightarrow> (\<And>d. e \<noteq> NativeError d) \<Longrightarrow> translating m w = (Exc e, w')"
  by (cases e) (auto simp: translating_def py_simps)

lemma translating_Val_iff: "translating m w = (Val a, w') \<longleftrightarrow> m w = (Val a, w')"
  by (auto simp: translating_def raise_translated_def catch_def raise_def
      split: prod.splits outcome.splits exc.splits)

lemma if_notin: "(b \<Longrightarrow> x \<notin> S) \<Longrightarrow> (\<not> b \<Longrightarrow> y \<notin> S) \<Longrightarrow> (if b then x else y) \<notin> S"
  by simp

lemma issubclass_Operational: "issubclass OperationalError DatabaseError"
  by (rule issubclass_step [OF _ issubclass_refl]) simp

lemma issubclass_Database:
  assumes "c \<notin> {Error, InterfaceError, ForkedProcessError}"
  shows "issubclass c DatabaseError"
  using assms
  by (cases c) (simp_all add: issubclass_refl issubclass_Operational issubclass_step [OF _ issubclass_refl]
      issubclass_step [OF _ issubclass_Operational])

text \<open>
  C24: The class of a translated native error. The exception carries the whole diagnostic, and
  its class is below \<^verbatim>\<open>InterfaceError\<close> when the call was at fault (a forked process, an invalid
  argument or a version mismatch, except that a cancelled query is reported as such) and below
  \<^verbatim>\<open>DatabaseError\<close> otherwise; an unknown status or SQLSTATE is no exception to this.
\<close>

theorem translated_class:
  "\<exists>c. translated d = PgError c d \<and> issubclass c
     (if status d = Some PGM_STATUS_FORKED_PROCESS \<or>
         status d \<in> {Some PGM_STATUS_INVALID_ARGUMENT, Some PGM_STATUS_VERSION_MISMATCH} \<and> sqlstate d \<noteq> Some (lit ''57014'')
      then InterfaceError else DatabaseError)"
proof (cases "status d = Some PGM_STATUS_FORKED_PROCESS \<or>
    status d \<in> {Some PGM_STATUS_INVALID_ARGUMENT, Some PGM_STATUS_VERSION_MISMATCH} \<and> sqlstate d \<noteq> Some (lit ''57014'')")
  case True
  then have "exception_class d \<in> {InterfaceError, ForkedProcessError}" by (auto simp: exception_class_def status_defs)
  then have "issubclass (exception_class d) InterfaceError"
    using issubclass_refl issubclass_step [OF _ issubclass_refl, of ForkedProcessError] by auto
  with True show ?thesis by (simp add: translated_diagnostic)
next
  case False
  then have "exception_class d \<notin> {Error, InterfaceError, ForkedProcessError}"
    unfolding exception_class_def Let_def by (intro if_notin) auto
  with False show ?thesis by (auto simp: translated_diagnostic issubclass_Database)
qed

text \<open>No exception of the native module escapes a translated call.\<close>

lemma translating_no_native: "translating m w \<noteq> (Exc (NativeError d), w')"
  by (auto simp: translating_def raise_translated_def translated_def catch_def raise_def
      split: prod.splits outcome.splits exc.splits)

end
