(* ===== verification/Utf8.thy ===== *)
theory Utf8
  imports Pg_Errors
begin

text \<open>
  \<^verbatim>\<open>str.encode("utf-8")\<close>, \<^verbatim>\<open>bytes.decode("utf-8")\<close> and \<^verbatim>\<open>bytes.decode("ascii")\<close> with strict
  error handling, which every value codec and the native boundary rely on. Surrogates cannot
  be encoded; overlong forms, surrogates and values beyond \<^verbatim>\<open>0x10FFFF\<close> cannot be decoded.
\<close>

definition surrogate :: "cp \<Rightarrow> bool" where
  "surrogate c \<longleftrightarrow> 0xD800 \<le> c \<and> c \<le> 0xDFFF"

definition scalar :: "cp \<Rightarrow> bool" where
  "scalar c \<longleftrightarrow> c < 0x110000 \<and> \<not> surrogate c"

definition utf8_cp :: "cp \<Rightarrow> pybytes" where
  "utf8_cp c =
     (if c < 0x80 then [c]
      else if c < 0x800 then [0xC0 + c div 64, 0x80 + c mod 64]
      else if c < 0x10000 then [0xE0 + c div 4096, 0x80 + c div 64 mod 64, 0x80 + c mod 64]
      else [0xF0 + c div 262144, 0x80 + c div 4096 mod 64, 0x80 + c div 64 mod 64, 0x80 + c mod 64])"

definition utf8_encode :: "pystr \<Rightarrow> pybytes res" where
  "utf8_encode s =
     (if \<forall>c \<in> set s. scalar c then Inr (concat (map utf8_cp s))
      else Inl (UnicodeErr (lit ''surrogates not allowed'')))"

definition continuation :: "nat \<Rightarrow> bool" where
  "continuation b \<longleftrightarrow> 0x80 \<le> b \<and> b < 0xC0"

text \<open>The first code point of a sequence of bytes and the bytes after it.\<close>

fun utf8_take :: "pybytes \<Rightarrow> (cp \<times> pybytes) option" where
  "utf8_take [] = None"
| "utf8_take (b # bs) =
     (if b < 0x80 then Some (b, bs)
      else case bs of
        [] \<Rightarrow> None
      | b1 # bs1 \<Rightarrow>
         (if \<not> continuation b1 then None
          else if 0xC2 \<le> b \<and> b < 0xE0 then Some ((b - 0xC0) * 64 + (b1 - 0x80), bs1)
          else case bs1 of
            [] \<Rightarrow> None
          | b2 # bs2 \<Rightarrow>
             (if \<not> continuation b2 then None
              else if 0xE0 \<le> b \<and> b < 0xF0 then
                (let c = (b - 0xE0) * 4096 + (b1 - 0x80) * 64 + (b2 - 0x80)
                 in if 0x800 \<le> c \<and> scalar c then Some (c, bs2) else None)
              else case bs2 of
                [] \<Rightarrow> None
              | b3 # bs3 \<Rightarrow>
                 (if \<not> continuation b3 then None
                  else if 0xF0 \<le> b \<and> b < 0xF5 then
                    (let c = (b - 0xF0) * 262144 + (b1 - 0x80) * 4096 + (b2 - 0x80) * 64 + (b3 - 0x80)
                     in if 0x10000 \<le> c \<and> scalar c then Some (c, bs3) else None)
                  else None))))"

lemma utf8_take_shorter: "utf8_take bs = Some (c, r) \<Longrightarrow> length r < length bs"
  by (cases bs) (auto simp: Let_def split: if_splits list.splits)

function utf8_decode :: "pybytes \<Rightarrow> pystr res" where
  "utf8_decode bs =
     (if bs = [] then Inr []
      else case utf8_take bs of
        None \<Rightarrow> Inl (UnicodeErr (lit ''invalid utf-8''))
      | Some (c, r) \<Rightarrow> (case utf8_decode r of Inl e \<Rightarrow> Inl e | Inr s \<Rightarrow> Inr (c # s)))"
  by pat_completeness auto
termination
  by (relation "measure length") (auto dest: utf8_take_shorter)

declare utf8_decode.simps [simp del]

definition ascii_decode :: "pybytes \<Rightarrow> pystr res" where
  "ascii_decode bs =
     (if \<forall>b \<in> set bs. b < 128 then Inr bs else Inl (UnicodeErr (lit ''ordinal not in range(128)'')))"

lemma digits64:
  "(c :: nat) div 4096 * 4096 + c div 64 mod 64 * 64 + c mod 64 = c"
  "(c :: nat) div 262144 * 262144 + c div 4096 mod 64 * 4096 + c div 64 mod 64 * 64 + c mod 64 = c"
proof -
  have step: "c div (k * 64) * (k * 64) + c div k mod 64 * k = c div k * k" for k
    by (metis (no_types, lifting) add.commute div_mult2_eq distrib_right div_mult_mod_eq mult.assoc mult.commute)
  show "c div 4096 * 4096 + c div 64 mod 64 * 64 + c mod 64 = c"
    using step [of 64] by simp
  then show "c div 262144 * 262144 + c div 4096 mod 64 * 4096 + c div 64 mod 64 * 64 + c mod 64 = c"
    using step [of 4096] by simp
qed

lemma utf8_take_cp:
  assumes "scalar c"
  shows "utf8_take (utf8_cp c @ r) = Some (c, r)"
proof -
  consider "c < 0x80" | "0x80 \<le> c" "c < 0x800" | "0x800 \<le> c" "c < 0x10000" | "0x10000 \<le> c"
    by linarith
  then show ?thesis
  proof cases
    case 1 then show ?thesis by (simp add: utf8_cp_def)
  next
    case 2
    then have "c div 64 * 64 + c mod 64 = c" "2 \<le> c div 64" "c div 64 < 32" by (simp, linarith+)
    with 2 show ?thesis by (simp add: utf8_cp_def continuation_def)
  next
    case 3
    have "c div 4096 < 16" using 3 by linarith
    with 3 assms digits64(1) [of c] show ?thesis by (simp add: utf8_cp_def continuation_def Let_def)
  next
    case 4
    have "c < 0x110000" using assms by (simp add: scalar_def)
    then have "c div 262144 < 5" by linarith
    then show ?thesis using 4 assms digits64(2) [of c] by (simp add: utf8_cp_def continuation_def Let_def)
  qed
qed

lemma utf8_cp_nonempty [simp]: "utf8_cp c \<noteq> []"
  by (simp add: utf8_cp_def)

lemma utf8_decode_Nil [simp]: "utf8_decode [] = Inr []"
  by (simp add: utf8_decode.simps)

lemma utf8_decode_encode: "utf8_encode s = Inr bs \<Longrightarrow> utf8_decode bs = Inr s"
proof -
  have "(\<forall>c \<in> set s. scalar c) \<Longrightarrow> utf8_decode (concat (map utf8_cp s)) = Inr s"
    by (induction s) (simp_all add: utf8_decode.simps [of "utf8_cp _ @ _"] utf8_take_cp)
  then show "utf8_encode s = Inr bs \<Longrightarrow> utf8_decode bs = Inr s"
    by (auto simp: utf8_encode_def split: if_splits)
qed

lemma utf8_encode_ascii: "(\<And>c. c \<in> set s \<Longrightarrow> c < 128) \<Longrightarrow> utf8_encode s = Inr s"
proof -
  assume a: "\<And>c. c \<in> set s \<Longrightarrow> c < 128"
  then have "concat (map utf8_cp s) = s" by (induction s) (simp_all add: utf8_cp_def)
  with a show ?thesis by (force simp: utf8_encode_def scalar_def surrogate_def)
qed

lemma ascii_decode_ascii: "(\<And>c. c \<in> set s \<Longrightarrow> c < 128) \<Longrightarrow> ascii_decode s = Inr s"
  by (simp add: ascii_decode_def)

lemma utf8_cp_bytes: "scalar c \<Longrightarrow> b \<in> set (utf8_cp c) \<Longrightarrow> b < 256"
  by (auto simp: utf8_cp_def scalar_def split: if_splits)

end
