(* ===== verification/Py_Values.thy ===== *)
theory Py_Values
  imports Complex_Main Utf8
begin

text \<open>
  The Python values the codecs handle, their printed forms, and the parts of the standard
  library that are parameters of the model (\<open>stdlib\<close>): the shortest representation of a
  float and its parsing, decimal arithmetic's text form, the ISO parsers of
  \<^verbatim>\<open>datetime\<close> (which accept different inputs in different interpreter versions) and JSON.
  A float is a rational number or one of the special values; a \<^verbatim>\<open>tzinfo\<close> is represented by
  its offset in microseconds.
\<close>

datatype pyfloat = Fin rat | NegZero | PosInf | NegInf | NaN

datatype pydecimal = DecFin bool nat int | DecInf bool | DecNaN

record pydate =
  dt_year :: nat
  dt_month :: nat
  dt_day :: nat

record pytime =
  tm_hour :: nat
  tm_minute :: nat
  tm_second :: nat
  tm_microsecond :: nat
  tm_offset :: "int option"

text \<open>\<^verbatim>\<open>timedelta\<close> in its normal form.\<close>

record timedelta =
  td_days :: int
  td_seconds :: int
  td_microseconds :: int

datatype pyval =
    PNone
  | PBool bool
  | PInt int
  | PFloat pyfloat
  | PDecimal pydecimal
  | PStr pystr
  | PBytes pybytes
  | PByteArray pybytes
  | PMemoryView pybytes
  | PDate pydate
  | PTime pytime
  | PDateTime pydate pytime
  | PTimedelta timedelta
  | PUUID nat
  | PJson pyval
  | PDict "(pyval \<times> pyval) list"
  | PArray pyval int
  | PList "pyval list"
  | PTuple "pyval list"
  | PRaw int int pybytes
  | PObj nat nat

text \<open>\<^verbatim>\<open>type(value)\<close>: an application object carries the identity of its class.\<close>

datatype pytype =
    TNone | TBool | TInt | TFloat | TDecimal | TStr | TBytes | TByteArray | TMemoryView
  | TDate | TTime | TDateTime | TTimedelta | TUUID | TJson | TDict | TArray | TList | TTuple
  | TRaw | TObj nat

fun type_of :: "pyval \<Rightarrow> pytype" where
  "type_of PNone = TNone"
| "type_of (PBool _) = TBool"
| "type_of (PInt _) = TInt"
| "type_of (PFloat _) = TFloat"
| "type_of (PDecimal _) = TDecimal"
| "type_of (PStr _) = TStr"
| "type_of (PBytes _) = TBytes"
| "type_of (PByteArray _) = TByteArray"
| "type_of (PMemoryView _) = TMemoryView"
| "type_of (PDate _) = TDate"
| "type_of (PTime _) = TTime"
| "type_of (PDateTime _ _) = TDateTime"
| "type_of (PTimedelta _) = TTimedelta"
| "type_of (PUUID _) = TUUID"
| "type_of (PJson _) = TJson"
| "type_of (PDict _) = TDict"
| "type_of (PArray _ _) = TArray"
| "type_of (PList _) = TList"
| "type_of (PTuple _) = TTuple"
| "type_of (PRaw _ _ _) = TRaw"
| "type_of (PObj c _) = TObj c"

text \<open>
  \<^verbatim>\<open>iter(value)\<close>: the items that a loop over the value visits. A \<open>PObj\<close> is an instance of
  an application class that derives from none of the types above and is not iterable.
\<close>

fun iter_values :: "pyval \<Rightarrow> pyval list res" where
  "iter_values (PList vs) = Inr vs"
| "iter_values (PTuple vs) = Inr vs"
| "iter_values (PStr s) = Inr (map (\<lambda>c. PStr [c]) s)"
| "iter_values (PBytes bs) = Inr (map (\<lambda>b. PInt (int b)) bs)"
| "iter_values (PByteArray bs) = Inr (map (\<lambda>b. PInt (int b)) bs)"
| "iter_values (PMemoryView bs) = Inr (map (\<lambda>b. PInt (int b)) bs)"
| "iter_values (PDict kvs) = Inr (map fst kvs)"
| "iter_values _ = Inl (TypeErr (lit ''object is not iterable''))"

section \<open>The standard library as a parameter\<close>

record stdlib =
  uni :: unidb
  float_repr :: "rat \<Rightarrow> pystr"
  float_parse :: "pybytes \<Rightarrow> pyfloat option"
  decimal_str :: "pydecimal \<Rightarrow> pystr"
  decimal_parse :: "pystr \<Rightarrow> pydecimal option"
  date_parse :: "pystr \<Rightarrow> pydate option"
  time_parse :: "pystr \<Rightarrow> pytime option"
  datetime_parse :: "pystr \<Rightarrow> (pydate \<times> pytime) option"
  json_dumps :: "pyval \<Rightarrow> pystr res"
  json_loads :: "pystr \<Rightarrow> pyval res"

section \<open>Printed forms\<close>

definition str_of_int :: "int \<Rightarrow> pystr res" where
  "str_of_int i =
     (if max_str_digits < length (digits_of (nat \<bar>i\<bar>))
      then Inl (ValueErr (lit ''Exceeds the limit for integer string conversion''))
      else Inr (str_int i))"

fun str_of_float :: "stdlib \<Rightarrow> pyfloat \<Rightarrow> pystr" where
  "str_of_float L (Fin q) = float_repr L q"
| "str_of_float L NegZero = lit ''-0.0''"
| "str_of_float L PosInf = lit ''inf''"
| "str_of_float L NegInf = lit ''-inf''"
| "str_of_float L NaN = lit ''nan''"

definition date_isoformat :: "pydate \<Rightarrow> pystr" where
  "date_isoformat d = zfill 4 (dt_year d) @ [45] @ zfill 2 (dt_month d) @ [45] @ zfill 2 (dt_day d)"

definition offset_isoformat :: "int \<Rightarrow> pystr" where
  "offset_isoformat us =
     (let n = nat \<bar>us\<bar>; s = n div 1000000; f = n mod 1000000 in
      [if us < 0 then 45 else 43] @ zfill 2 (s div 3600) @ [58] @ zfill 2 (s div 60 mod 60) @
      (if s mod 60 \<noteq> 0 \<or> f \<noteq> 0 then [58] @ zfill 2 (s mod 60) else []) @
      (if f \<noteq> 0 then [46] @ zfill 6 f else []))"

definition time_isoformat :: "pytime \<Rightarrow> pystr" where
  "time_isoformat t =
     zfill 2 (tm_hour t) @ [58] @ zfill 2 (tm_minute t) @ [58] @ zfill 2 (tm_second t) @
     (if tm_microsecond t \<noteq> 0 then [46] @ zfill 6 (tm_microsecond t) else []) @
     (case tm_offset t of None \<Rightarrow> [] | Some us \<Rightarrow> offset_isoformat us)"

definition datetime_isoformat :: "cp \<Rightarrow> pydate \<Rightarrow> pytime \<Rightarrow> pystr" where
  "datetime_isoformat sep d t = date_isoformat d @ [sep] @ time_isoformat t"

section \<open>UUIDs\<close>

definition hex_digit :: "nat \<Rightarrow> cp" where
  "hex_digit d = (if d < 10 then 48 + d else 87 + d)"

fun hex_of :: "nat \<Rightarrow> nat \<Rightarrow> pystr" where
  "hex_of 0 n = []"
| "hex_of (Suc k) n = hex_of k (n div 16) @ [hex_digit (n mod 16)]"

definition uuid_str :: "nat \<Rightarrow> pystr" where
  "uuid_str n =
     (let h = hex_of 32 n in
      take 8 h @ [45] @ take 4 (drop 8 h) @ [45] @ take 4 (drop 12 h) @ [45] @
      take 4 (drop 16 h) @ [45] @ drop 20 h)"

text \<open>\<^verbatim>\<open>s.replace(p, "")\<close> for a non-empty \<open>p\<close>\<close>

function remove_all :: "pystr \<Rightarrow> pystr \<Rightarrow> pystr" where
  "remove_all p s =
     (case s of
        [] \<Rightarrow> []
      | c # r \<Rightarrow> (if p \<noteq> [] \<and> take (length p) s = p then remove_all p (drop (length p) s)
                 else c # remove_all p r))"
  by pat_completeness auto
termination
  by (relation "measure (\<lambda>(p, s). length s)") auto

declare remove_all.simps [simp del]

text \<open>\<^verbatim>\<open>uuid.UUID(text)\<close>\<close>

definition uuid_parse :: "unidb \<Rightarrow> pystr \<Rightarrow> nat res" where
  "uuid_parse U s =
     (let h = remove_all [45] (strip (\<lambda>c. c = 123 \<or> c = 125)
                (remove_all (lit ''uuid:'') (remove_all (lit ''urn:'') s)))
      in if length h \<noteq> 32 then Inl (ValueErr (lit ''badly formed hexadecimal UUID string''))
         else case py_int (isspace U) 16 h of
             None \<Rightarrow> Inl (ValueErr (lit ''invalid literal for int() with base 16''))
           | Some i \<Rightarrow> (if 0 \<le> i \<and> i < 2 ^ 128 then Inr (nat i)
                       else Inl (ValueErr (lit ''int is out of range (need a 128-bit value)''))))"

definition bytes_to_nat :: "pybytes \<Rightarrow> nat" where
  "bytes_to_nat bs = foldl (\<lambda>a b. a * 256 + b) 0 bs"

definition uuid_of_bytes :: "pybytes \<Rightarrow> nat res" where
  "uuid_of_bytes bs =
     (if length bs \<noteq> 16 then Inl (ValueErr (lit ''bytes is not a 16-char string''))
      else Inr (bytes_to_nat bs))"

text \<open>\<^verbatim>\<open>int.from_bytes(data, "big", signed=True)\<close>\<close>

definition int_from_bytes_signed :: "pybytes \<Rightarrow> int" where
  "int_from_bytes_signed bs =
     (case bs of
        [] \<Rightarrow> 0
      | b # _ \<Rightarrow> int (bytes_to_nat bs) - (if 128 \<le> b then 256 ^ length bs else 0))"

text \<open>\<^verbatim>\<open>bytes.fromhex\<close>: pairs of hexadecimal digits, ASCII white space between the pairs.\<close>

fun bytes_fromhex :: "pystr \<Rightarrow> pybytes res" where
  "bytes_fromhex [] = Inr []"
| "bytes_fromhex [c] =
     (if bytes_space c then Inr [] else Inl (ValueErr (lit ''non-hexadecimal number found'')))"
| "bytes_fromhex (c # d # s) =
     (if bytes_space c then bytes_fromhex (d # s)
      else if digit_value c < 16 \<and> digit_value d < 16
        then rbind (bytes_fromhex s) (\<lambda>bs. Inr ((digit_value c * 16 + digit_value d) # bs))
      else Inl (ValueErr (lit ''non-hexadecimal number found'')))"

section \<open>Timedeltas\<close>

definition td_valid :: "timedelta \<Rightarrow> bool" where
  "td_valid t \<longleftrightarrow> - 999999999 \<le> td_days t \<and> td_days t \<le> 999999999 \<and>
     0 \<le> td_seconds t \<and> td_seconds t < 86400 \<and> 0 \<le> td_microseconds t \<and> td_microseconds t < 1000000"

definition td_total :: "timedelta \<Rightarrow> int" where
  "td_total t = td_days t * 86400000000 + td_seconds t * 1000000 + td_microseconds t"

text \<open>The normal form of a number of microseconds; a number of days out of range raises.\<close>

definition td_of_total :: "int \<Rightarrow> timedelta res" where
  "td_of_total us =
     (let d = us div 86400000000; r = us mod 86400000000 in
      if d < - 999999999 \<or> 999999999 < d
      then Inl (OverflowErr (lit ''days out of range''))
      else Inr \<lparr>td_days = d, td_seconds = r div 1000000, td_microseconds = r mod 1000000\<rparr>)"

lemma td_of_total_total:
  assumes "td_valid t"
  shows "td_of_total (td_total t) = Inr t"
proof -
  obtain d s u where t: "t = \<lparr>td_days = d, td_seconds = s, td_microseconds = u\<rparr>" by (cases t)
  define r where "r = s * 1000000 + u"
  have r: "0 \<le> r" "r < 86400000000" "r div 1000000 = s" "r mod 1000000 = u"
    using assms by (auto simp: t td_valid_def r_def)
  have "td_total t = r + 86400000000 * d" by (simp add: t td_total_def r_def)
  then have "td_total t div 86400000000 = d" "td_total t mod 86400000000 = r"
    using r(1,2) by simp_all
  with r assms show ?thesis by (simp add: td_of_total_def t td_valid_def)
qed

end
