(* ===== verification/Codec.thy ===== *)
theory Codec
  imports Py_Values
begin

text \<open>
  The value codecs (\<^verbatim>\<open>_codec.py\<close>): the registry of application codecs, the encoding of
  Python values as parameters of PostgreSQL's extended protocol, and the decoding of the
  values PostgreSQL returns, arrays included. The parser of array literals works on the
  text that is left instead of an index into it. The limit of the interpreter on the depth
  of recursion is not modelled.
\<close>

named_theorems codec_defs \<open>definitions of the codecs\<close>

section \<open>Constants and data\<close>

definition TEXT :: int where "TEXT = 0"
definition BINARY :: int where "BINARY = 1"
definition BOOL :: int where "BOOL = 16"
definition BYTEA :: int where "BYTEA = 17"
definition INT8 :: int where "INT8 = 20"
definition INT2 :: int where "INT2 = 21"
definition INT4 :: int where "INT4 = 23"
definition TEXT_OID :: int where "TEXT_OID = 25"
definition OID :: int where "OID = 26"
definition JSON :: int where "JSON = 114"
definition FLOAT4 :: int where "FLOAT4 = 700"
definition FLOAT8 :: int where "FLOAT8 = 701"
definition VARCHAR :: int where "VARCHAR = 1043"
definition DATE :: int where "DATE = 1082"
definition TIME :: int where "TIME = 1083"
definition TIMESTAMP :: int where "TIMESTAMP = 1114"
definition TIMESTAMPTZ :: int where "TIMESTAMPTZ = 1184"
definition INTERVAL :: int where "INTERVAL = 1186"
definition NUMERIC :: int where "NUMERIC = 1700"
definition UUID :: int where "UUID = 2950"
definition JSONB :: int where "JSONB = 3802"

lemmas oid_defs = TEXT_def BINARY_def BOOL_def BYTEA_def INT8_def INT2_def INT4_def TEXT_OID_def
  OID_def JSON_def FLOAT4_def FLOAT8_def VARCHAR_def DATE_def TIME_def TIMESTAMP_def
  TIMESTAMPTZ_def INTERVAL_def NUMERIC_def UUID_def JSONB_def

text \<open>\<^verbatim>\<open>RawValue.text\<close>; the decoder of the requested encoding is an argument.\<close>

definition raw_text :: "(pybytes \<Rightarrow> pystr res) \<Rightarrow> int \<Rightarrow> pybytes \<Rightarrow> pystr res" where
  "raw_text decode fmt data =
     (if fmt \<noteq> TEXT
      then Inl (ValueErr (lit ''binary RawValue does not have a text representation''))
      else decode data)"

record EncodedParameter =
  ep_oid :: int
  ep_format :: int
  ep_is_null :: bool
  ep_data :: pybytes

definition native_parameter :: "EncodedParameter \<Rightarrow> int \<times> int \<times> bool \<times> pybytes" where
  "native_parameter p = (ep_oid p, ep_format p, ep_is_null p, ep_data p)"

section \<open>The registry of application codecs\<close>

text \<open>
  A decoder and an encoder are functions of the application. What an encoder returns may
  fail to be an \<^verbatim>\<open>EncodedParameter\<close>: then it is \<open>None\<close> here.
\<close>

type_synonym decoder = "pybytes \<Rightarrow> int \<Rightarrow> pyval res"
type_synonym encoder = "pyval \<Rightarrow> EncodedParameter option res"

record codecs =
  custom_decoders :: "int \<Rightarrow> decoder option"
  custom_encoders :: "pytype \<Rightarrow> encoder option"

definition no_codecs :: codecs where
  "no_codecs = \<lparr>custom_decoders = (\<lambda>_. None), custom_encoders = (\<lambda>_. None)\<rparr>"

text \<open>The argument \<^verbatim>\<open>python_type\<close>: absent, a type, or an object that is not a type.\<close>

datatype type_arg = NoType | AType pytype | NotAType

text \<open>A \<^verbatim>\<open>decoder\<close> that is not callable is \<open>None\<close>.\<close>

definition register_codec ::
  "pyval \<Rightarrow> decoder option \<Rightarrow> type_arg \<Rightarrow> encoder option \<Rightarrow> codecs \<Rightarrow> codecs res" where
  "register_codec oid dec python_type enc cs =
     (case oid of
        PInt n \<Rightarrow>
         (if \<not> (0 < n \<and> n \<le> 0xFFFFFFFF) then Inl (ValueErr (lit ''codec oid must be a positive uint32''))
          else case dec of
            None \<Rightarrow> Inl (TypeErr (lit ''decoder must be callable''))
          | Some d \<Rightarrow>
             (if (python_type = NoType) \<noteq> (enc = None)
              then Inl (ValueErr (lit ''python_type and encoder must be supplied together''))
              else if python_type = NotAType then Inl (TypeErr (lit ''python_type must be a type''))
              else let cs' = cs\<lparr>custom_decoders := (custom_decoders cs)(n \<mapsto> d)\<rparr>
                   in case (python_type, enc) of
                        (AType t, Some f) \<Rightarrow>
                          Inr (cs'\<lparr>custom_encoders := (custom_encoders cs')(t \<mapsto> f)\<rparr>)
                      | _ \<Rightarrow> Inr cs'))
      | _ \<Rightarrow> Inl (ValueErr (lit ''codec oid must be a positive uint32'')))"

definition unregister_codec :: "int \<Rightarrow> pytype option \<Rightarrow> codecs \<Rightarrow> codecs" where
  "unregister_codec oid python_type cs =
     (let cs' = cs\<lparr>custom_decoders := (custom_decoders cs)(oid := None)\<rparr>
      in case python_type of
           None \<Rightarrow> cs'
         | Some t \<Rightarrow> cs'\<lparr>custom_encoders := (custom_encoders cs')(t := None)\<rparr>)"

section \<open>Encoding\<close>

definition text_parameter :: "int \<Rightarrow> pystr \<Rightarrow> EncodedParameter res" where
  "text_parameter oid value =
     rbind (utf8_encode value)
       (\<lambda>bs. Inr \<lparr>ep_oid = oid, ep_format = TEXT, ep_is_null = False, ep_data = bs\<rparr>)"

definition encode_interval :: "timedelta \<Rightarrow> pystr" where
  "encode_interval value =
     (let total = td_days value * 86400000000 + td_seconds value * 1000000 + td_microseconds value;
          sign = (if total < 0 then [45] else []);
          us = nat \<bar>total\<bar>;
          days = us div 86400000000; r1 = us mod 86400000000;
          hours = r1 div 3600000000; r2 = r1 mod 3600000000;
          minutes = r2 div 60000000; r3 = r2 mod 60000000;
          seconds = r3 div 1000000; microseconds = r3 mod 1000000;
          fractional = (if microseconds \<noteq> 0 then rstrip (\<lambda>c. c = 48) (46 # zfill 6 microseconds) else [])
      in sign @ digits_of days @ lit '' days '' @ zfill 2 hours @ [58] @ zfill 2 minutes @ [58] @
         zfill 2 seconds @ fractional)"

definition array_special :: "cp \<Rightarrow> bool" where
  "array_special c \<longleftrightarrow> c \<in> set (lit '',{}'') \<or> c = 34 \<or> c = 92"

definition array_quote :: "unidb \<Rightarrow> pystr \<Rightarrow> pystr" where
  "array_quote U value =
     (let escaped = replace_cp 34 [92, 34] (replace_cp 92 [92, 92] value) in
      if value = [] \<or> upper U value = lit ''NULL'' \<or> list_ex array_special value
         \<or> isspace U (hd value) \<or> isspace U (last value)
      then [34] @ escaped @ [34] else escaped)"

fun array_scalar :: "stdlib \<Rightarrow> pyval \<Rightarrow> pystr res" and
    array_items :: "stdlib \<Rightarrow> pyval list \<Rightarrow> pystr list res" where
  "array_scalar L PNone = Inr (lit ''NULL'')"
| "array_scalar L (PBool b) = Inr (if b then lit ''t'' else lit ''f'')"
| "array_scalar L (PInt i) = str_of_int i"
| "array_scalar L (PFloat f) = Inr (str_of_float L f)"
| "array_scalar L (PDecimal d) = Inr (decimal_str L d)"
| "array_scalar L (PDate d) = Inr (array_quote (uni L) (date_isoformat d))"
| "array_scalar L (PTime t) = Inr (array_quote (uni L) (time_isoformat t))"
| "array_scalar L (PDateTime d t) = Inr (array_quote (uni L) (datetime_isoformat 84 d t))"
| "array_scalar L (PUUID n) = Inr (array_quote (uni L) (uuid_str n))"
| "array_scalar L (PStr s) = Inr (array_quote (uni L) s)"
| "array_scalar L (PList vs) =
     rbind (array_items L vs) (\<lambda>ss. Inr ([123] @ join [44] ss @ [125]))"
| "array_scalar L (PTuple vs) =
     rbind (array_items L vs) (\<lambda>ss. Inr ([123] @ join [44] ss @ [125]))"
| "array_scalar L _ = Inl (TypeErr (lit ''unsupported PostgreSQL array element type''))"
| "array_items L [] = Inr []"
| "array_items L (v # vs) =
     rbind (array_scalar L v) (\<lambda>s. rbind (array_items L vs) (\<lambda>ss. Inr (s # ss)))"

fun array_oid_of_type :: "pytype \<Rightarrow> int" where
  "array_oid_of_type TBool = 1000"
| "array_oid_of_type TInt = 1016"
| "array_oid_of_type TFloat = 1022"
| "array_oid_of_type TStr = 1009"
| "array_oid_of_type TDecimal = 1231"
| "array_oid_of_type TDate = 1182"
| "array_oid_of_type TTime = 1183"
| "array_oid_of_type TDateTime = 1115"
| "array_oid_of_type TUUID = 2951"
| "array_oid_of_type _ = 0"

definition inferred_array_oid :: "pyval list \<Rightarrow> int" where
  "inferred_array_oid values =
     (let present = filter (\<lambda>v. v \<noteq> PNone) values in
      case present of
        [] \<Rightarrow> 0
      | v # _ \<Rightarrow> (if list_ex (\<lambda>x. type_of x \<noteq> type_of v) present then 0
                 else array_oid_of_type (type_of v)))"

definition encode_parameter :: "stdlib \<Rightarrow> codecs \<Rightarrow> pyval \<Rightarrow> EncodedParameter res" where
  "encode_parameter L cs value =
     (if value = PNone then Inr \<lparr>ep_oid = 0, ep_format = TEXT, ep_is_null = True, ep_data = []\<rparr>
      else case custom_encoders cs (type_of value) of
        Some custom \<Rightarrow>
          rbind (custom value) (\<lambda>r. case r of
             Some encoded \<Rightarrow> Inr encoded
           | None \<Rightarrow> Inl (TypeErr (lit ''custom encoder must return EncodedParameter'')))
      | None \<Rightarrow>
         (case value of
            PBool b \<Rightarrow> text_parameter BOOL (if b then lit ''true'' else lit ''false'')
          | PInt i \<Rightarrow>
              (if \<not> (- (2 ^ 63) \<le> i \<and> i < 2 ^ 63) then rbind (str_of_int i) (text_parameter NUMERIC)
               else rbind (str_of_int i) (text_parameter INT8))
          | PFloat NaN \<Rightarrow> text_parameter FLOAT8 (lit ''NaN'')
          | PFloat PosInf \<Rightarrow> text_parameter FLOAT8 (lit ''Infinity'')
          | PFloat NegInf \<Rightarrow> text_parameter FLOAT8 (lit ''-Infinity'')
          | PFloat f \<Rightarrow> text_parameter FLOAT8 (str_of_float L f)
          | PDecimal d \<Rightarrow> text_parameter NUMERIC (decimal_str L d)
          | PStr s \<Rightarrow> text_parameter TEXT_OID s
          | PBytes bs \<Rightarrow> Inr \<lparr>ep_oid = BYTEA, ep_format = BINARY, ep_is_null = False, ep_data = bs\<rparr>
          | PByteArray bs \<Rightarrow> Inr \<lparr>ep_oid = BYTEA, ep_format = BINARY, ep_is_null = False, ep_data = bs\<rparr>
          | PMemoryView bs \<Rightarrow> Inr \<lparr>ep_oid = BYTEA, ep_format = BINARY, ep_is_null = False, ep_data = bs\<rparr>
          | PDateTime d t \<Rightarrow>
              text_parameter (if tm_offset t \<noteq> None then TIMESTAMPTZ else TIMESTAMP)
                (datetime_isoformat 32 d t)
          | PDate d \<Rightarrow> text_parameter DATE (date_isoformat d)
          | PTime t \<Rightarrow> text_parameter TIME (time_isoformat t)
          | PTimedelta t \<Rightarrow> text_parameter INTERVAL (encode_interval t)
          | PUUID n \<Rightarrow> text_parameter UUID (uuid_str n)
          | PJson v \<Rightarrow> rbind (json_dumps L v) (text_parameter JSONB)
          | PDict kvs \<Rightarrow> rbind (json_dumps L value) (text_parameter JSONB)
          | PArray vs oid \<Rightarrow>
              rbind (if oid \<noteq> 0 then Inr oid else rbind (iter_values vs) (\<lambda>xs. Inr (inferred_array_oid xs)))
                (\<lambda>n. rbind (array_scalar L vs) (text_parameter n))
          | PList vs \<Rightarrow> rbind (array_scalar L value) (text_parameter (inferred_array_oid vs))
          | PTuple vs \<Rightarrow> rbind (array_scalar L value) (text_parameter (inferred_array_oid vs))
          | _ \<Rightarrow> Inl (TypeErr (lit ''unsupported PostGamma parameter type''))))"

fun encode_all :: "stdlib \<Rightarrow> codecs \<Rightarrow> pyval list \<Rightarrow> (int \<times> int \<times> bool \<times> pybytes) list res" where
  "encode_all L cs [] = Inr []"
| "encode_all L cs (v # vs) =
     rbind (encode_parameter L cs v)
       (\<lambda>p. rbind (encode_all L cs vs) (\<lambda>ps. Inr (native_parameter p # ps)))"

definition encode_parameters ::
  "stdlib \<Rightarrow> codecs \<Rightarrow> pyval \<Rightarrow> (int \<times> int \<times> bool \<times> pybytes) list res" where
  "encode_parameters L cs values =
     (if values = PNone then Inr []
      else if type_of values \<in> {TStr, TBytes, TByteArray, TMemoryView, TDict}
        then Inl (TypeErr (lit ''query parameters must be a positional sequence''))
      else rbind (iter_values values) (encode_all L cs))"

section \<open>Decoding of scalars\<close>

definition decode_text :: decoder where
  "decode_text data fmt = rbind (utf8_decode data) (\<lambda>s. Inr (PStr s))"

definition decode_bool :: decoder where
  "decode_bool data fmt =
     (if fmt = BINARY then
        (if data = [0] \<or> data = [1] then Inr (PBool (data = [1]))
         else Inl (ValueErr (lit ''invalid binary PostgreSQL boolean'')))
      else Inr (PBool (data \<in> {lit ''t'', lit ''true'', lit ''TRUE'', lit ''1''})))"

definition decode_int :: decoder where
  "decode_int data fmt =
     (if fmt = BINARY then Inr (PInt (int_from_bytes_signed data))
      else case py_int bytes_space 10 data of
          None \<Rightarrow> Inl (ValueErr (lit ''invalid literal for int() with base 10''))
        | Some i \<Rightarrow> Inr (PInt i))"

definition decode_float :: "stdlib \<Rightarrow> decoder" where
  "decode_float L data fmt =
     (if fmt = BINARY then Inl (ValueErr (lit ''binary floating-point decoding is not enabled''))
      else case float_parse L data of
          None \<Rightarrow> Inl (ValueErr (lit ''could not convert string to float''))
        | Some f \<Rightarrow> Inr (PFloat f))"

definition decode_decimal :: "stdlib \<Rightarrow> decoder" where
  "decode_decimal L data fmt =
     (if fmt = BINARY then Inl (ValueErr (lit ''binary numeric decoding is not enabled''))
      else rbind (ascii_decode data) (\<lambda>s. case decimal_parse L s of
          None \<Rightarrow> Inl DecimalInvalid
        | Some d \<Rightarrow> Inr (PDecimal d)))"

definition decode_bytea :: decoder where
  "decode_bytea data fmt =
     (if fmt = BINARY then Inr (PBytes data)
      else if take 2 data = [92, 120] then
        rbind (ascii_decode (drop 2 data)) (\<lambda>s. rbind (bytes_fromhex s) (\<lambda>bs. Inr (PBytes bs)))
      else Inr (PBytes data))"

definition decode_date :: "stdlib \<Rightarrow> decoder" where
  "decode_date L data fmt =
     (if fmt = BINARY then Inl (ValueErr (lit ''binary date decoding is not enabled''))
      else rbind (ascii_decode data) (\<lambda>s. case date_parse L s of
          None \<Rightarrow> Inl (ValueErr (lit ''Invalid isoformat string''))
        | Some d \<Rightarrow> Inr (PDate d)))"

definition decode_time :: "stdlib \<Rightarrow> decoder" where
  "decode_time L data fmt =
     (if fmt = BINARY then Inl (ValueErr (lit ''binary time decoding is not enabled''))
      else rbind (ascii_decode data) (\<lambda>s. case time_parse L s of
          None \<Rightarrow> Inl (ValueErr (lit ''Invalid isoformat string''))
        | Some t \<Rightarrow> Inr (PTime t)))"

text \<open>\<^verbatim>\<open>s.replace(" ", "T", 1)\<close>\<close>

fun replace_first_space :: "pystr \<Rightarrow> pystr" where
  "replace_first_space [] = []"
| "replace_first_space (c # s) = (if c = 32 then 84 # s else c # replace_first_space s)"

definition decode_datetime :: "stdlib \<Rightarrow> decoder" where
  "decode_datetime L data fmt =
     (if fmt = BINARY then Inl (ValueErr (lit ''binary timestamp decoding is not enabled''))
      else rbind (ascii_decode data) (\<lambda>s. case datetime_parse L (replace_first_space s) of
          None \<Rightarrow> Inl (ValueErr (lit ''Invalid isoformat string''))
        | Some (d, t) \<Rightarrow> Inr (PDateTime d t)))"

text \<open>
  The groups of the expression \<open>_INTERVAL\<close>. On ASCII text a digit of the expression is an
  ASCII digit, and no step of the match has a choice.
\<close>

record interval_groups =
  ig_sign :: bool
  ig_days :: pystr
  ig_hours :: pystr
  ig_minutes :: pystr
  ig_seconds :: pystr
  ig_fraction :: "pystr option"

definition match_fraction :: "pystr \<Rightarrow> pystr option option" where
  "match_fraction s =
     (case s of
        [] \<Rightarrow> Some None
      | p # f \<Rightarrow> (if p = 46 \<and> 1 \<le> length f \<and> length f \<le> 6 \<and> list_all ascii_digit f
                 then Some (Some f) else None))"

definition match_clock :: "bool \<Rightarrow> pystr \<Rightarrow> pystr \<Rightarrow> interval_groups option" where
  "match_clock sign days s =
     (let h = take 2 s; m = take 2 (drop 3 s); c = take 2 (drop 6 s) in
      if 8 \<le> length s \<and> list_all ascii_digit (h @ m @ c) \<and> s ! 2 = 58 \<and> s ! 5 = 58
      then map_option (\<lambda>f. \<lparr>ig_sign = sign, ig_days = days, ig_hours = h, ig_minutes = m,
             ig_seconds = c, ig_fraction = f\<rparr>) (match_fraction (drop 8 s))
      else None)"

definition match_interval :: "pystr \<Rightarrow> interval_groups option" where
  "match_interval s =
     (let sign = (take 1 s = [45]);
          t = (if sign then drop 1 s else s);
          days = takeWhile ascii_digit t;
          r = dropWhile ascii_digit t
      in if days = [] then None
         else if take 6 r = lit '' days '' then match_clock sign days (drop 6 r)
         else if take 5 r = lit '' day '' then match_clock sign days (drop 5 r)
         else None)"

definition group_int :: "stdlib \<Rightarrow> pystr \<Rightarrow> int res" where
  "group_int L s =
     (case py_int (isspace (uni L)) 10 s of
        None \<Rightarrow> Inl (ValueErr (lit ''invalid literal for int() with base 10''))
      | Some i \<Rightarrow> Inr i)"

definition ljust_zero :: "pystr \<Rightarrow> pystr" where
  "ljust_zero s = s @ replicate (6 - length s) 48"

definition decode_interval :: "stdlib \<Rightarrow> decoder" where
  "decode_interval L data fmt =
     (if fmt = BINARY then Inl (ValueErr (lit ''binary interval decoding is not enabled''))
      else rbind (ascii_decode data) (\<lambda>s. case match_interval s of
          None \<Rightarrow> Inl (ValueErr (lit ''interval contains months, years, or a non-ISO style''))
        | Some g \<Rightarrow>
            rbind (group_int L (ig_days g)) (\<lambda>d.
            rbind (group_int L (ig_hours g)) (\<lambda>h.
            rbind (group_int L (ig_minutes g)) (\<lambda>m.
            rbind (group_int L (ig_seconds g)) (\<lambda>sc.
            rbind (group_int L (ljust_zero (case ig_fraction g of None \<Rightarrow> lit ''0'' | Some f \<Rightarrow> f))) (\<lambda>us.
            rbind (td_of_total (d * 86400000000 + h * 3600000000 + m * 60000000 + sc * 1000000 + us)) (\<lambda>t.
            rbind (if ig_sign g then td_of_total (- td_total t) else Inr t) (\<lambda>v.
            Inr (PTimedelta v)))))))))) "

definition decode_uuid :: "stdlib \<Rightarrow> decoder" where
  "decode_uuid L data fmt =
     (if fmt = BINARY then rbind (uuid_of_bytes data) (\<lambda>n. Inr (PUUID n))
      else rbind (ascii_decode data) (\<lambda>s. rbind (uuid_parse (uni L) s) (\<lambda>n. Inr (PUUID n))))"

definition decode_json :: "stdlib \<Rightarrow> decoder" where
  "decode_json L data fmt =
     (let data = (if fmt = BINARY \<and> take 1 data = [1] then drop 1 data else data)
      in rbind (utf8_decode data) (json_loads L))"

section \<open>Array literals\<close>

definition ARRAY_ELEMENTS :: "(int \<times> int) list" where
  "ARRAY_ELEMENTS =
     [(1000, BOOL), (1001, BYTEA), (1005, INT2), (1007, INT4), (1009, TEXT_OID), (1015, VARCHAR),
      (1016, INT8), (1021, FLOAT4), (1022, FLOAT8), (1028, OID), (1115, TIMESTAMP), (1182, DATE),
      (1183, TIME), (1185, TIMESTAMPTZ), (1187, INTERVAL), (1231, NUMERIC), (199, JSON),
      (2951, UUID), (3807, JSONB)]"

datatype parsed = Elem "pystr option" | Level "parsed list"

text \<open>The characters of a quoted element up to its closing quote, and the text after it.\<close>

fun parse_quoted :: "pystr \<Rightarrow> (pystr \<times> pystr) res" where
  "parse_quoted [] = Inl (ValueErr (lit ''unterminated PostgreSQL array string''))"
| "parse_quoted (c # s) =
     (if c = 34 then Inr ([], s)
      else if c = 92 then
        (case s of
           [] \<Rightarrow> Inl (ValueErr (lit ''invalid PostgreSQL array escape''))
         | d # r \<Rightarrow> rbind (parse_quoted r) (\<lambda>(t, u). Inr (d # t, u)))
      else rbind (parse_quoted s) (\<lambda>(t, u). Inr (c # t, u)))"

definition token_char :: "cp \<Rightarrow> bool" where
  "token_char c \<longleftrightarrow> c \<noteq> 44 \<and> c \<noteq> 125"

definition parse_token :: "pystr \<Rightarrow> parsed \<times> pystr" where
  "parse_token s =
     (let token = takeWhile token_char s
      in (Elem (if token = lit ''NULL'' then None else Some token), dropWhile token_char s))"

text \<open>
  \<open>parse_level\<close> is the nested function of the source and \<open>parse_items\<close> its \<^verbatim>\<open>while\<close> loop:
  an element, the delimiter after it, and either the end of the level or the next round.
\<close>

function parse_level :: "pystr \<Rightarrow> (parsed list \<times> pystr) res" and
    parse_items :: "pystr \<Rightarrow> (parsed list \<times> pystr) res" where
  "parse_level s =
     (case s of
        [] \<Rightarrow> Inl (ValueErr (lit ''invalid PostgreSQL array''))
      | c # r \<Rightarrow>
         (if c \<noteq> 123 then Inl (ValueErr (lit ''invalid PostgreSQL array''))
          else case r of
            [] \<Rightarrow> parse_items r
          | d # r' \<Rightarrow> (if d = 125 then Inr ([], r') else parse_items r)))"
| "parse_items s =
     (case s of
        [] \<Rightarrow> Inl (ValueErr (lit ''unterminated PostgreSQL array''))
      | c # r \<Rightarrow>
         rbind (if c = 123 then rbind (parse_level s) (\<lambda>(vs, t). Inr (Level vs, t))
                else if c = 34 then rbind (parse_quoted r) (\<lambda>(q, t). Inr (Elem (Some q), t))
                else Inr (parse_token s))
           (\<lambda>(value, t). case t of
               [] \<Rightarrow> Inl (ValueErr (lit ''unterminated PostgreSQL array''))
             | delimiter # u \<Rightarrow>
                (if delimiter = 125 then Inr ([value], u)
                 else if delimiter \<noteq> 44 then Inl (ValueErr (lit ''invalid PostgreSQL array delimiter''))
                 else rbind (parse_items u) (\<lambda>(values, w). Inr (value # values, w)))))"
  by pat_completeness auto

lemma parse_quoted_shorter: "parse_quoted s = Inr (q, t) \<Longrightarrow> length t < length s"
  by (induction s arbitrary: q t rule: parse_quoted.induct)
     (fastforce simp: rbind_eq_Inr split: if_splits list.splits prod.splits)+

lemma parse_token_shorter: "length (snd (parse_token s)) \<le> length s"
  by (simp add: parse_token_def Let_def length_dropWhile_le)

lemma parse_shorter_dom:
  "parse_level_parse_items_dom (Inl s) \<Longrightarrow> (\<forall>vs t. parse_level s = Inr (vs, t) \<longrightarrow> length t < length s)"
  "parse_level_parse_items_dom (Inr s) \<Longrightarrow> (\<forall>vs t. parse_items s = Inr (vs, t) \<longrightarrow> length t < length s)"
proof (induction s and s rule: parse_level_parse_items.pinduct)
  case (1 s)
  show ?case
    using 1 by (fastforce simp: parse_level.psimps split: list.splits if_splits)
next
  case (2 s)
  show ?case
  proof (intro allI impI)
    fix vs t
    assume r: "parse_items s = Inr (vs, t)"
    then obtain c r' where s: "s = c # r'" using 2 by (cases s) (simp_all add: parse_items.psimps)
    define e where "e = (if c = 123 then rbind (parse_level (c # r')) (\<lambda>(vs, t). Inr (Level vs, t))
                else if c = 34 then rbind (parse_quoted r') (\<lambda>(q, t). Inr (Elem (Some q), t))
                else Inr (parse_token (c # r')))"
    have el: "length u \<le> length s" if "e = Inr (v, u)" for v u
      using that 2(2) [OF s] parse_token_shorter [of "c # r'"] parse_quoted_shorter [of r']
      by (fastforce simp: e_def s rbind_eq_Inr split: if_splits prod.splits)
    from r obtain v w where e0: "e = Inr (v, w)" and n: "w \<noteq> []"
      using 2(1) by (cases e) (auto simp: parse_items.psimps s e_def [symmetric] split: list.splits)
    from n obtain d u where w: "w = d # u" by (cases w) auto
    note e = e0 [unfolded w]
    have c: "d = 125 \<and> t = u \<or> d = 44 \<and> (\<exists>ws. parse_items u = Inr (ws, t))"
      using r 2(1) e by (auto simp: parse_items.psimps s e_def [symmetric] rbind_eq_Inr split: if_splits prod.splits)
    from el [OF e] have "length u < length s" by simp
    moreover have "length t < length u" if "d = 44" "parse_items u = Inr (ws, t)" for ws
      using 2(3) [OF s e [unfolded e_def s [symmetric]]] that by auto
    ultimately show "length t < length s" using c by fastforce
  qed
qed

termination parse_level
proof (relation "measure (case_sum (\<lambda>s. 2 * length s) (\<lambda>s. 2 * length s + 1))", goal_cases)
  case 1 show ?case by simp
next
  case 2 then show ?case by simp
next
  case 3 then show ?case by simp
next
  case 4 then show ?case by simp
next
  case (5 s c r vt v t d u)
  then show ?case
    using parse_token_shorter [of s] parse_quoted_shorter [of r] parse_shorter_dom(1) [of s]
    by (fastforce simp: rbind_eq_Inr split: if_splits prod.splits)
qed

declare parse_level.simps [simp del] parse_items.simps [simp del]

definition parse_array :: "pystr \<Rightarrow> parsed list res" where
  "parse_array s =
     rbind (parse_level s) (\<lambda>(vs, r).
       if r \<noteq> [] then Inl (ValueErr (lit ''trailing data in PostgreSQL array'')) else Inr vs)"

text \<open>The nested function \<^verbatim>\<open>convert\<close>; \<open>dec\<close> decodes one element.\<close>

fun convert :: "(pybytes \<Rightarrow> pyval res) \<Rightarrow> parsed \<Rightarrow> pyval res" and
    convert_items :: "(pybytes \<Rightarrow> pyval res) \<Rightarrow> parsed list \<Rightarrow> pyval list res" where
  "convert dec (Elem None) = Inr PNone"
| "convert dec (Elem (Some s)) = rbind (utf8_encode s) dec"
| "convert dec (Level vs) = rbind (convert_items dec vs) (\<lambda>xs. Inr (PList xs))"
| "convert_items dec [] = Inr []"
| "convert_items dec (v # vs) =
     rbind (convert dec v) (\<lambda>x. rbind (convert_items dec vs) (\<lambda>xs. Inr (x # xs)))"

definition decode_array :: "(pybytes \<Rightarrow> pyval res) \<Rightarrow> pybytes \<Rightarrow> int \<Rightarrow> pyval res" where
  "decode_array dec data fmt =
     (if fmt = BINARY then Inl (ValueErr (lit ''binary PostgreSQL array decoding is not enabled''))
      else rbind (utf8_decode data) (\<lambda>s. rbind (parse_array s) (\<lambda>vs. convert dec (Level vs))))"

section \<open>Decoding of a value\<close>

definition DECODERS :: "stdlib \<Rightarrow> (int \<times> decoder) list" where
  "DECODERS L =
     [(BOOL, decode_bool), (BYTEA, decode_bytea), (INT2, decode_int), (INT4, decode_int),
      (INT8, decode_int), (OID, decode_int), (FLOAT4, decode_float L), (FLOAT8, decode_float L),
      (NUMERIC, decode_decimal L), (TEXT_OID, decode_text), (VARCHAR, decode_text),
      (18, decode_text), (19, decode_text), (1042, decode_text), (DATE, decode_date L),
      (TIME, decode_time L), (TIMESTAMP, decode_datetime L), (TIMESTAMPTZ, decode_datetime L),
      (INTERVAL, decode_interval L), (UUID, decode_uuid L), (JSON, decode_json L),
      (JSONB, decode_json L)]"

definition find_decoder :: "stdlib \<Rightarrow> codecs \<Rightarrow> int \<Rightarrow> decoder option" where
  "find_decoder L cs oid =
     (case custom_decoders cs oid of Some d \<Rightarrow> Some d | None \<Rightarrow> map_of (DECODERS L) oid)"

text \<open>\<^verbatim>\<open>except (UnicodeError, ValueError, OverflowError): return RawValue(oid, format, data)\<close>\<close>

definition or_raw :: "int \<Rightarrow> int \<Rightarrow> pybytes \<Rightarrow> pyval res \<Rightarrow> pyval res" where
  "or_raw oid fmt data r =
     (case r of
        Inl e \<Rightarrow> (if is_value_error e then Inr (PRaw oid fmt data) else Inl e)
      | Inr v \<Rightarrow> Inr v)"

lemma element_not_array:
  "map_of ARRAY_ELEMENTS oid = Some e \<Longrightarrow> map_of ARRAY_ELEMENTS e = None"
proof -
  assume "map_of ARRAY_ELEMENTS oid = Some e"
  then have "e \<in> set (map snd ARRAY_ELEMENTS)" by (force dest: map_of_SomeD)
  then show "map_of ARRAY_ELEMENTS e = None" by (auto simp: ARRAY_ELEMENTS_def oid_defs)
qed

function decode_value :: "stdlib \<Rightarrow> codecs \<Rightarrow> int \<Rightarrow> int \<Rightarrow> pybytes \<Rightarrow> pyval res" where
  "decode_value L cs oid fmt data =
     (case find_decoder L cs oid of
        Some d \<Rightarrow> or_raw oid fmt data (d data fmt)
      | None \<Rightarrow>
         (case map_of ARRAY_ELEMENTS oid of
            Some element_oid \<Rightarrow>
              or_raw oid fmt data (decode_array (\<lambda>bs. decode_value L cs element_oid TEXT bs) data fmt)
          | None \<Rightarrow> Inr (PRaw oid fmt data)))"
  by pat_completeness auto
termination
  by (relation "measure (\<lambda>(L, cs, oid, fmt, data). if map_of ARRAY_ELEMENTS oid = None then 0 else 1)")
     (auto dest: element_not_array)

declare decode_value.simps [simp del]

end
