(* ===== verification/Codec_Laws.thy ===== *)
theory Codec_Laws
  imports Codec
begin

text \<open>
  The properties of the codecs: the parser of array literals inverts the printer, scalars
  survive a round trip, decoding fails only on numerics that \<^verbatim>\<open>Decimal\<close> rejects, and the
  registry of application codecs is a lookup table that shadows the built-in decoders.
\<close>

text \<open>A library with few abilities, on which the hypotheses of the properties hold.\<close>

definition small_lib :: stdlib where
  "small_lib =
    \<lparr>uni = latin1, float_repr = (\<lambda>q. str_int \<lfloor>q\<rfloor> @ lit ''.0''), float_parse = (\<lambda>_. None),
     decimal_str = (\<lambda>_. lit ''NaN''), decimal_parse = (\<lambda>s. if s = lit ''NaN'' then Some DecNaN else None),
     date_parse = (\<lambda>_. None), time_parse = (\<lambda>_. None), datetime_parse = (\<lambda>_. None),
     json_dumps = (\<lambda>_. Inl (TypeErr (lit ''not serializable''))),
     json_loads = (\<lambda>s. if s = lit ''null'' then Inr PNone else Inl (ValueErr (lit ''Expecting value'')))\<rparr>"

lemma small_lib_unicode: "unicode (uni small_lib)"
  by (simp add: small_lib_def latin1.unicode_axioms)

section \<open>Array literals\<close>

text \<open>Values whose leaves are NULL or of one of the types in \<open>ts\<close>, in nested lists.\<close>

fun encodable :: "pyval \<Rightarrow> bool" where
  "encodable (PInt i) = (\<bar>i\<bar> < 10 ^ max_str_digits)"
| "encodable (PStr s) = list_all scalar s"
| "encodable (PBool b) = True"
| "encodable v = False"

fun array_of :: "pytype set \<Rightarrow> pyval \<Rightarrow> bool" where
  "array_of ts (PList vs) = list_all (array_of ts) vs"
| "array_of ts v = (v = PNone \<or> type_of v \<in> ts \<and> encodable v)"

fun tree :: "pyval \<Rightarrow> parsed" where
  "tree (PList vs) = Level (map tree vs)"
| "tree (PBool b) = Elem (Some (if b then [116] else [102]))"
| "tree (PInt i) = Elem (Some (str_int i))"
| "tree (PStr s) = Elem (Some s)"
| "tree v = Elem None"

definition parse_element :: "pystr \<Rightarrow> (parsed \<times> pystr) res" where
  "parse_element s =
     (case s of
        [] \<Rightarrow> Inl (ValueErr (lit ''unterminated PostgreSQL array''))
      | c # r \<Rightarrow>
         (if c = 123 then rbind (parse_level s) (\<lambda>(vs, t). Inr (Level vs, t))
          else if c = 34 then rbind (parse_quoted r) (\<lambda>(q, t). Inr (Elem (Some q), t))
          else Inr (parse_token s)))"

lemma parse_items_eq:
  "parse_items s =
     rbind (parse_element s) (\<lambda>(value, t). case t of
         [] \<Rightarrow> Inl (ValueErr (lit ''unterminated PostgreSQL array''))
       | delimiter # u \<Rightarrow>
          (if delimiter = 125 then Inr ([value], u)
           else if delimiter \<noteq> 44 then Inl (ValueErr (lit ''invalid PostgreSQL array delimiter''))
           else rbind (parse_items u) (\<lambda>(values, w). Inr (value # values, w))))"
  by (subst parse_items.simps) (simp add: parse_element_def split: list.split)

definition escape :: "pystr \<Rightarrow> pystr" where
  "escape s = replace_cp 34 [92, 34] (replace_cp 92 [92, 92] s)"

lemma escape_simps [simp]:
  "escape [] = []"
  "escape (c # s) = (if c = 34 \<or> c = 92 then [92, c] else [c]) @ escape s"
  by (simp_all add: escape_def replace_cp_def)

lemma parse_quoted_escape: "parse_quoted (escape s @ 34 # r) = Inr (s, r)"
  by (induction s) simp_all

lemma escape_plain: "\<not> list_ex array_special s \<Longrightarrow> escape s = s"
  by (induction s) (auto simp: array_special_def)

lemma parse_token_plain:
  assumes "list_all token_char s" and "d = 44 \<or> d = 125"
  shows "parse_token (s @ d # r) = (Elem (if s = lit ''NULL'' then None else Some s), d # r)"
proof -
  have "takeWhile token_char (s @ d # r) = s" "dropWhile token_char (s @ d # r) = d # r"
    using assms by (induction s) (auto simp: token_char_def)
  then show ?thesis by (simp add: parse_token_def Let_def)
qed

lemma parse_element_token:
  assumes "list_all token_char s" and "s \<noteq> []" and "hd s \<noteq> 123" and "hd s \<noteq> 34" and "d = 44 \<or> d = 125"
  shows "parse_element (s @ d # r) = Inr (Elem (if s = lit ''NULL'' then None else Some s), d # r)"
  using assms parse_token_plain [OF assms(1,5), of r]
  by (cases s) (simp_all add: parse_element_def)

lemma plain_token: "\<not> list_ex array_special s \<Longrightarrow> list_all token_char s \<and> 123 \<notin> set s \<and> 34 \<notin> set s"
  by (induction s) (auto simp: array_special_def token_char_def lit_def)

context unicode
begin

lemma upper_NULL: "upper U (lit ''NULL'') = lit ''NULL''"
  by (subst upper_ascii_str) (auto simp: lit_def ascii_upper_def)

lemma parse_element_quote:
  assumes "d = 44 \<or> d = 125"
  shows "parse_element (array_quote U s @ d # r) = Inr (Elem (Some s), d # r)"
proof (cases "s = [] \<or> upper U s = lit ''NULL'' \<or> list_ex array_special s \<or> isspace U (hd s) \<or> isspace U (last s)")
  case True
  then have "array_quote U s = [34] @ escape s @ [34]" by (simp add: array_quote_def escape_def Let_def)
  then show ?thesis by (simp add: parse_element_def parse_quoted_escape)
next
  case False
  then have "array_quote U s = s" using escape_plain by (simp add: array_quote_def escape_def Let_def)
  moreover have "s \<noteq> lit ''NULL''" using False upper_NULL by auto
  moreover have "hd s \<in> set s" using False by simp
  then have "hd s \<noteq> 123" "hd s \<noteq> 34" using plain_token [of s] False by metis+
  ultimately show ?thesis using parse_element_token [of s d r] plain_token [of s] False assms by simp
qed

end

lemma parse_element_int:
  assumes "d = 44 \<or> d = 125"
  shows "parse_element (str_int i @ d # r) = Inr (Elem (Some (str_int i)), d # r)"
proof -
  have c: "c = 45 \<or> ascii_digit c" if "c \<in> set (str_int i)" for c
    using that digits_of_ascii by (auto simp: str_int_def split: if_splits)
  have ne: "str_int i \<noteq> []" by (simp add: str_int_def)
  then have hd: "hd (str_int i) = 45 \<or> ascii_digit (hd (str_int i))" using c by simp
  have "list_all token_char (str_int i)"
    using c by (fastforce simp: list_all_iff token_char_def ascii_digit_def)
  moreover have "hd (str_int i) \<noteq> 123" "hd (str_int i) \<noteq> 34" "str_int i \<noteq> lit ''NULL''"
    using hd by (auto simp: ascii_digit_def lit_def)
  ultimately show ?thesis using parse_element_token [OF _ ne _ _ assms] by simp
qed

lemma array_quote_hd: "array_quote U s \<noteq> [] \<and> hd (array_quote U s) \<noteq> 125"
proof (cases s)
  case (Cons c t)
  then show ?thesis using escape_plain [of s]
    by (auto simp: array_quote_def Let_def escape_def [symmetric] array_special_def lit_def)
qed (simp add: array_quote_def)

lemma array_scalar_hd:
  assumes "array_of {TBool, TInt, TStr} v" and "array_scalar L v = Inr s"
  shows "s \<noteq> [] \<and> hd s \<noteq> 125"
proof (cases v)
  case (PInt i)
  have "hd (digits_of n) \<noteq> 125" for n using digits_of_ascii [of "hd (digits_of n)" n] by (auto simp: ascii_digit_def)
  with PInt assms show ?thesis by (auto simp: str_of_int_def str_int_def split: if_splits)
qed (use assms array_quote_hd in \<open>auto simp: rbind_eq_Inr lit_def split: if_splits\<close>)

lemma array_items_eq: "array_items L vs = Inr ss \<longleftrightarrow> list_all2 (\<lambda>v s. array_scalar L v = Inr s) vs ss"
  by (induction vs arbitrary: ss) (auto simp: rbind_eq_Inr list_all2_Cons1)

lemma array_items_tree:
  assumes "\<And>v s d r. v \<in> set vs \<Longrightarrow> array_scalar L v = Inr s \<Longrightarrow> d = 44 \<or> d = 125 \<Longrightarrow>
      parse_element (s @ d # r) = Inr (tree v, d # r)"
    and "array_items L vs = Inr ss" and "vs \<noteq> []"
  shows "parse_items (join [44] ss @ 125 # r) = Inr (map tree vs, r)"
  using assms
proof (induction vs arbitrary: ss)
  case (Cons v vs)
  from Cons.prems(2) obtain s ss' where ss: "ss = s # ss'" and s: "array_scalar L v = Inr s"
    and ss': "array_items L vs = Inr ss'" by (auto simp: rbind_eq_Inr)
  show ?case
  proof (cases vs)
    case Nil
    then have "ss' = []" using ss' by simp
    then show ?thesis using Nil Cons.prems(1) [OF _ s, of 125 r] by (simp add: ss parse_items_eq [of "s @ 125 # r"])
  next
    case (Cons v' vs')
    then obtain s' ss'' where ss'': "ss' = s' # ss''" using ss' by (auto simp: rbind_eq_Inr)
    have "parse_items (join [44] ss' @ 125 # r) = Inr (map tree vs, r)"
      using Cons.IH ss' Cons.prems(1) Cons by simp
    then show ?thesis
      using Cons.prems(1) [OF _ s, of 44 "join [44] ss' @ 125 # r"]
      by (simp add: ss ss'' parse_items_eq [of "s @ 44 # _"])
  qed
qed simp

lemma parse_level_tree:
  assumes el: "\<And>v s d r. v \<in> set vs \<Longrightarrow> array_scalar L v = Inr s \<Longrightarrow> d = 44 \<or> d = 125 \<Longrightarrow>
      parse_element (s @ d # r) = Inr (tree v, d # r)"
    and vs: "array_of {TBool, TInt, TStr} (PList vs)" and s: "array_scalar L (PList vs) = Inr s"
  shows "parse_level (s @ r) = Inr (map tree vs, r)"
proof (cases vs)
  case Nil
  then show ?thesis using s by (auto simp: parse_level.simps)
next
  case (Cons v vs')
  from s obtain ss where ss: "array_items L vs = Inr ss" and s: "s = [123] @ join [44] ss @ [125]"
    by (auto simp: rbind_eq_Inr)
  have i: "parse_items (join [44] ss @ 125 # r) = Inr (map tree vs, r)"
    using Cons by (intro array_items_tree [OF el ss]) auto
  from Cons ss obtain t ts where v: "array_scalar L v = Inr t" "ss = t # ts"
    by (auto simp: rbind_eq_Inr)
  then have "t \<noteq> [] \<and> hd t \<noteq> 125" using array_scalar_hd vs Cons by auto
  then obtain c u where "join [44] ss @ 125 # r = c # u" "c \<noteq> 125"
    using v by (cases t; cases ts) auto
  with i show ?thesis by (simp add: s parse_level.simps)
qed

lemma parse_element_tree:
  assumes "unicode (uni L)"
  shows "array_of {TBool, TInt, TStr} v \<Longrightarrow> array_scalar L v = Inr s \<Longrightarrow> d = 44 \<or> d = 125 \<Longrightarrow>
    parse_element (s @ d # r) = Inr (tree v, d # r)"
proof (induction v arbitrary: s d r)
  case (PList vs)
  then have "parse_level (s @ d # r) = Inr (map tree vs, d # r)"
    by (intro parse_level_tree) (auto simp: list_all_iff)
  moreover obtain t where "s = 123 # t" using PList.prems(2) by (auto simp: rbind_eq_Inr)
  ultimately show ?case by (simp add: parse_element_def)
next
  case (PBool b)
  then show ?case using parse_element_token [of "[116]"] parse_element_token [of "[102]"]
    by (auto simp: token_char_def lit_def)
next
  case (PInt i)
  then show ?case by (auto simp: str_of_int_def parse_element_int split: if_splits)
next
  case (PStr t)
  then show ?case using unicode.parse_element_quote [OF assms] by auto
next
  case PNone
  then show ?case using parse_element_token [of "lit ''NULL''"]
    by (auto simp: token_char_def lit_def)
qed auto

lemma parse_array_tree:
  assumes "unicode (uni L)" and "array_of {TBool, TInt, TStr} (PList vs)" and "array_scalar L (PList vs) = Inr s"
  shows "parse_array s = Inr (map tree vs)"
proof -
  have "parse_level (s @ []) = Inr (map tree vs, [])"
    using assms by (intro parse_level_tree parse_element_tree) (auto simp: list_all_iff)
  then show ?thesis by (simp add: parse_array_def)
qed

lemma convert_tree:
  assumes "\<And>x. type_of x \<in> ts \<Longrightarrow> encodable x \<Longrightarrow> convert dec (tree x) = Inr x" and "ts \<subseteq> {TBool, TInt, TStr}"
  shows "array_of ts v \<Longrightarrow> convert dec (tree v) = Inr v"
proof (induction v)
  case (PList vs)
  have "convert_items dec (map tree vs) = Inr vs"
    using PList by (induction vs) auto
  then show ?case by simp
next
  case (PBool b) then show ?case using assms(1) [of "PBool b"] by simp
next
  case (PInt b) then show ?case using assms(1) [of "PInt b"] by simp
next
  case (PStr b) then show ?case using assms(1) [of "PStr b"] by simp
qed (use assms in auto)

lemma str_of_int_encodable: "\<bar>i\<bar> < 10 ^ max_str_digits \<Longrightarrow> str_of_int i = Inr (str_int i)"
  using length_digits_of_less [OF max_str_digits_pos, of "nat \<bar>i\<bar>"]
  by (simp add: str_of_int_def nat_less_iff)

lemma str_int_ascii: "c \<in> set (str_int i) \<Longrightarrow> c < 128 \<and> \<not> bytes_space c"
  using digits_of_ascii [of c] by (fastforce simp: str_int_def ascii_digit_def bytes_space_def split: if_splits)

lemma ascii_scalar: "c < 128 \<Longrightarrow> scalar c"
  by (simp add: scalar_def surrogate_def)

lemma join_scalar:
  "list_all scalar sep \<Longrightarrow> list_all (list_all scalar) ss \<Longrightarrow> list_all scalar (join sep ss)"
  by (induction sep ss rule: join.induct) auto

lemma escape_scalar: "list_all scalar s \<Longrightarrow> list_all scalar (escape s)"
  by (induction s) (auto simp: ascii_scalar)

lemma array_scalar_total:
  "array_of {TBool, TInt, TStr} v \<Longrightarrow> \<exists>s. array_scalar L v = Inr s \<and> list_all scalar s"
proof (induction v)
  case (PList vs)
  have "\<exists>ss. array_items L vs = Inr ss \<and> list_all (list_all scalar) ss"
    using PList
  proof (induction vs)
    case (Cons v vs)
    then obtain s where s: "array_scalar L v = Inr s" "list_all scalar s" by auto
    moreover from Cons obtain ss where "array_items L vs = Inr ss" "list_all (list_all scalar) ss" by auto
    ultimately show ?case by simp
  qed simp
  then show ?case using join_scalar [of "[44]"] by (auto simp: ascii_scalar)
next
  case (PInt i)
  then show ?case by (simp add: str_of_int_encodable list_all_iff str_int_ascii ascii_scalar)
next
  case (PStr s)
  then show ?case using escape_scalar [of s]
    by (simp add: array_quote_def Let_def escape_def [symmetric] ascii_scalar)
qed (auto simp: lit_def ascii_scalar)

lemma decode_value_builtin:
  assumes "custom_decoders cs oid = None"
  shows "decode_value L cs oid fmt data =
    (case map_of (DECODERS L) oid of
       Some d \<Rightarrow> or_raw oid fmt data (d data fmt)
     | None \<Rightarrow> (case map_of ARRAY_ELEMENTS oid of
          Some e \<Rightarrow> or_raw oid fmt data (decode_array (decode_value L cs e TEXT) data fmt)
        | None \<Rightarrow> Inr (PRaw oid fmt data)))"
  using assms by (subst decode_value.simps) (simp add: find_decoder_def cong: option.case_cong)


fun element_oid :: "pytype \<Rightarrow> int" where
  "element_oid TBool = BOOL"
| "element_oid TInt = INT8"
| "element_oid _ = TEXT_OID"

lemma convert_element:
  assumes "custom_decoders cs (element_oid t) = None" and "t \<in> {TBool, TInt, TStr}"
    and "type_of x = t" and "encodable x"
  shows "convert (decode_value L cs (element_oid t) TEXT) (tree x) = Inr x"
proof (cases x)
  case (PBool b)
  then have "decode_value L cs BOOL TEXT [116] = Inr (PBool True)" "decode_value L cs BOOL TEXT [102] = Inr (PBool False)"
    using assms by (auto simp: decode_value_builtin DECODERS_def oid_defs decode_bool_def or_raw_def lit_def)
  then show ?thesis using PBool assms utf8_encode_ascii [of "[116]"] utf8_encode_ascii [of "[102]"] by auto
next
  case (PInt i)
  then have "utf8_encode (str_int i) = Inr (str_int i)" by (simp add: utf8_encode_ascii str_int_ascii)
  moreover have "py_int bytes_space 10 (str_int i) = Some i"
    using PInt assms by (intro py_int_str_int) (auto simp: bytes_space_def ascii_digit_def)
  ultimately show ?thesis using PInt assms
    by (auto simp: decode_value_builtin DECODERS_def oid_defs decode_int_def or_raw_def)
next
  case (PStr s)
  then obtain bs where bs: "utf8_encode s = Inr bs" using assms by (simp add: utf8_encode_def list_all_iff)
  then show ?thesis using PStr assms utf8_decode_encode [OF bs]
    by (auto simp: decode_value_builtin DECODERS_def oid_defs decode_text_def or_raw_def)
qed (use assms in auto)

lemma array_oid_tables:
  assumes "t \<in> {TBool, TInt, TStr}"
  shows "map_of ARRAY_ELEMENTS (array_oid_of_type t) = Some (element_oid t)"
    and "map_of (DECODERS L) (array_oid_of_type t) = None" and "array_oid_of_type t \<noteq> 0"
  using assms by (auto simp: ARRAY_ELEMENTS_def DECODERS_def oid_defs)

lemma decode_array_literal:
  assumes "unicode (uni L)" and t: "t \<in> {TBool, TInt, TStr}" and vs: "array_of {t} (PList vs)"
    and "custom_decoders cs (element_oid t) = None" and "custom_decoders cs (array_oid_of_type t) = None"
    and s: "array_scalar L (PList vs) = Inr s" and bs: "utf8_encode s = Inr bs"
  shows "decode_value L cs (array_oid_of_type t) TEXT bs = Inr (PList vs)"
proof -
  have mono: "array_of {TBool, TInt, TStr} v" if "array_of {t} v" for v
    using that t by (induction v) (auto simp: list_all_iff)
  have "convert (decode_value L cs (element_oid t) TEXT) (tree (PList vs)) = Inr (PList vs)"
    using convert_element [OF assms(4) t] t by (intro convert_tree [OF _ _ vs]) auto
  then have "decode_array (decode_value L cs (element_oid t) TEXT) bs TEXT = Inr (PList vs)"
    using parse_array_tree [OF assms(1) mono [OF vs] s] utf8_decode_encode [OF bs]
    by (simp add: decode_array_def oid_defs)
  then show ?thesis
    using assms(5) array_oid_tables [OF t] by (simp add: decode_value_builtin or_raw_def)
qed



lemma list_all_digits_of: "list_all ascii_digit (digits_of n)"
  by (simp add: list_all_iff digits_of_ascii)

lemma group_int_digits:
  assumes "unicode (uni L)" and "list_all ascii_digit s" and "s \<noteq> []" and "length s \<le> 100"
  shows "group_int L s = Inr (int (nat_of_digits 10 s))"
proof -
  have "py_int (isspace (uni L)) 10 s = Some (int (nat_of_digits 10 s))"
    using assms unicode.isspace_ascii_digit [OF assms(1)]
    by (intro py_int_digits) (auto simp: list_all_iff max_str_digits_def)
  then show ?thesis by (simp add: group_int_def)
qed

lemma rstrip_ljust:
  assumes "length s = 6" and "\<exists>c \<in> set s. c \<noteq> 48"
  shows "ljust_zero (rstrip (\<lambda>c. c = 48) s) = s" and "rstrip (\<lambda>c. c = 48) s \<noteq> []"
    and "rstrip (\<lambda>c. c = 48) (46 # s) = 46 # rstrip (\<lambda>c. c = 48) s"
    and "length (rstrip (\<lambda>c. c = 48) s) \<le> 6" and "set (rstrip (\<lambda>c. c = 48) s) \<subseteq> set s"
proof -
  define z where "z = takeWhile (\<lambda>c. c = 48) (rev s)"
  define f where "f = dropWhile (\<lambda>c. c = 48) (rev s)"
  have zf: "rev s = z @ f" by (simp add: z_def f_def)
  have z: "z = replicate (length z) 48"
    by (metis (mono_tags, lifting) replicate_eqI set_takeWhileD z_def)
  have f: "f \<noteq> []" using assms(2) by (auto simp: f_def dropWhile_eq_Nil_conv)
  have s: "s = rev f @ rev z" by (metis rev_append rev_rev_ident zf)
  have len: "length z + length f = 6" using assms(1) s by simp
  have rs: "rstrip (\<lambda>c. c = 48) s = rev f" by (simp add: rstrip_def f_def)
  show "ljust_zero (rstrip (\<lambda>c. c = 48) s) = s"
    using len z s rs by (metis add_diff_cancel_right' length_rev ljust_zero_def rev_replicate)
  show "rstrip (\<lambda>c. c = 48) s \<noteq> []" using f rs by simp
  show "rstrip (\<lambda>c. c = 48) (46 # s) = 46 # rstrip (\<lambda>c. c = 48) s"
    using f by (simp add: rstrip_def f_def [symmetric] dropWhile_append3 dropWhile_append)
      (auto simp: f_def dropWhile_append)
  show "length (rstrip (\<lambda>c. c = 48) s) \<le> 6" using rs len by simp
  show "set (rstrip (\<lambda>c. c = 48) s) \<subseteq> set s" using rs s by simp
qed

lemma zfill_nonzero:
  assumes "n \<noteq> 0"
  shows "\<exists>c \<in> set (zfill w n). c \<noteq> 48"
proof (rule ccontr)
  assume "\<not> ?thesis"
  then have "zfill w n = replicate (length (zfill w n)) 48" by (metis replicate_eqI)
  then have "nat_of_digits 10 (zfill w n) = 0"
    by (metis append_Nil2 foldl_Nil nat_of_digits_def nat_of_digits_zeros)
  then show False using assms by (simp add: zfill_def)
qed

definition fraction_text :: "nat \<Rightarrow> pystr" where
  "fraction_text us = (if us \<noteq> 0 then rstrip (\<lambda>c. c = 48) (46 # zfill 6 us) else [])"

lemma match_fraction_text:
  assumes "us < 1000000"
  obtains f where "match_fraction (fraction_text us) = Some f"
    and "ljust_zero (case f of None \<Rightarrow> lit ''0'' | Some f \<Rightarrow> f) = zfill 6 us"
proof (cases "us = 0")
  case True
  then have "match_fraction (fraction_text us) = Some None" by (simp add: fraction_text_def match_fraction_def)
  moreover have "ljust_zero (lit ''0'') = zfill 6 us"
    using True by (simp add: ljust_zero_def lit_def zfill_def digits_of.simps numeral_eq_Suc)
  ultimately show ?thesis using that by simp
next
  case False
  have z: "length (zfill 6 us) = 6" "list_all ascii_digit (zfill 6 us)" using zfill_props [of 6 us] assms by simp_all
  note r = rstrip_ljust [OF z(1) zfill_nonzero [OF False]]
  have "match_fraction (fraction_text us) = Some (Some (rstrip (\<lambda>c. c = 48) (zfill 6 us)))"
    using r z False by (auto simp: fraction_text_def match_fraction_def list_all_iff Suc_le_eq)
  then show ?thesis using that r(1) by simp
qed

definition interval_text :: "bool \<Rightarrow> nat \<Rightarrow> nat \<Rightarrow> nat \<Rightarrow> nat \<Rightarrow> nat \<Rightarrow> pystr" where
  "interval_text neg d h m s us =
     (if neg then [45] else []) @ digits_of d @ lit '' days '' @ zfill 2 h @ [58] @ zfill 2 m @ [58] @
     zfill 2 s @ fraction_text us"

lemma two_chars: "length s = 2 \<Longrightarrow> \<exists>a b. s = [a, b]"
  by (auto simp: numeral_2_eq_2 length_Suc_conv)

lemma match_interval_text:
  assumes "h < 100" "m < 100" "s < 100" and "match_fraction (fraction_text us) = Some f"
  shows "match_interval (interval_text neg d h m s us) =
    Some \<lparr>ig_sign = neg, ig_days = digits_of d, ig_hours = zfill 2 h, ig_minutes = zfill 2 m,
      ig_seconds = zfill 2 s, ig_fraction = f\<rparr>"
proof -
  define r where "r = zfill 2 h @ [58] @ zfill 2 m @ [58] @ zfill 2 s @ fraction_text us"
  obtain h1 h2 m1 m2 s1 s2 where z: "zfill 2 h = [h1, h2]" "zfill 2 m = [m1, m2]" "zfill 2 s = [s1, s2]"
    using two_chars [of "zfill 2 h"] two_chars [of "zfill 2 m"] two_chars [of "zfill 2 s"]
      zfill_props(1) [of 2 h] zfill_props(1) [of 2 m] zfill_props(1) [of 2 s] assms by auto
  have dig: "list_all ascii_digit [h1, h2, m1, m2, s1, s2]"
    using zfill_props(2) [of 2 h] zfill_props(2) [of 2 m] zfill_props(2) [of 2 s] assms z by simp
  have clock: "match_clock neg (digits_of d) r = Some \<lparr>ig_sign = neg, ig_days = digits_of d,
      ig_hours = zfill 2 h, ig_minutes = zfill 2 m, ig_seconds = zfill 2 s, ig_fraction = f\<rparr>"
    using dig assms(4) by (simp add: match_clock_def Let_def r_def z)
  have tw: "takeWhile ascii_digit (digits_of d @ 32 # u) = digits_of d"
    and dw: "dropWhile ascii_digit (digits_of d @ 32 # u) = 32 # u" for u
    by (simp_all add: takeWhile_append2 dropWhile_append2 digits_of_ascii ascii_digit_def [of 32])
  define w where "w = digits_of d @ 32 # lit ''days '' @ r"
  have t: "interval_text neg d h m s us = (if neg then [45] else []) @ w"
    by (simp add: interval_text_def r_def w_def lit_def)
  have sign: "take 1 w \<noteq> [45]"
    using digits_of_ascii [of "hd (digits_of d)" d] by (cases "digits_of d") (auto simp: ascii_digit_def w_def)
  have w: "takeWhile ascii_digit w = digits_of d" "dropWhile ascii_digit w = 32 # lit ''days '' @ r"
    by (simp_all add: w_def tw dw)
  show ?thesis
    unfolding t using clock sign by (cases neg) (simp_all add: match_interval_def Let_def w lit_def)
qed

definition us_parts :: "nat \<Rightarrow> nat \<times> nat \<times> nat \<times> nat \<times> nat" where
  "us_parts u = (u div 86400000000, u mod 86400000000 div 3600000000, u mod 3600000000 div 60000000,
     u mod 60000000 div 1000000, u mod 1000000)"

lemma encode_interval_text:
  "encode_interval t =
     (case us_parts (nat \<bar>td_total t\<bar>) of (d, h, m, s, us) \<Rightarrow> interval_text (td_total t < 0) d h m s us)"
proof -
  have "n mod 86400000000 mod 3600000000 = n mod 3600000000" "n mod 86400000000 mod 60000000 = n mod 60000000"
    "n mod 86400000000 mod 1000000 = n mod 1000000" "n mod 3600000000 mod 60000000 = n mod 60000000"
    "n mod 3600000000 mod 1000000 = n mod 1000000" "n mod 60000000 mod 1000000 = n mod 1000000" for n :: nat
    by (simp_all add: mod_mod_cancel)
  then show ?thesis
    by (simp add: encode_interval_def td_total_def [symmetric] us_parts_def interval_text_def fraction_text_def Let_def)
qed

lemma mod_split:
  fixes n :: nat
  assumes "k dvd l"
  shows "n mod l div k * k + n mod k = n mod l"
  using div_mult_mod_eq [of "n mod l" k] by (simp add: mod_mod_cancel assms)

lemma sum4: "s + us = x \<Longrightarrow> m + x = y \<Longrightarrow> h + y = z \<Longrightarrow> d + z = u \<Longrightarrow> d + h + m + s + us = (u :: nat)"
  by linarith

lemma us_parts_bounds:
  assumes "us_parts u = (d, h, m, s, us)"
  shows "h < 100" "m < 100" "s < 100" "us < 1000000"
    "d * 86400000000 + h * 3600000000 + m * 60000000 + s * 1000000 + us = u"
proof -
  have *: "d = u div 86400000000" "h = u mod 86400000000 div 3600000000" "m = u mod 3600000000 div 60000000"
    "s = u mod 60000000 div 1000000" "us = u mod 1000000"
    using assms by (simp_all add: us_parts_def)
  show "h < 100" "m < 100" "s < 100" "us < 1000000" unfolding * by (simp_all add: div_less_iff_less_mult less_trans [OF mod_less_divisor])
  show "d * 86400000000 + h * 3600000000 + m * 60000000 + s * 1000000 + us = u"
    using sum4 [OF mod_split [of 1000000 60000000 u, folded *] mod_split [of 60000000 3600000000 u, folded *]
      mod_split [of 3600000000 86400000000 u, folded *] div_mult_mod_eq [of u 86400000000, folded *]] by simp
qed

lemma td_of_total_ok:
  assumes "0 \<le> n" and "n < 1000000000 * 86400000000"
  shows "\<exists>t. td_of_total n = Inr t \<and> td_total t = n"
proof -
  have "0 \<le> n div 86400000000" "n div 86400000000 < 1000000000" using assms by linarith+
  moreover have "n div 86400000000 * 86400000000 + (n mod 86400000000) div 1000000 * 1000000 + (n mod 86400000000) mod 1000000 = n"
    using div_mult_mod_eq [of n 86400000000] div_mult_mod_eq [of "n mod 86400000000" 1000000] by linarith
  ultimately show ?thesis by (simp add: td_of_total_def Let_def td_total_def)
qed

lemma interval_text_ascii: "h < 100 \<Longrightarrow> m < 100 \<Longrightarrow> s < 100 \<Longrightarrow> us < 1000000 \<Longrightarrow>
  c \<in> set (interval_text neg d h m s us) \<Longrightarrow> c < 128"
proof -
  assume b: "h < 100" "m < 100" "s < 100" "us < 1000000" and c: "c \<in> set (interval_text neg d h m s us)"
  have "list_all ascii_digit (zfill 2 h @ zfill 2 m @ zfill 2 s @ zfill 6 us @ digits_of d)"
    using b by (simp add: zfill_props list_all_digits_of)
  then have "\<forall>c \<in> set (zfill 2 h @ zfill 2 m @ zfill 2 s @ zfill 6 us @ digits_of d). c < 128"
    unfolding list_all_iff ascii_digit_def by fastforce
  moreover have "set (fraction_text us) \<subseteq> {46} \<union> set (zfill 6 us)"
    using set_dropWhileD by (fastforce simp: fraction_text_def rstrip_def)
  ultimately show "c < 128" using c by (auto simp: interval_text_def lit_def split: if_splits)
qed

lemma decode_interval_encode:
  assumes "unicode (uni L)" and "td_valid t"
  shows "decode_interval L (encode_interval t) TEXT = Inr (PTimedelta t)"
    and "utf8_encode (encode_interval t) = Inr (encode_interval t)"
proof -
  define u where "u = nat \<bar>td_total t\<bar>"
  obtain d h m s us where p: "us_parts u = (d, h, m, s, us)" by (metis prod_cases5)
  note b = us_parts_bounds [OF p]
  have e: "encode_interval t = interval_text (td_total t < 0) d h m s us"
    using p by (simp add: encode_interval_text u_def)
  have a: "c \<in> set (encode_interval t) \<Longrightarrow> c < 128" for c using interval_text_ascii b e by metis
  then show "utf8_encode (encode_interval t) = Inr (encode_interval t)" by (rule utf8_encode_ascii)
  have tot: "\<bar>td_total t\<bar> < 1000000000 * 86400000000"
    using assms(2) by (simp add: td_valid_def td_total_def abs_less_iff)
  have "d < 10 ^ 10" using b(5) tot by (simp add: u_def)
  then have dl: "length (digits_of d) \<le> 100" using length_digits_of_less [of 10 d] by simp
  obtain f where f: "match_fraction (fraction_text us) = Some f"
    "ljust_zero (case f of None \<Rightarrow> lit ''0'' | Some f \<Rightarrow> f) = zfill 6 us"
    using match_fraction_text [OF b(4)] by blast
  obtain t' where t': "td_of_total (int u) = Inr t'" "td_total t' = int u"
    using td_of_total_ok [of "int u"] tot by (auto simp: u_def)
  have sum: "int d * 86400000000 + int h * 3600000000 + int m * 60000000 + int s * 1000000 + int us = int u"
    using b(5) by linarith
  have gz: "group_int L (zfill w n) = Inr (int n)" if "0 < w" "w \<le> 100" "n < 10 ^ w" for w n
    using group_int_digits [OF assms(1), of "zfill w n"] zfill_props [OF that(1,3)] that(1,2) by (cases "zfill w n = []") auto
  have gd: "group_int L (digits_of d) = Inr (int d)"
    using group_int_digits [OF assms(1) list_all_digits_of _ dl] by simp
  have neg: "(if td_total t < 0 then td_of_total (- td_total t') else Inr t') = Inr t"
    using t' td_of_total_total [OF assms(2)] by (auto simp: u_def)
  show "decode_interval L (encode_interval t) TEXT = Inr (PTimedelta t)"
    using a match_interval_text [OF b(1-3) f(1), of "td_total t < 0" d, folded e] b f(2) gz [of 2] gz [of 6] gd sum t'(1) neg
    by (simp add: decode_interval_def oid_defs ascii_decode_ascii)
qed

definition hex_char :: "cp \<Rightarrow> bool" where
  "hex_char c \<longleftrightarrow> ascii_digit c \<or> 97 \<le> c \<and> c \<le> 102"

lemma hex_of_props:
  "length (hex_of k n) = k" "c \<in> set (hex_of k n) \<Longrightarrow> hex_char c" "nat_of_digits 16 (hex_of k n) = n mod 16 ^ k"
proof (induction k arbitrary: n)
  case (Suc k)
  {
    case 1 show ?case using Suc(1) by simp
  next
    case 2
  have "n mod 16 < 16" by simp
  then have "hex_char (hex_digit (n mod 16))" by (auto simp: hex_char_def hex_digit_def ascii_digit_def)
  with 2 show ?case using Suc(2) [of "n div 16"] by auto
  next
    case 3
  have d: "digit_value (hex_digit (n mod 16)) = n mod 16"
  proof -
    have "n mod 16 < 16" by simp
    then show ?thesis by (auto simp: hex_digit_def digit_value_def)
  qed
  have "n mod (16 * 16 ^ k) = 16 * (n div 16 mod 16 ^ k) + n mod 16" by (rule mod_mult2_eq)
  then show ?case using Suc(3) d by (simp add: nat_of_digits_append)
  }
qed (simp_all add: nat_of_digits_def)

lemma py_int_hex:
  assumes "unicode U" and hc: "\<And>c. c \<in> set h \<Longrightarrow> hex_char c" and "h \<noteq> []"
  shows "py_int (isspace U) 16 h = Some (int (nat_of_digits 16 h))"
proof -
  have ok: "digit_value c < 16" "c \<noteq> 95" "c \<noteq> 45" "c \<noteq> 43" "c \<noteq> 120" "c \<noteq> 88" "\<not> isspace U c" if "c \<in> set h" for c
    using hc [OF that] unicode.isspace_ascii [OF assms(1), of c]
    by (auto simp: hex_char_def ascii_digit_def digit_value_def ascii_space_def)
  have us: "95 \<notin> set h" using ok(2) by blast
  have run: "takeWhile (\<lambda>c. digit_value c < 16 \<or> c = 95) h = h"
    "dropWhile (\<lambda>c. digit_value c < 16 \<or> c = 95) h = []" "filter (\<lambda>c. c \<noteq> 95) h = h"
    using ok by (auto simp: takeWhile_eq_all_conv dropWhile_eq_Nil_conv filter_id_conv)
  have ends: "hd h \<in> set h" "last h \<in> set h" using assms(3) by simp_all
  have "int_literal 16 h = Some (nat_of_digits 16 h)"
    using ends ok(1,2) by (simp add: int_literal_def Let_def run no_double_underscore [OF us] assms(3))
  moreover have "strip_hex_prefix h = h" "take 1 h \<noteq> [45]" "take 1 h \<noteq> [43]"
    using ok by (cases h; cases "tl h"; auto simp: strip_hex_prefix_def)+
  moreover have "strip (isspace U) h = h" using ends ok(7) assms(3) by (intro strip_id) auto
  ultimately show ?thesis by (simp add: py_int_def Let_def)
qed

lemma remove_all_absent:
  assumes "p = a # p'" and "a \<notin> set s"
  shows "remove_all p s = s"
  using assms by (induction s) (auto simp: remove_all.simps)

lemma remove_all_single: "remove_all [c] s = filter (\<lambda>x. x \<noteq> c) s"
  by (induction s) (simp_all add: remove_all.simps)

lemma uuid_parse_str:
  assumes "unicode U" and "n < 2 ^ 128"
  shows "uuid_parse U (uuid_str n) = Inr n"
    and "c \<in> set (uuid_str n) \<Longrightarrow> c < 128"
proof -
  define h where "h = hex_of 32 n"
  have hl: "length h = 32" and hc: "\<And>c. c \<in> set h \<Longrightarrow> hex_char c" and hn: "nat_of_digits 16 h = n"
    using assms(2) hex_of_props(2) by (auto simp: h_def hex_of_props(1,3))
  have u: "uuid_str n = take 8 h @ [45] @ take 4 (drop 8 h) @ [45] @ take 4 (drop 12 h) @ [45] @
      take 4 (drop 16 h) @ [45] @ drop 20 h"
    by (simp add: uuid_str_def h_def Let_def)
  have uc: "c = 45 \<or> hex_char c" if "c \<in> set (uuid_str n)" for c
    using that hc by (auto simp: u dest: in_set_takeD in_set_dropD)
  then show "c \<in> set (uuid_str n) \<Longrightarrow> c < 128" by (fastforce simp: hex_char_def ascii_digit_def)
  have h45: "filter (\<lambda>x. x \<noteq> 45) s = s" if "set s \<subseteq> set h" for s
    using that hc by (intro filter_True) (fastforce simp: hex_char_def ascii_digit_def)
  have "remove_all [45] (uuid_str n) = take 8 h @ take 4 (drop 8 h) @ take 4 (drop 12 h) @ take 4 (drop 16 h) @ drop 20 h"
    by (simp add: remove_all_single u h45 set_take_subset set_drop_subset subset_trans [OF set_take_subset set_drop_subset])
  also have "\<dots> = h"
    using append_take_drop_id [of 8 h] append_take_drop_id [of 4 "drop 8 h"]
      append_take_drop_id [of 4 "drop 12 h"] append_take_drop_id [of 4 "drop 16 h"] by simp
  finally have hx: "remove_all [45] (uuid_str n) = h" .
  have un: "uuid_str n \<noteq> []" by (simp add: u)
  note ne = un hd_in_set [OF un] last_in_set [OF un]
  have st: "strip (\<lambda>c. c = 123 \<or> c = 125) (uuid_str n) = uuid_str n"
    using uc [OF ne(2)] uc [OF ne(3)] ne(1) by (intro strip_id) (auto simp: hex_char_def ascii_digit_def)
  have r: "remove_all (lit ''urn:'') (uuid_str n) = uuid_str n" "remove_all (lit ''uuid:'') (uuid_str n) = uuid_str n"
    using uc by (fastforce intro!: remove_all_absent simp: lit_def hex_char_def ascii_digit_def)+
  have "py_int (isspace U) 16 h = Some (int n)"
    using py_int_hex [OF assms(1), of h] hc hl hn by (cases "h = []") auto
  then show "uuid_parse U (uuid_str n) = Inr n"
    using assms(2) by (simp add: uuid_parse_def Let_def r st hx hl)
qed


section \<open>Round trips\<close>

text \<open>
  The scalar values that PostgreSQL stores without loss and the library returns as the same
  Python type: an integer beyond 64 bits becomes a numeric and comes back as a decimal.
\<close>

fun exact_scalar :: "pyval \<Rightarrow> bool" where
  "exact_scalar (PBool b) = True"
| "exact_scalar (PInt i) = (- (2 ^ 63) \<le> i \<and> i < 2 ^ 63)"
| "exact_scalar (PStr s) = list_all scalar s"
| "exact_scalar (PBytes bs) = True"
| "exact_scalar (PTimedelta t) = td_valid t"
| "exact_scalar (PUUID n) = (n < 2 ^ 128)"
| "exact_scalar v = False"

lemma int64_encodable:
  fixes i :: int
  assumes "- (2 ^ 63) \<le> i" and "i < 2 ^ 63"
  shows "\<bar>i\<bar> < 10 ^ max_str_digits"
proof -
  from assms have "\<bar>i\<bar> < 10 ^ 100" by simp
  also have "(10 :: int) ^ 100 \<le> 10 ^ max_str_digits"
    by (rule power_increasing) (simp_all add: max_str_digits_def)
  finally show ?thesis .
qed

lemma decode_int_str_int:
  assumes "\<bar>i\<bar> < 10 ^ max_str_digits"
  shows "decode_int (str_int i) TEXT = Inr (PInt i)"
proof -
  have "py_int bytes_space 10 (str_int i) = Some i"
    using assms by (intro py_int_str_int) (auto simp: bytes_space_def ascii_digit_def)
  then show ?thesis by (simp add: decode_int_def oid_defs)
qed

text \<open>
  C28: Every boolean, 64-bit integer, string without surrogates, byte string, timedelta and UUID
  is encoded as a parameter, and decoding the parameter's bytes under the parameter's own type
  and format gives back the same value.
\<close>

theorem scalar_roundtrip:
  assumes "unicode (uni L)" and "exact_scalar v" and "custom_encoders cs (type_of v) = None"
    and "\<And>p. encode_parameter L cs v = Inr p \<Longrightarrow> custom_decoders cs (ep_oid p) = None"
  shows "\<exists>p. encode_parameter L cs v = Inr p \<and>
    decode_value L cs (ep_oid p) (ep_format p) (ep_data p) = Inr v"
proof (cases v)
  case (PBool b)
  have a: "utf8_encode (lit ''true'') = Inr (lit ''true'')" "utf8_encode (lit ''false'') = Inr (lit ''false'')"
    by (auto intro!: utf8_encode_ascii simp: lit_def)
  show ?thesis using assms(2-) PBool a
    by (auto simp: encode_parameter_def text_parameter_def decode_value_builtin DECODERS_def oid_defs
        decode_bool_def or_raw_def lit_def)
next
  case (PInt i)
  have e: "\<bar>i\<bar> < 10 ^ max_str_digits" using PInt assms(2) int64_encodable by simp
  then show ?thesis using assms(2-) PInt decode_int_str_int [OF e] utf8_encode_ascii [of "str_int i"]
    by (simp add: encode_parameter_def text_parameter_def decode_value_builtin DECODERS_def oid_defs
        or_raw_def str_of_int_encodable str_int_ascii)
next
  case (PStr s)
  then obtain bs where bs: "utf8_encode s = Inr bs" using assms(2) by (simp add: utf8_encode_def list_all_iff)
  then show ?thesis using assms(2-) PStr utf8_decode_encode [OF bs]
    by (simp add: encode_parameter_def text_parameter_def decode_value_builtin DECODERS_def oid_defs
        decode_text_def or_raw_def)
next
  case (PBytes bs)
  then show ?thesis using assms(2-)
    by (simp add: encode_parameter_def decode_value_builtin DECODERS_def oid_defs decode_bytea_def or_raw_def)
next
  case (PTimedelta t)
  then show ?thesis using assms(2-) decode_interval_encode [OF assms(1), of t]
    by (simp add: encode_parameter_def text_parameter_def decode_value_builtin DECODERS_def oid_defs or_raw_def)
next
  case (PUUID n)
  then have n: "n < 2 ^ 128" using assms(2) by simp
  note u = uuid_parse_str [OF assms(1) n]
  show ?thesis using assms(2-) PUUID u utf8_encode_ascii [OF u(2)] ascii_decode_ascii [OF u(2)]
    by (simp add: encode_parameter_def text_parameter_def decode_value_builtin DECODERS_def oid_defs
        decode_uuid_def or_raw_def)
qed (use assms(2) in simp_all)


theorem scalar_roundtrip_witness:
  "\<exists>p. encode_parameter small_lib no_codecs (PTimedelta \<lparr>td_days = -1, td_seconds = 3661, td_microseconds = 500000\<rparr>) = Inr p \<and>
    decode_value small_lib no_codecs (ep_oid p) (ep_format p) (ep_data p) =
      Inr (PTimedelta \<lparr>td_days = -1, td_seconds = 3661, td_microseconds = 500000\<rparr>)"
  by (rule scalar_roundtrip [OF small_lib_unicode]) (simp_all add: td_valid_def no_codecs_def)




text \<open>
  A plain list parameter (at least one element that is not \<^verbatim>\<open>None\<close>, all of one of the types)
  gets the array type of its elements and decodes to itself.
\<close>

theorem list_roundtrip:
  assumes "unicode (uni L)" and "t \<in> {TBool, TInt, TStr}"
    and "\<forall>v \<in> set vs. v = PNone \<or> type_of v = t \<and> encodable v" and "\<exists>v \<in> set vs. v \<noteq> PNone"
    and "custom_encoders cs TList = None"
    and "custom_decoders cs (element_oid t) = None" and "custom_decoders cs (array_oid_of_type t) = None"
  shows "\<exists>p. encode_parameter L cs (PList vs) = Inr p \<and> ep_oid p = array_oid_of_type t \<and>
    decode_value L cs (ep_oid p) (ep_format p) (ep_data p) = Inr (PList vs)"
proof -
  have leaf: "array_of {t} v \<and> array_of {TBool, TInt, TStr} v" if "v \<in> set vs" for v
    using assms(2) assms(3) [rule_format, OF that] by (cases v) auto
  then obtain s where s: "array_scalar L (PList vs) = Inr s" "list_all scalar s"
    using array_scalar_total [of "PList vs" L] by (auto simp: list_all_iff simp del: array_scalar.simps)
  then obtain bs where bs: "utf8_encode s = Inr bs" by (simp add: utf8_encode_def list_all_iff)
  obtain v xs where f: "filter (\<lambda>v. v \<noteq> PNone) vs = v # xs"
    using assms(4) by (cases "filter (\<lambda>v. v \<noteq> PNone) vs") (auto simp: filter_empty_conv)
  have ty: "type_of x = t" if "x \<in> set (v # xs)" for x
    using that assms(3) by (auto simp: f [symmetric])
  then have "inferred_array_oid vs = array_oid_of_type t"
    by (auto simp: inferred_array_oid_def f list_ex_iff)
  then have "encode_parameter L cs (PList vs) =
      Inr \<lparr>ep_oid = array_oid_of_type t, ep_format = TEXT, ep_is_null = False, ep_data = bs\<rparr>"
    using s(1) bs assms(5) by (simp add: encode_parameter_def text_parameter_def del: array_scalar.simps)
  then show ?thesis using decode_array_literal [OF assms(1,2) _ assms(6,7) s(1) bs] leaf
    by (auto simp: list_all_iff)
qed



theorem list_roundtrip_witness:
  "\<exists>p. encode_parameter small_lib no_codecs (PList [PNone, PInt (- 7), PInt 40]) = Inr p \<and> ep_oid p = 1016 \<and>
    decode_value small_lib no_codecs (ep_oid p) (ep_format p) (ep_data p) = Inr (PList [PNone, PInt (- 7), PInt 40])"
  using list_roundtrip [OF small_lib_unicode, of TInt "[PNone, PInt (- 7), PInt 40]" no_codecs]
    int64_encodable [of "- 7"] int64_encodable [of 40]
  by (simp add: no_codecs_def)

section \<open>What decoding can raise\<close>

lemma parse_quoted_error: "parse_quoted s = Inl e \<Longrightarrow> is_value_error e"
  by (induction s rule: parse_quoted.induct) (auto simp: rbind_eq_Inl split: if_splits list.splits)

lemma parse_error:
  "parse_level s = Inl e \<Longrightarrow> is_value_error e"
  "parse_items s = Inl e \<Longrightarrow> is_value_error e"
proof (induction s and s arbitrary: e and e rule: parse_level_parse_items.induct)
  case (1 s)
  from "1.prems" show ?case
    by (subst (asm) parse_level.simps) (auto split: list.splits if_splits dest: "1.IH")
next
  case (2 s)
  show ?case
  proof (cases s)
    case Nil
    then show ?thesis using "2.prems" by (auto simp: parse_items.simps)
  next
    case (Cons c r)
    have el: "is_value_error e'" if "parse_element s = Inl e'" for e'
      using that 2(1) [OF Cons] parse_quoted_error [of r]
      by (auto simp: Cons parse_element_def rbind_eq_Inl split: if_splits)
    show ?thesis
    proof (cases "parse_element s")
      case (Inl e')
      then show ?thesis using el "2.prems" by (simp add: parse_items_eq [of s])
    next
      case (Inr vt)
      obtain v t where vt: "vt = (v, t)" by (cases vt)
      show ?thesis
      proof (cases t)
        case Nil
        then show ?thesis using "2.prems" Inr vt by (auto simp: parse_items_eq [of s])
      next
        case t: (Cons d u)
        have "d = 125 \<or> d \<noteq> 44 \<or> is_value_error e'" if "parse_items u = Inl e'" for e'
          using 2(2) [of c r vt v t d u e'] that Inr vt t unfolding Cons by (auto simp: parse_element_def)
        then show ?thesis
          using "2.prems" by (auto simp: parse_items_eq [of s] Inr vt t rbind_eq_Inl split: if_splits)
      qed
    qed
  qed
qed

lemma convert_error:
  "convert dec v = Inl e \<Longrightarrow> is_value_error e \<or> (\<exists>bs. dec bs = Inl e)"
  "convert_items dec vs = Inl e \<Longrightarrow> is_value_error e \<or> (\<exists>bs. dec bs = Inl e)"
  by (induction dec v and dec vs rule: convert_convert_items.induct)
     (auto simp: rbind_eq_Inl utf8_encode_def split: if_splits)

lemma utf8_decode_error: "utf8_decode bs = Inl e \<Longrightarrow> is_value_error e"
proof (induction bs rule: utf8_decode.induct)
  case (1 bs)
  from "1.prems" show ?case
    by (subst (asm) utf8_decode.simps) (auto split: if_splits option.splits sum.splits dest: "1.IH")
qed

lemma decode_array_error:
  "decode_array dec data fmt = Inl e \<Longrightarrow> is_value_error e \<or> (\<exists>bs. dec bs = Inl e)"
  by (auto simp: decode_array_def rbind_eq_Inl parse_array_def simp del: convert.simps
      split: if_splits dest: utf8_decode_error parse_error(1) convert_error(1))

lemma bytes_fromhex_error: "bytes_fromhex s = Inl e \<Longrightarrow> is_value_error e"
  by (induction s rule: bytes_fromhex.induct) (auto simp: rbind_eq_Inl split: if_splits)

lemma decoder_error:
  assumes json: "\<And>s e. json_loads L s = Inl e \<Longrightarrow> is_value_error e"
    and d: "(oid, d) \<in> set (DECODERS L)" and e: "d data fmt = Inl e"
  shows "is_value_error e \<or> e = DecimalInvalid \<and> oid = NUMERIC"
proof -
  have a: "ascii_decode bs = Inl e \<Longrightarrow> is_value_error e" for bs e
    by (auto simp: ascii_decode_def split: if_splits)
  have g: "group_int L s = Inl e \<Longrightarrow> is_value_error e" for s e
    by (auto simp: group_int_def split: option.splits)
  have td: "td_of_total n = Inl e \<Longrightarrow> is_value_error e" for n e
    by (auto simp: td_of_total_def Let_def split: if_splits)
  have "decode_text data fmt = Inl e \<Longrightarrow> is_value_error e"
    by (auto simp: decode_text_def rbind_eq_Inl Let_def split: if_splits option.splits
        dest: a utf8_decode_error bytes_fromhex_error json)
  moreover have "decode_bool data fmt = Inl e \<Longrightarrow> is_value_error e"
    by (auto simp: decode_bool_def rbind_eq_Inl Let_def split: if_splits option.splits
        dest: a utf8_decode_error bytes_fromhex_error json)
  moreover have "decode_int data fmt = Inl e \<Longrightarrow> is_value_error e"
    by (auto simp: decode_int_def rbind_eq_Inl Let_def split: if_splits option.splits
        dest: a utf8_decode_error bytes_fromhex_error json)
  moreover have "decode_float L data fmt = Inl e \<Longrightarrow> is_value_error e"
    by (auto simp: decode_float_def rbind_eq_Inl Let_def split: if_splits option.splits
        dest: a utf8_decode_error bytes_fromhex_error json)
  moreover have "decode_bytea data fmt = Inl e \<Longrightarrow> is_value_error e"
    by (auto simp: decode_bytea_def rbind_eq_Inl Let_def split: if_splits option.splits
        dest: a utf8_decode_error bytes_fromhex_error json)
  moreover have "decode_date L data fmt = Inl e \<Longrightarrow> is_value_error e"
    by (auto simp: decode_date_def rbind_eq_Inl Let_def split: if_splits option.splits
        dest: a utf8_decode_error bytes_fromhex_error json)
  moreover have "decode_time L data fmt = Inl e \<Longrightarrow> is_value_error e"
    by (auto simp: decode_time_def rbind_eq_Inl Let_def split: if_splits option.splits
        dest: a utf8_decode_error bytes_fromhex_error json)
  moreover have "decode_datetime L data fmt = Inl e \<Longrightarrow> is_value_error e"
    by (auto simp: decode_datetime_def rbind_eq_Inl Let_def split: if_splits option.splits
        dest: a utf8_decode_error bytes_fromhex_error json)
  moreover have "decode_json L data fmt = Inl e \<Longrightarrow> is_value_error e"
    by (auto simp: decode_json_def rbind_eq_Inl Let_def split: if_splits option.splits
        dest: a utf8_decode_error bytes_fromhex_error json)
  moreover have "decode_decimal L data fmt = Inl e \<Longrightarrow> is_value_error e \<or> e = DecimalInvalid"
    by (auto simp: decode_decimal_def rbind_eq_Inl split: if_splits option.splits dest: a)
  moreover have "decode_interval L data fmt = Inl e \<Longrightarrow> is_value_error e"
    by (auto simp: decode_interval_def rbind_eq_Inl split: if_splits option.splits dest: a g td)
  moreover have "decode_uuid L data fmt = Inl e \<Longrightarrow> is_value_error e"
    by (auto simp: decode_uuid_def uuid_of_bytes_def uuid_parse_def rbind_eq_Inl Let_def split: if_splits option.splits dest: a)
  ultimately show ?thesis using d e by (auto simp: DECODERS_def)
qed

lemma decoder_not_raw:
  assumes json: "\<And>s k f b. json_loads L s \<noteq> Inr (PRaw k f b)"
    and d: "(oid, d) \<in> set (DECODERS L)"
  shows "d data fmt \<noteq> Inr (PRaw k f b)"
  using assms by (auto simp: DECODERS_def decode_text_def decode_bool_def decode_int_def decode_float_def decode_bytea_def
        decode_date_def decode_time_def decode_datetime_def decode_json_def decode_decimal_def decode_interval_def
        decode_uuid_def rbind_eq_Inr Let_def
        split: if_splits option.splits prod.splits)

lemma decode_scalar_error:
  assumes json: "\<And>s e. json_loads L s = Inl e \<Longrightarrow> is_value_error e"
    and "\<And>k. custom_decoders cs k = None" and "map_of ARRAY_ELEMENTS oid = None"
    and "decode_value L cs oid fmt data = Inl e"
  shows "e = DecimalInvalid \<and> oid = NUMERIC"
proof (cases "map_of (DECODERS L) oid")
  case None
  then show ?thesis using assms(2-) by (simp add: decode_value_builtin)
next
  case (Some d)
  then have "d data fmt = Inl e" "\<not> is_value_error e"
    using assms(2-) by (auto simp: decode_value_builtin or_raw_def split: sum.splits if_splits)
  then show ?thesis using decoder_error [OF _ map_of_SomeD [OF Some], of data fmt e] json by blast
qed





section \<open>The registry\<close>

text \<open>
  What a client of a process-wide table relies on: a lookup finds what was last put under the
  key, and removing a key hides no other.
\<close>

locale lookup_table =
  fixes lookup :: "'s \<Rightarrow> 'k \<Rightarrow> 'v option" and put :: "'k \<Rightarrow> 'v \<Rightarrow> 's \<Rightarrow> 's" and del :: "'k \<Rightarrow> 's \<Rightarrow> 's"
  assumes lookup_put: "lookup (put k v s) j = (if j = k then Some v else lookup s j)"
    and lookup_del: "lookup (del k s) j = (if j = k then None else lookup s j)"
begin

lemma last_put_wins: "lookup (put k v (put k u s)) j = lookup (put k v s) j"
  by (simp add: lookup_put)

lemma del_put: "lookup (del k (put k v s)) j = lookup (del k s) j"
  by (simp add: lookup_put lookup_del)

lemma put_del_other: "j \<noteq> k \<Longrightarrow> lookup (del k (put k v s)) j = lookup s j"
  by (simp add: lookup_put lookup_del)

end

interpretation decoders: lookup_table custom_decoders
    "\<lambda>k d cs. cs\<lparr>custom_decoders := (custom_decoders cs)(k \<mapsto> d)\<rparr>"
    "\<lambda>k cs. cs\<lparr>custom_decoders := (custom_decoders cs)(k := None)\<rparr>"
  by unfold_locales simp_all

interpretation encoders: lookup_table custom_encoders
    "\<lambda>k d cs. cs\<lparr>custom_encoders := (custom_encoders cs)(k \<mapsto> d)\<rparr>"
    "\<lambda>k cs. cs\<lparr>custom_encoders := (custom_encoders cs)(k := None)\<rparr>"
  by unfold_locales simp_all

lemma register_codec_Inr:
  "register_codec oid dec ty enc cs = Inr cs' \<longleftrightarrow>
    (\<exists>n d. oid = PInt n \<and> 0 < n \<and> n \<le> 0xFFFFFFFF \<and> dec = Some d \<and>
      ((ty = NoType \<and> enc = None \<and> cs' = cs\<lparr>custom_decoders := (custom_decoders cs)(n \<mapsto> d)\<rparr>) \<or>
       (\<exists>t f. ty = AType t \<and> enc = Some f \<and>
          cs' = cs\<lparr>custom_decoders := (custom_decoders cs)(n \<mapsto> d),
                  custom_encoders := (custom_encoders cs)(t \<mapsto> f)\<rparr>)))"
  by (cases ty; cases enc; cases oid) (auto simp: register_codec_def Let_def split: option.splits if_splits)

lemma unregister_lookup:
  "custom_decoders (unregister_codec n t cs) k = (if k = n then None else custom_decoders cs k)"
  "custom_encoders (unregister_codec n t cs) y = (if t = Some y then None else custom_encoders cs y)"
  by (cases t; simp add: unregister_codec_def Let_def encoders.lookup_del)+

text \<open>
  A successful registration takes a decoder for a positive 32-bit type and an encoder
  exactly when a Python type is given; from then on the type's values go through the decoder
  (an error it raises about the value gives a \<^verbatim>\<open>RawValue\<close>), the Python type's parameters
  through the encoder, every other type and Python type as before; unregistering restores the
  built-in decoder.
\<close>

theorem register_codec_effect:
  assumes "register_codec oid dec ty enc cs = Inr cs'"
  shows "\<exists>n d. oid = PInt n \<and> 0 < n \<and> n \<le> 0xFFFFFFFF \<and> dec = Some d \<and> (ty = NoType \<longleftrightarrow> enc = None) \<and>
    (\<forall>L fmt data. decode_value L cs' n fmt data = or_raw n fmt data (d data fmt)) \<and>
    (\<forall>L m. m \<noteq> n \<longrightarrow> find_decoder L cs' m = find_decoder L cs m) \<and>
    (\<forall>t. custom_encoders cs' t = (if ty = AType t then enc else custom_encoders cs t)) \<and>
    (\<forall>L t. find_decoder L (unregister_codec n t cs') n = map_of (DECODERS L) n)"
proof -
  from assms obtain n d where n: "oid = PInt n" "0 < n" "n \<le> 0xFFFFFFFF" "dec = Some d"
    and ty: "ty = NoType \<longleftrightarrow> enc = None"
    and dec: "\<And>k. custom_decoders cs' k = (if k = n then Some d else custom_decoders cs k)"
    and enc: "\<And>t. custom_encoders cs' t = (if ty = AType t then enc else custom_encoders cs t)"
    unfolding register_codec_Inr by (auto simp: encoders.lookup_put)
  then show ?thesis
    by (auto simp: decode_value.simps [of _ cs' n] find_decoder_def unregister_lookup)
qed


theorem register_codec_effect_witness:
  "decode_value small_lib (no_codecs\<lparr>custom_decoders := [600 \<mapsto> decode_bool]\<rparr>) 600 0 [116] = Inr (PBool True)"
proof -
  have "register_codec (PInt 600) (Some decode_bool) NoType None no_codecs =
      Inr (no_codecs\<lparr>custom_decoders := [600 \<mapsto> decode_bool]\<rparr>)"
    by (simp add: register_codec_def no_codecs_def)
  from register_codec_effect [OF this] show ?thesis
    by (auto simp: decode_bool_def oid_defs or_raw_def lit_def)
qed

end
