(* ===== verification/Timeouts.thy ===== *)
theory Timeouts
  imports Codec_Laws "HOL-Library.Log_Nat"
begin

text \<open>
  The arguments of the public calls (\<^verbatim>\<open>_api.py\<close>): timeouts, counts, settings. A timeout is a
  binary64 float in seconds; the product with 1000 that gives milliseconds is rounded the way
  the interpreter rounds it, to the nearest of the 53-bit numbers, ties to even, with
  gradual underflow and overflow to infinity.
\<close>

section \<open>Binary64 rounding\<close>

text \<open>The exponent \<open>e\<close> with \<open>2 ^ e \<le> q < 2 ^ (e + 1)\<close> of a positive rational.\<close>

definition rat_exponent :: "rat \<Rightarrow> int" where
  "rat_exponent q =
     (case quotient_of q of (n, d) \<Rightarrow>
        let e = bitlen n - bitlen d in if 2 powi e \<le> q then e else e - 1)"

definition ulp_exponent :: "rat \<Rightarrow> int" where
  "ulp_exponent q = max (rat_exponent q - 52) (- 1074)"

definition round_half_even :: "rat \<Rightarrow> int" where
  "round_half_even x =
     (let f = \<lfloor>x\<rfloor>; r = x - of_int f in
      if r < 1 / 2 then f else if 1 / 2 < r then f + 1 else if even f then f else f + 1)"

definition round_pos :: "rat \<Rightarrow> rat" where
  "round_pos q = of_int (round_half_even (q / 2 powi ulp_exponent q)) * 2 powi ulp_exponent q"

definition float_of_rat :: "rat \<Rightarrow> pyfloat" where
  "float_of_rat q =
     (if q = 0 then Fin 0
      else let r = round_pos \<bar>q\<bar> in
        if 2 ^ 1024 \<le> r then (if q < 0 then NegInf else PosInf)
        else if r = 0 then (if q < 0 then NegZero else Fin 0)
        else Fin (if q < 0 then - r else r))"

text \<open>The rational numbers that are floats.\<close>

definition is_float :: "rat \<Rightarrow> bool" where
  "is_float q \<longleftrightarrow> float_of_rat q = Fin q"

lemma round_half_even_ge: "of_int k \<le> x \<Longrightarrow> k \<le> round_half_even x"
  by (auto simp: round_half_even_def Let_def le_floor_iff intro: order_trans [of k "\<lfloor>x\<rfloor>"])

lemma round_half_even_of_int [simp]: "round_half_even (of_int k) = k"
  by (simp add: round_half_even_def)

section \<open>\<^verbatim>\<open>float(value)\<close>\<close>

definition py_float :: "stdlib \<Rightarrow> pyval \<Rightarrow> pyfloat res" where
  "py_float L v =
     (case v of
        PFloat f \<Rightarrow> Inr f
      | PBool b \<Rightarrow> Inr (Fin (if b then 1 else 0))
      | PInt i \<Rightarrow>
         (case float_of_rat (of_int i) of
            Fin q \<Rightarrow> Inr (Fin q)
          | _ \<Rightarrow> Inl (OverflowErr (lit ''int too large to convert to float'')))
      | PDecimal d \<Rightarrow>
         (case float_parse L (decimal_str L d) of
            Some f \<Rightarrow> Inr f
          | None \<Rightarrow> Inl (ValueErr (lit ''could not convert string to float'')))
      | PStr s \<Rightarrow>
         (case float_parse L s of
            Some f \<Rightarrow> Inr f
          | None \<Rightarrow> Inl (ValueErr (lit ''could not convert string to float'')))
      | PBytes s \<Rightarrow>
         (case float_parse L s of
            Some f \<Rightarrow> Inr f
          | None \<Rightarrow> Inl (ValueErr (lit ''could not convert string to float'')))
      | PByteArray s \<Rightarrow>
         (case float_parse L s of
            Some f \<Rightarrow> Inr f
          | None \<Rightarrow> Inl (ValueErr (lit ''could not convert string to float'')))
      | _ \<Rightarrow> Inl (TypeErr (lit ''float() argument must be a string or a real number'')))"

section \<open>Timeouts\<close>

text \<open>
  A normalized timeout is \<open>None\<close> (no deadline) or a non-negative finite number of seconds; the
  negative zero is the number zero.
\<close>

type_synonym timeout = "rat option"

definition normalize_timeout :: "stdlib \<Rightarrow> pyval \<Rightarrow> timeout res" where
  "normalize_timeout L v =
     (if v = PNone then Inr None
      else rbind (py_float L v) (\<lambda>f. case f of
          Fin q \<Rightarrow> (if q < 0 then Inl (ValueErr (lit ''timeout must be a finite non-negative value''))
                    else Inr (Some q))
        | NegZero \<Rightarrow> Inr (Some 0)
        | _ \<Rightarrow> Inl (ValueErr (lit ''timeout must be a finite non-negative value''))))"

text \<open>A normalized timeout passed on as an argument.\<close>

definition timeout_arg :: "timeout \<Rightarrow> pyval" where
  "timeout_arg t = (case t of None \<Rightarrow> PNone | Some q \<Rightarrow> PFloat (Fin q))"

definition timeout_milliseconds :: "stdlib \<Rightarrow> pyval \<Rightarrow> int res" where
  "timeout_milliseconds L v =
     (if v = PNone then Inr (- 1)
      else rbind (normalize_timeout L v) (\<lambda>t. case t of
          None \<Rightarrow> Inl AssertionErr
        | Some q \<Rightarrow>
           (case float_of_rat (q * 1000) of
              Fin m \<Rightarrow> (if 2 ^ 63 - 1 < \<lceil>m\<rceil> then Inl (OverflowErr (lit ''timeout exceeds the native int64 range''))
                       else Inr \<lceil>m\<rceil>)
            | NegZero \<Rightarrow> Inr 0
            | _ \<Rightarrow> Inl (OverflowErr (lit ''cannot convert float infinity to integer'')))))"

section \<open>Deadlines\<close>

definition POLL_SECONDS :: pyfloat where
  "POLL_SECONDS = float_of_rat (1 / 20)"

fun float_minus :: "pyfloat \<Rightarrow> rat \<Rightarrow> pyfloat" where
  "float_minus (Fin q) m = float_of_rat (q - m)"
| "float_minus NegZero m = float_of_rat (- m)"
| "float_minus f m = f"

text \<open>\<^verbatim>\<open>max(0.0, f)\<close>\<close>

fun float_max_zero :: "pyfloat \<Rightarrow> pyfloat" where
  "float_max_zero (Fin q) = (if 0 < q then Fin q else Fin 0)"
| "float_max_zero PosInf = PosInf"
| "float_max_zero _ = Fin 0"

fun float_le_zero :: "pyfloat \<Rightarrow> bool" where
  "float_le_zero (Fin q) = (q \<le> 0)"
| "float_le_zero NegZero = True"
| "float_le_zero NegInf = True"
| "float_le_zero _ = False"

text \<open>\<^verbatim>\<open>min(f, g)\<close> for a finite \<open>f\<close> that is not negative and a \<open>g\<close> that is not NaN\<close>

fun float_min :: "pyfloat \<Rightarrow> pyfloat \<Rightarrow> pyfloat" where
  "float_min (Fin a) (Fin b) = (if b < a then Fin b else Fin a)"
| "float_min (Fin a) NegZero = (if 0 < a then NegZero else Fin a)"
| "float_min (Fin a) NegInf = NegInf"
| "float_min f g = f"

definition float_arg :: "pyfloat option \<Rightarrow> pyval" where
  "float_arg f = (case f of None \<Rightarrow> PNone | Some x \<Rightarrow> PFloat x)"

section \<open>Counts\<close>

definition positive_int :: "pyval \<Rightarrow> string \<Rightarrow> int res" where
  "positive_int v name =
     (case v of
        PInt i \<Rightarrow> (if i \<le> 0 then Inl (ValueErr (lit name @ lit '' must be a positive integer'')) else Inr i)
      | _ \<Rightarrow> Inl (ValueErr (lit name @ lit '' must be a positive integer'')))"

definition nonnegative_int :: "pyval \<Rightarrow> string \<Rightarrow> int res" where
  "nonnegative_int v name =
     (case v of
        PInt i \<Rightarrow> (if i < 0 then Inl (ValueErr (lit name @ lit '' must be a non-negative integer'')) else Inr i)
      | _ \<Rightarrow> Inl (ValueErr (lit name @ lit '' must be a non-negative integer'')))"

section \<open>Settings\<close>

text \<open>\<^verbatim>\<open>str(value)\<close>, which only the classes of the values know, is the argument \<open>str\<close>.\<close>

fun pair_of :: "pyval \<Rightarrow> (pyval \<times> pyval) res" where
  "pair_of v = rbind (iter_values v) (\<lambda>xs. case xs of
      [a, b] \<Rightarrow> Inr (a, b)
    | _ \<Rightarrow> Inl (ValueErr (lit ''wrong number of values to unpack'')))"

fun normalize_items :: "(pyval \<Rightarrow> pystr res) \<Rightarrow> (pyval \<times> pyval) res list \<Rightarrow> (pystr \<times> pystr) list res" where
  "normalize_items str [] = Inr []"
| "normalize_items str (item # items) =
     rbind item (\<lambda>(name, v). case name of
         PStr (c # cs) \<Rightarrow>
           rbind (str v) (\<lambda>s. rbind (normalize_items str items) (\<lambda>ns. Inr ((c # cs, s) # ns)))
       | _ \<Rightarrow> Inl (TypeErr (lit ''setting names must be non-empty strings'')))"

definition normalize_settings :: "(pyval \<Rightarrow> pystr res) \<Rightarrow> pyval \<Rightarrow> (pystr \<times> pystr) list res" where
  "normalize_settings str settings =
     (case settings of
        PNone \<Rightarrow> Inr []
      | PDict kvs \<Rightarrow> normalize_items str (map Inr kvs)
      | _ \<Rightarrow> rbind (iter_values settings) (\<lambda>items. normalize_items str (map pair_of items)))"

section \<open>Properties\<close>

lemma rat_exponent_le:
  assumes "0 < q"
  shows "2 powi rat_exponent q \<le> q"
proof -
  obtain n d where q: "quotient_of q = (n, d)" by (cases "quotient_of q")
  have d: "0 < d" using quotient_of_denom_pos [OF q] .
  have qn: "q = of_int n / of_int d" using quotient_of_div [OF q] .
  then have n: "0 < n" using assms d by (simp add: zero_less_divide_iff)
  define e where "e = bitlen n - bitlen d"
  show ?thesis
  proof (cases "2 powi e \<le> q")
    case True
    then show ?thesis by (simp add: rat_exponent_def q Let_def e_def)
  next
    case False
    have nn: "0 \<le> bitlen n - 1" "0 \<le> bitlen d" using bitlen_bounds [OF n] bitlen_nonneg [of n] bitlen_nonneg [of d] n
      by (cases "bitlen n = 0"; simp)+
    have "2 ^ nat (bitlen n - 1) \<le> n" using bitlen_bounds [OF n] by simp
    then have "of_int (2 ^ nat (bitlen n - 1)) \<le> (of_int n :: rat)" by (simp only: of_int_le_iff)
    then have n1: "(2 :: rat) powi (bitlen n - 1) \<le> of_int n" using nn by (simp add: power_int_def)
    have "d \<le> 2 ^ nat (bitlen d)" using bitlen_bounds [OF d] by simp
    then have "of_int d \<le> (of_int (2 ^ nat (bitlen d)) :: rat)" by (simp only: of_int_le_iff)
    then have d1: "of_int d \<le> (2 :: rat) powi bitlen d" using nn by (simp add: power_int_def)
    have "(2 :: rat) powi (e - 1) = 2 powi (bitlen n - 1 - bitlen d)" by (simp add: e_def algebra_simps)
    also have "\<dots> = 2 powi (bitlen n - 1) / 2 powi bitlen d" by (simp add: power_int_diff)
    also have "\<dots> \<le> of_int n / of_int d"
      using n1 d1 d n by (intro frac_le) auto
    also have "\<dots> = q" by (simp add: qn)
    finally show ?thesis using False by (simp add: rat_exponent_def q Let_def e_def)
  qed
qed

lemma round_pos_ge:
  assumes "2 powi ulp_exponent q \<le> q"
  shows "2 powi ulp_exponent q \<le> round_pos q"
proof -
  have "1 \<le> q / 2 powi ulp_exponent q" using assms by (simp add: pos_le_divide_eq)
  then have "1 \<le> round_half_even (q / 2 powi ulp_exponent q)" using round_half_even_ge [of 1] by simp
  then have "(1 :: rat) \<le> of_int (round_half_even (q / 2 powi ulp_exponent q))" by (simp only: of_int_1_le_iff)
  then have "1 * 2 powi ulp_exponent q \<le> (of_int (round_half_even (q / 2 powi ulp_exponent q)) * 2 powi ulp_exponent q :: rat)"
    by (intro mult_right_mono) auto
  then show ?thesis by (simp add: round_pos_def)
qed

lemma round_pos_multiple: "round_pos q = of_int k * 2 powi ulp_exponent q \<Longrightarrow> 0 < round_pos q \<Longrightarrow> 2 powi ulp_exponent q \<le> round_pos q"
proof -
  assume k: "round_pos q = of_int k * 2 powi ulp_exponent q" and "0 < round_pos q"
  moreover have "(0 :: rat) < 2 powi ulp_exponent q" by simp
  ultimately have "0 < k" by (simp add: zero_less_mult_iff)
  then have "(1 :: rat) \<le> of_int k" by simp
  then have "1 * 2 powi ulp_exponent q \<le> (of_int k :: rat) * 2 powi ulp_exponent q" by (intro mult_right_mono) auto
  then show ?thesis using k by simp
qed

text \<open>A positive float is at least the smallest subnormal number.\<close>

lemma is_float_ge:
  assumes "is_float q" and "0 < q"
  shows "2 powi (- 1074) \<le> q"
proof -
  have "round_pos q = q" using assms by (auto simp: is_float_def float_of_rat_def Let_def split: if_splits)
  then have "2 powi ulp_exponent q \<le> q" using round_pos_multiple [OF round_pos_def [of q]] assms(2) by simp
  moreover have "(2 :: rat) powi (- 1074) \<le> 2 powi ulp_exponent q" by (intro power_int_increasing) (auto simp: ulp_exponent_def)
  ultimately show ?thesis by simp
qed

lemma float_product_positive:
  assumes "is_float q" and "0 < q"
  shows "float_of_rat (q * 1000) = PosInf \<or> (\<exists>m. float_of_rat (q * 1000) = Fin m \<and> 0 < m)"
proof -
  have "2 powi ulp_exponent (q * 1000) \<le> q * 1000"
  proof (cases "- 1074 \<le> rat_exponent (q * 1000) - 52")
    case True
    then have "(2 :: rat) powi ulp_exponent (q * 1000) \<le> 2 powi rat_exponent (q * 1000)"
      by (intro power_int_increasing) (auto simp: ulp_exponent_def)
    also have "\<dots> \<le> q * 1000" using assms(2) by (intro rat_exponent_le) simp
    finally show ?thesis .
  next
    case False
    then have "ulp_exponent (q * 1000) = - 1074" by (simp add: ulp_exponent_def)
    then have "2 powi ulp_exponent (q * 1000) \<le> q" using is_float_ge [OF assms] by simp
    also have "q \<le> q * 1000" using assms(2) by simp
    finally show ?thesis .
  qed
  then have "2 powi ulp_exponent (q * 1000) \<le> round_pos (q * 1000)" by (rule round_pos_ge)
  moreover have "(0 :: rat) < 2 powi ulp_exponent (q * 1000)" by simp
  ultimately have "0 < round_pos (q * 1000)" by linarith
  then show ?thesis using assms(2) by (auto simp: float_of_rat_def Let_def)
qed

lemma normalize_timeout_arg [simp]:
  "(\<And>q. t = Some q \<Longrightarrow> 0 \<le> q) \<Longrightarrow> normalize_timeout L (timeout_arg t) = Inr t"
  by (cases t) (auto simp: normalize_timeout_def timeout_arg_def py_float_def)

lemma normalize_timeout_nonneg: "normalize_timeout L v = Inr (Some q) \<Longrightarrow> 0 \<le> q"
  by (cases "py_float L v"; cases "projr (py_float L v)")
     (auto simp: normalize_timeout_def split: if_splits)

lemma float_small_int:
  assumes "rat_exponent (of_int n) \<le> 52" "- 1022 \<le> rat_exponent (of_int n)" "0 < n" "n < 2 ^ 63"
  shows "float_of_rat (of_int n) = Fin (of_int n)"
proof -
  define u where "u = ulp_exponent (of_int n)"
  have u: "u \<le> 0" using assms by (simp add: u_def ulp_exponent_def)
  have "(of_int n :: rat) / 2 powi u = of_int (n * 2 ^ nat (- u))"
    using u by (simp add: power_int_def field_simps)
  then have "round_half_even ((of_int n :: rat) / 2 powi u) = n * 2 ^ nat (- u)"
    by (simp only: round_half_even_of_int)
  then have "round_pos (of_int n) = of_int (n * 2 ^ nat (- u)) * 2 powi u"
    by (simp add: round_pos_def u_def)
  also have "\<dots> = of_int n" using u by (simp add: power_int_def field_simps)
  finally have r: "round_pos (of_int n) = of_int n" .
  have "(of_int n :: rat) < of_int (2 ^ 63)" using assms(4) by (simp only: of_int_less_iff)
  also have "(of_int (2 ^ 63) :: rat) \<le> 2 ^ 1024" by (simp add: power_increasing)
  finally show ?thesis using assms(3) by (simp add: float_of_rat_def Let_def r)
qed

lemma two_seconds: "timeout_milliseconds L (PInt 2) = Inr 2000"
proof -
  have b: "rat_exponent (of_int 2000) = 10" "rat_exponent (of_int 2) = 1"
    by (simp_all add: rat_exponent_def Let_def compute_bitlen power_int_def)
  show ?thesis
    using float_small_int [of 2] float_small_int [of 2000] b
    by (simp add: timeout_milliseconds_def normalize_timeout_def py_float_def)
qed
text \<open>
  C31: The deadline handed to the native module is the sentinel \<open>- 1\<close> exactly when there is no
  timeout; a float timeout becomes a number of milliseconds in the range of a signed 64-bit
  integer, and it becomes zero (do not wait) only if the timeout is zero: rounding never turns
  a positive timeout into an immediate one.
\<close>

theorem timeout_milliseconds_range:
  assumes "timeout_milliseconds L v = Inr ms"
  shows "(v = PNone \<longleftrightarrow> ms = - 1) \<and> - 1 \<le> ms \<and> ms < 2 ^ 63 \<and>
    (\<forall>q. v = PFloat (Fin q) \<longrightarrow> is_float q \<longrightarrow> (ms = 0 \<longleftrightarrow> q = 0))"
proof (cases "v = PNone")
  case True
  then show ?thesis using assms by (simp add: timeout_milliseconds_def)
next
  case False
  then obtain q where q: "normalize_timeout L v = Inr (Some q)" and
    ms: "(\<exists>m. float_of_rat (q * 1000) = Fin m \<and> \<lceil>m\<rceil> \<le> 2 ^ 63 - 1 \<and> ms = \<lceil>m\<rceil>) \<or> (float_of_rat (q * 1000) = NegZero \<and> ms = 0)"
    using assms
    by (cases "normalize_timeout L v"; cases "projr (normalize_timeout L v)";
        cases "float_of_rat (the (projr (normalize_timeout L v)) * 1000)")
       (auto simp: timeout_milliseconds_def split: if_splits)
  have q0: "0 \<le> q" using q by (rule normalize_timeout_nonneg)
  have pos: "0 \<le> m" if "float_of_rat (q * 1000) = Fin m" for m
    using that q0 by (auto simp: float_of_rat_def Let_def round_pos_def split: if_splits
        intro!: mult_nonneg_nonneg round_half_even_ge [of 0, simplified])
  have "0 \<le> ms" "ms < 2 ^ 63" using ms pos by (auto simp: zero_le_ceiling)
  moreover have "ms = 0 \<longleftrightarrow> r = 0" if "v = PFloat (Fin r)" "is_float r" for r
  proof -
    have "q = r" using that(1) q by (auto simp: normalize_timeout_def py_float_def split: if_splits)
    moreover have "float_of_rat 0 = Fin 0" by (simp add: float_of_rat_def)
    ultimately show ?thesis
      using ms float_product_positive [of r] that(2) q0 by (cases "r = 0") (auto simp: ceiling_eq_iff)
  qed
  ultimately show ?thesis using False by auto
qed


theorem timeout_milliseconds_range_witness:
  "timeout_milliseconds small_lib (PInt 2) = Inr 2000 \<and> (PInt 2 = PNone \<longleftrightarrow> (2000 :: int) = - 1) \<and> (2000 :: int) < 2 ^ 63"
  using timeout_milliseconds_range [OF two_seconds [of small_lib]] two_seconds [of small_lib] by simp

end
