(* ===== verification/Results.thy ===== *)
theory Results
  imports Timeouts
begin

text \<open>
  The values that cross the native boundary and what the package makes of them: columns and
  materialized results (\<^verbatim>\<open>_api.py\<close>), events, operation progress and bundled extensions
  (\<^verbatim>\<open>_management.py\<close>), the connection status (\<^verbatim>\<open>_stream.py\<close>), and the PEP 249 type objects
  (\<^verbatim>\<open>_dbapi.py\<close>). A mapping of the native module is a record of its keys.
\<close>

section \<open>Columns and results\<close>

record column =
  col_name :: "pystr option"
  table_oid :: int
  table_column :: int
  type_oid :: int
  type_size :: int
  type_modifier :: int
  col_format :: int

text \<open>The seven fields of a PEP 249 description.\<close>

definition dbapi_description :: "column \<Rightarrow> pyval list" where
  "dbapi_description c =
     [case col_name c of None \<Rightarrow> PNone | Some s \<Rightarrow> PStr s, PInt (type_oid c), PNone, PNone, PNone, PNone, PNone]"

type_synonym row = "pyval list"

record native_result =
  nr_kind :: int
  nr_command_status :: "pystr option"
  nr_columns :: "column list"
  nr_rows :: "(int \<times> int \<times> pybytes) option list list"
  nr_copy :: "nat option"

record result =
  res_kind :: int
  res_command_status :: "pystr option"
  res_columns :: "column list"
  res_rows :: "row list"
  res_position :: nat
  res_rowcount :: int

text \<open>\<^verbatim>\<open>s.isdigit()\<close> and \<^verbatim>\<open>int(s)\<close> of such a string: a superscript digit is no decimal.\<close>

definition str_isdigit :: "unidb \<Rightarrow> pystr \<Rightarrow> bool" where
  "str_isdigit U s \<longleftrightarrow> s \<noteq> [] \<and> list_all (isdigit U) s"

definition int_of_digits :: "unidb \<Rightarrow> pystr \<Rightarrow> int res" where
  "int_of_digits U s =
     (if list_ex (\<lambda>c. decimal U c = None) s
      then Inl (ValueErr (lit ''invalid literal for int() with base 10''))
      else case py_int (\<lambda>_. False) 10 (map (\<lambda>c. 48 + the (decimal U c)) s) of
          None \<Rightarrow> Inl (ValueErr (lit ''invalid literal for int() with base 10''))
        | Some i \<Rightarrow> Inr i)"

definition derive_rowcount :: "unidb \<Rightarrow> column list \<Rightarrow> row list \<Rightarrow> pystr option \<Rightarrow> int res" where
  "derive_rowcount U columns rows command_status =
     (if columns \<noteq> [] then Inr (int (length rows))
      else case command_status of
        None \<Rightarrow> Inr (- 1)
      | Some s \<Rightarrow>
         (let fields = split_ws (isspace U) s in
          if fields \<noteq> [] \<and> str_isdigit U (last fields) then int_of_digits U (last fields)
          else Inr (- 1)))"

fun decode_row :: "stdlib \<Rightarrow> codecs \<Rightarrow> (int \<times> int \<times> pybytes) option list \<Rightarrow> row res" where
  "decode_row L cs [] = Inr []"
| "decode_row L cs (None # vs) = rbind (decode_row L cs vs) (\<lambda>r. Inr (PNone # r))"
| "decode_row L cs (Some (oid, fmt, data) # vs) =
     rbind (decode_value L cs oid fmt data) (\<lambda>v. rbind (decode_row L cs vs) (\<lambda>r. Inr (v # r)))"

fun decode_rows :: "stdlib \<Rightarrow> codecs \<Rightarrow> (int \<times> int \<times> pybytes) option list list \<Rightarrow> row list res" where
  "decode_rows L cs [] = Inr []"
| "decode_rows L cs (r # rs) =
     rbind (decode_row L cs r) (\<lambda>v. rbind (decode_rows L cs rs) (\<lambda>vs. Inr (v # vs)))"

definition result_init :: "stdlib \<Rightarrow> codecs \<Rightarrow> native_result \<Rightarrow> result res" where
  "result_init L cs native =
     rbind (decode_rows L cs (nr_rows native)) (\<lambda>rows.
     rbind (derive_rowcount (uni L) (nr_columns native) rows (nr_command_status native)) (\<lambda>count.
     Inr \<lparr>res_kind = nr_kind native, res_command_status = nr_command_status native,
          res_columns = nr_columns native, res_rows = rows, res_position = 0, res_rowcount = count\<rparr>))"

definition result_description :: "result \<Rightarrow> pyval list list option" where
  "result_description r =
     (if res_columns r = [] then None else Some (map dbapi_description (res_columns r)))"

definition result_fetchone :: "result \<Rightarrow> row option \<times> result" where
  "result_fetchone r =
     (if length (res_rows r) \<le> res_position r then (None, r)
      else (Some (res_rows r ! res_position r), r\<lparr>res_position := res_position r + 1\<rparr>))"

definition result_fetchmany :: "int \<Rightarrow> result \<Rightarrow> (row list \<times> result) res" where
  "result_fetchmany n r =
     (if n < 0 then Inl (ValueErr (lit ''fetch size cannot be negative''))
      else let e = min (length (res_rows r)) (res_position r + nat n)
           in Inr (drop (res_position r) (take e (res_rows r)), r\<lparr>res_position := e\<rparr>))"

definition result_fetchall :: "result \<Rightarrow> row list \<times> result" where
  "result_fetchall r =
     (drop (res_position r) (res_rows r), r\<lparr>res_position := length (res_rows r)\<rparr>)"

definition result_next :: "result \<Rightarrow> (row \<times> result) res" where
  "result_next r =
     (case result_fetchone r of (None, _) \<Rightarrow> Inl StopIter | (Some row, r') \<Rightarrow> Inr (row, r'))"

section \<open>Events\<close>

datatype event_kind = LOG | NOTICE | NOTIFICATION | OVERFLOW

text \<open>\<^verbatim>\<open>EventKind(value)\<close> with the values of the native module.\<close>

definition event_kind_of :: "int \<Rightarrow> event_kind res" where
  "event_kind_of k =
     (if k = 0 then Inr LOG else if k = 1 then Inr NOTICE else if k = 2 then Inr NOTIFICATION
      else if k = 3 then Inr OVERFLOW else Inl (ValueErr (lit ''is not a valid EventKind'')))"

fun event_kind_value :: "event_kind \<Rightarrow> int" where
  "event_kind_value LOG = 0"
| "event_kind_value NOTICE = 1"
| "event_kind_value NOTIFICATION = 2"
| "event_kind_value OVERFLOW = 3"

record native_event =
  ne_kind :: int
  ne_connection_id :: int
  ne_request_id :: int
  ne_virtual_backend_pid :: int
  ne_severity :: "pystr option"
  ne_sqlstate :: "pystr option"
  ne_message :: "pystr option"
  ne_detail :: "pystr option"
  ne_hint :: "pystr option"
  ne_channel :: "pystr option"
  ne_payload :: "pystr option"
  ne_dropped_kind :: int
  ne_dropped_count :: int

datatype event =
    LogEvent (connection_id: int) (request_id: int) int pystr pystr pystr pystr
  | NoticeEvent (connection_id: int) (request_id: int) pystr pystr pystr pystr pystr
  | NotificationEvent (connection_id: int) (request_id: int) int pystr pystr
  | OverflowEvent (connection_id: int) (request_id: int) event_kind int

fun kind_of_event :: "event \<Rightarrow> event_kind" where
  "kind_of_event (LogEvent _ _ _ _ _ _ _) = LOG"
| "kind_of_event (NoticeEvent _ _ _ _ _ _ _) = NOTICE"
| "kind_of_event (NotificationEvent _ _ _ _ _) = NOTIFICATION"
| "kind_of_event (OverflowEvent _ _ _ _) = OVERFLOW"

text \<open>\<^verbatim>\<open>str(value)\<close> of a string or \<^verbatim>\<open>None\<close>\<close>

definition str_of :: "pystr option \<Rightarrow> pystr" where
  "str_of v = (case v of None \<Rightarrow> lit ''None'' | Some s \<Rightarrow> s)"

definition event_from_native :: "native_event \<Rightarrow> event res" where
  "event_from_native v =
     rbind (event_kind_of (ne_kind v)) (\<lambda>kind.
       let c = ne_connection_id v; r = ne_request_id v in
       case kind of
         LOG \<Rightarrow> Inr (LogEvent c r (ne_virtual_backend_pid v) (str_of (ne_severity v))
                  (str_of (ne_sqlstate v)) (str_of (ne_message v)) (str_of (ne_detail v)))
       | NOTICE \<Rightarrow> Inr (NoticeEvent c r (str_of (ne_severity v)) (str_of (ne_sqlstate v))
                  (str_of (ne_message v)) (str_of (ne_detail v)) (str_of (ne_hint v)))
       | NOTIFICATION \<Rightarrow> Inr (NotificationEvent c r (ne_virtual_backend_pid v)
                  (str_of (ne_channel v)) (str_of (ne_payload v)))
       | OVERFLOW \<Rightarrow> rbind (event_kind_of (ne_dropped_kind v))
                  (\<lambda>k. Inr (OverflowEvent c r k (ne_dropped_count v))))"

section \<open>Management operations\<close>

datatype operation_state = OpPending | OpRunning | OpCompleted | OpCanceled | OpFailed

definition operation_state_of :: "int \<Rightarrow> operation_state res" where
  "operation_state_of k =
     (if k = 0 then Inr OpPending else if k = 1 then Inr OpRunning else if k = 2 then Inr OpCompleted
      else if k = 3 then Inr OpCanceled else if k = 4 then Inr OpFailed
      else Inl (ValueErr (lit ''is not a valid OperationState'')))"

datatype operation_kind = Checkpoint | LogicalDump | LogicalRestore | Maintenance

definition operation_kind_of :: "int \<Rightarrow> operation_kind res" where
  "operation_kind_of k =
     (if k = 0 then Inr Checkpoint else if k = 1 then Inr LogicalDump else if k = 2 then Inr LogicalRestore
      else if k = 3 then Inr Maintenance else Inl (ValueErr (lit ''is not a valid OperationKind'')))"

datatype operation_phase =
  PhasePending | PhaseStarting | PhaseDatabase | PhaseArchiveIO | PhaseHostIO | PhaseFinalizing | PhaseTerminal

definition operation_phase_of :: "int \<Rightarrow> operation_phase res" where
  "operation_phase_of k =
     (if k = 0 then Inr PhasePending else if k = 1 then Inr PhaseStarting else if k = 2 then Inr PhaseDatabase
      else if k = 3 then Inr PhaseArchiveIO else if k = 4 then Inr PhaseHostIO
      else if k = 5 then Inr PhaseFinalizing else if k = 6 then Inr PhaseTerminal
      else Inl (ValueErr (lit ''is not a valid OperationPhase'')))"

datatype maintenance_kind = Vacuum | Analyze | VacuumAnalyze | ReindexDatabase

fun maintenance_value :: "maintenance_kind \<Rightarrow> int" where
  "maintenance_value Vacuum = 0"
| "maintenance_value Analyze = 1"
| "maintenance_value VacuumAnalyze = 2"
| "maintenance_value ReindexDatabase = 3"

text \<open>The argument of \<^verbatim>\<open>MaintenanceKind.parse\<close>: a member, a string or an integer.\<close>

datatype maintenance_arg = KindMember maintenance_kind | KindName pystr | KindNumber int

definition maintenance_choices :: "(pystr \<times> maintenance_kind) list" where
  "maintenance_choices =
     [(lit ''vacuum'', Vacuum), (lit ''analyze'', Analyze), (lit ''vacuum_analyze'', VacuumAnalyze),
      (lit ''reindex'', ReindexDatabase), (lit ''reindex_database'', ReindexDatabase)]"

definition maintenance_parse :: "unidb \<Rightarrow> maintenance_arg \<Rightarrow> maintenance_kind res" where
  "maintenance_parse U a =
     (case a of
        KindMember k \<Rightarrow> Inr k
      | KindName s \<Rightarrow>
         (case map_of maintenance_choices (replace_cp 32 [95] (lower U (strip (isspace U) s))) of
            Some k \<Rightarrow> Inr k
          | None \<Rightarrow> Inl (ValueErr (lit ''unknown maintenance kind: '' @ s)))
      | KindNumber n \<Rightarrow>
         (if n = 0 then Inr Vacuum else if n = 1 then Inr Analyze else if n = 2 then Inr VacuumAnalyze
          else if n = 3 then Inr ReindexDatabase
          else Inl (ValueErr (lit ''is not a valid MaintenanceKind''))))"

record native_progress =
  np_kind :: int
  np_state :: int
  np_phase :: int
  np_bytes_received :: int
  np_bytes_produced :: int
  np_total_bytes :: int
  np_objects_completed :: int
  np_objects_total :: int

record operation_progress =
  op_kind :: operation_kind
  op_state :: operation_state
  op_phase :: operation_phase
  op_bytes_received :: int
  op_bytes_produced :: int
  op_total_bytes :: int
  op_objects_completed :: int
  op_objects_total :: int

definition progress_from_native :: "native_progress \<Rightarrow> operation_progress res" where
  "progress_from_native v =
     rbind (operation_kind_of (np_kind v)) (\<lambda>k.
     rbind (operation_state_of (np_state v)) (\<lambda>s.
     rbind (operation_phase_of (np_phase v)) (\<lambda>p.
     Inr \<lparr>op_kind = k, op_state = s, op_phase = p, op_bytes_received = np_bytes_received v,
          op_bytes_produced = np_bytes_produced v, op_total_bytes = np_total_bytes v,
          op_objects_completed = np_objects_completed v, op_objects_total = np_objects_total v\<rparr>)))"

record bundled_extension =
  ext_id :: pystr
  ext_sql_name :: pystr
  ext_version :: pystr
  ext_postgresql_major :: int
  ext_sdk_abi_version :: int
  ext_capabilities :: int

section \<open>Connection status\<close>

record connection_status_snapshot =
  cs_transaction_status :: int
  cs_pin_reasons :: int
  cs_carrier_retained :: bool
  cs_virtual_backend_pid :: int
  cs_connection_id :: int
  cs_active_request_id :: int

definition pinned :: "connection_status_snapshot \<Rightarrow> bool" where
  "pinned s \<longleftrightarrow> cs_pin_reasons s \<noteq> 0"

section \<open>PEP 249 type objects\<close>

definition STRING :: "int list" where "STRING = [TEXT_OID, VARCHAR, 18, 19, 1042]"
definition BINARY_TYPE :: "int list" where "BINARY_TYPE = [BYTEA]"
definition NUMBER :: "int list" where "NUMBER = [INT2, INT4, INT8, OID, FLOAT4, FLOAT8, NUMERIC]"
definition DATETIME :: "int list" where
  "DATETIME = [DATE, TIME, TIMESTAMP, TIMESTAMPTZ, INTERVAL, 1266]"
definition ROWID :: "int list" where "ROWID = [OID]"

text \<open>\<^verbatim>\<open>type_object == other\<close>\<close>

definition type_object_eq :: "int list \<Rightarrow> pyval \<Rightarrow> bool" where
  "type_object_eq values other = (case other of PInt i \<Rightarrow> i \<in> set values | _ \<Rightarrow> False)"

section \<open>Fetching\<close>

text \<open>
  What a client of a row source relies on, in terms of the rows that are still to come. The
  lemma about any sequence of fetches is proved once from it.
\<close>

datatype fetch = FetchOne | FetchMany nat | FetchAll

locale row_source =
  fixes remaining :: "'s \<Rightarrow> 'r list"
    and fetchone :: "'s \<Rightarrow> 'r option \<times> 's"
    and fetchmany :: "nat \<Rightarrow> 's \<Rightarrow> 'r list \<times> 's"
    and fetchall :: "'s \<Rightarrow> 'r list \<times> 's"
  assumes fetchone_end: "remaining s = [] \<Longrightarrow> fst (fetchone s) = None \<and> remaining (snd (fetchone s)) = []"
    and fetchone_row: "remaining s = r # rs \<Longrightarrow> fst (fetchone s) = Some r \<and> remaining (snd (fetchone s)) = rs"
    and fetchmany_rows: "fst (fetchmany n s) = take n (remaining s)"
    and fetchmany_rest: "remaining (snd (fetchmany n s)) = drop n (remaining s)"
    and fetchall_rows: "fst (fetchall s) = remaining s"
    and fetchall_rest: "remaining (snd (fetchall s)) = []"
begin

definition fetch_step :: "fetch \<Rightarrow> 's \<Rightarrow> 'r list \<times> 's" where
  "fetch_step f s =
     (case f of
        FetchOne \<Rightarrow> (case fetchone s of (None, s') \<Rightarrow> ([], s') | (Some r, s') \<Rightarrow> ([r], s'))
      | FetchMany n \<Rightarrow> fetchmany n s
      | FetchAll \<Rightarrow> fetchall s)"

fun fetch_run :: "fetch list \<Rightarrow> 's \<Rightarrow> 'r list \<times> 's" where
  "fetch_run [] s = ([], s)"
| "fetch_run (f # fs) s =
     (case fetch_step f s of (rows, s') \<Rightarrow> case fetch_run fs s' of (rows2, s'') \<Rightarrow> (rows @ rows2, s''))"

lemma fetch_step_split: "fst (fetch_step f s) @ remaining (snd (fetch_step f s)) = remaining s"
proof (cases f)
  case FetchOne
  then show ?thesis
    using fetchone_end [of s] fetchone_row [of s]
    by (cases "remaining s"; cases "fetchone s") (auto simp: fetch_step_def split: option.splits)
next
  case (FetchMany n)
  then show ?thesis by (simp add: fetch_step_def fetchmany_rows fetchmany_rest)
next
  case FetchAll
  then show ?thesis by (simp add: fetch_step_def fetchall_rows fetchall_rest)
qed

lemma fetch_run_split: "fst (fetch_run fs s) @ remaining (snd (fetch_run fs s)) = remaining s"
proof (induction fs arbitrary: s)
  case (Cons f fs)
  show ?case
    using fetch_step_split [of f s] Cons.IH [of "snd (fetch_step f s)"] by (auto split: prod.splits)
qed simp

end

definition result_remaining :: "result \<Rightarrow> row list" where
  "result_remaining r = drop (res_position r) (res_rows r)"

text \<open>A fetch of a number of rows that is not negative does not raise.\<close>

definition result_fetch_rows :: "nat \<Rightarrow> result \<Rightarrow> row list \<times> result" where
  "result_fetch_rows n r = (case result_fetchmany (int n) r of Inr x \<Rightarrow> x | Inl _ \<Rightarrow> ([], r))"

lemma drop_min_length: "drop (min (length xs) (p + n)) xs = drop n (drop p xs)"
  by (cases "length xs \<le> p + n") (simp_all add: min_def add.commute)

lemma result_fetchmany_nat:
  "result_fetchmany (int n) r =
     Inr (take n (result_remaining r), r\<lparr>res_position := min (length (res_rows r)) (res_position r + n)\<rparr>)"
proof -
  have "drop p (take (min (length xs) (p + n)) xs) = take n (drop p xs)" for p and xs :: "row list"
    by (cases "length xs \<le> p + n") (simp_all add: min_def drop_take)
  then show ?thesis by (simp add: result_fetchmany_def result_remaining_def Let_def)
qed

interpretation result_rows: row_source result_remaining result_fetchone result_fetch_rows result_fetchall
proof
  fix s :: result and r rs n
  show "result_remaining s = [] \<Longrightarrow>
      fst (result_fetchone s) = None \<and> result_remaining (snd (result_fetchone s)) = []"
    by (simp add: result_remaining_def result_fetchone_def)
  show "result_remaining s = r # rs \<Longrightarrow>
      fst (result_fetchone s) = Some r \<and> result_remaining (snd (result_fetchone s)) = rs"
    using nth_via_drop [of "res_position s" "res_rows s" r rs]
    by (cases "res_position s < length (res_rows s)")
       (auto simp: result_remaining_def result_fetchone_def drop_Suc tl_drop [symmetric])
  show "fst (result_fetch_rows n s) = take n (result_remaining s)"
    by (simp add: result_fetch_rows_def result_fetchmany_nat)
  show "result_remaining (snd (result_fetch_rows n s)) = drop n (result_remaining s)"
    by (simp add: result_fetch_rows_def result_fetchmany_nat result_remaining_def drop_min_length add.commute)
  show "fst (result_fetchall s) = result_remaining s" "result_remaining (snd (result_fetchall s)) = []"
    by (simp_all add: result_fetchall_def result_remaining_def)
qed

text \<open>
  C32: However \<^verbatim>\<open>fetchone\<close>, \<^verbatim>\<open>fetchmany\<close> and \<^verbatim>\<open>fetchall\<close> are mixed on a fresh result, the
  rows they return, followed by the rows not fetched yet, are the decoded rows of the native
  result in their order: no row is lost, repeated or reordered.
\<close>

theorem result_fetches_complete:
  assumes "result_init L cs native = Inr r"
  shows "Inr (fst (result_rows.fetch_run fs r) @ result_remaining (snd (result_rows.fetch_run fs r))) =
    decode_rows L cs (nr_rows native)"
proof -
  have "Inr (result_remaining r) = decode_rows L cs (nr_rows native)"
    using assms by (auto simp: result_init_def rbind_eq_Inr result_remaining_def)
  then show ?thesis using result_rows.fetch_run_split [of fs r] by simp
qed

definition sample_native :: native_result where
  "sample_native = \<lparr>nr_kind = 1, nr_command_status = Some (lit ''SELECT 2''), nr_columns = [],
     nr_rows = [[None], [Some (16, 0, [116])]], nr_copy = None\<rparr>"

lemma sample_native_init:
  "\<exists>r. result_init small_lib no_codecs sample_native = Inr r"
proof -
  have "decode_rows small_lib no_codecs (nr_rows sample_native) = Inr [[PNone], [PBool True]]"
    by (simp add: sample_native_def decode_value_builtin no_codecs_def DECODERS_def oid_defs decode_bool_def
        or_raw_def lit_def)
  moreover have "derive_rowcount (uni small_lib) [] [[PNone], [PBool True]] (Some (lit ''SELECT 2'')) = Inr 2"
    by (simp add: derive_rowcount_def split_ws.simps small_lib_def latin1_def lit_def ascii_defs str_isdigit_def
        int_of_digits_def py_int_def int_literal_def strip_def rstrip_def lstrip_def digit_value_def
        nat_of_digits_def max_str_digits_def Let_def)
  ultimately show ?thesis by (simp add: result_init_def sample_native_def)
qed

theorem result_fetches_complete_witness:
  "\<exists>r. result_init small_lib no_codecs sample_native = Inr r \<and>
    Inr (fst (result_rows.fetch_run [FetchOne, FetchMany 5] r) @
         result_remaining (snd (result_rows.fetch_run [FetchOne, FetchMany 5] r))) =
    decode_rows small_lib no_codecs (nr_rows sample_native)"
  using sample_native_init result_fetches_complete by blast

text \<open>
  An event of the native module is delivered with its own kind and its connection and
  request identities, or its kind (or the kind it counts) is unknown and a \<^verbatim>\<open>ValueError\<close> is
  raised; nothing else happens.
\<close>

theorem event_from_native_identity:
  "case event_from_native v of
     Inr e \<Rightarrow> event_kind_value (kind_of_event e) = ne_kind v \<and> connection_id e = ne_connection_id v \<and>
            request_id e = ne_request_id v
   | Inl x \<Rightarrow> is_value_error x \<and> (ne_kind v < 0 \<or> 3 < ne_kind v \<or>
            ne_kind v = 3 \<and> (ne_dropped_kind v < 0 \<or> 3 < ne_dropped_kind v))"
  by (auto simp: event_from_native_def event_kind_of_def rbind_def Let_def split: if_splits sum.splits)

end
