(* ===== verification/Kernel.thy ===== *)
theory Kernel
  imports Results
begin

text \<open>
  The world the package runs in. Its objects (databases, connections, cursors, requests, row
  streams, COPY streams, prepared statements, operations, transaction scopes, entries of the
  implicit registry) are records in one heap per class, addressed by numbers below
  \<open>next_id\<close>; a weak set is the list of its members, and no object is collected, so the
  finalizers are operations of their own. The native module \<^verbatim>\<open>_native\<close> (C code over
  PostgreSQL) and the host (clock, process, files, application callbacks and streams) are the
  fields of the parameter \<open>H\<close>: each is a function on a state of its own type that may raise.
  What a native call was given is recorded in \<open>calls\<close>, which no operation reads.
  The model is of one thread: a reentrant lock never blocks it, and waiting for a request gate
  that is held never ends.
\<close>

section \<open>Constants of the native module\<close>

definition TRANSACTION_IDLE :: int where "TRANSACTION_IDLE = 0"
definition AVAILABILITY_READY :: int where "AVAILABILITY_READY = 0"
definition AVAILABILITY_AGAIN :: int where "AVAILABILITY_AGAIN = 1"
definition AVAILABILITY_END :: int where "AVAILABILITY_END = 2"
definition IO_PROGRESS :: int where "IO_PROGRESS = 0"
definition IO_AGAIN :: int where "IO_AGAIN = 1"
definition IO_END :: int where "IO_END = 2"
definition RESULT_COPY_IN :: int where "RESULT_COPY_IN = 2"
definition RESULT_COPY_OUT :: int where "RESULT_COPY_OUT = 3"
definition RESULT_TUPLES_CHUNK :: int where "RESULT_TUPLES_CHUNK = 5"
definition SHUTDOWN_SMART :: int where "SHUTDOWN_SMART = 0"
definition SHUTDOWN_FAST :: int where "SHUTDOWN_FAST = 1"
definition SHUTDOWN_IMMEDIATE :: int where "SHUTDOWN_IMMEDIATE = 2"
definition EVENT_NOTICE :: int where "EVENT_NOTICE = 1"

lemmas native_const_defs = TRANSACTION_IDLE_def AVAILABILITY_READY_def AVAILABILITY_AGAIN_def
  AVAILABILITY_END_def IO_PROGRESS_def IO_AGAIN_def IO_END_def RESULT_COPY_IN_def RESULT_COPY_OUT_def
  RESULT_TUPLES_CHUNK_def SHUTDOWN_SMART_def SHUTDOWN_FAST_def SHUTDOWN_IMMEDIATE_def EVENT_NOTICE_def

section \<open>The native module and the host\<close>

type_synonym handle = nat
type_synonym handler = nat
type_synonym settings = "(pystr \<times> pystr) list"
type_synonym nparams = "(int \<times> int \<times> bool \<times> pybytes) list"
type_synonym ('k, 'a) host_fun = "'k \<Rightarrow> 'a res \<times> 'k"

datatype open_mode = OPEN_OR_CREATE | OPEN_EXISTING | CREATE_NEW

record open_options =
  oo_create :: bool
  oo_create_new :: bool
  oo_executable_path :: pystr
  oo_resource_root :: pystr
  oo_settings :: settings
  oo_worker_count :: int
  oo_result_buffer_limit :: int
  oo_maximum_value_size :: int
  oo_event_queue_capacity :: int

record session_options =
  so_user :: pystr
  so_database :: pystr
  so_application_name :: pystr
  so_settings :: settings

record archive_options =
  ao_flags :: int
  ao_database :: pystr
  ao_user :: pystr
  ao_channel_capacity :: int
  ao_progress_quantum :: int

record 'k host =
  lib :: stdlib
  instance_open :: "pystr \<Rightarrow> open_options \<Rightarrow> ('k, handle) host_fun"
  instance_close :: "handle \<Rightarrow> int \<Rightarrow> int \<Rightarrow> ('k, unit) host_fun"
  instance_telemetry :: "handle \<Rightarrow> ('k, (pystr \<times> int) list) host_fun"
  instance_waitable :: "handle \<Rightarrow> ('k, int) host_fun"
  instance_next_event :: "handle \<Rightarrow> int \<Rightarrow> ('k, native_event option) host_fun"
  connection_open :: "handle \<Rightarrow> session_options \<Rightarrow> ('k, handle) host_fun"
  connection_close :: "handle \<Rightarrow> int \<Rightarrow> ('k, unit) host_fun"
  connection_execute :: "handle \<Rightarrow> pystr \<Rightarrow> nparams \<Rightarrow> int \<Rightarrow> ('k, native_result) host_fun"
  connection_execute_arrow :: "handle \<Rightarrow> pystr \<Rightarrow> nparams \<Rightarrow> int \<Rightarrow> int \<Rightarrow> ('k, nat list) host_fun"
  connection_transaction_status :: "handle \<Rightarrow> ('k, int) host_fun"
  connection_identity :: "handle \<Rightarrow> ('k, int) host_fun"
  connection_parameter_status :: "handle \<Rightarrow> pystr \<Rightarrow> ('k, pystr option) host_fun"
  connection_status :: "handle \<Rightarrow> ('k, connection_status_snapshot) host_fun"
  connection_cancel :: "handle \<Rightarrow> ('k, bool) host_fun"
  request_start :: "handle \<Rightarrow> pystr \<Rightarrow> nparams \<Rightarrow> int \<Rightarrow> int \<Rightarrow> bool \<Rightarrow> ('k, handle) host_fun"
  request_identity :: "handle \<Rightarrow> ('k, int) host_fun"
  request_waitable :: "handle \<Rightarrow> ('k, int) host_fun"
  request_next :: "handle \<Rightarrow> int \<Rightarrow> ('k, int \<times> native_result option) host_fun"
  request_poll :: "handle \<Rightarrow> ('k, int) host_fun"
  request_progress :: "handle \<Rightarrow> ('k, int) host_fun"
  request_cancel :: "handle \<Rightarrow> ('k, bool) host_fun"
  request_close :: "handle \<Rightarrow> ('k, unit) host_fun"
  copy_write :: "handle \<Rightarrow> pybytes \<Rightarrow> ('k, int \<times> int) host_fun"
  copy_read :: "handle \<Rightarrow> int \<Rightarrow> ('k, pybytes \<times> int) host_fun"
  copy_finish :: "handle \<Rightarrow> pystr option \<Rightarrow> ('k, int) host_fun"
  copy_abort :: "handle \<Rightarrow> pystr option \<Rightarrow> ('k, unit) host_fun"
  copy_close :: "handle \<Rightarrow> int \<Rightarrow> ('k, unit) host_fun"
  statement_prepare :: "handle \<Rightarrow> pystr \<Rightarrow> int list option \<Rightarrow> ('k, handle) host_fun"
  statement_describe :: "handle \<Rightarrow> ('k, int list \<times> column list) host_fun"
  statement_execute :: "handle \<Rightarrow> nparams \<Rightarrow> int \<Rightarrow> int \<Rightarrow> ('k, handle) host_fun"
  statement_close :: "handle \<Rightarrow> ('k, unit) host_fun"
  operation_checkpoint :: "handle \<Rightarrow> ('k, handle) host_fun"
  operation_maintenance :: "handle \<Rightarrow> int \<Rightarrow> pystr \<Rightarrow> pystr \<Rightarrow> ('k, handle) host_fun"
  operation_logical_dump :: "handle \<Rightarrow> nat \<Rightarrow> archive_options \<Rightarrow> ('k, handle) host_fun"
  operation_logical_restore :: "handle \<Rightarrow> nat \<Rightarrow> archive_options \<Rightarrow> ('k, handle) host_fun"
  operation_waitable :: "handle \<Rightarrow> ('k, int) host_fun"
  operation_snapshot :: "handle \<Rightarrow> ('k, native_progress) host_fun"
  operation_progress_native :: "handle \<Rightarrow> ('k, int) host_fun"
  operation_cancel :: "handle \<Rightarrow> ('k, unit) host_fun"
  operation_close :: "handle \<Rightarrow> ('k, unit) host_fun"
  bundled_extensions_native :: "('k, bundled_extension list) host_fun"
  getpid :: "'k \<Rightarrow> int"
  monotonic :: "'k \<Rightarrow> rat \<times> 'k"
  select_wait :: "int \<Rightarrow> pyfloat \<Rightarrow> ('k, unit) host_fun"
  call_handler :: "handler \<Rightarrow> event \<Rightarrow> ('k, unit) host_fun"
  source_read :: "nat \<Rightarrow> int \<Rightarrow> ('k, pybytes) host_fun"
  target_write :: "nat \<Rightarrow> pybytes \<Rightarrow> ('k, int option) host_fun"
  realpath :: "pystr \<Rightarrow> 'k \<Rightarrow> pystr"
  join_path :: "pystr \<Rightarrow> pystr list \<Rightarrow> pystr"
  is_dir :: "pystr \<Rightarrow> 'k \<Rightarrow> bool"
  is_file :: "pystr \<Rightarrow> 'k \<Rightarrow> bool"
  environ_resource_root :: "'k \<Rightarrow> pystr option"
  packaged_resources :: pystr
  str_value :: "pyval \<Rightarrow> pystr res"
  logical_flag_value :: "int \<Rightarrow> int res"
  recursion_limit :: nat

section \<open>Objects\<close>

record database =
  d_path :: pystr
  d_mode :: open_mode
  d_settings :: settings
  d_worker_count :: int
  d_timeout :: timeout
  d_resource_root :: "pystr option"
  d_executable_path :: "pystr option"
  d_result_buffer_limit :: int
  d_maximum_value_size :: int
  d_event_queue_capacity :: int
  d_handle :: "handle option"
  d_owner_pid :: "int option"
  d_closed :: bool
  d_connections :: "nat list"
  d_operations :: "nat list"
  d_event_handlers :: "int option \<Rightarrow> handler list"
  d_request_event_handlers :: "int \<Rightarrow> handler list"
  d_event_backlog :: "event list"

record connection =
  c_database :: nat
  c_handle :: "handle option"
  c_autocommit :: bool
  c_timeout :: timeout
  c_closed :: bool
  c_close_pending :: bool
  c_implicit_release :: "nat option"
  c_scope_active :: bool
  c_gate :: bool
  c_cursors :: "nat list"
  c_requests :: "nat list"
  c_statements :: "nat list"

record cursor =
  cu_connection :: nat
  cu_arraysize :: int
  cu_result :: "result option"
  cu_closed :: bool
  cu_rowcount :: int
  cu_description :: "pyval list list option"

record request =
  r_connection :: nat
  r_handle :: "handle option"
  r_closed :: bool
  r_deadline :: "pyfloat option"
  r_on_notice :: "handler option"
  r_copy :: "nat option"
  r_owns_gate :: bool
  r_id :: int
  r_waitable :: int

text \<open>The state of the generator of a row stream.\<close>

datatype chunk_state = ChunksFresh | ChunksSuspended | ChunksDone

record stream =
  s_request :: nat
  s_columns :: "column list"
  s_command_status :: "pystr option"
  s_rowcount :: int
  s_rows :: "row list"
  s_chunks :: chunk_state
  s_rows_seen :: int
  s_closed :: bool

datatype copy_kind = CopyIn | CopyOut

record copy =
  cp_kind :: copy_kind
  cp_request :: nat
  cp_handle :: "handle option"
  cp_closed :: bool
  cp_io_ended :: bool
  cp_command_result :: "result option"

record statement =
  st_connection :: nat
  st_sql :: pystr
  st_handle :: "handle option"
  st_closed :: bool
  st_description :: "(int list \<times> column list) option"

record operation =
  o_database :: nat
  o_handle :: "handle option"
  o_closed :: bool
  o_waitable :: int

record scope =
  sc_connection :: nat
  sc_entered :: bool
  sc_used :: bool

record configuration =
  cf_settings :: settings
  cf_worker_count :: int
  cf_resource_root :: "pystr option"
  cf_executable_path :: "pystr option"

record entry =
  e_key :: "int \<times> pystr"
  e_database :: nat
  e_configuration :: configuration
  e_leases :: int
  e_closing :: bool

section \<open>The world\<close>

datatype ncall =
    InstanceOpen pystr open_options
  | InstanceClose handle int int
  | InstanceNextEvent handle int
  | ConnectionOpen handle session_options
  | ConnectionClose handle int
  | Execute handle pystr nparams int
  | ExecuteArrow handle pystr nparams int int
  | ConnectionCancel handle
  | RequestStart handle pystr nparams int int bool
  | RequestNext handle int
  | RequestProgress handle
  | RequestCancel handle
  | RequestClose handle
  | CopyWrite handle pybytes
  | CopyRead handle int
  | CopyFinish handle "pystr option"
  | CopyAbort handle "pystr option"
  | CopyClose handle int
  | StatementPrepare handle pystr "int list option"
  | StatementExecute handle nparams int int
  | StatementClose handle
  | OperationStart handle
  | OperationProgress handle
  | OperationCancel handle
  | OperationClose handle
  | Query handle

record 'k world =
  kernel :: 'k
  calls :: "ncall list"
  warned :: "pystr list"
  codec_registry :: codecs
  next_id :: nat
  databases :: "nat \<Rightarrow> database"
  connections :: "nat \<Rightarrow> connection"
  cursors :: "nat \<Rightarrow> cursor"
  requests :: "nat \<Rightarrow> request"
  streams :: "nat \<Rightarrow> stream"
  copies :: "nat \<Rightarrow> copy"
  statements :: "nat \<Rightarrow> statement"
  operations :: "nat \<Rightarrow> operation"
  scopes :: "nat \<Rightarrow> scope"
  entries :: "nat \<Rightarrow> entry"
  registry :: "int \<times> pystr \<Rightarrow> nat option"

type_synonym ('k, 'a) call = "('k world, exc, 'a) py"

end
