(* ===== verification/Objects.thy ===== *)
theory Objects
  imports Kernel
begin

text \<open>
  How the operations touch the world: native and host calls, allocation, updates of an object,
  the request gate of a connection, and the helpers of \<^verbatim>\<open>_api.py\<close> that keep a primary
  exception when a cleanup fails. For each there are rules of the two program logics.
\<close>

named_theorems obj_defs \<open>definitions of the updates of objects\<close>

section \<open>Native and host calls\<close>

definition native :: "ncall \<Rightarrow> ('k, 'a) host_fun \<Rightarrow> ('k, 'a) call" where
  "native c f = (\<lambda>w. case f (kernel w) of (r, k) \<Rightarrow>
     lift r (w\<lparr>kernel := k, calls := calls w @ [c]\<rparr>))"

definition host_call :: "('k, 'a) host_fun \<Rightarrow> ('k, 'a) call" where
  "host_call f = (\<lambda>w. case f (kernel w) of (r, k) \<Rightarrow> lift r (w\<lparr>kernel := k\<rparr>))"

definition host_get :: "('k \<Rightarrow> 'a) \<Rightarrow> ('k, 'a) call" where
  "host_get f = gets (\<lambda>w. f (kernel w))"

text \<open>The C functions reject a handle that is \<^verbatim>\<open>None\<close>.\<close>

definition with_handle :: "handle option \<Rightarrow> (handle \<Rightarrow> ('k, 'a) call) \<Rightarrow> ('k, 'a) call" where
  "with_handle h f =
     (case h of
        None \<Rightarrow> raise (ValueErr (lit ''PyCapsule_GetPointer called with invalid PyCapsule object''))
      | Some x \<Rightarrow> f x)"

text \<open>\<^verbatim>\<open>time.monotonic()\<close>\<close>

definition now :: "'k host \<Rightarrow> ('k, rat) call" where
  "now H = (\<lambda>w. case monotonic H (kernel w) of (t, k) \<Rightarrow> (Val t, w\<lparr>kernel := k\<rparr>))"

section \<open>Updates of objects\<close>

definition alloc :: "('k, nat) call" where
  "alloc = (\<lambda>w. (Val (next_id w), w\<lparr>next_id := next_id w + 1\<rparr>))"

definition set_database :: "nat \<Rightarrow> (database \<Rightarrow> database) \<Rightarrow> ('k, unit) call" where
  "set_database i f = modify (\<lambda>w. w\<lparr>databases := (databases w)(i := f (databases w i))\<rparr>)"

definition set_connection :: "nat \<Rightarrow> (connection \<Rightarrow> connection) \<Rightarrow> ('k, unit) call" where
  "set_connection i f = modify (\<lambda>w. w\<lparr>connections := (connections w)(i := f (connections w i))\<rparr>)"

definition set_cursor :: "nat \<Rightarrow> (cursor \<Rightarrow> cursor) \<Rightarrow> ('k, unit) call" where
  "set_cursor i f = modify (\<lambda>w. w\<lparr>cursors := (cursors w)(i := f (cursors w i))\<rparr>)"

definition set_request :: "nat \<Rightarrow> (request \<Rightarrow> request) \<Rightarrow> ('k, unit) call" where
  "set_request i f = modify (\<lambda>w. w\<lparr>requests := (requests w)(i := f (requests w i))\<rparr>)"

definition set_stream :: "nat \<Rightarrow> (stream \<Rightarrow> stream) \<Rightarrow> ('k, unit) call" where
  "set_stream i f = modify (\<lambda>w. w\<lparr>streams := (streams w)(i := f (streams w i))\<rparr>)"

definition set_copy :: "nat \<Rightarrow> (copy \<Rightarrow> copy) \<Rightarrow> ('k, unit) call" where
  "set_copy i f = modify (\<lambda>w. w\<lparr>copies := (copies w)(i := f (copies w i))\<rparr>)"

definition set_statement :: "nat \<Rightarrow> (statement \<Rightarrow> statement) \<Rightarrow> ('k, unit) call" where
  "set_statement i f = modify (\<lambda>w. w\<lparr>statements := (statements w)(i := f (statements w i))\<rparr>)"

definition set_operation :: "nat \<Rightarrow> (operation \<Rightarrow> operation) \<Rightarrow> ('k, unit) call" where
  "set_operation i f = modify (\<lambda>w. w\<lparr>operations := (operations w)(i := f (operations w i))\<rparr>)"

definition set_scope :: "nat \<Rightarrow> (scope \<Rightarrow> scope) \<Rightarrow> ('k, unit) call" where
  "set_scope i f = modify (\<lambda>w. w\<lparr>scopes := (scopes w)(i := f (scopes w i))\<rparr>)"

definition set_entry :: "nat \<Rightarrow> (entry \<Rightarrow> entry) \<Rightarrow> ('k, unit) call" where
  "set_entry i f = modify (\<lambda>w. w\<lparr>entries := (entries w)(i := f (entries w i))\<rparr>)"

definition set_registry :: "int \<times> pystr \<Rightarrow> nat option \<Rightarrow> ('k, unit) call" where
  "set_registry k v = modify (\<lambda>w. w\<lparr>registry := (registry w)(k := v)\<rparr>)"

lemmas [obj_defs] = set_database_def set_connection_def set_cursor_def set_request_def set_stream_def
  set_copy_def set_statement_def set_operation_def set_scope_def set_entry_def set_registry_def

section \<open>The request gate\<close>

text \<open>\<^verbatim>\<open>threading.Lock\<close>: taken by one request (or one short native call) at a time.\<close>

definition gate_acquire :: "nat \<Rightarrow> ('k, unit) call" where
  "gate_acquire c =
     bind (gets (\<lambda>w. c_gate (connections w c))) (\<lambda>held.
       if held then hang Deadlock else set_connection c (\<lambda>x. x\<lparr>c_gate := True\<rparr>))"

definition gate_release :: "nat \<Rightarrow> ('k, unit) call" where
  "gate_release c =
     bind (gets (\<lambda>w. c_gate (connections w c))) (\<lambda>held.
       if held then set_connection c (\<lambda>x. x\<lparr>c_gate := False\<rparr>)
       else raise (RuntimeErr (lit ''release unlocked lock'')))"

definition with_gate :: "nat \<Rightarrow> ('k, 'a) call \<Rightarrow> ('k, 'a) call" where
  "with_gate c m = seq (gate_acquire c) (tryfinally m (\<lambda>_. gate_release c))"

section \<open>Cleanup that keeps the primary exception\<close>

text \<open>
  \<^verbatim>\<open>_emit_resource_warning\<close>: a warning filter may turn the warning into an exception, which is
  swallowed; what is left of it is the message.
\<close>

definition emit_resource_warning :: "pystr \<Rightarrow> ('k, unit) call" where
  "emit_resource_warning msg = modify (\<lambda>w. w\<lparr>warned := warned w @ [msg]\<rparr>)"

definition warn_resource_leak :: "string \<Rightarrow> ('k, unit) call" where
  "warn_resource_leak msg = emit_resource_warning (lit msg)"

definition exc_name :: "exc \<Rightarrow> pystr" where
  "exc_name e =
     (case e of
        PgError c _ \<Rightarrow> (case c of
            Error \<Rightarrow> lit ''Error'' | InterfaceError \<Rightarrow> lit ''InterfaceError'' | DatabaseError \<Rightarrow> lit ''DatabaseError''
          | DataError \<Rightarrow> lit ''DataError'' | OperationalError \<Rightarrow> lit ''OperationalError''
          | IntegrityError \<Rightarrow> lit ''IntegrityError'' | InternalError \<Rightarrow> lit ''InternalError''
          | ProgrammingError \<Rightarrow> lit ''ProgrammingError'' | NotSupportedError \<Rightarrow> lit ''NotSupportedError''
          | QueryCanceledError \<Rightarrow> lit ''QueryCanceledError'' | QueryTimeoutError \<Rightarrow> lit ''QueryTimeoutError''
          | ForkedProcessError \<Rightarrow> lit ''ForkedProcessError'')
      | NativeError _ \<Rightarrow> lit ''NativeError'' | TypeErr _ \<Rightarrow> lit ''TypeError'' | ValueErr _ \<Rightarrow> lit ''ValueError''
      | UnicodeErr _ \<Rightarrow> lit ''UnicodeError'' | OverflowErr _ \<Rightarrow> lit ''OverflowError''
      | RuntimeErr _ \<Rightarrow> lit ''RuntimeError'' | KeyErr _ \<Rightarrow> lit ''KeyError'' | AssertionErr \<Rightarrow> lit ''AssertionError''
      | DecimalInvalid \<Rightarrow> lit ''InvalidOperation'' | BlockingIOErr _ \<Rightarrow> lit ''BlockingIOError''
      | StopIter \<Rightarrow> lit ''StopIteration'' | OtherExc _ n \<Rightarrow> n)"

definition warn_preserved_cleanup_error :: "string \<Rightarrow> exc \<Rightarrow> exc option \<Rightarrow> ('k, unit) call" where
  "warn_preserved_cleanup_error action cleanup_error primary_error =
     emit_resource_warning (lit ''PostGamma '' @ lit action @ lit '' failed'' @
       (case primary_error of None \<Rightarrow> [] | Some e \<Rightarrow> lit '' while preserving '' @ exc_name e) @
       lit '': '' @ exc_name cleanup_error)"

definition cleanup_preserving :: "string \<Rightarrow> ('k, unit) call \<Rightarrow> exc option \<Rightarrow> ('k, unit) call" where
  "cleanup_preserving action cleanup primary_error =
     catch cleanup (\<lambda>cleanup_error.
       if primary_error = None then raise cleanup_error
       else warn_preserved_cleanup_error action cleanup_error primary_error)"

text \<open>\<^verbatim>\<open>with manager as x: body\<close>: an exception that \<^verbatim>\<open>__exit__\<close> raises replaces the body's.\<close>

definition with_stmt ::
  "('k, 'x) call \<Rightarrow> (exc option \<Rightarrow> ('k, unit) call) \<Rightarrow> ('x \<Rightarrow> ('k, 'a) call) \<Rightarrow> ('k, 'a) call" where
  "with_stmt enter exit body = bind enter (\<lambda>x. tryfinally (body x) exit)"

text \<open>The interpreter's limit on nested calls; \<^verbatim>\<open>RecursionError\<close> is a \<^verbatim>\<open>RuntimeError\<close>.\<close>

definition recursion_error :: exc where
  "recursion_error = RuntimeErr (lit ''maximum recursion depth exceeded'')"

section \<open>\<^verbatim>\<open>OpenMode.parse\<close>\<close>

datatype mode_arg = ModeMember open_mode | ModeName pystr | ModeOther

definition open_mode_parse :: "mode_arg \<Rightarrow> open_mode res" where
  "open_mode_parse v =
     (case v of
        ModeMember m \<Rightarrow> Inr m
      | ModeOther \<Rightarrow> Inl (TypeErr (lit ''mode must be an OpenMode or string''))
      | ModeName s \<Rightarrow>
         (if s = lit ''open_or_create'' then Inr OPEN_OR_CREATE
          else if s = lit ''open_existing'' then Inr OPEN_EXISTING
          else if s = lit ''create_new'' then Inr CREATE_NEW
          else Inl (ValueErr (lit ''mode must be one of: open_or_create, open_existing, create_new''))))"

section \<open>Rules\<close>

lemma native_eq_Val:
  "native c f w = (Val a, w') \<longleftrightarrow>
     (\<exists>k. f (kernel w) = (Inr a, k) \<and> w' = w\<lparr>kernel := k, calls := calls w @ [c]\<rparr>)"
  by (auto simp: native_def lift_def split: prod.splits sum.splits)

lemma native_eq_Exc:
  "native c f w = (Exc e, w') \<longleftrightarrow>
     (\<exists>k. f (kernel w) = (Inl e, k) \<and> w' = w\<lparr>kernel := k, calls := calls w @ [c]\<rparr>)"
  by (auto simp: native_def lift_def split: prod.splits sum.splits)

lemma cleanup_None: "cleanup_preserving a m None = m"
  by (auto simp: cleanup_preserving_def catch_def raise_def fun_eq_iff split: prod.splits outcome.splits)

lemma native_returns: "native c f w \<noteq> (Hang h, w')"
  by (auto simp: native_def lift_def split: prod.splits sum.splits)

lemma keeps_native:
  "(\<And>w k. I w \<Longrightarrow> I (w\<lparr>kernel := k, calls := calls w @ [c]\<rparr>)) \<Longrightarrow> keeps I (native c f)"
  by (auto simp: keeps_def native_def lift_def split: prod.splits sum.splits)

lemma keeps_host_call:
  "(\<And>w k. I w \<Longrightarrow> I (w\<lparr>kernel := k\<rparr>)) \<Longrightarrow> keeps I (host_call f)"
  by (auto simp: keeps_def host_call_def lift_def split: prod.splits sum.splits)

lemma keeps_now: "(\<And>w k. I w \<Longrightarrow> I (w\<lparr>kernel := k\<rparr>)) \<Longrightarrow> keeps I (now H)"
  by (auto simp: keeps_def now_def split: prod.splits)

lemma keeps_host_get [keeps_rules]: "keeps I (host_get f)"
  unfolding host_get_def by (rule keeps_rules)

lemma keeps_with_handle [keeps_rules]: "(\<And>x. keeps I (f x)) \<Longrightarrow> keeps I (with_handle h f)"
  unfolding with_handle_def by (intro keeps_rules)

lemma keeps_alloc: "(\<And>w. I w \<Longrightarrow> I (w\<lparr>next_id := next_id w + 1\<rparr>)) \<Longrightarrow> keeps I alloc"
  by (simp add: keeps_def alloc_def)

lemma keeps_emit:
  "(\<And>w m. I w \<Longrightarrow> I (w\<lparr>warned := warned w @ [m]\<rparr>)) \<Longrightarrow> keeps I (emit_resource_warning s)"
  by (simp add: emit_resource_warning_def keeps_modify)

lemma keeps_warn:
  "(\<And>w m. I w \<Longrightarrow> I (w\<lparr>warned := warned w @ [m]\<rparr>)) \<Longrightarrow> keeps I (warn_resource_leak s)"
  "(\<And>w m. I w \<Longrightarrow> I (w\<lparr>warned := warned w @ [m]\<rparr>)) \<Longrightarrow> keeps I (warn_preserved_cleanup_error a e p)"
  by (simp_all add: warn_resource_leak_def warn_preserved_cleanup_error_def keeps_emit)

lemma keeps_cleanup_preserving:
  "keeps I m \<Longrightarrow> (\<And>w m. I w \<Longrightarrow> I (w\<lparr>warned := warned w @ [m]\<rparr>)) \<Longrightarrow> keeps I (cleanup_preserving a m p)"
  unfolding cleanup_preserving_def by (intro keeps_rules keeps_warn) auto

lemma keeps_with_stmt [keeps_rules]:
  "keeps I enter \<Longrightarrow> (\<And>e. keeps I (exit e)) \<Longrightarrow> (\<And>x. keeps I (body x)) \<Longrightarrow> keeps I (with_stmt enter exit body)"
  unfolding with_stmt_def by (intro keeps_rules)

lemma keeps_set_connection:
  "(\<And>w. I w \<Longrightarrow> I (w\<lparr>connections := (connections w)(i := f (connections w i))\<rparr>)) \<Longrightarrow> keeps I (set_connection i f)"
  by (simp add: set_connection_def keeps_modify)

lemma keeps_gate:
  assumes "\<And>w b. I w \<Longrightarrow> I (w\<lparr>connections := (connections w)(c := (connections w c)\<lparr>c_gate := b\<rparr>)\<rparr>)"
  shows "keeps I (gate_acquire c)" and "keeps I (gate_release c)"
  unfolding gate_acquire_def gate_release_def using assms by (auto intro!: keeps_rules keeps_set_connection)

lemma keeps_with_gate:
  assumes "\<And>w b. I w \<Longrightarrow> I (w\<lparr>connections := (connections w)(c := (connections w c)\<lparr>c_gate := b\<rparr>)\<rparr>)"
    and "keeps I m"
  shows "keeps I (with_gate c m)"
  unfolding with_gate_def using assms by (auto intro!: keeps_rules keeps_gate)

text \<open>
  When a cleanup is run for a primary exception, the cleanup never raises: if it fails, its
  failure becomes one warning; without a primary exception the cleanup's own outcome stands.
\<close>

theorem cleanup_preserving_primary:
  "case cleanup w of
     (Val _, w') \<Rightarrow> cleanup_preserving action cleanup p w = (Val (), w')
   | (Exc e, w') \<Rightarrow>
      (case p of
         None \<Rightarrow> cleanup_preserving action cleanup p w = (Exc e, w')
       | Some _ \<Rightarrow> \<exists>m. cleanup_preserving action cleanup p w = (Val (), w'\<lparr>warned := warned w' @ [m]\<rparr>))
   | (Hang h, w') \<Rightarrow> cleanup_preserving action cleanup p w = (Hang h, w')"
  by (cases "cleanup w")
     (auto simp: cleanup_preserving_def catch_def raise_def warn_preserved_cleanup_error_def
       emit_resource_warning_def modify_def split: outcome.splits option.splits)

end
