(* ===== verification/Databases.thy ===== *)
theory Databases
  imports Objects
begin

text \<open>
  The class \<^verbatim>\<open>Database\<close> of \<^verbatim>\<open>_api.py\<close> except \<^verbatim>\<open>connect\<close>, \<^verbatim>\<open>execute\<close> and \<^verbatim>\<open>close\<close> (which need
  connections): construction, the lazy opening of the instance with its guards, telemetry,
  and the event queue with its handlers. The loop that drains the queue ends only if the
  queue runs empty or the maximum is reached, so it takes fuel.
\<close>

section \<open>Resources\<close>

definition interface_error_at :: "string \<Rightarrow> pystr \<Rightarrow> exc" where
  "interface_error_at m p = PgError InterfaceError (plain (lit m @ p))"

definition resolve_runtime_paths ::
  "'k host \<Rightarrow> pystr option \<Rightarrow> pystr option \<Rightarrow> ('k, pystr \<times> pystr) call" where
  "resolve_runtime_paths H resource_root executable_path =
     bind (host_get (\<lambda>k.
       case (if resource_root \<noteq> None \<and> resource_root \<noteq> Some [] then resource_root
             else environ_resource_root H k) of
         Some r \<Rightarrow> Some r
       | None \<Rightarrow> (if is_dir H (packaged_resources H) k then Some (packaged_resources H) else None)))
     (\<lambda>root_value. case root_value of
        None \<Rightarrow> raise (interface_error
          ''PostGamma runtime resources are unavailable; install a binary wheel or set POSTGAMMA_RESOURCE_ROOT'')
      | Some r \<Rightarrow>
          bind (host_get (realpath H r)) (\<lambda>root.
          bind (host_get (\<lambda>k. case executable_path of
              Some e \<Rightarrow> realpath H e k
            | None \<Rightarrow> join_path H root [lit ''bin'', lit ''postgres''])) (\<lambda>executable.
          bind (host_get (is_file H (join_path H root [lit ''share'', lit ''postgres.bki'']))) (\<lambda>bki.
          if \<not> bki then raise (interface_error_at ''invalid PostGamma resource root: '' root)
          else bind (host_get (is_file H executable)) (\<lambda>exe.
          if \<not> exe then raise (interface_error_at ''PostGamma executable identity is missing: '' executable)
          else ret (root, executable))))))"

section \<open>Construction\<close>

record database_args =
  da_path :: pystr
  da_mode :: mode_arg
  da_settings :: pyval
  da_worker_count :: pyval
  da_timeout :: pyval
  da_resource_root :: "pystr option"
  da_executable_path :: "pystr option"
  da_result_buffer_limit :: pyval
  da_maximum_value_size :: pyval
  da_event_queue_capacity :: pyval

definition Database_init :: "'k host \<Rightarrow> database_args \<Rightarrow> ('k, nat) call" where
  "Database_init H a =
     bind (lift (open_mode_parse (da_mode a))) (\<lambda>mode.
     bind (lift (normalize_settings (str_value H) (da_settings a))) (\<lambda>settings.
     bind (lift (positive_int (da_worker_count a) ''worker_count'')) (\<lambda>worker_count.
     bind (lift (normalize_timeout (lib H) (da_timeout a))) (\<lambda>timeout.
     bind (lift (nonnegative_int (da_result_buffer_limit a) ''result_buffer_limit'')) (\<lambda>limit.
     bind (lift (nonnegative_int (da_maximum_value_size a) ''maximum_value_size'')) (\<lambda>maximum.
     bind (lift (positive_int (da_event_queue_capacity a) ''event_queue_capacity'')) (\<lambda>capacity.
     bind alloc (\<lambda>db.
     seq (set_database db (\<lambda>_.
       \<lparr>d_path = da_path a, d_mode = mode, d_settings = settings, d_worker_count = worker_count,
        d_timeout = timeout, d_resource_root = da_resource_root a,
        d_executable_path = da_executable_path a, d_result_buffer_limit = limit,
        d_maximum_value_size = maximum, d_event_queue_capacity = capacity, d_handle = None,
        d_owner_pid = None, d_closed = False, d_connections = [], d_operations = [],
        d_event_handlers = (\<lambda>_. []), d_request_event_handlers = (\<lambda>_. []), d_event_backlog = []\<rparr>))
     (ret db)))))))))"

definition Database_closed :: "nat \<Rightarrow> ('k, bool) call" where
  "Database_closed db = gets (\<lambda>w. d_closed (databases w db))"

definition Database_opened :: "nat \<Rightarrow> ('k, bool) call" where
  "Database_opened db = gets (\<lambda>w. d_handle (databases w db) \<noteq> None \<and> \<not> d_closed (databases w db))"

section \<open>Lazy opening\<close>

definition database_forked :: exc where
  "database_forked = PgError ForkedProcessError (plain (lit
     ''PostGamma database was inherited across fork; create a new Database in the child process''))"

definition Database_ensure_open :: "'k host \<Rightarrow> nat \<Rightarrow> ('k, handle) call" where
  "Database_ensure_open H db =
     bind (gets (\<lambda>w. databases w db)) (\<lambda>d.
     bind (host_get (getpid H)) (\<lambda>pid.
     if d_closed d then raise (interface_error ''PostGamma database is closed'')
     else if d_owner_pid d \<noteq> None \<and> d_owner_pid d \<noteq> Some pid then raise database_forked
     else case d_handle d of
       Some h \<Rightarrow> ret h
     | None \<Rightarrow>
         bind (resolve_runtime_paths H (d_resource_root d) (d_executable_path d)) (\<lambda>(root, executable).
         let options = \<lparr>oo_create = (d_mode d \<noteq> OPEN_EXISTING), oo_create_new = (d_mode d = CREATE_NEW),
               oo_executable_path = executable, oo_resource_root = root, oo_settings = d_settings d,
               oo_worker_count = d_worker_count d, oo_result_buffer_limit = d_result_buffer_limit d,
               oo_maximum_value_size = d_maximum_value_size d,
               oo_event_queue_capacity = d_event_queue_capacity d\<rparr> in
         bind (translating (native (InstanceOpen (d_path d) options) (instance_open H (d_path d) options))) (\<lambda>h.
         seq (set_database db (\<lambda>x. x\<lparr>d_handle := Some h\<rparr>))
         (bind (host_get (getpid H)) (\<lambda>pid'.
         seq (set_database db (\<lambda>x. x\<lparr>d_owner_pid := Some pid'\<rparr>)) (ret h)))))))"

definition Database_open :: "'k host \<Rightarrow> nat \<Rightarrow> ('k, nat) call" where
  "Database_open H db = seq (Database_ensure_open H db) (ret db)"

definition Database_telemetry :: "'k host \<Rightarrow> nat \<Rightarrow> ('k, (pystr \<times> int) list) call" where
  "Database_telemetry H db =
     bind (Database_ensure_open H db) (\<lambda>h. translating (native (Query h) (instance_telemetry H h)))"

definition Database_waitable :: "'k host \<Rightarrow> nat \<Rightarrow> ('k, int) call" where
  "Database_waitable H db =
     bind (Database_ensure_open H db) (\<lambda>h. translating (native (Query h) (instance_waitable H h)))"

section \<open>Events\<close>

definition Database_next_event :: "'k host \<Rightarrow> nat \<Rightarrow> pyval \<Rightarrow> ('k, event option) call" where
  "Database_next_event H db timeout =
     bind (gets (\<lambda>w. d_event_backlog (databases w db))) (\<lambda>backlog.
     case backlog of
       e # es \<Rightarrow> seq (set_database db (\<lambda>x. x\<lparr>d_event_backlog := es\<rparr>)) (ret (Some e))
     | [] \<Rightarrow>
         bind (Database_ensure_open H db) (\<lambda>h.
         bind (lift (timeout_milliseconds (lib H) timeout)) (\<lambda>ms.
         bind (translating (native (InstanceNextEvent h ms) (instance_next_event H h ms))) (\<lambda>v.
         case v of
           None \<Rightarrow> ret None
         | Some n \<Rightarrow> bind (lift (event_from_native n)) (\<lambda>e. ret (Some e))))))"

text \<open>An argument that may fail to be callable.\<close>

datatype handler_arg = NotCallable | Callable handler

definition Database_add_event_handler :: "nat \<Rightarrow> handler_arg \<Rightarrow> int option \<Rightarrow> ('k, unit) call" where
  "Database_add_event_handler db handler kind =
     (case handler of
        NotCallable \<Rightarrow> raise (TypeErr (lit ''event handler must be callable''))
      | Callable h \<Rightarrow> set_database db (\<lambda>x. x\<lparr>d_event_handlers :=
          (d_event_handlers x)(kind := d_event_handlers x kind @ [h])\<rparr>))"

definition Database_remove_event_handler :: "nat \<Rightarrow> handler \<Rightarrow> int option \<Rightarrow> ('k, unit) call" where
  "Database_remove_event_handler db handler kind =
     set_database db (\<lambda>x. x\<lparr>d_event_handlers :=
       (d_event_handlers x)(kind := remove1 handler (d_event_handlers x kind))\<rparr>)"

definition event_receivers :: "database \<Rightarrow> event \<Rightarrow> handler list" where
  "event_receivers d e =
     d_event_handlers d None @ d_event_handlers d (Some (event_kind_value (kind_of_event e))) @
     (if event_kind_value (kind_of_event e) = EVENT_NOTICE
      then d_request_event_handlers d (request_id e) else [])"

fun dispatch_loop :: "'k host \<Rightarrow> nat \<Rightarrow> nat \<Rightarrow> int option \<Rightarrow> int \<Rightarrow> ('k, int) call" where
  "dispatch_loop H fuel db maximum dispatched =
     (if maximum \<noteq> None \<and> the maximum \<le> dispatched then ret dispatched
      else case fuel of
        0 \<Rightarrow> hang OutOfFuel
      | Suc n \<Rightarrow>
          bind (Database_ensure_open H db) (\<lambda>h.
          bind (translating (native (InstanceNextEvent h 0) (instance_next_event H h 0))) (\<lambda>v.
          case v of
            None \<Rightarrow> ret dispatched
          | Some nv \<Rightarrow>
              bind (lift (event_from_native nv)) (\<lambda>event.
              bind (gets (\<lambda>w. event_receivers (databases w db) event)) (\<lambda>handlers.
              if handlers = []
              then seq (set_database db (\<lambda>x. x\<lparr>d_event_backlog := d_event_backlog x @ [event]\<rparr>))
                     (dispatch_loop H n db maximum (dispatched + 1))
              else seq (for_each handlers (\<lambda>handler. host_call (call_handler H handler event)))
                     (dispatch_loop H n db maximum (dispatched + 1)))))))"

declare dispatch_loop.simps [simp del]

definition Database_dispatch_events :: "'k host \<Rightarrow> nat \<Rightarrow> nat \<Rightarrow> pyval \<Rightarrow> ('k, int) call" where
  "Database_dispatch_events H fuel db maximum =
     bind (if maximum = PNone then ret None
           else bind (lift (nonnegative_int maximum ''maximum'')) (\<lambda>m. ret (Some m)))
       (\<lambda>m. dispatch_loop H fuel db m 0)"

definition Database_bundled_extensions :: "'k host \<Rightarrow> ('k, bundled_extension list) call" where
  "Database_bundled_extensions H = translating (native (Query 0) (bundled_extensions_native H))"

definition Database_del :: "nat \<Rightarrow> ('k, unit) call" where
  "Database_del db =
     bind (gets (\<lambda>w. databases w db)) (\<lambda>d.
       onlyif (d_handle d \<noteq> None \<and> \<not> d_closed d) (warn_resource_leak ''unclosed PostGamma Database''))"

end
