(* ===== verification/Sql_Text.thy ===== *)
theory Sql_Text
  imports Pg_Errors
begin

text \<open>
  \<^verbatim>\<open>_sql.py\<close>: the rewriting of PEP 249 numeric markers (\<^verbatim>\<open>:1\<close>) into PostgreSQL markers
  (\<^verbatim>\<open>$1\<close>) and the recognition of transaction-control statements. The scanners work on
  positions in the operation, as in the source; each loop is a function with a termination
  proof.
\<close>

section \<open>Scanners\<close>

definition slice :: "pystr \<Rightarrow> nat \<Rightarrow> nat \<Rightarrow> pystr" where
  "slice s i j = take (j - i) (drop i s)"

definition has_escape_string_prefix :: "unidb \<Rightarrow> pystr \<Rightarrow> nat \<Rightarrow> bool" where
  "has_escape_string_prefix U operation quote_position =
     (if quote_position = 0 \<or> operation ! (quote_position - 1) \<notin> set (lit ''Ee'') then False
      else if quote_position = 1 then True
      else let previous = operation ! (quote_position - 2)
           in \<not> (isalnum U previous \<or> previous \<in> set (lit ''_$'')))"

text \<open>The loop of \<^verbatim>\<open>_copy_quoted\<close>: the position after the closing delimiter.\<close>

function quoted_end :: "pystr \<Rightarrow> cp \<Rightarrow> bool \<Rightarrow> nat \<Rightarrow> nat" where
  "quoted_end operation delimiter backslash position =
     (if position < length operation then
        (if backslash \<and> operation ! position = 92 \<and> position + 1 < length operation
           then quoted_end operation delimiter backslash (position + 2)
         else if operation ! position = delimiter then
           (if position + 1 < length operation \<and> operation ! (position + 1) = delimiter
              then quoted_end operation delimiter backslash (position + 2)
            else position + 1)
         else quoted_end operation delimiter backslash (position + 1))
      else position)"
  by pat_completeness auto
termination
  by (relation "measure (\<lambda>(s, d, b, i). length s - i)") auto

definition copy_quoted :: "pystr \<Rightarrow> nat \<Rightarrow> cp \<Rightarrow> bool \<Rightarrow> pystr \<times> nat" where
  "copy_quoted operation position delimiter backslash =
     (let e = quoted_end operation delimiter backslash (position + 1)
      in (slice operation position e, e))"

function comment_loop :: "pystr \<Rightarrow> nat \<Rightarrow> nat \<Rightarrow> nat" where
  "comment_loop operation depth position =
     (if position < length operation \<and> depth \<noteq> 0 then
        (if startswith_at operation (lit ''/*'') position
           then comment_loop operation (depth + 1) (position + 2)
         else if startswith_at operation (lit ''*/'') position
           then comment_loop operation (depth - 1) (position + 2)
         else comment_loop operation depth (position + 1))
      else position)"
  by pat_completeness auto
termination
  by (relation "measure (\<lambda>(s, d, i). length s - i)") auto

definition block_comment_end :: "pystr \<Rightarrow> nat \<Rightarrow> nat" where
  "block_comment_end operation position = comment_loop operation 1 (position + 2)"

definition copy_block_comment :: "pystr \<Rightarrow> nat \<Rightarrow> pystr \<times> nat" where
  "copy_block_comment operation position =
     (let e = block_comment_end operation position in (slice operation position e, e))"

text \<open>\<^verbatim>\<open>while cursor < length and p(operation[cursor]): cursor += 1\<close>\<close>

function scan_while :: "(cp \<Rightarrow> bool) \<Rightarrow> pystr \<Rightarrow> nat \<Rightarrow> nat" where
  "scan_while p operation cursor =
     (if cursor < length operation \<and> p (operation ! cursor)
      then scan_while p operation (cursor + 1) else cursor)"
  by pat_completeness auto
termination
  by (relation "measure (\<lambda>(p, s, i). length s - i)") auto

declare quoted_end.simps [simp del] comment_loop.simps [simp del] scan_while.simps [simp del]

definition dollar_quote_delimiter :: "unidb \<Rightarrow> pystr \<Rightarrow> nat \<Rightarrow> pystr option" where
  "dollar_quote_delimiter U operation position =
     (let cursor = position + 1; n = length operation in
      if cursor < n \<and> operation ! cursor = 36 then Some (lit ''$$'')
      else if cursor \<ge> n \<or> \<not> (isalpha U (operation ! cursor) \<or> operation ! cursor = 95) then None
      else
        (let cursor = scan_while (\<lambda>c. isalnum U c \<or> c = 95) operation (cursor + 1) in
         if cursor < n \<and> operation ! cursor = 36
         then Some (slice operation position (cursor + 1)) else None))"

section \<open>Positions only grow\<close>

lemma quoted_end_ge: "i \<le> quoted_end s d b i"
proof (induction s d b i rule: quoted_end.induct)
  case (1 s d b i)
  then show ?case by (subst quoted_end.simps) auto
qed

lemma quoted_end_le: "i \<le> length s \<Longrightarrow> quoted_end s d b i \<le> length s"
proof (induction s d b i rule: quoted_end.induct)
  case (1 s d b i)
  then show ?case by (subst quoted_end.simps) auto
qed

lemma comment_loop_ge: "i \<le> comment_loop s n i"
proof (induction s n i rule: comment_loop.induct)
  case (1 s n i)
  then show ?case by (subst comment_loop.simps) auto
qed

lemma startswith_at_length:
  assumes "startswith_at s p i" and "p \<noteq> []"
  shows "i + length p \<le> length s"
proof -
  from assms(1) have "length p = min (length s - i) (length p)"
    unfolding startswith_at_def by (metis length_drop length_take)
  with assms(2) show ?thesis by (cases p) auto
qed

lemma startswith_at_two: "startswith_at s [a, b] i \<Longrightarrow> Suc (Suc i) \<le> length s"
  using startswith_at_length [of s "[a, b]" i] by simp

lemma lit_two [simp]: "lit ''/*'' = [47, 42]" "lit ''*/'' = [42, 47]" "lit ''--'' = [45, 45]"
  "lit ''$$'' = [36, 36]"
  by (simp_all add: lit_def)

lemma comment_loop_le: "i \<le> length s \<Longrightarrow> comment_loop s n i \<le> length s"
proof (induction s n i rule: comment_loop.induct)
  case (1 s n i)
  then show ?case
    by (subst comment_loop.simps) (auto dest: startswith_at_two)
qed

lemma scan_while_ge: "i \<le> scan_while p s i"
proof (induction p s i rule: scan_while.induct)
  case (1 p s i)
  then show ?case by (subst scan_while.simps) auto
qed

lemma scan_while_le: "i \<le> length s \<Longrightarrow> scan_while p s i \<le> length s"
proof (induction p s i rule: scan_while.induct)
  case (1 p s i)
  then show ?case by (subst scan_while.simps) auto
qed

lemma scan_while_all: "i \<le> j \<Longrightarrow> j < scan_while p s i \<Longrightarrow> p (s ! j)"
proof (induction p s i rule: scan_while.induct)
  case (1 p s i)
  from "1.prems"(2) have step: "i < length s \<and> p (s ! i)" "j < scan_while p s (i + 1)"
    using "1.prems"(1) by (subst (asm) scan_while.simps; simp split: if_splits)+
  show ?case
  proof (cases "i = j")
    case True with step show ?thesis by simp
  next
    case False with "1.prems"(1) have "i + 1 \<le> j" by simp
    then show ?thesis by (rule "1.IH" [OF step(1) _ step(2)])
  qed
qed

lemma dollar_quote_delimiter_length:
  "dollar_quote_delimiter U s i = Some d \<Longrightarrow> 2 \<le> length d \<and> i + length d \<le> length s"
  using scan_while_ge [of "i + 2" "\<lambda>c. isalnum U c \<or> c = 95" s]
  by (auto simp: dollar_quote_delimiter_def Let_def slice_def split: if_splits)

section \<open>Numeric parameters\<close>

definition prepend :: "pystr \<Rightarrow> pystr res \<Rightarrow> pystr res" where
  "prepend p r = (case r of Inl e \<Rightarrow> Inl e | Inr s \<Rightarrow> Inr (p @ s))"

lemma prepend_simps [simp]: "prepend p (Inl e) = Inl e" "prepend p (Inr s) = Inr (p @ s)"
  by (simp_all add: prepend_def)

text \<open>
  The main loop: \<open>rewrite_from U operation position\<close> is what the loop still appends to the
  result from \<open>position\<close> on, or the exception it raises.
\<close>

function rewrite_from :: "unidb \<Rightarrow> pystr \<Rightarrow> nat \<Rightarrow> pystr res" where
  "rewrite_from U operation position =
    (if position < length operation then
      (let character = operation ! position in
       if character = 39 then
         (let (text, e) = copy_quoted operation position 39
                            (has_escape_string_prefix U operation position)
          in prepend text (rewrite_from U operation e))
       else if character = 34 then
         (let (text, e) = copy_quoted operation position 34 False
          in prepend text (rewrite_from U operation e))
       else if startswith_at operation (lit ''--'') position then
         (case find_from operation [10] (position + 2) of
            None \<Rightarrow> Inr (drop position operation)
          | Some e \<Rightarrow> prepend (slice operation position (e + 1)) (rewrite_from U operation (e + 1)))
       else if startswith_at operation (lit ''/*'') position then
         (let (text, e) = copy_block_comment operation position
          in prepend text (rewrite_from U operation e))
       else
         (case (if character = 36 then dollar_quote_delimiter U operation position else None) of
            Some delimiter \<Rightarrow>
              (case find_from operation delimiter (position + length delimiter) of
                 None \<Rightarrow> Inr (drop position operation)
               | Some e \<Rightarrow>
                   prepend (slice operation position (e + length delimiter))
                     (rewrite_from U operation (e + length delimiter)))
          | None \<Rightarrow>
             (if character = 58 \<and> position + 1 < length operation
                 \<and> isdigit U (operation ! (position + 1))
                 \<and> (position = 0 \<or> operation ! (position - 1) \<noteq> 58) then
                (let cursor = scan_while (isdigit U) operation (position + 1);
                     index = slice operation (position + 1) cursor
                 in if take 1 index = [48]
                    then Inl (ValueErr (lit ''PEP 249 numeric parameters are one-based''))
                    else prepend (36 # index) (rewrite_from U operation cursor))
              else prepend [character] (rewrite_from U operation (position + 1)))))
     else Inr [])"
  by pat_completeness auto
termination
proof (relation "measure (\<lambda>(U, s, i). length s - i)", goal_cases)
  case 1 then show ?case by simp
next
  case (2 U s i)
  then show ?case using quoted_end_ge [of "i + 1" s 39 "has_escape_string_prefix U s i"]
    by (auto simp: copy_quoted_def Let_def)
next
  case (3 U s i)
  then show ?case using quoted_end_ge [of "i + 1" s 34 False]
    by (auto simp: copy_quoted_def Let_def)
next
  case (4 U s i)
  then show ?case by (auto dest: find_from_Some)
next
  case (5 U s i)
  then show ?case using comment_loop_ge [of "i + 2" s 1]
    by (auto simp: copy_block_comment_def block_comment_end_def Let_def)
next
  case (6 U s i)
  have "i < scan_while (isdigit U) s (i + 1)"
    using scan_while_ge [of "i + 1" "isdigit U" s] by linarith
  with 6 show ?case by (simp add: diff_less_mono2)
next
  case (7 U s i)
  then show ?case by auto
next
  case (8 U s i)
  then show ?case by (auto dest!: find_from_Some dollar_quote_delimiter_length split: if_splits)
qed

declare rewrite_from.simps [simp del]

definition rewrite_numeric_parameters :: "unidb \<Rightarrow> pystr \<Rightarrow> pystr res" where
  "rewrite_numeric_parameters U operation = rewrite_from U operation 0"

section \<open>Transaction control\<close>

function skip_ignored :: "unidb \<Rightarrow> pystr \<Rightarrow> nat \<Rightarrow> nat" where
  "skip_ignored U operation position =
     (if position < length operation then
        (if isspace U (operation ! position) then skip_ignored U operation (position + 1)
         else if startswith_at operation (lit ''--'') position then
           (case find_from operation [10] (position + 2) of
              None \<Rightarrow> length operation
            | Some newline \<Rightarrow> skip_ignored U operation (newline + 1))
         else if startswith_at operation (lit ''/*'') position then
           skip_ignored U operation (block_comment_end operation position)
         else position)
      else position)"
  by pat_completeness auto
termination
proof (relation "measure (\<lambda>(U, s, i). length s - i)", goal_cases)
  case 1 then show ?case by simp
next
  case (2 U s i) then show ?case by auto
next
  case (3 U s i) then show ?case by (auto dest: find_from_Some)
next
  case (4 U s i)
  then show ?case using comment_loop_ge [of "i + 2" s 1]
    by (auto simp: block_comment_end_def)
qed

declare skip_ignored.simps [simp del]

definition read_keyword :: "unidb \<Rightarrow> pystr \<Rightarrow> nat \<Rightarrow> pystr option \<times> nat" where
  "read_keyword U operation position =
     (let e = scan_while (\<lambda>c. isalnum U c \<or> c \<in> set (lit ''_$'')) operation position in
      if e = position then (None, e) else (Some (upper U (slice operation position e)), e))"

definition control_keywords :: "pystr list" where
  "control_keywords = [lit ''ABORT'', lit ''BEGIN'', lit ''COMMIT'', lit ''END'', lit ''RELEASE'',
     lit ''ROLLBACK'', lit ''SAVEPOINT'']"

definition is_transaction_control :: "unidb \<Rightarrow> pystr \<Rightarrow> bool" where
  "is_transaction_control U operation =
     (let position = skip_ignored U operation 0;
          (first, position) = read_keyword U operation position
      in if first \<in> Some ` set control_keywords then True
         else if first \<notin> {Some (lit ''PREPARE''), Some (lit ''START'')} then False
         else (let (second, _) = read_keyword U operation (skip_ignored U operation position)
               in second = Some (lit ''TRANSACTION'')))"

section \<open>What rewriting changes\<close>

definition marker_at :: "unidb \<Rightarrow> pystr \<Rightarrow> nat \<Rightarrow> bool" where
  "marker_at U s i \<longleftrightarrow> i + 1 < length s \<and> s ! i = 58 \<and> isdigit U (s ! (i + 1)) \<and> s ! (i + 1) \<noteq> 48
     \<and> (i = 0 \<or> s ! (i - 1) \<noteq> 58)"

definition with_markers :: "nat set \<Rightarrow> pystr \<Rightarrow> nat \<Rightarrow> nat \<Rightarrow> pystr" where
  "with_markers M s i j = map (\<lambda>k. if k \<in> M then 36 else s ! k) [i..<j]"

lemma slice_with_markers:
  assumes "i \<le> j" and "j \<le> length s" and "\<And>k. i \<le> k \<Longrightarrow> k < j \<Longrightarrow> k \<notin> M"
  shows "slice s i j = with_markers M s i j"
  using assms by (intro nth_equalityI) (auto simp: slice_def with_markers_def)

lemma drop_with_markers:
  "i \<le> length s \<Longrightarrow> (\<And>k. i \<le> k \<Longrightarrow> k \<notin> M) \<Longrightarrow> drop i s = with_markers M s i (length s)"
  using slice_with_markers [of i "length s" s M] by (simp add: slice_def)

lemma with_markers_append:
  "i \<le> j \<Longrightarrow> j \<le> k \<Longrightarrow> with_markers M s i j @ with_markers M s j k = with_markers M s i k"
  by (simp add: with_markers_def flip: map_append) (metis le_Suc_ex upt_add_eq_append)

text \<open>A text that is copied unchanged and then the rest.\<close>

lemma copied_then_rest:
  assumes "i \<le> e" and "e \<le> length s" and "M \<subseteq> {k. e \<le> k}"
    and "r = with_markers M s e (length s)"
  shows "slice s i e @ r = with_markers M s i (length s)"
proof -
  have "slice s i e = with_markers M s i e"
    using assms by (intro slice_with_markers) auto
  then show ?thesis using assms by (simp add: with_markers_append)
qed

lemma marker_then_rest:
  assumes "i < e" and "e \<le> length s" and "M \<subseteq> {k. e \<le> k}"
    and "r = with_markers M s e (length s)"
  shows "36 # slice s (i + 1) e @ r = with_markers (insert i M) s i (length s)"
proof -
  let ?M = "insert i M"
  have "slice s (i + 1) e = with_markers ?M s (i + 1) e"
    using assms by (intro slice_with_markers) auto
  moreover have "r = with_markers ?M s e (length s)"
    using assms by (auto simp: with_markers_def)
  ultimately have "slice s (i + 1) e @ r = with_markers ?M s (i + 1) (length s)"
    using assms by (simp add: with_markers_append)
  then show ?thesis using assms by (simp add: with_markers_def upt_conv_Cons)
qed

definition rewritten_at :: "unidb \<Rightarrow> pystr \<Rightarrow> nat \<Rightarrow> pystr \<Rightarrow> bool" where
  "rewritten_at U s i t \<longleftrightarrow>
     (\<exists>M. M \<subseteq> {k. i \<le> k \<and> marker_at U s k} \<and> t = with_markers M s i (length s))"

lemma rewritten_copy:
  "i \<le> e \<Longrightarrow> e \<le> length s \<Longrightarrow> rewritten_at U s e r \<Longrightarrow> rewritten_at U s i (slice s i e @ r)"
  unfolding rewritten_at_def
  by (elim exE conjE, rule_tac x = M in exI) (force intro: copied_then_rest)

lemma rewritten_drop: "i \<le> length s \<Longrightarrow> rewritten_at U s i (drop i s)"
  unfolding rewritten_at_def by (rule exI [of _ "{}"]) (simp add: drop_with_markers)

lemma rewritten_marker:
  assumes "marker_at U s i" and "i < e" and "e \<le> length s" and "rewritten_at U s e r"
  shows "rewritten_at U s i (36 # slice s (i + 1) e @ r)"
proof -
  from assms(4) obtain M where M: "M \<subseteq> {k. e \<le> k \<and> marker_at U s k}"
    "r = with_markers M s e (length s)" by (auto simp: rewritten_at_def)
  then have "36 # slice s (i + 1) e @ r = with_markers (insert i M) s i (length s)"
    using assms by (intro marker_then_rest) auto
  moreover have "insert i M \<subseteq> {k. i \<le> k \<and> marker_at U s k}" using M assms by auto
  ultimately show ?thesis unfolding rewritten_at_def by blast
qed

lemma prepend_Inr:
  "prepend p r = Inr t \<longleftrightarrow> (\<exists>u. r = Inr u \<and> t = p @ u)"
  "Inr t = prepend p r \<longleftrightarrow> (\<exists>u. r = Inr u \<and> t = p @ u)"
  by (cases r; auto)+

lemma prepend_Inl: "prepend p r = Inl e \<longleftrightarrow> r = Inl e"
  by (cases r) auto

text \<open>One equation per branch of the loop body.\<close>

definition special :: "pystr \<Rightarrow> nat \<Rightarrow> bool" where
  "special s i \<longleftrightarrow> s ! i = 39 \<or> s ! i = 34 \<or> startswith_at s [45, 45] i \<or> startswith_at s [47, 42] i"

definition dollar_at :: "unidb \<Rightarrow> pystr \<Rightarrow> nat \<Rightarrow> pystr option" where
  "dollar_at U s i = (if s ! i = 36 then dollar_quote_delimiter U s i else None)"

definition marker_cond :: "unidb \<Rightarrow> pystr \<Rightarrow> nat \<Rightarrow> bool" where
  "marker_cond U s i \<longleftrightarrow> s ! i = 58 \<and> i + 1 < length s \<and> isdigit U (s ! (i + 1))
     \<and> (i = 0 \<or> s ! (i - 1) \<noteq> 58)"

lemma rewrite_quote:
  "i < length s \<Longrightarrow> s ! i = 39 \<Longrightarrow> rewrite_from U s i =
     (let e = quoted_end s 39 (has_escape_string_prefix U s i) (i + 1)
      in prepend (slice s i e) (rewrite_from U s e))"
  by (simp add: rewrite_from.simps [of U s i] copy_quoted_def Let_def)

lemma rewrite_identifier:
  "i < length s \<Longrightarrow> s ! i = 34 \<Longrightarrow> rewrite_from U s i =
     (let e = quoted_end s 34 False (i + 1) in prepend (slice s i e) (rewrite_from U s e))"
  by (simp add: rewrite_from.simps [of U s i] copy_quoted_def Let_def)

lemma rewrite_line_comment:
  "i < length s \<Longrightarrow> s ! i \<noteq> 39 \<Longrightarrow> s ! i \<noteq> 34 \<Longrightarrow> startswith_at s [45, 45] i \<Longrightarrow>
   rewrite_from U s i =
     (case find_from s [10] (i + 2) of
        None \<Rightarrow> Inr (drop i s)
      | Some e \<Rightarrow> prepend (slice s i (e + 1)) (rewrite_from U s (e + 1)))"
  by (simp add: rewrite_from.simps [of U s i])

lemma rewrite_block_comment:
  "i < length s \<Longrightarrow> s ! i \<noteq> 39 \<Longrightarrow> s ! i \<noteq> 34 \<Longrightarrow> \<not> startswith_at s [45, 45] i \<Longrightarrow>
   startswith_at s [47, 42] i \<Longrightarrow> rewrite_from U s i =
     (let e = comment_loop s 1 (i + 2) in prepend (slice s i e) (rewrite_from U s e))"
  by (simp add: rewrite_from.simps [of U s i] copy_block_comment_def block_comment_end_def Let_def)

lemma rewrite_dollar:
  "i < length s \<Longrightarrow> \<not> special s i \<Longrightarrow> dollar_at U s i = Some d \<Longrightarrow> rewrite_from U s i =
     (case find_from s d (i + length d) of
        None \<Rightarrow> Inr (drop i s)
      | Some e \<Rightarrow> prepend (slice s i (e + length d)) (rewrite_from U s (e + length d)))"
  by (simp add: rewrite_from.simps [of U s i] special_def dollar_at_def split: if_splits)

lemma rewrite_marker:
  "i < length s \<Longrightarrow> \<not> special s i \<Longrightarrow> marker_cond U s i \<Longrightarrow> rewrite_from U s i =
     (let e = scan_while (isdigit U) s (i + 1) in
      if take 1 (slice s (i + 1) e) = [48]
      then Inl (ValueErr (lit ''PEP 249 numeric parameters are one-based''))
      else prepend (36 # slice s (i + 1) e) (rewrite_from U s e))"
  by (auto simp add: rewrite_from.simps [of U s i] special_def marker_cond_def Let_def)

lemma rewrite_plain:
  "i < length s \<Longrightarrow> \<not> special s i \<Longrightarrow> dollar_at U s i = None \<Longrightarrow> \<not> marker_cond U s i \<Longrightarrow>
   rewrite_from U s i = prepend [s ! i] (rewrite_from U s (i + 1))"
  unfolding rewrite_from.simps [of U s i] special_def marker_cond_def dollar_at_def [symmetric] Let_def
  by auto

lemmas rewrite_branches = rewrite_quote rewrite_identifier rewrite_line_comment
  rewrite_block_comment rewrite_dollar rewrite_marker rewrite_plain

lemma marker_index:
  assumes "marker_cond U s i"
  defines "e \<equiv> scan_while (isdigit U) s (i + 1)"
  shows "i + 1 < e" "e \<le> length s" "take 1 (slice s (i + 1) e) = [s ! (i + 1)]"
proof -
  have c: "i + 1 < length s" "isdigit U (s ! (i + 1))" using assms(1) by (auto simp: marker_cond_def)
  then show "i + 1 < e"
    unfolding e_def using scan_while_ge [of "i + 2" "isdigit U" s] by (subst scan_while.simps) simp
  then show "take 1 (slice s (i + 1) e) = [s ! (i + 1)]"
    using c by (simp add: slice_def take_Suc hd_drop_conv_nth)
  show "e \<le> length s" unfolding e_def using c by (intro scan_while_le) simp
qed

text \<open>The ways the loop proceeds from a position, as one case rule.\<close>

lemma rewrite_from_cases:
  assumes "i < length s"
  obtains (copy) e where "i < e" "e \<le> length s"
      "rewrite_from U s i = prepend (slice s i e) (rewrite_from U s e)"
    | (rest) "rewrite_from U s i = Inr (drop i s)"
    | (marker) e where "marker_at U s i" "i < e" "e \<le> length s"
      "rewrite_from U s i = prepend (36 # slice s (i + 1) e) (rewrite_from U s e)"
    | (zero) "marker_cond U s i" "s ! (i + 1) = 48"
      "rewrite_from U s i = Inl (ValueErr (lit ''PEP 249 numeric parameters are one-based''))"
proof -
  consider (q) "s ! i = 39" | (d) "s ! i \<noteq> 39" "s ! i = 34"
    | (l) "s ! i \<noteq> 39" "s ! i \<noteq> 34" "startswith_at s [45, 45] i"
    | (b) "s ! i \<noteq> 39" "s ! i \<noteq> 34" "\<not> startswith_at s [45, 45] i" "startswith_at s [47, 42] i"
    | (dq) x where "\<not> special s i" "dollar_at U s i = Some x"
    | (m) "\<not> special s i" "marker_cond U s i"
    | (p) "\<not> special s i" "dollar_at U s i = None" "\<not> marker_cond U s i"
    unfolding special_def by (cases "dollar_at U s i") blast+
  then show ?thesis
  proof cases
    case q
    then show ?thesis using assms quoted_end_ge [of "i + 1" s] quoted_end_le [of "i + 1" s]
      by (intro copy [OF _ _ rewrite_quote [unfolded Let_def]]) (auto simp: Suc_le_eq)
  next
    case d
    then show ?thesis using assms quoted_end_ge [of "i + 1" s] quoted_end_le [of "i + 1" s]
      by (intro copy [OF _ _ rewrite_identifier [unfolded Let_def]]) (auto simp: Suc_le_eq)
  next
    case l
    from rewrite_line_comment [OF assms l, of U] show ?thesis
      by (cases "find_from s [10] (i + 2)")
         (auto dest!: find_from_Some intro: rest copy [rotated 2])
  next
    case b
    then show ?thesis
      using startswith_at_two [OF b(4)] comment_loop_ge [of "i + 2" s 1] comment_loop_le [of "i + 2" s 1]
      by (intro copy [OF _ _ rewrite_block_comment [OF assms b, unfolded Let_def]]) auto
  next
    case (dq x)
    have "0 < length x" using dq(2) dollar_quote_delimiter_length [of U s i x]
      by (auto simp: dollar_at_def split: if_splits)
    show ?thesis
    proof (cases "find_from s x (i + length x)")
      case None with rewrite_dollar [OF assms dq] show ?thesis by (intro rest) simp
    next
      case (Some k)
      from \<open>0 < length x\<close> find_from_Some [OF Some] have "i < k + length x" "k + length x \<le> length s"
        by linarith+
      with Some rewrite_dollar [OF assms dq] show ?thesis
        by (intro copy [of "k + length x"]) simp_all
    qed
  next
    case m
    note e = marker_index [OF m(2)] and eq = rewrite_marker [OF assms m, unfolded Let_def]
    show ?thesis
    proof (cases "s ! (i + 1) = 48")
      case True with e(3) eq m(2) show ?thesis by (intro zero) simp_all
    next
      case False
      with m(2) have "marker_at U s i" by (simp add: marker_at_def marker_cond_def)
      with e eq False show ?thesis by (intro marker) simp_all
    qed
  next
    case p
    have "slice s i (i + 1) = [s ! i]"
      using assms by (simp add: slice_def take_Suc hd_drop_conv_nth)
    with assms rewrite_plain [OF assms p] show ?thesis by (intro copy [of "i + 1"]) simp_all
  qed
qed

lemma rewrite_from_rewritten:
  "i \<le> length s \<Longrightarrow> rewrite_from U s i = Inr t \<Longrightarrow> rewritten_at U s i t"
proof (induction "length s - i" arbitrary: i t rule: less_induct)
  case less
  show ?case
  proof (cases "i < length s")
    case False
    with less.prems(1) have "i = length s" by simp
    moreover have "t = []" using less.prems(2) False by (simp add: rewrite_from.simps [of U s i])
    ultimately show ?thesis using rewritten_drop [of i s U] by simp
  next
    case True
    then show ?thesis
    proof (cases rule: rewrite_from_cases [where U = U])
      case (copy e)
      then obtain u where u: "rewrite_from U s e = Inr u" "t = slice s i e @ u"
        using less.prems by (auto simp: prepend_Inr)
      with copy less.hyps [of e u] show ?thesis by (auto intro: rewritten_copy)
    next
      case rest
      with less.prems have "t = drop i s" by simp
      then show ?thesis using less.prems(1) by (simp add: rewritten_drop)
    next
      case (marker e)
      then obtain u where u: "rewrite_from U s e = Inr u" "t = 36 # slice s (i + 1) e @ u"
        using less.prems by (auto simp: prepend_Inr)
      moreover have "rewritten_at U s e u" using marker u(1) less.hyps [of e u] by simp
      ultimately show ?thesis using rewritten_marker [OF marker(1-3), of u] by simp
    next
      case zero
      with less.prems show ?thesis by simp
    qed
  qed
qed

section \<open>Protected text\<close>

text \<open>
  Scanning a suffix of the operation: behind a prefix whose last character is neither a
  colon nor part of a word, each scanner does what it does on the suffix alone.
\<close>

lemma startswith_at_shift [simp]: "startswith_at (p @ s) q (length p + i) = startswith_at s q i"
  by (simp add: startswith_at_def)

lemma nth_shift [simp]: "(p @ s) ! (length p + i) = s ! i"
  by (simp add: nth_append)

lemma slice_shift [simp]: "slice (p @ s) (length p + i) (length p + j) = slice s i j"
  by (simp add: slice_def)

lemma find_from_shift:
  "find_from (p @ s) q (length p + i) = map_option ((+) (length p)) (find_from s q i)"
proof (induction s q i rule: find_from.induct)
  case (1 s q i)
  then show ?case
    by (auto simp add: find_from.simps [of "p @ s" q "length p + i"] find_from.simps [of s q i])
qed

lemma quoted_end_shift: "quoted_end (p @ s) d b (length p + i) = length p + quoted_end s d b i"
proof (induction s d b i rule: quoted_end.induct)
  case (1 s d b i)
  have nth: "(p @ s) ! (length p + i + 1) = s ! (i + 1)"
    using nth_shift [of p s "i + 1"] by (simp only: add.assoc)
  note step = quoted_end.simps [of "p @ s" d b "length p + i"] quoted_end.simps [of s d b i]
  show ?case
  proof (cases "i < length s")
    case True
    with 1 show ?thesis unfolding step nth nth_shift
      by (cases "b \<and> s ! i = 92 \<and> i + 1 < length s"; cases "s ! i = d";
          cases "i + 1 < length s \<and> s ! (i + 1) = d") (auto simp add: add.assoc)
  qed (simp add: step)
qed

lemma comment_loop_shift: "comment_loop (p @ s) n (length p + i) = length p + comment_loop s n i"
proof (induction s n i rule: comment_loop.induct)
  case (1 s n i)
  then show ?case
    by (auto simp add: comment_loop.simps [of "p @ s" n "length p + i"] comment_loop.simps [of s n i])
qed

lemma scan_while_shift: "scan_while q (p @ s) (length p + i) = length p + scan_while q s i"
proof (induction q s i rule: scan_while.induct)
  case (1 q s i)
  then show ?case
    by (auto simp add: scan_while.simps [of q "p @ s" "length p + i"] scan_while.simps [of q s i])
qed

definition boundary :: "unidb \<Rightarrow> cp \<Rightarrow> bool" where
  "boundary U c \<longleftrightarrow> c \<noteq> 58 \<and> c \<notin> set (lit ''Ee_$'') \<and> \<not> isalnum U c"

lemma has_escape_string_prefix_shift:
  assumes "boundary U (last p)" and "p \<noteq> []"
  shows "has_escape_string_prefix U (p @ s) (length p + i) = has_escape_string_prefix U s i"
proof -
  have last: "(p @ s) ! (length p - 1) = last p"
    using assms(2) by (simp add: nth_append last_conv_nth)
  consider "i = 0" | "i = 1" | j where "i = j + 2" by (metis One_nat_def add_2_eq_Suc' not0_implies_Suc)
  then show ?thesis
  proof cases
    case 1
    with last assms show ?thesis
      by (simp add: has_escape_string_prefix_def boundary_def lit_def)
  next
    case 2
    have "(p @ s) ! (length p + 1 - 2) = last p" "length p + 1 \<noteq> 1" using last assms(2) by auto
    with 2 assms nth_shift [of p s 0] show ?thesis
      by (auto simp: has_escape_string_prefix_def boundary_def lit_def Let_def)
  next
    case (3 j)
    have "length p + i - 1 = length p + (j + 1)" "length p + i - 2 = length p + j" using 3 by simp_all
    then show ?thesis
      using 3 by (simp add: has_escape_string_prefix_def Let_def nth_append del: add_Suc_right)
  qed
qed

lemma marker_cond_shift:
  assumes "boundary U (last p)" and "p \<noteq> []"
  shows "marker_cond U (p @ s) (length p + i) = marker_cond U s i"
proof -
  have last: "(p @ s) ! (length p - 1) = last p"
    using assms(2) by (simp add: nth_append last_conv_nth)
  have succ: "(p @ s) ! (length p + i + 1) = s ! (i + 1)"
    using nth_shift [of p s "i + 1"] by (simp only: add.assoc)
  show ?thesis
  proof (cases "i = 0")
    case True
    with last succ assms nth_shift [of p s 0] show ?thesis
      by (auto simp: marker_cond_def boundary_def)
  next
    case False
    then have "(p @ s) ! (length p + i - 1) = s ! (i - 1)"
      using nth_shift [of p s "i - 1"] by simp
    with False succ show ?thesis by (auto simp: marker_cond_def)
  qed
qed

lemma special_shift: "special (p @ s) (length p + i) = special s i"
  by (simp add: special_def)

lemma dollar_at_shift: "dollar_at U (p @ s) (length p + i) = dollar_at U s i"
proof -
  have "scan_while q (p @ s) (length p + i + 1 + 1) = length p + scan_while q s (i + 1 + 1)" for q
    using scan_while_shift [of q p s "i + 1 + 1"] by (simp only: add.assoc)
  moreover have "(p @ s) ! (length p + i + 1) = s ! (i + 1)"
    using nth_shift [of p s "i + 1"] by (simp only: add.assoc)
  moreover have "slice (p @ s) (length p + i) (length p + j + 1) = slice s i (j + 1)" for j
    using slice_shift [of p s i "j + 1"] by (simp only: add.assoc)
  ultimately show ?thesis
    by (simp add: dollar_at_def dollar_quote_delimiter_def Let_def nth_append add.assoc)
qed

lemmas shift_simps = special_shift dollar_at_shift quoted_end_shift comment_loop_shift
  scan_while_shift find_from_shift

lemma rewrite_from_shift_step:
  assumes p: "boundary U (last p)" "p \<noteq> []" and i: "i < length s"
    and IH: "\<And>e. i < e \<Longrightarrow> e \<le> length s \<Longrightarrow> rewrite_from U (p @ s) (length p + e) = rewrite_from U s e"
  shows "rewrite_from U (p @ s) (length p + i) = rewrite_from U s i"
proof -
  note esc = has_escape_string_prefix_shift [OF p] and mark = marker_cond_shift [OF p]
  have i': "length p + i < length (p @ s)" using i by simp
  have ends: "rewrite_from U (p @ s) (length p + quoted_end s d b (Suc i)) = rewrite_from U s (quoted_end s d b (Suc i))"
    for d b using i quoted_end_ge [of "Suc i" s d b] quoted_end_le [of "Suc i" s d b] by (intro IH) auto
  have one: "length p + i + 1 = length p + (i + 1)" "length p + i + 2 = length p + (i + 2)"
    "length p + i + length d = length p + (i + length d)" "length p + j + 1 = length p + (j + 1)"
    "length p + j + length d = length p + (j + length d)" for d :: pystr and j by simp_all
  consider (q) "s ! i = 39" | (d) "s ! i \<noteq> 39" "s ! i = 34"
    | (l) "s ! i \<noteq> 39" "s ! i \<noteq> 34" "startswith_at s [45, 45] i"
    | (b) "s ! i \<noteq> 39" "s ! i \<noteq> 34" "\<not> startswith_at s [45, 45] i" "startswith_at s [47, 42] i"
    | (dq) x where "\<not> special s i" "dollar_at U s i = Some x"
    | (m) "\<not> special s i" "marker_cond U s i"
    | (pl) "\<not> special s i" "dollar_at U s i = None" "\<not> marker_cond U s i"
    unfolding special_def by (cases "dollar_at U s i") blast+
  then show ?thesis
  proof cases
    case q
    then show ?thesis
      using i i' by (simp only: rewrite_quote nth_shift esc one shift_simps slice_shift Let_def)
        (simp add: ends)
  next
    case d
    then show ?thesis
      using i i' by (simp only: rewrite_identifier nth_shift one shift_simps slice_shift Let_def)
        (simp add: ends)
  next
    case l
    note eqs = rewrite_line_comment [OF i l, of U]
      rewrite_line_comment [OF i', unfolded nth_shift startswith_at_shift one shift_simps, OF l, of U]
    show ?thesis
    proof (cases "find_from s [10] (i + 2)")
      case (Some k)
      from find_from_Some [OF Some] have "i < k + 1" "k + 1 \<le> length s" by simp_all
      then show ?thesis unfolding eqs Some using IH by (simp only: option.map option.case one slice_shift)
    qed (unfold eqs, simp)
  next
    case b
    have "i + 2 \<le> length s" using startswith_at_two [OF b(4)] by simp
    then have "i < comment_loop s 1 (i + 2)" "comment_loop s 1 (i + 2) \<le> length s"
      using comment_loop_ge [of "i + 2" s 1] comment_loop_le [of "i + 2" s 1] by simp_all
    then show ?thesis
      unfolding rewrite_block_comment [OF i b] Let_def
        rewrite_block_comment [OF i', unfolded nth_shift startswith_at_shift one shift_simps, OF b, of U]
      using IH by (simp only: slice_shift)
  next
    case (dq x)
    note eqs = rewrite_dollar [OF i dq]
      rewrite_dollar [OF i', unfolded one shift_simps, OF dq]
    have x: "0 < length x" using dq(2) dollar_quote_delimiter_length [of U s i x]
      by (auto simp: dollar_at_def split: if_splits)
    show ?thesis
    proof (cases "find_from s x (i + length x)")
      case (Some k)
      from find_from_Some [OF Some] x have "i < k + length x" "k + length x \<le> length s" by linarith+
      then show ?thesis unfolding eqs Some using IH by (simp only: option.map option.case one slice_shift)
    qed (unfold eqs, simp)
  next
    case m
    note e = marker_index [OF m(2)]
    from e have "i < scan_while (isdigit U) s (i + 1)" by simp
    then show ?thesis
      unfolding rewrite_marker [OF i m] Let_def
        rewrite_marker [OF i', of U, unfolded one shift_simps mark, OF m]
      using e(2) IH by (simp only: slice_shift)
  next
    case pl
    then show ?thesis
      unfolding rewrite_plain [OF i pl]
        rewrite_plain [OF i', of U, unfolded one shift_simps mark nth_shift, OF pl]
      using IH [of "i + 1"] i by simp
  qed
qed

lemma rewrite_from_end [simp]: "length s \<le> i \<Longrightarrow> rewrite_from U s i = Inr []"
  by (subst rewrite_from.simps) simp

lemma rewrite_from_shift:
  assumes "boundary U (last p)" and "p \<noteq> []"
  shows "i \<le> length s \<Longrightarrow> rewrite_from U (p @ s) (length p + i) = rewrite_from U s i"
proof (induction "length s - i" arbitrary: i rule: less_induct)
  case less
  show ?case
  proof (cases "i < length s")
    case True
    then show ?thesis
      by (rule rewrite_from_shift_step [OF assms]) (rule less.hyps, simp_all)
  qed simp
qed

text \<open>A literal: the delimiter doubled inside.\<close>

definition sql_quote :: "cp \<Rightarrow> pystr \<Rightarrow> pystr" where
  "sql_quote q body = q # concat (map (\<lambda>c. if c = q then [q, q] else [c]) body) @ [q]"

lemma quoted_end_body:
  assumes "rest = [] \<or> hd rest \<noteq> q"
  shows "quoted_end (p @ concat (map (\<lambda>c. if c = q then [q, q] else [c]) body) @ q # rest) q False (length p)
    = length p + length (concat (map (\<lambda>c. if c = q then [q, q] else [c]) body)) + 1"
proof (induction body arbitrary: p)
  case Nil
  then show ?case using assms
    by (cases rest) (auto simp: quoted_end.simps [of "p @ _"] nth_append)
next
  case (Cons c body)
  let ?t = "concat (map (\<lambda>c. if c = q then [q, q] else [c]) body) @ q # rest"
  show ?case
  proof (cases "c = q")
    case True
    have "quoted_end (p @ q # q # ?t) q False (length p) = quoted_end (p @ q # q # ?t) q False (length p + 2)"
      by (subst quoted_end.simps) (simp add: nth_append)
    with True Cons [of "p @ [q, q]"] show ?thesis by simp
  next
    case False
    have "quoted_end (p @ c # ?t) q False (length p) = quoted_end (p @ c # ?t) q False (length p + 1)"
      using False by (subst quoted_end.simps) (simp add: nth_append)
    with False Cons [of "p @ [c]"] show ?thesis by simp
  qed
qed

lemma rewrite_from_quoted:
  assumes "rest = [] \<or> hd rest \<noteq> q" and "q = 39 \<or> q = 34" and "boundary U q"
  shows "rewrite_from U (sql_quote q body @ rest) 0 =
    prepend (sql_quote q body) (rewrite_from U rest 0)"
proof -
  let ?s = "sql_quote q body @ rest" and ?n = "length (sql_quote q body)"
  have e: "quoted_end ?s q False 1 = ?n"
    using quoted_end_body [OF assms(1), of "[q]" body] by (simp add: sql_quote_def)
  have "slice ?s 0 ?n = sql_quote q body" by (simp add: slice_def)
  moreover have "rewrite_from U ?s ?n = rewrite_from U rest 0"
    using rewrite_from_shift [of U "sql_quote q body" 0 rest] assms(3) by (simp add: sql_quote_def)
  moreover have "rewrite_from U ?s 0 = prepend (slice ?s 0 ?n) (rewrite_from U ?s ?n)"
    using assms(2) e rewrite_quote [of 0 ?s U] rewrite_identifier [of 0 ?s U]
    by (auto simp: sql_quote_def has_escape_string_prefix_def)
  ultimately show ?thesis by simp
qed

section \<open>Text without quotes, comments and dollars\<close>

definition plain_sql :: "unidb \<Rightarrow> pystr \<Rightarrow> bool" where
  "plain_sql U s \<longleftrightarrow> (\<forall>i < length s. \<not> special s i \<and> s ! i \<noteq> 36 \<and>
     (marker_cond U s i \<longrightarrow> s ! (i + 1) \<noteq> 48))"

lemma no_marker_in_index:
  assumes "\<not> isdigit U 58" and "marker_cond U s i" and "i < k" and "k < scan_while (isdigit U) s (i + 1)"
  shows "\<not> marker_at U s k"
proof -
  have "isdigit U (s ! k)" using assms(3,4) scan_while_all [of "i + 1" k "isdigit U" s] by simp
  then show ?thesis using assms(1) by (auto simp: marker_at_def)
qed

lemma rewrite_from_plain:
  assumes "plain_sql U s" and "\<not> isdigit U 58"
  shows "i \<le> length s \<Longrightarrow> rewrite_from U s i = Inr (with_markers {k. marker_at U s k} s i (length s))"
proof (induction "length s - i" arbitrary: i rule: less_induct)
  case less
  let ?M = "{k. marker_at U s k}"
  show ?case
  proof (cases "i < length s")
    case False
    then show ?thesis using less.prems by (simp add: with_markers_def)
  next
    case True
    note plain = assms(1) [unfolded plain_sql_def, rule_format, OF True]
    show ?thesis
    proof (cases "marker_cond U s i")
      case m: True
      let ?e = "scan_while (isdigit U) s (i + 1)"
      note e = marker_index [OF m]
      have "slice s (i + 1) ?e = with_markers ?M s (i + 1) ?e"
        using e no_marker_in_index [OF assms(2) m] by (intro slice_with_markers) auto
      moreover have "rewrite_from U s ?e = Inr (with_markers ?M s ?e (length s))"
        using e True by (intro less.hyps) auto
      moreover have "marker_at U s i" using m plain by (simp add: marker_at_def marker_cond_def)
      ultimately show ?thesis
        using e True plain m with_markers_append [of "i + 1" ?e "length s" ?M s]
        by (simp add: rewrite_marker Let_def with_markers_def upt_conv_Cons)
    next
      case m: False
      then have "\<not> marker_at U s i" by (simp add: marker_at_def marker_cond_def)
      then show ?thesis
        using True m plain less.hyps [of "i + 1"]
        by (simp add: rewrite_plain dollar_at_def with_markers_def upt_conv_Cons)
    qed
  qed
qed

section \<open>Leading white space\<close>

lemma skip_ignored_shift: "skip_ignored U (p @ s) (length p + i) = length p + skip_ignored U s i"
proof (induction U s i rule: skip_ignored.induct)
  case (1 U s i)
  note step = skip_ignored.simps [of U "p @ s" "length p + i"] skip_ignored.simps [of U s i]
  have one: "length p + i + 1 = length p + (i + 1)" "length p + i + 2 = length p + (i + 2)"
    "length p + j + 1 = length p + (j + 1)" for j by simp_all
  show ?case
    unfolding step nth_shift startswith_at_shift block_comment_end_def one find_from_shift comment_loop_shift
    using 1 by (auto simp add: block_comment_end_def split: option.split)
qed

lemma skip_ignored_spaces:
  "(\<And>c. c \<in> set p \<Longrightarrow> isspace U c) \<Longrightarrow> skip_ignored U (p @ s) 0 = length p + skip_ignored U s 0"
proof (induction p)
  case (Cons c p)
  have "skip_ignored U ((c # p) @ s) 0 = skip_ignored U ([c] @ (p @ s)) (length [c] + 0)"
    using Cons.prems by (subst skip_ignored.simps) simp
  also have "\<dots> = 1 + skip_ignored U (p @ s) 0" by (subst skip_ignored_shift) simp
  finally show ?case using Cons by simp
qed simp

lemma read_keyword_shift:
  "read_keyword U (p @ s) (length p + i) = (let (k, e) = read_keyword U s i in (k, length p + e))"
  by (simp add: read_keyword_def scan_while_shift Let_def)

lemma is_transaction_control_spaces:
  assumes "\<And>c. c \<in> set p \<Longrightarrow> isspace U c"
  shows "is_transaction_control U (p @ s) = is_transaction_control U s"
  by (simp add: is_transaction_control_def skip_ignored_spaces [OF assms] read_keyword_shift
      skip_ignored_shift Let_def split: prod.splits)

definition word_char :: "unidb \<Rightarrow> cp \<Rightarrow> bool" where
  "word_char U c \<longleftrightarrow> isalnum U c \<or> c \<in> set (lit ''_$'')"

lemma scan_while_prefix:
  assumes "\<And>c. c \<in> set w \<Longrightarrow> q c" and "r = [] \<or> \<not> q (hd r)"
  shows "scan_while q (w @ r) 0 = length w"
  using assms(1)
proof (induction w)
  case Nil
  then show ?case using assms(2) by (subst scan_while.simps) (cases r; simp)
next
  case (Cons c w)
  have "scan_while q ((c # w) @ r) 0 = scan_while q ([c] @ (w @ r)) (length [c] + 0)"
    using Cons.prems by (subst scan_while.simps) simp
  also have "\<dots> = 1 + scan_while q (w @ r) 0" by (subst scan_while_shift) simp
  finally show ?case using Cons by simp
qed

lemma is_transaction_control_word:
  assumes "\<And>c. c \<in> set w \<Longrightarrow> word_char U c" and "w \<noteq> []" and "r = [] \<or> \<not> word_char U (hd r)"
    and "skip_ignored U (w @ r) 0 = 0"
    and "upper U w \<notin> {lit ''PREPARE'', lit ''START''}"
  shows "is_transaction_control U (w @ r) \<longleftrightarrow> upper U w \<in> set control_keywords"
proof -
  have "scan_while (\<lambda>c. isalnum U c \<or> c \<in> set (lit ''_$'')) (w @ r) 0 = length w"
    using assms(1,3) by (intro scan_while_prefix) (auto simp: word_char_def)
  then have "read_keyword U (w @ r) 0 = (Some (upper U w), length w)"
    using assms(2) by (simp add: read_keyword_def slice_def)
  then show ?thesis using assms(4,5) by (auto simp: is_transaction_control_def)
qed


section \<open>What the scanners rely on of the Unicode database\<close>

context unicode
begin

lemma quote_boundary: "q = 39 \<or> q = 34 \<Longrightarrow> boundary U q"
  by (auto simp: boundary_def isalnum_ascii ascii_defs lit_def)

lemma colon_no_digit: "\<not> isdigit U 58"
  by (simp add: isdigit_ascii ascii_defs)

lemma skip_ignored_word:
  assumes "w \<noteq> []" and "\<And>c. c \<in> set w \<Longrightarrow> ascii_alpha c"
  shows "skip_ignored U (w @ r) 0 = 0"
proof -
  obtain c v where w: "w = c # v" using assms(1) by (cases w) auto
  then have c: "ascii_alpha c" using assms(2) by simp
  then have "\<not> isspace U c" by (auto simp: isspace_ascii ascii_defs)
  moreover have "c \<noteq> 45" "c \<noteq> 47" using c by (auto simp: ascii_defs)
  ultimately show ?thesis
    by (subst skip_ignored.simps) (simp add: w startswith_at_def)
qed

lemma word_char_ascii: "ascii_alpha c \<Longrightarrow> word_char U c"
  by (auto simp: word_char_def isalnum_ascii ascii_defs)

end

section \<open>Properties\<close>

text \<open>
  C25: rewriting keeps the length of the operation and changes no character except the
  colon of a marker: a colon that is not behind another colon and that a digit other than
  zero follows. Casts such as \<^verbatim>\<open>x::int\<close> are never touched.
\<close>

theorem rewrite_changes_only_markers:
  assumes "rewrite_numeric_parameters U operation = Inr t"
  shows "length t = length operation \<and>
    (\<forall>i < length operation. t ! i = operation ! i \<or> marker_at U operation i \<and> t ! i = 36)"
proof -
  have "rewritten_at U operation 0 t"
    using assms rewrite_from_rewritten [of 0 operation U t]
    by (simp add: rewrite_numeric_parameters_def)
  then obtain M where M: "M \<subseteq> {k. marker_at U operation k}"
    "t = with_markers M operation 0 (length operation)" by (auto simp: rewritten_at_def)
  show ?thesis
  proof (intro conjI allI impI)
    show "length t = length operation" using M(2) by (simp add: with_markers_def)
    fix i assume "i < length operation"
    with M(2) have "t ! i = (if i \<in> M then 36 else operation ! i)" by (simp add: with_markers_def)
    with M(1) show "t ! i = operation ! i \<or> marker_at U operation i \<and> t ! i = 36" by auto
  qed
qed

theorem rewrite_changes_only_markers_witness:
  "rewrite_numeric_parameters latin1 (lit ''x::int = :12'') = Inr (lit ''x::int = $12'') \<and>
   length (lit ''x::int = $12'') = length (lit ''x::int = :12'')"
proof -
  have h: "rewrite_numeric_parameters latin1 (lit ''x::int = :12'') = Inr (lit ''x::int = $12'')"
    by code_simp
  show ?thesis using h rewrite_changes_only_markers [OF h] by simp
qed



text \<open>
  C27: in text without quotes, comments and dollar signs, every marker is rewritten: the
  result is the operation with the colon of each marker replaced by a dollar sign.
\<close>

theorem rewrite_replaces_every_marker:
  assumes "unicode U" and "plain_sql U operation"
  shows "rewrite_numeric_parameters U operation =
    Inr (map (\<lambda>i. if marker_at U operation i then 36 else operation ! i) [0..<length operation])"
  using rewrite_from_plain [OF assms(2) unicode.colon_no_digit [OF assms(1)], of 0]
  by (simp add: rewrite_numeric_parameters_def with_markers_def)

theorem rewrite_replaces_every_marker_witness:
  "plain_sql latin1 (lit ''a[1:2]'') \<and>
   rewrite_numeric_parameters latin1 (lit ''a[1:2]'') = Inr (lit ''a[1$2]'')"
proof -
  have h: "plain_sql latin1 (lit ''a[1:2]'')" unfolding plain_sql_def by code_simp
  have "map (\<lambda>i. if marker_at latin1 (lit ''a[1:2]'') i then 36 else lit ''a[1:2]'' ! i)
      [0..<length (lit ''a[1:2]'')] = lit ''a[1$2]''" by code_simp
  with h rewrite_replaces_every_marker [OF latin1.unicode_axioms h] show ?thesis by simp
qed

text \<open>
  a statement is transaction control exactly when its first word, after any white
  space and in any case, is one of the control keywords (the two-word forms
  \<^verbatim>\<open>PREPARE TRANSACTION\<close> and \<^verbatim>\<open>START TRANSACTION\<close> apart).
\<close>

theorem transaction_control_first_word:
  assumes "unicode U" and "\<And>c. c \<in> set pad \<Longrightarrow> isspace U c"
    and "w \<noteq> []" and "\<And>c. c \<in> set w \<Longrightarrow> ascii_alpha c" and "r = [] \<or> \<not> word_char U (hd r)"
    and "map ascii_upper w \<notin> {lit ''PREPARE'', lit ''START''}"
  shows "is_transaction_control U (pad @ w @ r) \<longleftrightarrow> map ascii_upper w \<in> set control_keywords"
proof -
  have up: "upper U w = map ascii_upper w"
    using assms(4) by (intro unicode.upper_ascii_str [OF assms(1)]) (force simp: ascii_defs)
  have "is_transaction_control U (w @ r) \<longleftrightarrow> upper U w \<in> set control_keywords"
    using assms(3-6) up
    by (intro is_transaction_control_word unicode.skip_ignored_word [OF assms(1)])
       (auto intro: unicode.word_char_ascii [OF assms(1)])
  then show ?thesis using is_transaction_control_spaces [OF assms(2)] up by simp
qed

theorem transaction_control_first_word_witness:
  "is_transaction_control latin1 (lit ''  '' @ lit ''Commit'' @ lit '';'') \<and>
   \<not> is_transaction_control latin1 (lit ''  '' @ lit ''select'' @ lit '' 1'')"
proof -
  have sp: "isspace latin1 c" if "c \<in> set (lit ''  '')" for c
    using that by (auto simp: lit_def latin1_def ascii_defs)
  have c: "ascii_alpha c" if "c \<in> set (lit ''Commit'')" for c
    using that by (auto simp: lit_def ascii_defs)
  have d: "ascii_alpha c" if "c \<in> set (lit ''select'')" for c
    using that by (auto simp: lit_def ascii_defs)
  have ends: "\<not> word_char latin1 (hd (lit '';''))" "\<not> word_char latin1 (hd (lit '' 1''))"
    by code_simp+
  have "map ascii_upper (lit ''Commit'') = lit ''COMMIT''" "map ascii_upper (lit ''select'') = lit ''SELECT''"
    by code_simp+
  moreover have "is_transaction_control latin1 (lit ''  '' @ lit ''Commit'' @ lit '';'') \<longleftrightarrow>
      map ascii_upper (lit ''Commit'') \<in> set control_keywords"
    by (rule transaction_control_first_word [OF latin1.unicode_axioms sp _ c disjI2 [OF ends(1)]])
       (simp_all add: lit_def ascii_defs)
  moreover have "is_transaction_control latin1 (lit ''  '' @ lit ''select'' @ lit '' 1'') \<longleftrightarrow>
      map ascii_upper (lit ''select'') \<in> set control_keywords"
    by (rule transaction_control_first_word [OF latin1.unicode_axioms sp _ d disjI2 [OF ends(2)]])
       (simp_all add: lit_def ascii_defs)
  ultimately show ?thesis by (simp add: control_keywords_def lit_def)
qed

end
