(* ===== verification/Sessions.thy ===== *)
theory Sessions
  imports Databases Sql_Text
begin

text \<open>
  The part of the class \<^verbatim>\<open>Connection\<close> that executes statements one at a time, with its
  transaction scopes, and the classes \<^verbatim>\<open>_TransactionContext\<close> and \<^verbatim>\<open>Cursor\<close> (\<^verbatim>\<open>_api.py\<close>) and
  \<^verbatim>\<open>ArrowResult\<close> (\<^verbatim>\<open>_arrow.py\<close>).
\<close>

section \<open>Connections\<close>

definition Connection_init ::
  "nat \<Rightarrow> handle \<Rightarrow> bool \<Rightarrow> timeout \<Rightarrow> nat option \<Rightarrow> ('k, nat) call" where
  "Connection_init owner handle autocommit timeout implicit_release =
     bind alloc (\<lambda>c.
     seq (set_connection c (\<lambda>_.
       \<lparr>c_database = owner, c_handle = Some handle, c_autocommit = autocommit, c_timeout = timeout,
        c_closed = False, c_close_pending = False, c_implicit_release = implicit_release,
        c_scope_active = False, c_gate = False, c_cursors = [], c_requests = [], c_statements = []\<rparr>))
     (ret c))"

definition connection_closed_error :: exc where
  "connection_closed_error = interface_error ''PostGamma connection is closed''"

definition connection_pending_error :: exc where
  "connection_pending_error = interface_error ''PostGamma connection close is pending; retry close()''"

definition Connection_require_open :: "nat \<Rightarrow> ('k, unit) call" where
  "Connection_require_open c =
     seq (guard (\<lambda>w. c_closed (connections w c) \<or> c_handle (connections w c) = None) connection_closed_error)
         (guard (\<lambda>w. c_close_pending (connections w c)) connection_pending_error)"

text \<open>A translated native call on the connection's handle.\<close>

definition on_connection ::
  "nat \<Rightarrow> (handle \<Rightarrow> ncall) \<Rightarrow> (handle \<Rightarrow> ('k, 'a) host_fun) \<Rightarrow> ('k, 'a) call" where
  "on_connection c call f =
     bind (gets (\<lambda>w. c_handle (connections w c))) (\<lambda>h.
       with_handle h (\<lambda>x. translating (native (call x) (f x))))"

definition Connection_transaction_status :: "'k host \<Rightarrow> nat \<Rightarrow> ('k, int) call" where
  "Connection_transaction_status H c =
     seq (Connection_require_open c) (on_connection c Query (connection_transaction_status H))"

definition Connection_id :: "'k host \<Rightarrow> nat \<Rightarrow> ('k, int) call" where
  "Connection_id H c = seq (Connection_require_open c) (on_connection c Query (connection_identity H))"

definition Connection_parameter_status :: "'k host \<Rightarrow> nat \<Rightarrow> pystr \<Rightarrow> ('k, pystr option) call" where
  "Connection_parameter_status H c name =
     seq (Connection_require_open c) (on_connection c Query (\<lambda>x. connection_parameter_status H x name))"

definition Connection_status :: "'k host \<Rightarrow> nat \<Rightarrow> ('k, connection_status_snapshot) call" where
  "Connection_status H c = seq (Connection_require_open c) (on_connection c Query (connection_status H))"

definition Connection_set_autocommit :: "'k host \<Rightarrow> nat \<Rightarrow> bool \<Rightarrow> ('k, unit) call" where
  "Connection_set_autocommit H c value =
     seq (Connection_require_open c)
     (bind (Connection_transaction_status H c) (\<lambda>s.
       if s \<noteq> TRANSACTION_IDLE
       then raise (programming_error ''autocommit cannot change while a transaction is active'')
       else set_connection c (\<lambda>x. x\<lparr>c_autocommit := value\<rparr>)))"

definition make_result :: "'k host \<Rightarrow> native_result \<Rightarrow> ('k, result) call" where
  "make_result H n = bind (gets codec_registry) (\<lambda>cs. lift (result_init (lib H) cs n))"

definition encoded_parameters :: "'k host \<Rightarrow> pyval \<Rightarrow> ('k, nparams) call" where
  "encoded_parameters H ps = bind (gets codec_registry) (\<lambda>cs. lift (encode_parameters (lib H) cs ps))"

definition Connection_native_execute ::
  "'k host \<Rightarrow> nat \<Rightarrow> pystr \<Rightarrow> pyval \<Rightarrow> timeout \<Rightarrow> ('k, result) call" where
  "Connection_native_execute H c sql parameters timeout =
     bind (encoded_parameters H parameters) (\<lambda>encoded.
     bind (with_gate c
       (bind (lift (timeout_milliseconds (lib H) (timeout_arg timeout))) (\<lambda>ms.
         on_connection c (\<lambda>x. Execute x sql encoded ms) (\<lambda>x. connection_execute H x sql encoded ms))))
     (make_result H))"

text \<open>\<^verbatim>\<open>self.timeout if timeout is None else _normalize_timeout(timeout)\<close>\<close>

definition effective_timeout :: "'k host \<Rightarrow> nat \<Rightarrow> pyval \<Rightarrow> ('k, timeout) call" where
  "effective_timeout H c timeout =
     (if timeout = PNone then gets (\<lambda>w. c_timeout (connections w c))
      else lift (normalize_timeout (lib H) timeout))"

definition Connection_begin_transaction_if_needed ::
  "'k host \<Rightarrow> nat \<Rightarrow> pystr \<Rightarrow> timeout \<Rightarrow> ('k, unit) call" where
  "Connection_begin_transaction_if_needed H c sql timeout =
     bind (gets (\<lambda>w. c_autocommit (connections w c))) (\<lambda>autocommit.
       if \<not> autocommit \<and> \<not> is_transaction_control (uni (lib H)) sql
       then bind (Connection_transaction_status H c) (\<lambda>s.
         if s = TRANSACTION_IDLE
         then seq (Connection_native_execute H c (lit ''BEGIN'') PNone timeout) (ret ())
         else ret ())
       else ret ())"

definition Connection_execute :: "'k host \<Rightarrow> nat \<Rightarrow> pystr \<Rightarrow> pyval \<Rightarrow> pyval \<Rightarrow> ('k, result) call" where
  "Connection_execute H c sql parameters timeout =
     seq (Connection_require_open c)
     (bind (effective_timeout H c timeout) (\<lambda>effective.
     seq (Connection_begin_transaction_if_needed H c sql effective)
     (Connection_native_execute H c sql parameters effective)))"

section \<open>Arrow results\<close>

text \<open>An \<^verbatim>\<open>ArrowResult\<close> is its pair of capsules until they are handed over.\<close>

type_synonym arrow_result = "(nat \<times> nat) option"

definition arrow_init :: "nat list \<Rightarrow> arrow_result res" where
  "arrow_init capsules =
     (case capsules of
        [a, b] \<Rightarrow> Inr (Some (a, b))
      | _ \<Rightarrow> Inl (interface_error ''native Arrow export returned an invalid capsule pair''))"

definition arrow_c_array :: "pyval \<Rightarrow> arrow_result \<Rightarrow> ((nat \<times> nat) \<times> arrow_result) res" where
  "arrow_c_array requested_schema a =
     (if requested_schema \<noteq> PNone
      then Inl (PgError NotSupportedError (plain (lit ''PostGamma Arrow export does not perform requested-schema casting'')))
      else case a of
        None \<Rightarrow> Inl (interface_error ''ArrowResult has already transferred ownership'')
      | Some capsules \<Rightarrow> Inr (capsules, None))"

definition Connection_execute_arrow ::
  "'k host \<Rightarrow> nat \<Rightarrow> pystr \<Rightarrow> pyval \<Rightarrow> pyval \<Rightarrow> ('k, arrow_result) call" where
  "Connection_execute_arrow H c sql parameters timeout =
     seq (Connection_require_open c)
     (bind (effective_timeout H c timeout) (\<lambda>effective.
     seq (Connection_begin_transaction_if_needed H c sql effective)
     (bind (encoded_parameters H parameters) (\<lambda>encoded.
     bind (with_gate c
       (bind (lift (timeout_milliseconds (lib H) (timeout_arg effective))) (\<lambda>ms.
         on_connection c (\<lambda>x. ExecuteArrow x sql encoded ms BINARY)
           (\<lambda>x. connection_execute_arrow H x sql encoded ms BINARY))))
     (\<lambda>capsules. lift (arrow_init capsules))))))"

section \<open>Transactions\<close>

definition Connection_claim_transaction_scope :: "'k host \<Rightarrow> nat \<Rightarrow> ('k, unit) call" where
  "Connection_claim_transaction_scope H c =
     seq (Connection_require_open c)
     (seq (guard (\<lambda>w. c_scope_active (connections w c))
        (programming_error ''nested transaction scopes are not supported''))
     (bind (Connection_transaction_status H c) (\<lambda>s.
       if s \<noteq> TRANSACTION_IDLE
       then raise (programming_error
         ''transaction() requires an idle connection; commit or roll back the active transaction first'')
       else set_connection c (\<lambda>x. x\<lparr>c_scope_active := True\<rparr>))))"

definition Connection_enter_transaction_scope :: "'k host \<Rightarrow> nat \<Rightarrow> ('k, unit) call" where
  "Connection_enter_transaction_scope H c =
     seq (Connection_claim_transaction_scope H c)
     (bind (gets (\<lambda>w. c_timeout (connections w c))) (\<lambda>timeout.
     catch (seq (Connection_native_execute H c (lit ''BEGIN'') PNone timeout) (ret ()))
       (\<lambda>e. seq (set_connection c (\<lambda>x. x\<lparr>c_scope_active := False\<rparr>)) (raise e))))"

definition Connection_release_transaction_scope :: "nat \<Rightarrow> ('k, unit) call" where
  "Connection_release_transaction_scope c = set_connection c (\<lambda>x. x\<lparr>c_scope_active := False\<rparr>)"

text \<open>The end of a transaction that is not idle: \<^verbatim>\<open>COMMIT\<close> or \<^verbatim>\<open>ROLLBACK\<close>.\<close>

definition end_transaction :: "'k host \<Rightarrow> nat \<Rightarrow> string \<Rightarrow> ('k, unit) call" where
  "end_transaction H c command =
     bind (Connection_transaction_status H c) (\<lambda>s.
       if s \<noteq> TRANSACTION_IDLE
       then bind (gets (\<lambda>w. c_timeout (connections w c))) (\<lambda>timeout.
         seq (Connection_native_execute H c (lit command) PNone timeout) (ret ()))
       else ret ())"

definition Connection_complete_transaction_scope :: "'k host \<Rightarrow> nat \<Rightarrow> bool \<Rightarrow> ('k, unit) call" where
  "Connection_complete_transaction_scope H c commit =
     seq (Connection_require_open c) (end_transaction H c (if commit then ''COMMIT'' else ''ROLLBACK''))"

definition Connection_commit :: "'k host \<Rightarrow> nat \<Rightarrow> ('k, unit) call" where
  "Connection_commit H c =
     seq (Connection_require_open c)
     (seq (guard (\<lambda>w. c_scope_active (connections w c))
        (programming_error ''transaction() owns commit; leave its context to commit''))
     (end_transaction H c ''COMMIT''))"

definition Connection_rollback :: "'k host \<Rightarrow> nat \<Rightarrow> ('k, unit) call" where
  "Connection_rollback H c =
     seq (Connection_require_open c)
     (seq (guard (\<lambda>w. c_scope_active (connections w c))
        (programming_error ''transaction() owns rollback; raise from its context to roll back''))
     (end_transaction H c ''ROLLBACK''))"

definition Connection_cancel :: "'k host \<Rightarrow> nat \<Rightarrow> ('k, bool) call" where
  "Connection_cancel H c =
     seq (Connection_require_open c) (on_connection c ConnectionCancel (connection_cancel H))"

definition TransactionContext_init :: "nat \<Rightarrow> ('k, nat) call" where
  "TransactionContext_init c =
     bind alloc (\<lambda>t.
     seq (set_scope t (\<lambda>_. \<lparr>sc_connection = c, sc_entered = False, sc_used = False\<rparr>)) (ret t))"

definition TransactionContext_enter :: "'k host \<Rightarrow> nat \<Rightarrow> ('k, nat) call" where
  "TransactionContext_enter H t =
     bind (gets (\<lambda>w. scopes w t)) (\<lambda>sc.
     if sc_used sc then raise (programming_error ''a transaction scope is single-use'')
     else seq (set_scope t (\<lambda>x. x\<lparr>sc_used := True\<rparr>))
       (seq (Connection_enter_transaction_scope H (sc_connection sc))
       (seq (set_scope t (\<lambda>x. x\<lparr>sc_entered := True\<rparr>)) (ret (sc_connection sc)))))"

definition TransactionContext_exit :: "'k host \<Rightarrow> nat \<Rightarrow> exc option \<Rightarrow> ('k, unit) call" where
  "TransactionContext_exit H t exc =
     bind (gets (\<lambda>w. scopes w t)) (\<lambda>sc.
     if \<not> sc_entered sc then ret ()
     else tryfinally
       (if exc = None then Connection_complete_transaction_scope H (sc_connection sc) True
        else catch (Connection_complete_transaction_scope H (sc_connection sc) False)
          (\<lambda>e. warn_preserved_cleanup_error ''transaction-scope rollback'' e exc))
       (\<lambda>_. seq (Connection_release_transaction_scope (sc_connection sc))
          (set_scope t (\<lambda>x. x\<lparr>sc_entered := False\<rparr>))))"

text \<open>\<^verbatim>\<open>with connection.transaction(): body\<close>\<close>

definition in_transaction :: "'k host \<Rightarrow> nat \<Rightarrow> ('k, 'a) call \<Rightarrow> ('k, 'a) call" where
  "in_transaction H c body =
     bind (TransactionContext_init c) (\<lambda>t.
       with_stmt (TransactionContext_enter H t) (TransactionContext_exit H t) (\<lambda>_. body))"

section \<open>Cursors\<close>

definition Cursor_init :: "nat \<Rightarrow> ('k, nat) call" where
  "Cursor_init c =
     bind alloc (\<lambda>u.
     seq (set_cursor u (\<lambda>_. \<lparr>cu_connection = c, cu_arraysize = 1, cu_result = None, cu_closed = False,
        cu_rowcount = - 1, cu_description = None\<rparr>)) (ret u))"

definition Connection_cursor :: "nat \<Rightarrow> ('k, nat) call" where
  "Connection_cursor c =
     seq (Connection_require_open c)
     (bind (Cursor_init c) (\<lambda>u.
     seq (set_connection c (\<lambda>x. x\<lparr>c_cursors := c_cursors x @ [u]\<rparr>)) (ret u)))"

definition Cursor_require_open :: "nat \<Rightarrow> ('k, unit) call" where
  "Cursor_require_open u =
     bind (gets (\<lambda>w. cursors w u)) (\<lambda>cu.
     if cu_closed cu then raise (interface_error ''PostGamma cursor is closed'')
     else Connection_require_open (cu_connection cu))"

definition adapted_operation :: "'k host \<Rightarrow> pystr \<Rightarrow> pystr res" where
  "adapted_operation H operation =
     (case rewrite_numeric_parameters (uni (lib H)) operation of
        Inl (TypeErr m) \<Rightarrow> Inl (PgError ProgrammingError (plain m))
      | Inl (ValueErr m) \<Rightarrow> Inl (PgError ProgrammingError (plain m))
      | Inl (UnicodeErr m) \<Rightarrow> Inl (PgError ProgrammingError (plain m))
      | r \<Rightarrow> r)"

definition Cursor_execute :: "'k host \<Rightarrow> nat \<Rightarrow> pystr \<Rightarrow> pyval \<Rightarrow> pyval \<Rightarrow> ('k, unit) call" where
  "Cursor_execute H u operation parameters timeout =
     seq (Cursor_require_open u)
     (bind (lift (adapted_operation H operation)) (\<lambda>adapted.
     bind (gets (\<lambda>w. cu_connection (cursors w u))) (\<lambda>c.
     bind (Connection_execute H c adapted parameters timeout) (\<lambda>r.
     set_cursor u (\<lambda>x. x\<lparr>cu_result := Some r, cu_rowcount := res_rowcount r,
       cu_description := result_description r\<rparr>)))))"

fun executemany_loop :: "'k host \<Rightarrow> nat \<Rightarrow> pystr \<Rightarrow> pyval list \<Rightarrow> int \<Rightarrow> ('k, int) call" where
  "executemany_loop H u operation [] acc = ret acc"
| "executemany_loop H u operation (ps # pss) acc =
     seq (Cursor_execute H u operation ps PNone)
     (bind (gets (\<lambda>w. cu_rowcount (cursors w u))) (\<lambda>n.
       executemany_loop H u operation pss (if 0 \<le> n then acc + n else acc)))"

definition Cursor_executemany :: "'k host \<Rightarrow> nat \<Rightarrow> pystr \<Rightarrow> pyval \<Rightarrow> ('k, unit) call" where
  "Cursor_executemany H u operation seq_of_parameters =
     seq (Cursor_require_open u)
     (bind (lift (iter_values seq_of_parameters)) (\<lambda>pss.
     bind (executemany_loop H u operation pss 0) (\<lambda>acc.
     seq (onlyif (pss = []) (set_cursor u (\<lambda>x. x\<lparr>cu_result := None, cu_description := None\<rparr>)))
     (set_cursor u (\<lambda>x. x\<lparr>cu_rowcount := (if pss \<noteq> [] then acc else 0)\<rparr>)))))"

definition Cursor_callproc :: "nat \<Rightarrow> ('k, unit) call" where
  "Cursor_callproc u =
     seq (Cursor_require_open u)
     (raise (PgError NotSupportedError
        (plain (lit ''stored-procedure calls are not exposed by the PostGamma Python API''))))"

text \<open>The result a fetch reads.\<close>

definition Cursor_result :: "nat \<Rightarrow> ('k, result) call" where
  "Cursor_result u =
     seq (Cursor_require_open u)
     (bind (gets (\<lambda>w. cursors w u)) (\<lambda>cu.
     case (cu_result cu, cu_description cu) of
       (Some r, Some _) \<Rightarrow> ret r
     | _ \<Rightarrow> raise (programming_error ''the cursor has no tuple result'')))"

definition Cursor_fetchone :: "nat \<Rightarrow> ('k, row option) call" where
  "Cursor_fetchone u =
     bind (Cursor_result u) (\<lambda>r. case result_fetchone r of (row, r') \<Rightarrow>
       seq (set_cursor u (\<lambda>x. x\<lparr>cu_result := Some r'\<rparr>)) (ret row))"

definition Cursor_fetchmany :: "nat \<Rightarrow> int option \<Rightarrow> ('k, row list) call" where
  "Cursor_fetchmany u n =
     bind (Cursor_result u) (\<lambda>r.
     bind (gets (\<lambda>w. cu_arraysize (cursors w u))) (\<lambda>a.
     bind (lift (result_fetchmany (case n of None \<Rightarrow> a | Some k \<Rightarrow> k) r)) (\<lambda>(rows, r').
       seq (set_cursor u (\<lambda>x. x\<lparr>cu_result := Some r'\<rparr>)) (ret rows))))"

definition Cursor_fetchall :: "nat \<Rightarrow> ('k, row list) call" where
  "Cursor_fetchall u =
     bind (Cursor_result u) (\<lambda>r. case result_fetchall r of (rows, r') \<Rightarrow>
       seq (set_cursor u (\<lambda>x. x\<lparr>cu_result := Some r'\<rparr>)) (ret rows))"

definition Cursor_next :: "nat \<Rightarrow> ('k, row) call" where
  "Cursor_next u =
     bind (Cursor_fetchone u) (\<lambda>row. case row of None \<Rightarrow> raise StopIter | Some r \<Rightarrow> ret r)"

definition Cursor_close :: "nat \<Rightarrow> ('k, unit) call" where
  "Cursor_close u = set_cursor u (\<lambda>x. x\<lparr>cu_result := None, cu_closed := True\<rparr>)"

text \<open>\<^verbatim>\<open>nextset\<close>, \<^verbatim>\<open>setinputsizes\<close>, \<^verbatim>\<open>setoutputsize\<close>, \<^verbatim>\<open>__iter__\<close> and \<^verbatim>\<open>__enter__\<close> only check.\<close>

definition Cursor_noop :: "nat \<Rightarrow> ('k, unit) call" where
  "Cursor_noop u = Cursor_require_open u"

definition Cursor_exit :: "nat \<Rightarrow> exc option \<Rightarrow> ('k, unit) call" where
  "Cursor_exit u exc = Cursor_close u"

end
