(* ===== verification/Requests.thy ===== *)
theory Requests
  imports Sessions
begin

text \<open>
  The classes \<^verbatim>\<open>Request\<close>, \<^verbatim>\<open>CopyIn\<close> and \<^verbatim>\<open>CopyOut\<close> of \<^verbatim>\<open>_stream.py\<close>. A request holds the gate of
  its connection from its start to its close. Polling loops take fuel. Closing a request closes
  its COPY stream first, and closing a COPY stream closes its request: the two call each other
  within the interpreter's recursion limit.
\<close>

section \<open>Starting a request\<close>

definition is_native :: "exc \<Rightarrow> bool" where
  "is_native e = (case e of NativeError _ \<Rightarrow> True | _ \<Rightarrow> False)"

text \<open>The exception as \<^verbatim>\<open>raise_translated\<close> leaves it.\<close>

definition translate_exc :: "exc \<Rightarrow> exc" where
  "translate_exc e = (case e of NativeError d \<Rightarrow> translated d | _ \<Rightarrow> e)"

definition notice_check :: "handler_arg option \<Rightarrow> handler option res" where
  "notice_check on_notice =
     (case on_notice of
        None \<Rightarrow> Inr None
      | Some NotCallable \<Rightarrow> Inl (TypeErr (lit ''notice handler must be callable''))
      | Some (Callable h) \<Rightarrow> Inr (Some h))"

definition Request_init ::
  "'k host \<Rightarrow> nat \<Rightarrow> handle \<Rightarrow> pyval \<Rightarrow> handler_arg option \<Rightarrow> ('k, nat) call" where
  "Request_init H c h timeout on_notice =
     bind (lift (normalize_timeout (lib H) timeout)) (\<lambda>normalized.
     bind (case normalized of
         None \<Rightarrow> ret None
       | Some t \<Rightarrow> bind (now H) (\<lambda>m. ret (Some (float_of_rat (m + t))))) (\<lambda>deadline.
     bind (lift (notice_check on_notice)) (\<lambda>notice.
     bind alloc (\<lambda>r.
     seq (set_request r (\<lambda>_. \<lparr>r_connection = c, r_handle = Some h, r_closed = False, r_deadline = deadline,
        r_on_notice = notice, r_copy = None, r_owns_gate = True, r_id = 0, r_waitable = 0\<rparr>))
     (seq (catch
        (bind (native (Query h) (request_identity H h)) (\<lambda>i.
         seq (set_request r (\<lambda>x. x\<lparr>r_id := i\<rparr>))
         (bind (native (Query h) (request_waitable H h)) (\<lambda>v.
         set_request r (\<lambda>x. x\<lparr>r_waitable := v\<rparr>)))))
        (\<lambda>e. if is_native e
           then seq (catch (native (RequestClose h) (request_close H h)) (\<lambda>_. ret ()))
             (seq (set_request r (\<lambda>x. x\<lparr>r_handle := None, r_closed := True, r_owns_gate := False\<rparr>))
             (seq (gate_release c) (raise (translate_exc e))))
           else raise e))
     (seq (set_connection c (\<lambda>x. x\<lparr>c_requests := c_requests x @ [r]\<rparr>))
     (bind (gets (\<lambda>w. (c_database (connections w c), r_id (requests w r)))) (\<lambda>(db, i).
     seq (case notice of
         None \<Rightarrow> ret ()
       | Some f \<Rightarrow> set_database db (\<lambda>x. x\<lparr>d_request_event_handlers :=
           (d_request_event_handlers x)(i := d_request_event_handlers x i @ [f])\<rparr>))
     (ret r)))))))))"

record start_args =
  sa_chunk_rows :: pyval
  sa_timeout :: pyval
  sa_result_buffer_limit :: pyval
  sa_script :: bool
  sa_on_notice :: "handler_arg option"

text \<open>The gate is released again when the native start fails.\<close>

definition gated_start :: "nat \<Rightarrow> ('k, handle) call \<Rightarrow> ('k, handle) call" where
  "gated_start c m =
     seq (gate_acquire c)
       (catch m (\<lambda>e. seq (gate_release c) (raise (translate_exc e))))"

definition Request_start ::
  "'k host \<Rightarrow> nat \<Rightarrow> pystr \<Rightarrow> pyval \<Rightarrow> start_args \<Rightarrow> ('k, nat) call" where
  "Request_start H c sql parameters a =
     bind (lift (nonnegative_int (sa_chunk_rows a) ''chunk_rows'')) (\<lambda>chunk_rows.
     bind (lift (nonnegative_int (sa_result_buffer_limit a) ''result_buffer_limit'')) (\<lambda>limit.
     seq (lift (notice_check (sa_on_notice a)))
     (bind (encoded_parameters H parameters) (\<lambda>encoded.
     bind (gated_start c
       (bind (gets (\<lambda>w. c_handle (connections w c))) (\<lambda>h.
         with_handle h (\<lambda>x.
           native (RequestStart x sql encoded chunk_rows limit (sa_script a))
             (request_start H x sql encoded chunk_rows limit (sa_script a))))))
     (\<lambda>h. Request_init H c h (sa_timeout a) (sa_on_notice a))))))"

definition Request_from_statement ::
  "'k host \<Rightarrow> nat \<Rightarrow> pyval \<Rightarrow> int \<Rightarrow> pyval \<Rightarrow> int \<Rightarrow> handler_arg option \<Rightarrow> ('k, nat) call" where
  "Request_from_statement H st parameters chunk_rows timeout limit on_notice =
     seq (lift (notice_check on_notice))
     (bind (encoded_parameters H parameters) (\<lambda>encoded.
     bind (gets (\<lambda>w. st_connection (statements w st))) (\<lambda>c.
     bind (gated_start c
       (bind (gets (\<lambda>w. st_handle (statements w st))) (\<lambda>h.
         with_handle h (\<lambda>x.
           native (StatementExecute x encoded chunk_rows limit)
             (statement_execute H x encoded chunk_rows limit)))))
     (\<lambda>h. Request_init H c h timeout on_notice))))"

section \<open>Closing\<close>

definition Request_require_open :: "nat \<Rightarrow> ('k, unit) call" where
  "Request_require_open r =
     guard (\<lambda>w. r_closed (requests w r) \<or> r_handle (requests w r) = None)
       (interface_error ''PostGamma request is closed'')"

definition Request_remaining :: "'k host \<Rightarrow> nat \<Rightarrow> ('k, pyfloat option) call" where
  "Request_remaining H r =
     bind (gets (\<lambda>w. r_deadline (requests w r))) (\<lambda>d. case d of
         None \<Rightarrow> ret None
       | Some f \<Rightarrow> bind (now H) (\<lambda>m. ret (Some (float_max_zero (float_minus f m)))))"

definition Copy_require_open :: "nat \<Rightarrow> ('k, unit) call" where
  "Copy_require_open cp =
     guard (\<lambda>w. cp_closed (copies w cp) \<or> cp_handle (copies w cp) = None)
       (interface_error ''PostGamma COPY stream is closed'')"

definition Copy_release :: "'k host \<Rightarrow> nat \<Rightarrow> ('k, unit) call" where
  "Copy_release H cp =
     seq (Copy_require_open cp)
     (bind (gets (\<lambda>w. copies w cp)) (\<lambda>x.
     bind (Request_remaining H (cp_request x)) (\<lambda>remaining.
     bind (lift (timeout_milliseconds (lib H) (float_arg remaining))) (\<lambda>ms.
     seq (with_handle (cp_handle x) (\<lambda>h. translating (native (CopyClose h ms) (copy_close H h ms))))
     (set_copy cp (\<lambda>y. y\<lparr>cp_handle := None, cp_closed := True\<rparr>))))))"

text \<open>What is left of \<^verbatim>\<open>Request.close\<close> when the COPY stream, if any, is closed.\<close>

definition retire_request :: "'k host \<Rightarrow> nat \<Rightarrow> ('k, unit) call" where
  "retire_request H r =
     bind (gets (\<lambda>w. requests w r)) (\<lambda>q.
     seq (case r_handle q of
         None \<Rightarrow> ret ()
       | Some h \<Rightarrow> translating (native (RequestClose h) (request_close H h)))
     (seq (set_request r (\<lambda>x. x\<lparr>r_handle := None, r_closed := True\<rparr>))
     (seq (set_connection (r_connection q) (\<lambda>x. x\<lparr>c_requests := remove1 r (c_requests x)\<rparr>))
     (seq (case r_on_notice q of
         None \<Rightarrow> ret ()
       | Some f \<Rightarrow> bind (gets (\<lambda>w. c_database (connections w (r_connection q)))) (\<lambda>db.
           set_database db (\<lambda>x. x\<lparr>d_request_event_handlers :=
             (d_request_event_handlers x)(r_id q := remove1 f (d_request_event_handlers x (r_id q)))\<rparr>)))
     (bind (gets (\<lambda>w. r_owns_gate (requests w r))) (\<lambda>owns.
     onlyif owns (seq (set_request r (\<lambda>x. x\<lparr>r_owns_gate := False\<rparr>)) (gate_release (r_connection q)))))))))"

fun Request_close_at :: "'k host \<Rightarrow> nat \<Rightarrow> nat \<Rightarrow> ('k, unit) call" and
    Copy_close_at :: "'k host \<Rightarrow> nat \<Rightarrow> nat \<Rightarrow> ('k, unit) call" where
  "Request_close_at H 0 r = raise recursion_error"
| "Request_close_at H (Suc d) r =
     bind (gets (\<lambda>w. requests w r)) (\<lambda>q.
     if r_closed q then ret ()
     else bind (gets (\<lambda>w. case r_copy q of None \<Rightarrow> None | Some cp \<Rightarrow>
         if cp_closed (copies w cp) then None else Some cp)) (\<lambda>copy.
       seq (case copy of None \<Rightarrow> ret () | Some cp \<Rightarrow> Copy_close_at H d cp)
       (bind (gets (\<lambda>w. r_closed (requests w r))) (\<lambda>closed.
         if closed then ret () else retire_request H r))))"
| "Copy_close_at H 0 cp = raise recursion_error"
| "Copy_close_at H (Suc d) cp =
     bind (gets (\<lambda>w. copies w cp)) (\<lambda>x.
     if cp_closed x then
       bind (gets (\<lambda>w. r_closed (requests w (cp_request x)))) (\<lambda>closed.
         onlyif (\<not> closed) (Request_close_at H d (cp_request x)))
     else tryfinally (Copy_release H cp)
       (\<lambda>primary. cleanup_preserving ''COPY request close'' (Request_close_at H d (cp_request x)) primary))"

definition Request_close :: "'k host \<Rightarrow> nat \<Rightarrow> ('k, unit) call" where
  "Request_close H r = Request_close_at H (recursion_limit H) r"

definition Copy_close :: "'k host \<Rightarrow> nat \<Rightarrow> ('k, unit) call" where
  "Copy_close H cp = Copy_close_at H (recursion_limit H) cp"

section \<open>Driving a request\<close>

text \<open>A native call on the request's handle; \<^verbatim>\<open>raise_translated\<close> is left to the caller.\<close>

definition on_request ::
  "nat \<Rightarrow> (handle \<Rightarrow> ncall) \<Rightarrow> (handle \<Rightarrow> ('k, 'a) host_fun) \<Rightarrow> ('k, 'a) call" where
  "on_request r call f =
     bind (gets (\<lambda>w. r_handle (requests w r))) (\<lambda>h. with_handle h (\<lambda>x. native (call x) (f x)))"

definition Request_state :: "'k host \<Rightarrow> nat \<Rightarrow> ('k, int) call" where
  "Request_state H r = seq (Request_require_open r) (translating (on_request r Query (request_poll H)))"

definition Request_cancel :: "'k host \<Rightarrow> nat \<Rightarrow> ('k, bool) call" where
  "Request_cancel H r =
     bind (gets (\<lambda>w. requests w r)) (\<lambda>q.
     if r_closed q \<or> r_handle q = None then ret False
     else translating (on_request r RequestCancel (request_cancel H)))"

definition request_timeout :: exc where
  "request_timeout = PgError QueryTimeoutError
     \<lparr>message = lit ''PostGamma request exceeded its host-side deadline'',
      status = Some PGM_STATUS_TIMEOUT, status_name = Some (lit ''timeout''), sqlstate = None,
      severity = None, detail = None, hint = None\<rparr>"

definition Request_timed_out :: "'k host \<Rightarrow> nat \<Rightarrow> ('k, unit) call" where
  "Request_timed_out H r =
     seq (catch (seq (Request_cancel H r) (ret ()))
       (\<lambda>e. warn_preserved_cleanup_error ''timed-out request cancellation'' e (Some request_timeout)))
     (seq (cleanup_preserving ''timed-out request close'' (Request_close H r) (Some request_timeout))
     (raise request_timeout))"

text \<open>An exception while the request is driven closes it; its own failure becomes a warning.\<close>

definition closing_on_error :: "'k host \<Rightarrow> nat \<Rightarrow> string \<Rightarrow> ('k, 'a) call \<Rightarrow> ('k, 'a) call" where
  "closing_on_error H r action m =
     catch m (\<lambda>e. seq (cleanup_preserving action (Request_close H r) (Some (translate_exc e)))
       (raise (translate_exc e)))"

definition request_database :: "nat \<Rightarrow> ('k, nat) call" where
  "request_database r = gets (\<lambda>w. c_database (connections w (r_connection (requests w r))))"

definition dispatch_for :: "'k host \<Rightarrow> nat \<Rightarrow> nat \<Rightarrow> ('k, unit) call" where
  "dispatch_for H fuel r =
     bind (request_database r) (\<lambda>db. seq (Database_dispatch_events H fuel db PNone) (ret ()))"

fun take_loop :: "'k host \<Rightarrow> nat \<Rightarrow> nat \<Rightarrow> bool \<Rightarrow> ('k, int \<times> native_result option) call" where
  "take_loop H 0 r block = hang OutOfFuel"
| "take_loop H (Suc n) r block =
     bind (Request_remaining H r) (\<lambda>remaining.
     seq (onlyif (block \<and> remaining \<noteq> None \<and> float_le_zero (the remaining)) (Request_timed_out H r))
     (let wait_seconds = (if block then POLL_SECONDS else Fin 0);
          wait_seconds = (case remaining of None \<Rightarrow> wait_seconds | Some f \<Rightarrow> float_min wait_seconds f)
      in bind (closing_on_error H r ''failed request close''
           (bind (lift (timeout_milliseconds (lib H) (PFloat wait_seconds))) (\<lambda>ms.
             on_request r (\<lambda>x. RequestNext x ms) (\<lambda>x. request_next H x ms)))) (\<lambda>(availability, nr).
         seq (closing_on_error H r ''event-handler request close'' (dispatch_for H n r))
         (if availability \<noteq> AVAILABILITY_AGAIN \<or> \<not> block then ret (availability, nr)
          else take_loop H n r block))))"

declare take_loop.simps [simp del]

definition Request_take :: "'k host \<Rightarrow> nat \<Rightarrow> nat \<Rightarrow> bool \<Rightarrow> ('k, int \<times> native_result option) call" where
  "Request_take H fuel r block = seq (Request_require_open r) (take_loop H fuel r block)"

datatype item = ResultItem result | CopyItem nat

definition Copy_init :: "copy_kind \<Rightarrow> nat \<Rightarrow> handle \<Rightarrow> ('k, nat) call" where
  "Copy_init kind r h =
     bind alloc (\<lambda>cp.
     seq (set_copy cp (\<lambda>_. \<lparr>cp_kind = kind, cp_request = r, cp_handle = Some h, cp_closed = False,
        cp_io_ended = False, cp_command_result = None\<rparr>)) (ret cp))"

definition Request_convert :: "'k host \<Rightarrow> nat \<Rightarrow> native_result \<Rightarrow> ('k, item) call" where
  "Request_convert H r n =
     (case (if nr_kind n = RESULT_COPY_IN \<and> nr_copy n \<noteq> None then Some (CopyIn, the (nr_copy n))
            else if nr_kind n = RESULT_COPY_OUT \<and> nr_copy n \<noteq> None then Some (CopyOut, the (nr_copy n))
            else None) of
        Some (kind, h) \<Rightarrow>
          bind (Copy_init kind r h) (\<lambda>cp.
          seq (set_request r (\<lambda>x. x\<lparr>r_copy := Some cp\<rparr>)) (ret (CopyItem cp)))
      | None \<Rightarrow> bind (make_result H n) (\<lambda>x. ret (ResultItem x)))"

definition Request_try_next :: "'k host \<Rightarrow> nat \<Rightarrow> nat \<Rightarrow> ('k, int \<times> item option) call" where
  "Request_try_next H fuel r =
     bind (Request_take H fuel r False) (\<lambda>(availability, nr).
     if availability \<noteq> AVAILABILITY_READY
     then seq (onlyif (availability = AVAILABILITY_END) (Request_close H r)) (ret (availability, None))
     else case nr of
       None \<Rightarrow> raise AssertionErr
     | Some n \<Rightarrow> bind (Request_convert H r n) (\<lambda>i. ret (availability, Some i)))"

definition Request_next_result :: "'k host \<Rightarrow> nat \<Rightarrow> nat \<Rightarrow> ('k, item option) call" where
  "Request_next_result H fuel r =
     bind (Request_take H fuel r True) (\<lambda>(availability, nr).
     if availability = AVAILABILITY_END then seq (Request_close H r) (ret None)
     else case (availability = AVAILABILITY_READY, nr) of
       (True, Some n) \<Rightarrow> bind (Request_convert H r n) (\<lambda>i. ret (Some i))
     | _ \<Rightarrow> raise (interface_error ''PostGamma returned an invalid result availability''))"

text \<open>\<^verbatim>\<open>list(request.results())\<close>\<close>

fun Request_results :: "'k host \<Rightarrow> nat \<Rightarrow> nat \<Rightarrow> ('k, result list) call" where
  "Request_results H 0 r = hang OutOfFuel"
| "Request_results H (Suc n) r =
     bind (Request_next_result H n r) (\<lambda>i. case i of
         None \<Rightarrow> ret []
       | Some (CopyItem cp) \<Rightarrow>
           seq (Copy_close H cp)
           (raise (programming_error ''COPY result requires Connection.copy(), copy_from(), or copy_to()''))
       | Some (ResultItem x) \<Rightarrow> bind (Request_results H n r) (\<lambda>xs. ret (x # xs)))"

definition Request_progress :: "'k host \<Rightarrow> nat \<Rightarrow> nat \<Rightarrow> ('k, int) call" where
  "Request_progress H fuel r =
     seq (Request_require_open r)
     (bind (translating (on_request r RequestProgress (request_progress H))) (\<lambda>state.
     seq (dispatch_for H fuel r) (ret state)))"

definition Request_exit :: "'k host \<Rightarrow> nat \<Rightarrow> exc option \<Rightarrow> ('k, unit) call" where
  "Request_exit H r exc = Request_close H r"

definition Request_del :: "'k host \<Rightarrow> nat \<Rightarrow> ('k, unit) call" where
  "Request_del H r =
     bind (gets (\<lambda>w. requests w r)) (\<lambda>q.
     onlyif (r_handle q \<noteq> None \<and> \<not> r_closed q)
       (seq (warn_resource_leak ''unclosed PostGamma Request'')
       (catch (Request_close H r) (\<lambda>e. warn_preserved_cleanup_error ''abandoned request close'' e None))))"

section \<open>COPY\<close>

definition Copy_progress_wait :: "'k host \<Rightarrow> nat \<Rightarrow> nat \<Rightarrow> ('k, unit) call" where
  "Copy_progress_wait H fuel cp =
     bind (gets (\<lambda>w. cp_request (copies w cp))) (\<lambda>r.
     seq (Request_progress H fuel r)
     (bind (Request_remaining H r) (\<lambda>remaining.
     seq (onlyif (remaining \<noteq> None \<and> float_le_zero (the remaining)) (Request_timed_out H r))
     (bind (gets (\<lambda>w. r_waitable (requests w r))) (\<lambda>v.
     host_call (select_wait H v (case remaining of None \<Rightarrow> POLL_SECONDS | Some f \<Rightarrow> float_min POLL_SECONDS f)))))))"

definition Copy_finish_request :: "'k host \<Rightarrow> nat \<Rightarrow> nat \<Rightarrow> ('k, result) call" where
  "Copy_finish_request H fuel cp =
     bind (gets (\<lambda>w. cp_request (copies w cp))) (\<lambda>r.
     bind (Request_results H fuel r) (\<lambda>xs.
     seq (Request_close H r)
     (case xs of
        [x] \<Rightarrow> seq (set_copy cp (\<lambda>y. y\<lparr>cp_command_result := Some x\<rparr>)) (ret x)
      | _ \<Rightarrow> raise (interface_error ''COPY did not produce exactly one command result''))))"

definition Copy_abort :: "'k host \<Rightarrow> nat \<Rightarrow> pystr option \<Rightarrow> ('k, unit) call" where
  "Copy_abort H cp msg =
     bind (gets (\<lambda>w. copies w cp)) (\<lambda>x.
     if cp_closed x then ret ()
     else translating (tryfinally
       (seq (with_handle (cp_handle x) (\<lambda>h. native (CopyAbort h msg) (copy_abort H h msg)))
            (Copy_release H cp))
       (\<lambda>primary. cleanup_preserving ''aborted COPY request close'' (Request_close H (cp_request x)) primary)))"

text \<open>A native call on the handle of a COPY stream.\<close>

definition on_copy ::
  "nat \<Rightarrow> (handle \<Rightarrow> ncall) \<Rightarrow> (handle \<Rightarrow> ('k, 'a) host_fun) \<Rightarrow> ('k, 'a) call" where
  "on_copy cp call f =
     bind (gets (\<lambda>w. cp_handle (copies w cp))) (\<lambda>h.
       with_handle h (\<lambda>x. translating (native (call x) (f x))))"

text \<open>The loop of \<^verbatim>\<open>CopyIn.write\<close> on the bytes that are left.\<close>

fun write_loop :: "'k host \<Rightarrow> nat \<Rightarrow> nat \<Rightarrow> pybytes \<Rightarrow> int \<Rightarrow> ('k, int) call" where
  "write_loop H fuel cp view offset =
     (if view = [] then ret offset
      else case fuel of
        0 \<Rightarrow> hang OutOfFuel
      | Suc n \<Rightarrow>
          bind (on_copy cp (\<lambda>h. CopyWrite h view) (\<lambda>h. copy_write H h view)) (\<lambda>(consumed, state).
          if consumed < 0 \<or> int (length view) < consumed
          then raise (interface_error ''native COPY writer returned an invalid count'')
          else let rest = drop (nat consumed) view in
            if state = IO_AGAIN then
              (if consumed \<noteq> 0
               then raise (interface_error ''native COPY writer reported progress and backpressure'')
               else seq (Copy_progress_wait H n cp) (write_loop H n cp rest (offset + consumed)))
            else if state = IO_PROGRESS then
              (if consumed = 0 \<and> rest \<noteq> []
               then raise (interface_error ''native COPY writer made no progress'')
               else write_loop H n cp rest (offset + consumed))
            else raise (interface_error ''native COPY writer returned an invalid state'')))"

declare write_loop.simps [simp del]

definition CopyIn_write :: "'k host \<Rightarrow> nat \<Rightarrow> nat \<Rightarrow> pybytes \<Rightarrow> ('k, int) call" where
  "CopyIn_write H fuel cp data = seq (Copy_require_open cp) (write_loop H fuel cp data 0)"

fun finish_loop :: "'k host \<Rightarrow> nat \<Rightarrow> nat \<Rightarrow> pystr option \<Rightarrow> ('k, unit) call" where
  "finish_loop H 0 cp failure_message = hang OutOfFuel"
| "finish_loop H (Suc n) cp failure_message =
     bind (on_copy cp (\<lambda>h. CopyFinish h failure_message) (\<lambda>h. copy_finish H h failure_message)) (\<lambda>state.
     if state = IO_END then ret ()
     else if state \<noteq> IO_AGAIN then raise (interface_error ''native COPY finish returned an invalid state'')
     else seq (Copy_progress_wait H n cp) (finish_loop H n cp failure_message))"

definition CopyIn_finish :: "'k host \<Rightarrow> nat \<Rightarrow> nat \<Rightarrow> pystr option \<Rightarrow> ('k, result) call" where
  "CopyIn_finish H fuel cp failure_message =
     seq (Copy_require_open cp)
     (seq (finish_loop H fuel cp failure_message)
     (seq (set_copy cp (\<lambda>x. x\<lparr>cp_io_ended := True\<rparr>))
     (seq (Copy_release H cp)
     (Copy_finish_request H fuel cp))))"

fun copy_from_loop :: "'k host \<Rightarrow> nat \<Rightarrow> nat \<Rightarrow> nat \<Rightarrow> int \<Rightarrow> ('k, unit) call" where
  "copy_from_loop H 0 cp source chunk_size = hang OutOfFuel"
| "copy_from_loop H (Suc n) cp source chunk_size =
     bind (host_call (source_read H source chunk_size)) (\<lambda>chunk.
     if chunk = [] then ret ()
     else seq (CopyIn_write H n cp chunk) (copy_from_loop H n cp source chunk_size))"

definition CopyIn_copy_from :: "'k host \<Rightarrow> nat \<Rightarrow> nat \<Rightarrow> nat \<Rightarrow> pyval \<Rightarrow> ('k, result) call" where
  "CopyIn_copy_from H fuel cp source chunk_size =
     bind (lift (positive_int chunk_size ''chunk_size'')) (\<lambda>k.
     seq (copy_from_loop H fuel cp source k) (CopyIn_finish H fuel cp None))"

fun read_loop :: "'k host \<Rightarrow> nat \<Rightarrow> nat \<Rightarrow> int \<Rightarrow> ('k, pybytes) call" where
  "read_loop H 0 cp k = hang OutOfFuel"
| "read_loop H (Suc n) cp k =
     bind (on_copy cp (\<lambda>h. CopyRead h k) (\<lambda>h. copy_read H h k)) (\<lambda>(data, state).
     if data \<noteq> [] then
       (if state \<noteq> IO_PROGRESS then raise (interface_error ''native COPY reader returned data with an invalid state'')
        else ret data)
     else if state = IO_END then
       seq (set_copy cp (\<lambda>x. x\<lparr>cp_io_ended := True\<rparr>))
       (seq (Copy_release H cp) (seq (Copy_finish_request H n cp) (ret [])))
     else if state \<noteq> IO_AGAIN then raise (interface_error ''native COPY reader returned an invalid state'')
     else seq (Copy_progress_wait H n cp) (read_loop H n cp k))"

definition CopyOut_read :: "'k host \<Rightarrow> nat \<Rightarrow> nat \<Rightarrow> pyval \<Rightarrow> ('k, pybytes) call" where
  "CopyOut_read H fuel cp n =
     seq (Copy_require_open cp)
     (bind (lift (positive_int n ''size'')) (\<lambda>k.
     bind (gets (\<lambda>w. cp_io_ended (copies w cp))) (\<lambda>ended.
     if ended then seq (Copy_release H cp) (seq (Copy_finish_request H fuel cp) (ret []))
     else read_loop H fuel cp k)))"

text \<open>The inner loop of \<^verbatim>\<open>copy_to\<close>: a target that returns \<^verbatim>\<open>None\<close> took everything.\<close>

fun drain_loop :: "'k host \<Rightarrow> nat \<Rightarrow> nat \<Rightarrow> pybytes \<Rightarrow> ('k, unit) call" where
  "drain_loop H fuel target pending =
     (if pending = [] then ret ()
      else case fuel of
        0 \<Rightarrow> hang OutOfFuel
      | Suc n \<Rightarrow>
          bind (host_call (target_write H target pending)) (\<lambda>consumed. case consumed of
              None \<Rightarrow> ret ()
            | Some k \<Rightarrow>
                (if k \<le> 0 then raise (BlockingIOErr (lit ''COPY target made no write progress''))
                 else drain_loop H n target (drop (nat k) pending))))"

declare drain_loop.simps [simp del]

fun copy_to_loop :: "'k host \<Rightarrow> nat \<Rightarrow> nat \<Rightarrow> nat \<Rightarrow> int \<Rightarrow> ('k, unit) call" where
  "copy_to_loop H 0 cp target chunk_size = hang OutOfFuel"
| "copy_to_loop H (Suc n) cp target chunk_size =
     bind (CopyOut_read H n cp (PInt chunk_size)) (\<lambda>chunk.
     if chunk = [] then ret ()
     else seq (drain_loop H (length chunk) target chunk) (copy_to_loop H n cp target chunk_size))"

definition CopyOut_copy_to :: "'k host \<Rightarrow> nat \<Rightarrow> nat \<Rightarrow> nat \<Rightarrow> pyval \<Rightarrow> ('k, result) call" where
  "CopyOut_copy_to H fuel cp target chunk_size =
     bind (lift (positive_int chunk_size ''chunk_size'')) (\<lambda>k.
     seq (copy_to_loop H fuel cp target k)
     (bind (gets (\<lambda>w. cp_command_result (copies w cp))) (\<lambda>x. case x of
         None \<Rightarrow> raise AssertionErr
       | Some y \<Rightarrow> ret y)))"

definition Copy_exit :: "'k host \<Rightarrow> nat \<Rightarrow> nat \<Rightarrow> exc option \<Rightarrow> ('k, unit) call" where
  "Copy_exit H fuel cp exc =
     bind (gets (\<lambda>w. copies w cp)) (\<lambda>x.
     if exc = None \<and> cp_kind x = CopyIn \<and> \<not> cp_io_ended x
     then seq (CopyIn_finish H fuel cp None) (ret ())
     else Copy_close H cp)"

definition Copy_del :: "'k host \<Rightarrow> nat \<Rightarrow> ('k, unit) call" where
  "Copy_del H cp =
     bind (gets (\<lambda>w. copies w cp)) (\<lambda>x.
     onlyif (\<not> cp_closed x)
       (seq (warn_resource_leak (if cp_kind x = CopyIn then ''unclosed PostGamma CopyIn'' else ''unclosed PostGamma CopyOut''))
       (catch (Copy_close H cp) (\<lambda>e. warn_preserved_cleanup_error ''abandoned COPY close'' e None))))"

definition start_copy :: "'k host \<Rightarrow> nat \<Rightarrow> nat \<Rightarrow> pystr \<Rightarrow> timeout \<Rightarrow> ('k, nat) call" where
  "start_copy H fuel c sql timeout =
     bind (Request_start H c sql PNone
       \<lparr>sa_chunk_rows = PInt 0, sa_timeout = timeout_arg timeout, sa_result_buffer_limit = PInt 0,
        sa_script = False, sa_on_notice = None\<rparr>) (\<lambda>r.
     bind (catch (Request_next_result H fuel r)
       (\<lambda>e. seq (cleanup_preserving ''COPY-start request close'' (Request_close H r) (Some e)) (raise e)))
     (\<lambda>i. case i of
        Some (CopyItem cp) \<Rightarrow> ret cp
      | _ \<Rightarrow> seq (Request_close H r)
             (raise (programming_error ''SQL did not enter COPY FROM STDIN or COPY TO STDOUT''))))"

end
