(* ===== verification/Streams.thy ===== *)
theory Streams
  imports Requests
begin

text \<open>
  The classes \<^verbatim>\<open>RowStream\<close> and \<^verbatim>\<open>PreparedStatement\<close> of \<^verbatim>\<open>_stream.py\<close>. The generator behind
  \<^verbatim>\<open>RowStream.chunks\<close> is a state machine: it has not started, waits at a \<^verbatim>\<open>yield\<close>, or is done.
\<close>

section \<open>Row streams\<close>

definition RowStream_init :: "nat \<Rightarrow> ('k, nat) call" where
  "RowStream_init r =
     bind alloc (\<lambda>s.
     seq (set_stream s (\<lambda>_. \<lparr>s_request = r, s_columns = [], s_command_status = None, s_rowcount = - 1,
        s_rows = [], s_chunks = ChunksFresh, s_rows_seen = 0, s_closed = False\<rparr>)) (ret s))"

definition RowStream_start ::
  "'k host \<Rightarrow> nat \<Rightarrow> pystr \<Rightarrow> pyval \<Rightarrow> pyval \<Rightarrow> timeout \<Rightarrow> pyval \<Rightarrow> handler_arg option \<Rightarrow> ('k, nat) call" where
  "RowStream_start H c sql parameters chunk_rows timeout limit on_notice =
     seq (lift (positive_int chunk_rows ''chunk_rows''))
     (bind (Request_start H c sql parameters
       \<lparr>sa_chunk_rows = chunk_rows, sa_timeout = timeout_arg timeout, sa_result_buffer_limit = limit,
        sa_script = False, sa_on_notice = on_notice\<rparr>) RowStream_init)"

definition RowStream_description :: "nat \<Rightarrow> ('k, pyval list list option) call" where
  "RowStream_description s =
     gets (\<lambda>w. if s_columns (streams w s) = [] then None
               else Some (map dbapi_description (s_columns (streams w s))))"

definition RowStream_close :: "'k host \<Rightarrow> nat \<Rightarrow> ('k, unit) call" where
  "RowStream_close H s =
     bind (gets (\<lambda>w. streams w s)) (\<lambda>x.
     if s_closed x then ret ()
     else seq (Request_close H (s_request x))
       (set_stream s (\<lambda>y. y\<lparr>s_closed := True, s_rows := [], s_chunks := ChunksDone\<rparr>)))"

text \<open>What a result does to the stream before it is yielded or skipped.\<close>

definition stream_account :: "result \<Rightarrow> stream \<Rightarrow> stream" where
  "stream_account x s =
     (let s1 = (if res_columns x \<noteq> [] \<and> s_columns s = [] then s\<lparr>s_columns := res_columns x\<rparr> else s);
          seen = s_rows_seen s1 + int (length (res_rows x))
      in if res_kind x = RESULT_TUPLES_CHUNK then s1\<lparr>s_rows_seen := seen\<rparr>
         else s1\<lparr>s_command_status := res_command_status x, s_rows_seen := seen, s_rowcount := seen\<rparr>)"

text \<open>The loop of the generator up to its next \<^verbatim>\<open>yield\<close> or its end.\<close>

fun chunk_loop :: "'k host \<Rightarrow> nat \<Rightarrow> nat \<Rightarrow> ('k, result option) call" where
  "chunk_loop H 0 s = hang OutOfFuel"
| "chunk_loop H (Suc n) s =
     bind (gets (\<lambda>w. s_request (streams w s))) (\<lambda>r.
     bind (Request_next_result H n r) (\<lambda>i. case i of
         None \<Rightarrow> seq (set_stream s (\<lambda>y. y\<lparr>s_closed := True\<rparr>)) (ret None)
       | Some (CopyItem cp) \<Rightarrow>
           seq (Copy_close H cp) (raise (programming_error ''row stream received a COPY result''))
       | Some (ResultItem x) \<Rightarrow>
           seq (set_stream s (stream_account x))
           (if res_kind x = RESULT_TUPLES_CHUNK \<or> res_rows x \<noteq> [] then ret (Some x)
            else chunk_loop H n s)))"

text \<open>\<^verbatim>\<open>next(self._chunk_iterator)\<close>; \<open>None\<close> is \<^verbatim>\<open>StopIteration\<close>.\<close>

definition RowStream_next_chunk :: "'k host \<Rightarrow> nat \<Rightarrow> nat \<Rightarrow> ('k, result option) call" where
  "RowStream_next_chunk H fuel s =
     bind (gets (\<lambda>w. streams w s)) (\<lambda>x.
     if s_chunks x = ChunksDone then ret None
     else if s_chunks x = ChunksFresh \<and> s_closed x
       then seq (set_stream s (\<lambda>y. y\<lparr>s_chunks := ChunksDone\<rparr>))
              (raise (interface_error ''PostGamma row stream is closed''))
     else bind (catch (chunk_loop H fuel s)
         (\<lambda>e. seq (cleanup_preserving ''row-stream close'' (RowStream_close H s) (Some e))
            (seq (set_stream s (\<lambda>y. y\<lparr>s_chunks := ChunksDone\<rparr>)) (raise e)))) (\<lambda>chunk.
       seq (set_stream s (\<lambda>y. y\<lparr>s_chunks := (if chunk = None then ChunksDone else ChunksSuspended)\<rparr>))
         (ret chunk)))"

fun RowStream_fetchone :: "'k host \<Rightarrow> nat \<Rightarrow> nat \<Rightarrow> ('k, row option) call" where
  "RowStream_fetchone H fuel s =
     bind (gets (\<lambda>w. s_rows (streams w s))) (\<lambda>rows. case rows of
         row # rest \<Rightarrow> seq (set_stream s (\<lambda>y. y\<lparr>s_rows := rest\<rparr>)) (ret (Some row))
       | [] \<Rightarrow>
          (case fuel of
             0 \<Rightarrow> hang OutOfFuel
           | Suc n \<Rightarrow>
               bind (RowStream_next_chunk H n s) (\<lambda>chunk. case chunk of
                   None \<Rightarrow> ret None
                 | Some x \<Rightarrow> seq (set_stream s (\<lambda>y. y\<lparr>s_rows := res_rows x\<rparr>)) (RowStream_fetchone H n s))))"

declare RowStream_fetchone.simps [simp del]

fun fetchmany_loop :: "'k host \<Rightarrow> nat \<Rightarrow> nat \<Rightarrow> nat \<Rightarrow> ('k, row list) call" where
  "fetchmany_loop H fuel s 0 = ret []"
| "fetchmany_loop H fuel s (Suc k) =
     bind (RowStream_fetchone H fuel s) (\<lambda>row. case row of
         None \<Rightarrow> ret []
       | Some x \<Rightarrow> bind (fetchmany_loop H fuel s k) (\<lambda>xs. ret (x # xs)))"

definition RowStream_fetchmany :: "'k host \<Rightarrow> nat \<Rightarrow> nat \<Rightarrow> pyval \<Rightarrow> ('k, row list) call" where
  "RowStream_fetchmany H fuel s n =
     bind (lift (nonnegative_int n ''size'')) (\<lambda>k. fetchmany_loop H fuel s (nat k))"

text \<open>\<^verbatim>\<open>list(self)\<close>: \<^verbatim>\<open>__next__\<close> until the stream ends.\<close>

fun RowStream_fetchall :: "'k host \<Rightarrow> nat \<Rightarrow> nat \<Rightarrow> ('k, row list) call" where
  "RowStream_fetchall H 0 s = hang OutOfFuel"
| "RowStream_fetchall H (Suc n) s =
     bind (RowStream_fetchone H n s) (\<lambda>row. case row of
         None \<Rightarrow> ret []
       | Some x \<Rightarrow> bind (RowStream_fetchall H n s) (\<lambda>xs. ret (x # xs)))"

definition RowStream_next :: "'k host \<Rightarrow> nat \<Rightarrow> nat \<Rightarrow> ('k, row) call" where
  "RowStream_next H fuel s =
     bind (RowStream_fetchone H fuel s) (\<lambda>row. case row of None \<Rightarrow> raise StopIter | Some x \<Rightarrow> ret x)"

definition RowStream_enter :: "nat \<Rightarrow> ('k, nat) call" where
  "RowStream_enter s =
     seq (guard (\<lambda>w. s_closed (streams w s)) (interface_error ''PostGamma row stream is closed'')) (ret s)"

definition RowStream_exit :: "'k host \<Rightarrow> nat \<Rightarrow> exc option \<Rightarrow> ('k, unit) call" where
  "RowStream_exit H s exc = RowStream_close H s"

definition RowStream_del :: "'k host \<Rightarrow> nat \<Rightarrow> ('k, unit) call" where
  "RowStream_del H s =
     bind (gets (\<lambda>w. s_closed (streams w s))) (\<lambda>closed.
     onlyif (\<not> closed)
       (seq (warn_resource_leak ''unclosed PostGamma RowStream'')
       (catch (RowStream_close H s) (\<lambda>e. warn_preserved_cleanup_error ''abandoned row-stream close'' e None))))"

section \<open>Prepared statements\<close>

definition PreparedStatement_prepare ::
  "'k host \<Rightarrow> nat \<Rightarrow> pystr \<Rightarrow> int list option \<Rightarrow> ('k, nat) call" where
  "PreparedStatement_prepare H c sql oids =
     bind (on_connection c (\<lambda>x. StatementPrepare x sql oids) (\<lambda>x. statement_prepare H x sql oids)) (\<lambda>h.
     bind alloc (\<lambda>st.
     seq (set_statement st (\<lambda>_. \<lparr>st_connection = c, st_sql = sql, st_handle = Some h, st_closed = False,
        st_description = None\<rparr>))
     (seq (set_connection c (\<lambda>x. x\<lparr>c_statements := c_statements x @ [st]\<rparr>)) (ret st))))"

definition statement_closed_error :: exc where
  "statement_closed_error = interface_error ''PostGamma prepared statement is closed''"

definition PreparedStatement_description :: "'k host \<Rightarrow> nat \<Rightarrow> ('k, int list \<times> column list) call" where
  "PreparedStatement_description H st =
     bind (gets (\<lambda>w. statements w st)) (\<lambda>x.
     if st_closed x then raise statement_closed_error
     else case st_description x of
       Some d \<Rightarrow> ret d
     | None \<Rightarrow>
         bind (with_handle (st_handle x) (\<lambda>h. translating (native (Query h) (statement_describe H h)))) (\<lambda>d.
         seq (set_statement st (\<lambda>y. y\<lparr>st_description := Some d\<rparr>)) (ret d)))"

text \<open>The steps that \<^verbatim>\<open>execute\<close> and \<^verbatim>\<open>stream\<close> share before the request is started.\<close>

definition statement_begin :: "'k host \<Rightarrow> nat \<Rightarrow> pyval \<Rightarrow> ('k, timeout) call" where
  "statement_begin H st timeout =
     bind (gets (\<lambda>w. statements w st)) (\<lambda>x.
     seq (Connection_require_open (st_connection x))
     (seq (guard (\<lambda>w. st_closed (statements w st)) statement_closed_error)
     (bind (effective_timeout H (st_connection x) timeout) (\<lambda>effective.
     seq (Connection_begin_transaction_if_needed H (st_connection x) (st_sql x) effective)
     (ret effective)))))"

definition PreparedStatement_execute ::
  "'k host \<Rightarrow> nat \<Rightarrow> nat \<Rightarrow> pyval \<Rightarrow> pyval \<Rightarrow> handler_arg option \<Rightarrow> ('k, result) call" where
  "PreparedStatement_execute H fuel st parameters timeout on_notice =
     bind (statement_begin H st timeout) (\<lambda>effective.
     bind (Request_from_statement H st parameters 0 (timeout_arg effective) 0 on_notice) (\<lambda>r.
     bind (tryfinally (Request_results H fuel r)
       (\<lambda>primary. cleanup_preserving ''prepared request close'' (Request_close H r) primary)) (\<lambda>xs.
     case xs of
       [x] \<Rightarrow> ret x
     | _ \<Rightarrow> raise (interface_error ''prepared statement returned an invalid result sequence''))))"

definition PreparedStatement_stream ::
  "'k host \<Rightarrow> nat \<Rightarrow> pyval \<Rightarrow> pyval \<Rightarrow> pyval \<Rightarrow> pyval \<Rightarrow> handler_arg option \<Rightarrow> ('k, nat) call" where
  "PreparedStatement_stream H st parameters chunk_rows timeout limit on_notice =
     bind (lift (positive_int chunk_rows ''chunk_rows'')) (\<lambda>k.
     bind (statement_begin H st timeout) (\<lambda>effective.
     bind (lift (nonnegative_int limit ''result_buffer_limit'')) (\<lambda>l.
     bind (Request_from_statement H st parameters k (timeout_arg effective) l on_notice) RowStream_init)))"

definition PreparedStatement_close :: "'k host \<Rightarrow> nat \<Rightarrow> ('k, unit) call" where
  "PreparedStatement_close H st =
     bind (gets (\<lambda>w. statements w st)) (\<lambda>x.
     if st_closed x then ret ()
     else seq (with_gate (st_connection x)
         (with_handle (st_handle x) (\<lambda>h. translating (native (StatementClose h) (statement_close H h)))))
       (seq (set_statement st (\<lambda>y. y\<lparr>st_handle := None, st_closed := True\<rparr>))
       (set_connection (st_connection x) (\<lambda>y. y\<lparr>c_statements := remove1 st (c_statements y)\<rparr>))))"

definition PreparedStatement_enter :: "nat \<Rightarrow> ('k, nat) call" where
  "PreparedStatement_enter st =
     seq (guard (\<lambda>w. st_closed (statements w st)) statement_closed_error) (ret st)"

definition PreparedStatement_exit :: "'k host \<Rightarrow> nat \<Rightarrow> exc option \<Rightarrow> ('k, unit) call" where
  "PreparedStatement_exit H st exc = PreparedStatement_close H st"

definition PreparedStatement_del :: "nat \<Rightarrow> ('k, unit) call" where
  "PreparedStatement_del st =
     bind (gets (\<lambda>w. statements w st)) (\<lambda>x.
     onlyif (st_handle x \<noteq> None \<and> \<not> st_closed x)
       (warn_resource_leak ''unclosed PostGamma PreparedStatement''))"

end
