(* ===== verification/Operations.thy ===== *)
theory Operations
  imports Databases
begin

text \<open>
  The class \<^verbatim>\<open>Operation\<close> of \<^verbatim>\<open>_management.py\<close> and the calls of \<^verbatim>\<open>Database\<close> that start one:
  checkpoints, maintenance, logical dump and restore.
\<close>

definition Operation_init :: "'k host \<Rightarrow> nat \<Rightarrow> handle \<Rightarrow> ('k, nat) call" where
  "Operation_init H db h =
     bind (catch (native (Query h) (operation_waitable H h))
       (\<lambda>e. case e of
          NativeError d \<Rightarrow>
            seq (catch (native (OperationClose h) (operation_close H h)) (\<lambda>_. ret ())) (raise_translated d)
        | _ \<Rightarrow> raise e)) (\<lambda>v.
     bind alloc (\<lambda>p.
     seq (set_operation p (\<lambda>_. \<lparr>o_database = db, o_handle = Some h, o_closed = False, o_waitable = v\<rparr>))
     (seq (set_database db (\<lambda>x. x\<lparr>d_operations := d_operations x @ [p]\<rparr>)) (ret p))))"

definition Operation_checkpoint :: "'k host \<Rightarrow> nat \<Rightarrow> ('k, nat) call" where
  "Operation_checkpoint H db =
     bind (Database_ensure_open H db) (\<lambda>i.
     bind (translating (native (OperationStart i) (operation_checkpoint H i))) (Operation_init H db))"

text \<open>\<^verbatim>\<open>name or fallback\<close>\<close>

definition or_default :: "pystr option \<Rightarrow> string \<Rightarrow> pystr" where
  "or_default name fallback = (case name of Some (c # cs) \<Rightarrow> c # cs | _ \<Rightarrow> lit fallback)"

definition Operation_maintenance ::
  "'k host \<Rightarrow> nat \<Rightarrow> maintenance_arg \<Rightarrow> pystr option \<Rightarrow> pystr option \<Rightarrow> ('k, nat) call" where
  "Operation_maintenance H db kind database_name user =
     bind (Database_ensure_open H db) (\<lambda>i.
     bind (lift (maintenance_parse (uni (lib H)) kind)) (\<lambda>k.
     bind (translating (native (OperationStart i)
       (operation_maintenance H i (maintenance_value k) (or_default database_name ''postgres'')
         (or_default user ''postgamma'')))) (Operation_init H db)))"

record logical_args =
  la_flags :: int
  la_database :: "pystr option"
  la_user :: "pystr option"
  la_channel_capacity :: pyval
  la_progress_quantum :: pyval

definition Operation_logical :: "'k host \<Rightarrow> nat \<Rightarrow> nat \<Rightarrow> bool \<Rightarrow> logical_args \<Rightarrow> ('k, nat) call" where
  "Operation_logical H db stream dump a =
     bind (lift (positive_int (la_channel_capacity a) ''channel_capacity'')) (\<lambda>capacity.
     bind (lift (positive_int (la_progress_quantum a) ''progress_quantum'')) (\<lambda>quantum.
     bind (Database_ensure_open H db) (\<lambda>i.
     bind (lift (logical_flag_value H (la_flags a))) (\<lambda>flags.
     let options = \<lparr>ao_flags = flags, ao_database = or_default (la_database a) ''postgres'',
           ao_user = or_default (la_user a) ''postgamma'', ao_channel_capacity = capacity,
           ao_progress_quantum = quantum\<rparr> in
     bind (translating (native (OperationStart i)
       (if dump then operation_logical_dump H i stream options
        else operation_logical_restore H i stream options))) (Operation_init H db)))))"

definition Operation_require_open :: "nat \<Rightarrow> ('k, unit) call" where
  "Operation_require_open p =
     guard (\<lambda>w. o_closed (operations w p) \<or> o_handle (operations w p) = None)
       (interface_error ''PostGamma operation is closed'')"

definition on_operation ::
  "nat \<Rightarrow> (handle \<Rightarrow> ncall) \<Rightarrow> (handle \<Rightarrow> ('k, 'a) host_fun) \<Rightarrow> ('k, 'a) call" where
  "on_operation p call f =
     bind (gets (\<lambda>w. o_handle (operations w p))) (\<lambda>h.
       with_handle h (\<lambda>x. translating (native (call x) (f x))))"

definition Operation_snapshot :: "'k host \<Rightarrow> nat \<Rightarrow> ('k, operation_progress) call" where
  "Operation_snapshot H p =
     seq (Operation_require_open p)
     (bind (on_operation p Query (operation_snapshot H)) (\<lambda>v. lift (progress_from_native v)))"

definition Operation_progress :: "'k host \<Rightarrow> nat \<Rightarrow> ('k, operation_state) call" where
  "Operation_progress H p =
     seq (Operation_require_open p)
     (bind (on_operation p OperationProgress (operation_progress_native H)) (\<lambda>v. lift (operation_state_of v)))"

definition Operation_cancel :: "'k host \<Rightarrow> nat \<Rightarrow> ('k, unit) call" where
  "Operation_cancel H p =
     bind (gets (\<lambda>w. operations w p)) (\<lambda>x.
     if o_closed x \<or> o_handle x = None then ret ()
     else on_operation p OperationCancel (operation_cancel H))"

definition Operation_close :: "'k host \<Rightarrow> nat \<Rightarrow> ('k, unit) call" where
  "Operation_close H p =
     bind (gets (\<lambda>w. operations w p)) (\<lambda>x.
     if o_closed x then ret ()
     else seq (on_operation p OperationClose (operation_close H))
       (seq (set_operation p (\<lambda>y. y\<lparr>o_handle := None, o_closed := True\<rparr>))
       (set_database (o_database x) (\<lambda>y. y\<lparr>d_operations := remove1 p (d_operations y)\<rparr>))))"

definition operation_error :: "pg_class \<Rightarrow> string \<Rightarrow> int \<Rightarrow> string \<Rightarrow> exc" where
  "operation_error c m st name = PgError c
     \<lparr>message = lit m, status = Some st, status_name = Some (lit name), sqlstate = None,
      severity = None, detail = None, hint = None\<rparr>"

definition operation_canceled :: exc where
  "operation_canceled = operation_error QueryCanceledError ''PostGamma management operation was canceled''
     PGM_STATUS_CANCELED ''canceled''"

definition operation_timeout :: exc where
  "operation_timeout = operation_error QueryTimeoutError ''PostGamma management operation exceeded its deadline''
     PGM_STATUS_TIMEOUT ''timeout''"

fun wait_loop :: "'k host \<Rightarrow> nat \<Rightarrow> nat \<Rightarrow> pyfloat option \<Rightarrow> ('k, operation_progress) call" where
  "wait_loop H 0 p deadline = hang OutOfFuel"
| "wait_loop H (Suc n) p deadline =
     bind (Operation_progress H p) (\<lambda>state.
     bind (Operation_snapshot H p) (\<lambda>snapshot.
     if state = OpCompleted then ret snapshot
     else if state = OpCanceled then raise operation_canceled
     else if state = OpFailed then raise (interface_error ''PostGamma management operation failed'')
     else bind (case deadline of
           None \<Rightarrow> ret None
         | Some f \<Rightarrow> bind (now H) (\<lambda>m. ret (Some (float_minus f m)))) (\<lambda>remaining.
       seq (onlyif (remaining \<noteq> None \<and> float_le_zero (the remaining))
         (seq (Operation_cancel H p) (raise operation_timeout)))
       (bind (gets (\<lambda>w. o_waitable (operations w p))) (\<lambda>v.
       seq (host_call (select_wait H v (case remaining of None \<Rightarrow> POLL_SECONDS | Some f \<Rightarrow> float_min POLL_SECONDS f))) (wait_loop H n p deadline))))))"

definition Operation_wait :: "'k host \<Rightarrow> nat \<Rightarrow> nat \<Rightarrow> pyval \<Rightarrow> ('k, operation_progress) call" where
  "Operation_wait H fuel p timeout =
     bind (if timeout = PNone
           then gets (\<lambda>w. d_timeout (databases w (o_database (operations w p))))
           else lift (normalize_timeout (lib H) timeout)) (\<lambda>normalized.
     bind (case normalized of
         None \<Rightarrow> ret None
       | Some t \<Rightarrow> bind (now H) (\<lambda>m. ret (Some (float_of_rat (m + t))))) (\<lambda>deadline.
     tryfinally (wait_loop H fuel p deadline)
       (\<lambda>primary. cleanup_preserving ''management operation close'' (Operation_close H p) primary)))"

definition Operation_enter :: "nat \<Rightarrow> ('k, nat) call" where
  "Operation_enter p = seq (Operation_require_open p) (ret p)"

definition Operation_exit :: "'k host \<Rightarrow> nat \<Rightarrow> exc option \<Rightarrow> ('k, unit) call" where
  "Operation_exit H p exc = Operation_close H p"

definition Operation_del :: "nat \<Rightarrow> ('k, unit) call" where
  "Operation_del p =
     bind (gets (\<lambda>w. operations w p)) (\<lambda>x.
     onlyif (o_handle x \<noteq> None \<and> \<not> o_closed x) (warn_resource_leak ''unclosed PostGamma Operation''))"

section \<open>The calls of \<^verbatim>\<open>Database\<close>\<close>

text \<open>With \<^verbatim>\<open>wait=False\<close> the operation itself is returned.\<close>

definition started_or_done ::
  "'k host \<Rightarrow> nat \<Rightarrow> bool \<Rightarrow> pyval \<Rightarrow> nat \<Rightarrow> ('k, nat + operation_progress) call" where
  "started_or_done H fuel wait timeout p =
     (if wait then bind (Operation_wait H fuel p timeout) (\<lambda>x. ret (Inr x)) else ret (Inl p))"

definition Database_checkpoint ::
  "'k host \<Rightarrow> nat \<Rightarrow> nat \<Rightarrow> bool \<Rightarrow> pyval \<Rightarrow> ('k, nat + operation_progress) call" where
  "Database_checkpoint H fuel db wait timeout =
     bind (Operation_checkpoint H db) (started_or_done H fuel wait timeout)"

definition Database_maintenance ::
  "'k host \<Rightarrow> nat \<Rightarrow> nat \<Rightarrow> maintenance_arg \<Rightarrow> pystr option \<Rightarrow> pystr option \<Rightarrow> bool \<Rightarrow> pyval \<Rightarrow>
   ('k, nat + operation_progress) call" where
  "Database_maintenance H fuel db kind database user wait timeout =
     bind (Operation_maintenance H db kind database user) (started_or_done H fuel wait timeout)"

definition Database_logical_dump ::
  "'k host \<Rightarrow> nat \<Rightarrow> nat \<Rightarrow> nat \<Rightarrow> logical_args \<Rightarrow> bool \<Rightarrow> pyval \<Rightarrow> ('k, nat + operation_progress) call" where
  "Database_logical_dump H fuel db stream a wait timeout =
     bind (Operation_logical H db stream True a) (started_or_done H fuel wait timeout)"

definition Database_logical_restore ::
  "'k host \<Rightarrow> nat \<Rightarrow> nat \<Rightarrow> nat \<Rightarrow> logical_args \<Rightarrow> bool \<Rightarrow> pyval \<Rightarrow> ('k, nat + operation_progress) call" where
  "Database_logical_restore H fuel db stream a wait timeout =
     bind (Operation_logical H db stream False a) (started_or_done H fuel wait timeout)"

end
