(* ===== verification/Connections.thy ===== *)
theory Connections
  imports Streams Operations
begin

text \<open>
  The rest of \<^verbatim>\<open>_api.py\<close>: the calls of \<^verbatim>\<open>Connection\<close> that start requests, closing of connections
  and databases, the registry of implicit databases, and the top-level \<^verbatim>\<open>connect\<close>. Closing an
  implicit connection releases its lease, the last release closes the database, and closing a
  database closes its connections: the three call each other within the recursion limit. The
  registry's condition variable is waited for only while another thread closes the entry, so in
  one thread that wait does not end.
\<close>

section \<open>Calls that start requests\<close>

definition Connection_stream ::
  "'k host \<Rightarrow> nat \<Rightarrow> pystr \<Rightarrow> pyval \<Rightarrow> pyval \<Rightarrow> pyval \<Rightarrow> pyval \<Rightarrow> handler_arg option \<Rightarrow> ('k, nat) call" where
  "Connection_stream H c sql parameters chunk_rows timeout limit on_notice =
     seq (Connection_require_open c)
     (bind (effective_timeout H c timeout) (\<lambda>effective.
     seq (Connection_begin_transaction_if_needed H c sql effective)
     (RowStream_start H c sql parameters chunk_rows effective limit on_notice)))"

definition Connection_execute_script :: "'k host \<Rightarrow> nat \<Rightarrow> nat \<Rightarrow> pystr \<Rightarrow> pyval \<Rightarrow> ('k, result list) call" where
  "Connection_execute_script H fuel c sql timeout =
     seq (Connection_require_open c)
     (bind (effective_timeout H c timeout) (\<lambda>effective.
     bind (Request_start H c sql PNone
       \<lparr>sa_chunk_rows = PInt 0, sa_timeout = timeout_arg effective, sa_result_buffer_limit = PInt 0,
        sa_script = True, sa_on_notice = None\<rparr>) (\<lambda>r.
     tryfinally (Request_results H fuel r)
       (\<lambda>primary. cleanup_preserving ''script request close'' (Request_close H r) primary))))"

definition Connection_prepare :: "'k host \<Rightarrow> nat \<Rightarrow> pystr \<Rightarrow> int list option \<Rightarrow> ('k, nat) call" where
  "Connection_prepare H c sql oids =
     seq (Connection_require_open c) (with_gate c (PreparedStatement_prepare H c sql oids))"

definition Connection_copy :: "'k host \<Rightarrow> nat \<Rightarrow> nat \<Rightarrow> pystr \<Rightarrow> pyval \<Rightarrow> ('k, nat) call" where
  "Connection_copy H fuel c sql timeout =
     seq (Connection_require_open c)
     (bind (effective_timeout H c timeout) (\<lambda>effective.
     seq (Connection_begin_transaction_if_needed H c sql effective)
     (start_copy H fuel c sql effective)))"

text \<open>A COPY stream of the other direction has no such method.\<close>

definition attribute_error :: exc where
  "attribute_error = OtherExc 0 (lit ''AttributeError'')"

definition Connection_copy_from ::
  "'k host \<Rightarrow> nat \<Rightarrow> nat \<Rightarrow> pystr \<Rightarrow> nat \<Rightarrow> pyval \<Rightarrow> pyval \<Rightarrow> ('k, result) call" where
  "Connection_copy_from H fuel c sql source chunk_size timeout =
     bind (Connection_copy H fuel c sql timeout) (\<lambda>cp.
     bind (gets (\<lambda>w. cp_kind (copies w cp))) (\<lambda>kind.
     tryfinally (if kind = CopyIn then CopyIn_copy_from H fuel cp source chunk_size else raise attribute_error)
       (\<lambda>primary. cleanup_preserving ''COPY input close'' (Copy_close H cp) primary)))"

definition Connection_copy_to ::
  "'k host \<Rightarrow> nat \<Rightarrow> nat \<Rightarrow> pystr \<Rightarrow> nat \<Rightarrow> pyval \<Rightarrow> pyval \<Rightarrow> ('k, result) call" where
  "Connection_copy_to H fuel c sql target chunk_size timeout =
     bind (Connection_copy H fuel c sql timeout) (\<lambda>cp.
     bind (gets (\<lambda>w. cp_kind (copies w cp))) (\<lambda>kind.
     tryfinally (if kind = CopyOut then CopyOut_copy_to H fuel cp target chunk_size else raise attribute_error)
       (\<lambda>primary. cleanup_preserving ''COPY output close'' (Copy_close H cp) primary)))"

section \<open>Closing\<close>

text \<open>\<^verbatim>\<open>timeout_ms\<close> of a close: the object's default if no timeout is given.\<close>

definition close_milliseconds :: "'k host \<Rightarrow> timeout \<Rightarrow> pyval \<Rightarrow> int res" where
  "close_milliseconds H own timeout =
     timeout_milliseconds (lib H) (if timeout = PNone then timeout_arg own else timeout)"

text \<open>
  What happens before the native close of a connection starts: the cursors, requests and
  statements are closed, an open transaction is rolled back, and the close is pending from then on.
\<close>

definition close_dependents :: "'k host \<Rightarrow> nat \<Rightarrow> ('k, unit) call" where
  "close_dependents H c =
     bind (gets (\<lambda>w. c_cursors (connections w c))) (\<lambda>us.
     seq (for_each us Cursor_close)
     (bind (gets (\<lambda>w. c_requests (connections w c))) (\<lambda>rs.
     seq (for_each rs (Request_close H))
     (bind (gets (\<lambda>w. c_statements (connections w c))) (\<lambda>sts.
     seq (for_each sts (PreparedStatement_close H))
     (seq (end_transaction H c ''ROLLBACK'')
     (set_connection c (\<lambda>x. x\<lparr>c_close_pending := True\<rparr>))))))))"

text \<open>The native close and its bookkeeping; the lease to release is returned.\<close>

definition close_session :: "'k host \<Rightarrow> nat \<Rightarrow> int \<Rightarrow> ('k, nat option) call" where
  "close_session H c ms =
     seq (on_connection c (\<lambda>x. ConnectionClose x ms) (\<lambda>x. connection_close H x ms))
     (bind (gets (\<lambda>w. c_implicit_release (connections w c))) (\<lambda>release.
     seq (set_connection c (\<lambda>x. x\<lparr>c_handle := None, c_closed := True, c_close_pending := False,
            c_implicit_release := None\<rparr>))
     (ret release)))"

definition shutdown_modes :: "(pystr \<times> int) list" where
  "shutdown_modes = [(lit ''smart'', SHUTDOWN_SMART), (lit ''fast'', SHUTDOWN_FAST),
     (lit ''immediate'', SHUTDOWN_IMMEDIATE)]"

text \<open>The native close of an instance.\<close>

definition close_instance :: "'k host \<Rightarrow> nat \<Rightarrow> pystr \<Rightarrow> pyval \<Rightarrow> ('k, unit) call" where
  "close_instance H db mode timeout =
     bind (gets (\<lambda>w. databases w db)) (\<lambda>d. case d_handle d of
         None \<Rightarrow> ret ()
       | Some h \<Rightarrow>
          (case map_of shutdown_modes mode of
             None \<Rightarrow> raise (ValueErr (lit ''shutdown mode must be smart, fast, or immediate''))
           | Some m \<Rightarrow>
               bind (lift (close_milliseconds H (d_timeout d) timeout)) (\<lambda>ms.
               seq (translating (native (InstanceClose h m ms) (instance_close H h m ms)))
               (set_database db (\<lambda>x. x\<lparr>d_handle := None\<rparr>)))))"

text \<open>\<^verbatim>\<open>try: m except BaseException as error: kept = error\<close>\<close>

definition attempt :: "('k, unit) call \<Rightarrow> ('k, exc option) call" where
  "attempt m = catch (seq m (ret None)) (\<lambda>e. ret (Some e))"

fun Connection_close_at :: "'k host \<Rightarrow> nat \<Rightarrow> nat \<Rightarrow> pyval \<Rightarrow> ('k, unit) call" and
    release_at :: "'k host \<Rightarrow> nat \<Rightarrow> nat \<Rightarrow> pyval \<Rightarrow> ('k, unit) call" and
    Database_close_at :: "'k host \<Rightarrow> nat \<Rightarrow> nat \<Rightarrow> pystr \<Rightarrow> pyval \<Rightarrow> ('k, unit) call" where
  "Connection_close_at H 0 c timeout = raise recursion_error"
| "Connection_close_at H (Suc d) c timeout =
     bind (gets (\<lambda>w. connections w c)) (\<lambda>x.
     if c_closed x then ret ()
     else if c_scope_active x
       then raise (programming_error ''cannot close a connection inside its transaction() scope'')
     else bind (lift (close_milliseconds H (c_timeout x) timeout)) (\<lambda>ms.
       seq (onlyif (\<not> c_close_pending x) (close_dependents H c))
       (bind (close_session H c ms) (\<lambda>release. case release of
           None \<Rightarrow> ret ()
         | Some e \<Rightarrow> release_at H d e timeout))))"
| "release_at H 0 e timeout = raise recursion_error"
| "release_at H (Suc d) e timeout =
     seq (guard (\<lambda>w. e_leases (entries w e) \<le> 0)
        (RuntimeErr (lit ''implicit database lease was released twice'')))
     (seq (set_entry e (\<lambda>x. x\<lparr>e_leases := e_leases x - 1\<rparr>))
     (bind (gets (\<lambda>w. entries w e)) (\<lambda>x.
     if e_leases x \<noteq> 0 then ret ()
     else seq (set_entry e (\<lambda>y. y\<lparr>e_closing := True\<rparr>))
       (bind (attempt (Database_close_at H d (e_database x) (lit ''fast'') timeout)) (\<lambda>close_error.
       bind (gets (\<lambda>w. registry w (e_key x))) (\<lambda>current.
       seq (onlyif (close_error = None \<and> current = Some e) (set_registry (e_key x) None))
       (seq (set_entry e (\<lambda>y. y\<lparr>e_closing := False\<rparr>))
       (case close_error of None \<Rightarrow> ret () | Some err \<Rightarrow> raise err))))))))"
| "Database_close_at H 0 db mode timeout = raise recursion_error"
| "Database_close_at H (Suc d) db mode timeout =
     bind (gets (\<lambda>w. databases w db)) (\<lambda>x.
     if d_closed x then ret ()
     else seq (for_each (d_operations x) (Operation_close H))
       (bind (gets (\<lambda>w. d_connections (databases w db))) (\<lambda>cs.
       seq (for_each cs (\<lambda>c. Connection_close_at H d c timeout))
       (seq (close_instance H db mode timeout)
       (set_database db (\<lambda>y. y\<lparr>d_closed := True\<rparr>))))))"

definition Connection_close :: "'k host \<Rightarrow> nat \<Rightarrow> pyval \<Rightarrow> ('k, unit) call" where
  "Connection_close H c timeout = Connection_close_at H (recursion_limit H) c timeout"

definition release_implicit_database :: "'k host \<Rightarrow> nat \<Rightarrow> pyval \<Rightarrow> ('k, unit) call" where
  "release_implicit_database H e timeout = release_at H (recursion_limit H) e timeout"

definition Database_close :: "'k host \<Rightarrow> nat \<Rightarrow> pystr \<Rightarrow> pyval \<Rightarrow> ('k, unit) call" where
  "Database_close H db mode timeout = Database_close_at H (recursion_limit H) db mode timeout"

definition Database_close_before_fork :: "'k host \<Rightarrow> nat \<Rightarrow> pyval \<Rightarrow> ('k, unit) call" where
  "Database_close_before_fork H db timeout = Database_close H db (lit ''fast'') timeout"

section \<open>Context managers and finalizers\<close>

definition Connection_enter :: "nat \<Rightarrow> ('k, nat) call" where
  "Connection_enter c = seq (Connection_require_open c) (ret c)"

definition Connection_exit :: "'k host \<Rightarrow> nat \<Rightarrow> exc option \<Rightarrow> ('k, unit) call" where
  "Connection_exit H c exc =
     (case exc of
        None \<Rightarrow>
          seq (catch (Connection_commit H c) (\<lambda>primary.
            seq (catch (Connection_close H c PNone)
              (\<lambda>e. warn_preserved_cleanup_error ''connection close'' e (Some primary)))
            (raise primary)))
          (Connection_close H c PNone)
      | Some e0 \<Rightarrow>
          seq (catch (Connection_rollback H c)
            (\<lambda>e. warn_preserved_cleanup_error ''transaction rollback'' e (Some e0)))
          (catch (Connection_close H c PNone)
            (\<lambda>e. warn_preserved_cleanup_error ''connection close'' e (Some e0))))"

definition Connection_del :: "'k host \<Rightarrow> nat \<Rightarrow> ('k, unit) call" where
  "Connection_del H c =
     bind (gets (\<lambda>w. connections w c)) (\<lambda>x.
     onlyif (c_handle x \<noteq> None \<and> \<not> c_closed x)
       (seq (warn_resource_leak ''unclosed PostGamma Connection'')
       (catch (Connection_close H c PNone)
         (\<lambda>e. warn_preserved_cleanup_error ''abandoned connection close'' e None))))"

definition Database_exit :: "'k host \<Rightarrow> nat \<Rightarrow> exc option \<Rightarrow> ('k, unit) call" where
  "Database_exit H db exc =
     (case exc of
        None \<Rightarrow> Database_close H db (lit ''fast'') PNone
      | Some e0 \<Rightarrow> catch (Database_close H db (lit ''fast'') PNone)
          (\<lambda>e. warn_preserved_cleanup_error ''database close'' e (Some e0)))"

section \<open>\<^verbatim>\<open>Database.connect\<close>\<close>

record session_args =
  se_user :: pystr
  se_database :: pystr
  se_application_name :: pystr
  se_settings :: pyval
  se_autocommit :: bool
  se_timeout :: pyval

definition default_session :: session_args where
  "default_session = \<lparr>se_user = lit ''postgamma'', se_database = lit ''postgres'',
     se_application_name = lit ''postgamma-python'', se_settings = PNone, se_autocommit = False,
     se_timeout = PNone\<rparr>"

definition Database_connect :: "'k host \<Rightarrow> nat \<Rightarrow> session_args \<Rightarrow> ('k, nat) call" where
  "Database_connect H db a =
     bind (Database_ensure_open H db) (\<lambda>i.
     bind (lift (normalize_settings (str_value H) (se_settings a))) (\<lambda>settings.
     let options = \<lparr>so_user = se_user a, so_database = se_database a,
           so_application_name = se_application_name a, so_settings = settings\<rparr> in
     bind (translating (native (ConnectionOpen i options) (connection_open H i options))) (\<lambda>h.
     bind (if se_timeout a = PNone then gets (\<lambda>w. d_timeout (databases w db))
           else lift (normalize_timeout (lib H) (se_timeout a))) (\<lambda>timeout.
     bind (Connection_init db h (se_autocommit a) timeout None) (\<lambda>c.
     seq (set_database db (\<lambda>x. x\<lparr>d_connections := d_connections x @ [c]\<rparr>)) (ret c))))))"

definition Database_execute :: "'k host \<Rightarrow> nat \<Rightarrow> pystr \<Rightarrow> pyval \<Rightarrow> pyval \<Rightarrow> ('k, result) call" where
  "Database_execute H db sql parameters timeout =
     bind (Database_connect H db (default_session\<lparr>se_autocommit := True, se_timeout := timeout\<rparr>)) (\<lambda>c.
       with_stmt (Connection_enter c) (Connection_exit H c)
         (\<lambda>_. Connection_execute H c sql parameters PNone))"

section \<open>The implicit registry\<close>

definition canonical_cluster_path :: "'k host \<Rightarrow> pystr \<Rightarrow> ('k, pystr) call" where
  "canonical_cluster_path H path =
     (if path = [] then raise (ValueErr (lit ''path must not be empty''))
      else host_get (realpath H path))"

definition canonical_optional_path :: "'k host \<Rightarrow> pystr option \<Rightarrow> ('k, pystr option) call" where
  "canonical_optional_path H path =
     (case path of
        None \<Rightarrow> ret None
      | Some p \<Rightarrow> bind (canonical_cluster_path H p) (\<lambda>q. ret (Some q)))"

definition implicit_configuration ::
  "'k host \<Rightarrow> settings \<Rightarrow> int \<Rightarrow> pystr option \<Rightarrow> pystr option \<Rightarrow> ('k, configuration) call" where
  "implicit_configuration H settings worker_count resource_root executable_path =
     bind (canonical_optional_path H resource_root) (\<lambda>root.
     bind (canonical_optional_path H executable_path) (\<lambda>executable.
     ret \<lparr>cf_settings = settings, cf_worker_count = worker_count, cf_resource_root = root,
          cf_executable_path = executable\<rparr>))"

text \<open>The names of the options that differ, sorted.\<close>

definition configuration_conflicts :: "configuration \<Rightarrow> configuration \<Rightarrow> string list" where
  "configuration_conflicts a b =
     (if cf_executable_path a \<noteq> cf_executable_path b then [''executable_path''] else []) @
     (if cf_resource_root a \<noteq> cf_resource_root b then [''resource_root''] else []) @
     (if cf_settings a \<noteq> cf_settings b then [''settings''] else []) @
     (if cf_worker_count a \<noteq> cf_worker_count b then [''worker_count''] else [])"

definition settings_arg :: "settings \<Rightarrow> pyval" where
  "settings_arg s = PTuple (map (\<lambda>(n, v). PTuple [PStr n, PStr v]) s)"

record implicit_args =
  ia_path :: pystr
  ia_mode :: open_mode
  ia_settings :: settings
  ia_worker_count :: int
  ia_timeout :: timeout
  ia_resource_root :: "pystr option"
  ia_executable_path :: "pystr option"

definition already_exists :: "pystr \<Rightarrow> exc" where
  "already_exists path = PgError OperationalError
     \<lparr>message = lit ''cluster path already has a live embedded instance: '' @ path, status = None,
      status_name = Some (lit ''already-exists''), sqlstate = None, severity = None, detail = None, hint = None\<rparr>"

definition options_conflict :: "pystr \<Rightarrow> string list \<Rightarrow> exc" where
  "options_conflict path names = PgError InterfaceError (plain
     (lit ''implicit instance options conflict for '' @ path @ lit '': '' @ join (lit '', '') (map lit names)))"

text \<open>A new entry for the key.\<close>

definition register_implicit ::
  "'k host \<Rightarrow> implicit_args \<Rightarrow> int \<times> pystr \<Rightarrow> configuration \<Rightarrow> ('k, nat) call" where
  "register_implicit H a key cf =
     bind (Database_init H
       \<lparr>da_path = snd key, da_mode = ModeMember (ia_mode a), da_settings = settings_arg (ia_settings a),
        da_worker_count = PInt (ia_worker_count a), da_timeout = timeout_arg (ia_timeout a),
        da_resource_root = ia_resource_root a, da_executable_path = ia_executable_path a,
        da_result_buffer_limit = PInt 0, da_maximum_value_size = PInt 0, da_event_queue_capacity = PInt 64\<rparr>)
     (\<lambda>db. bind alloc (\<lambda>e.
     seq (set_entry e (\<lambda>_. \<lparr>e_key = key, e_database = db, e_configuration = cf, e_leases = 0, e_closing = False\<rparr>))
     (seq (set_registry key (Some e)) (ret e))))"

definition acquire_implicit_database :: "'k host \<Rightarrow> implicit_args \<Rightarrow> ('k, nat) call" where
  "acquire_implicit_database H a =
     bind (canonical_cluster_path H (ia_path a)) (\<lambda>path.
     bind (host_get (getpid H)) (\<lambda>pid.
     bind (implicit_configuration H (ia_settings a) (ia_worker_count a) (ia_resource_root a) (ia_executable_path a)) (\<lambda>cf.
     let key = (pid, path) in
     bind (gets (\<lambda>w. case registry w key of None \<Rightarrow> None | Some e \<Rightarrow> Some (e, entries w e))) (\<lambda>found.
     seq (if found \<noteq> None \<and> e_closing (snd (the found)) then hang Deadlock else ret ())
     (bind (gets (\<lambda>w. case found of None \<Rightarrow> None
         | Some (e, x) \<Rightarrow> if d_closed (databases w (e_database x)) then None else Some (e, x))) (\<lambda>live.
     seq (onlyif (found \<noteq> None \<and> live = None) (set_registry key None))
     (bind (case live of
         Some (e, x) \<Rightarrow>
           (if ia_mode a = CREATE_NEW then raise (already_exists path)
            else let conflicts = configuration_conflicts (e_configuration x) cf in
              if conflicts \<noteq> [] then raise (options_conflict path conflicts) else ret e)
       | None \<Rightarrow> register_implicit H a key cf) (\<lambda>e.
     seq (set_entry e (\<lambda>x. x\<lparr>e_leases := e_leases x + 1\<rparr>)) (ret e)))))))))"

record connect_args =
  ca_path :: pystr
  ca_mode :: mode_arg
  ca_session :: session_args
  ca_settings :: pyval
  ca_worker_count :: pyval
  ca_timeout :: pyval
  ca_resource_root :: "pystr option"
  ca_executable_path :: "pystr option"

definition connect :: "'k host \<Rightarrow> connect_args \<Rightarrow> ('k, nat) call" where
  "connect H a =
     bind (lift (open_mode_parse (ca_mode a))) (\<lambda>mode.
     bind (lift (normalize_settings (str_value H) (ca_settings a))) (\<lambda>settings.
     bind (lift (positive_int (ca_worker_count a) ''worker_count'')) (\<lambda>worker_count.
     bind (lift (normalize_timeout (lib H) (ca_timeout a))) (\<lambda>timeout.
     bind (resolve_runtime_paths H (ca_resource_root a) (ca_executable_path a)) (\<lambda>(root, executable).
     bind (acquire_implicit_database H
       \<lparr>ia_path = ca_path a, ia_mode = mode, ia_settings = settings, ia_worker_count = worker_count,
        ia_timeout = timeout, ia_resource_root = Some root, ia_executable_path = Some executable\<rparr>) (\<lambda>e.
     bind (gets (\<lambda>w. e_database (entries w e))) (\<lambda>db.
     bind (catch (Database_connect H db ((ca_session a)\<lparr>se_timeout := timeout_arg timeout\<rparr>))
       (\<lambda>primary. seq
          (catch (release_implicit_database H e (timeout_arg timeout))
            (\<lambda>err. warn_preserved_cleanup_error ''implicit database release'' err (Some primary)))
          (raise primary))) (\<lambda>c.
     seq (set_connection c (\<lambda>x. x\<lparr>c_implicit_release := Some e\<rparr>)) (ret c)))))))))"

end
