(* ===== verification/Async.thy ===== *)
theory Async
  imports Connections
begin

text \<open>
  The asynchronous facades of \<^verbatim>\<open>_async.py\<close>. A coroutine is seen from its own task: it runs
  undisturbed up to an \<^verbatim>\<open>await\<close> that suspends, and what the other tasks and the event loop do
  until it runs again is a parameter, the scheduler. The scheduler says how the suspension
  ended (woken, timed out, cancelled, or refused by a loop without readers) and which world
  the coroutine finds. The hubs behind \<^verbatim>\<open>_hub(d).wait(t)\<close> are the subject of the theory
  \<open>Fd_Hub\<close>. A lock remembers, beyond what \<^verbatim>\<open>asyncio.Lock\<close> does, which task took it. The work that
  \<^verbatim>\<open>asyncio.to_thread\<close> hands to a worker thread is one step between two suspensions; if the task
  is cancelled at the first it has not started, at the second its result is dropped.
\<close>

section \<open>Objects\<close>

record aconnection =
  ac_connection :: nat
  ac_owner :: "nat option"
  ac_waiters :: "nat list"

record arow_stream =
  as_request :: nat
  as_columns :: "column list"
  as_command_status :: "pystr option"
  as_rowcount :: int
  as_rows :: "row list"
  as_rows_seen :: int
  as_release :: "nat option"
  as_closed :: bool

record acopy =
  ay_copy :: nat
  ay_release :: "nat option"
  ay_closed :: bool

record ascope =
  ax_connection :: nat
  ax_entered :: bool
  ax_used :: bool

record adatabase =
  ad_database :: nat
  ad_owns :: bool
  ad_closing :: bool

text \<open>\<open>interrupts\<close>: the descriptors whose waiters \<^verbatim>\<open>_interrupt_hub\<close> has woken.\<close>

record 'k aworld =
  base :: "'k world"
  anext :: nat
  aconnections :: "nat \<Rightarrow> aconnection"
  astreams :: "nat \<Rightarrow> arow_stream"
  acopies :: "nat \<Rightarrow> acopy"
  ascopes :: "nat \<Rightarrow> ascope"
  adatabases :: "nat \<Rightarrow> adatabase"
  interrupts :: "int list"

type_synonym ('k, 'a) coro = "('k aworld, exc, 'a) py"

section \<open>Suspension\<close>

datatype suspension = OnFd int "pyfloat option" | OnLock nat | OnThread

datatype wake = Woken | TimedOut | TaskCancelled | NoReaders

type_synonym 'k sched = "suspension \<Rightarrow> 'k aworld \<Rightarrow> wake \<times> 'k aworld"

definition no_readers :: exc where
  "no_readers = interface_error ''the active asyncio loop does not support POSIX fd readers''"

definition suspend :: "'k sched \<Rightarrow> suspension \<Rightarrow> ('k, unit) coro" where
  "suspend A s = (\<lambda>w. case A s w of (k, w') \<Rightarrow>
     (case k of
        Woken \<Rightarrow> (Val (), w')
      | TimedOut \<Rightarrow> (Exc TimeoutErr, w')
      | TaskCancelled \<Rightarrow> (Exc CancelledErr, w')
      | NoReaders \<Rightarrow> (Exc no_readers, w')))"

text \<open>A synchronous call on the event loop's thread.\<close>

definition sync :: "('k, 'a) call \<Rightarrow> ('k, 'a) coro" where
  "sync m = (\<lambda>w. case m (base w) of (out, b) \<Rightarrow> (out, w\<lparr>base := b\<rparr>))"

text \<open>\<^verbatim>\<open>await asyncio.to_thread(m)\<close>\<close>

definition to_thread :: "'k sched \<Rightarrow> ('k, 'a) call \<Rightarrow> ('k, 'a) coro" where
  "to_thread A m =
     seq (suspend A OnThread)
     (\<lambda>w. case sync m w of
        (Hang h, w') \<Rightarrow> (Hang h, w')
      | (out, w') \<Rightarrow> bind (suspend A OnThread) (\<lambda>_ w''. (out, w'')) w')"

definition set_aconnection :: "nat \<Rightarrow> (aconnection \<Rightarrow> aconnection) \<Rightarrow> ('k, unit) coro" where
  "set_aconnection i f = modify (\<lambda>w. w\<lparr>aconnections := (aconnections w)(i := f (aconnections w i))\<rparr>)"

definition set_astream :: "nat \<Rightarrow> (arow_stream \<Rightarrow> arow_stream) \<Rightarrow> ('k, unit) coro" where
  "set_astream i f = modify (\<lambda>w. w\<lparr>astreams := (astreams w)(i := f (astreams w i))\<rparr>)"

definition set_acopy :: "nat \<Rightarrow> (acopy \<Rightarrow> acopy) \<Rightarrow> ('k, unit) coro" where
  "set_acopy i f = modify (\<lambda>w. w\<lparr>acopies := (acopies w)(i := f (acopies w i))\<rparr>)"

definition set_ascope :: "nat \<Rightarrow> (ascope \<Rightarrow> ascope) \<Rightarrow> ('k, unit) coro" where
  "set_ascope i f = modify (\<lambda>w. w\<lparr>ascopes := (ascopes w)(i := f (ascopes w i))\<rparr>)"

definition set_adatabase :: "nat \<Rightarrow> (adatabase \<Rightarrow> adatabase) \<Rightarrow> ('k, unit) coro" where
  "set_adatabase i f = modify (\<lambda>w. w\<lparr>adatabases := (adatabases w)(i := f (adatabases w i))\<rparr>)"

definition aalloc :: "('k, nat) coro" where
  "aalloc = (\<lambda>w. (Val (anext w), w\<lparr>anext := anext w + 1\<rparr>))"

section \<open>\<^verbatim>\<open>asyncio.Lock\<close>\<close>

text \<open>A task that finds the lock taken, or others queued for it, waits until it is woken.\<close>

definition lock_acquire :: "'k sched \<Rightarrow> nat \<Rightarrow> nat \<Rightarrow> ('k, unit) coro" where
  "lock_acquire A me l =
     bind (gets (\<lambda>w. aconnections w l)) (\<lambda>x.
     seq (if ac_owner x = None \<and> ac_waiters x = [] then ret ()
          else seq (set_aconnection l (\<lambda>y. y\<lparr>ac_waiters := ac_waiters y @ [me]\<rparr>))
            (tryfinally (suspend A (OnLock l))
              (\<lambda>_. set_aconnection l (\<lambda>y. y\<lparr>ac_waiters := remove1 me (ac_waiters y)\<rparr>))))
     (set_aconnection l (\<lambda>y. y\<lparr>ac_owner := Some me\<rparr>)))"

definition lock_release :: "nat \<Rightarrow> ('k, unit) coro" where
  "lock_release l =
     seq (guard (\<lambda>w. ac_owner (aconnections w l) = None) (RuntimeErr (lit ''Lock is not acquired.'')))
     (set_aconnection l (\<lambda>y. y\<lparr>ac_owner := None\<rparr>))"

text \<open>\<^verbatim>\<open>async with self._lock: m\<close>\<close>

definition with_lock :: "'k sched \<Rightarrow> nat \<Rightarrow> nat \<Rightarrow> ('k, 'a) coro \<Rightarrow> ('k, 'a) coro" where
  "with_lock A me l m = seq (lock_acquire A me l) (tryfinally m (\<lambda>_. lock_release l))"

text \<open>\<^verbatim>\<open>try: m except BaseException: self._lock.release(); raise\<close>, after \<^verbatim>\<open>await self._lock.acquire()\<close>\<close>

definition holding_lock :: "'k sched \<Rightarrow> nat \<Rightarrow> nat \<Rightarrow> ('k, 'a) coro \<Rightarrow> ('k, 'a) coro" where
  "holding_lock A me l m =
     seq (lock_acquire A me l) (catch m (\<lambda>e. seq (lock_release l) (raise e)))"

section \<open>Driving a request\<close>

definition async_request_timeout :: "'k host \<Rightarrow> nat \<Rightarrow> ('k, unit) coro" where
  "async_request_timeout H r =
     seq (catch (seq (sync (Request_cancel H r)) (ret ()))
       (\<lambda>e. sync (warn_preserved_cleanup_error ''timed-out request cancellation'' e (Some request_timeout))))
     (seq (sync (cleanup_preserving ''timed-out request close'' (Request_close H r) (Some request_timeout)))
     (raise request_timeout))"

definition async_remaining :: "'k host \<Rightarrow> nat \<Rightarrow> ('k, pyfloat option) coro" where
  "async_remaining H r =
     bind (sync (Request_remaining H r)) (\<lambda>remaining.
     seq (onlyif (remaining \<noteq> None \<and> float_le_zero (the remaining)) (async_request_timeout H r))
     (ret remaining))"

text \<open>\<^verbatim>\<open>await _hub(request.waitable).wait(_request_remaining(request))\<close>\<close>

definition wait_request :: "'k sched \<Rightarrow> 'k host \<Rightarrow> nat \<Rightarrow> ('k, unit) coro" where
  "wait_request A H r =
     bind (gets (\<lambda>w. r_waitable (requests (base w) r))) (\<lambda>d.
     bind (async_remaining H r) (\<lambda>remaining. suspend A (OnFd d remaining)))"

fun await_loop :: "'k sched \<Rightarrow> 'k host \<Rightarrow> nat \<Rightarrow> nat \<Rightarrow> ('k, item option) coro" where
  "await_loop A H 0 r = hang OutOfFuel"
| "await_loop A H (Suc n) r =
     bind (sync (Request_try_next H n r)) (\<lambda>(availability, item).
     if availability = AVAILABILITY_READY then ret item
     else if availability = AVAILABILITY_END then ret None
     else seq (sync (Request_progress H n r))
       (seq (catch (wait_request A H r)
          (\<lambda>e. if e = TimeoutErr then async_request_timeout H r else raise e))
       (await_loop A H n r)))"

definition await_request_result :: "'k sched \<Rightarrow> 'k host \<Rightarrow> nat \<Rightarrow> nat \<Rightarrow> ('k, item option) coro" where
  "await_request_result A H fuel r =
     catch (await_loop A H fuel r) (\<lambda>e.
       if e = CancelledErr
       then seq (catch (seq (sync (Request_cancel H r)) (ret ()))
              (\<lambda>c. sync (warn_preserved_cleanup_error ''canceled request cancellation'' c (Some e))))
            (seq (sync (cleanup_preserving ''canceled request close'' (Request_close H r) (Some e)))
            (raise e))
       else raise e)"

fun collect_loop :: "'k sched \<Rightarrow> 'k host \<Rightarrow> nat \<Rightarrow> nat \<Rightarrow> ('k, result list) coro" where
  "collect_loop A H 0 r = hang OutOfFuel"
| "collect_loop A H (Suc n) r =
     bind (await_request_result A H n r) (\<lambda>i. case i of
         None \<Rightarrow> ret []
       | Some (CopyItem cp) \<Rightarrow>
           seq (sync (Copy_close H cp)) (raise (programming_error ''COPY requires the async COPY API''))
       | Some (ResultItem x) \<Rightarrow> bind (collect_loop A H n r) (\<lambda>xs. ret (x # xs)))"

definition collect_request :: "'k sched \<Rightarrow> 'k host \<Rightarrow> nat \<Rightarrow> nat \<Rightarrow> ('k, result list) coro" where
  "collect_request A H fuel r =
     tryfinally (collect_loop A H fuel r)
       (\<lambda>primary. sync (cleanup_preserving ''async request close'' (Request_close H r) primary))"

section \<open>\<^verbatim>\<open>AsyncConnection\<close>\<close>

definition AsyncConnection_init :: "nat \<Rightarrow> ('k, nat) coro" where
  "AsyncConnection_init c =
     bind aalloc (\<lambda>a.
     seq (set_aconnection a (\<lambda>_. \<lparr>ac_connection = c, ac_owner = None, ac_waiters = []\<rparr>)) (ret a))"

definition sync_connection :: "nat \<Rightarrow> ('k, nat) coro" where
  "sync_connection a = gets (\<lambda>w. ac_connection (aconnections w a))"

definition AsyncConnection_closed :: "nat \<Rightarrow> ('k, bool) coro" where
  "AsyncConnection_closed a = bind (sync_connection a) (\<lambda>c. sync (gets (\<lambda>w. c_closed (connections w c))))"

definition execute_locked ::
  "'k sched \<Rightarrow> 'k host \<Rightarrow> nat \<Rightarrow> nat \<Rightarrow> pystr \<Rightarrow> pyval \<Rightarrow> timeout \<Rightarrow> ('k, result) coro" where
  "execute_locked A H fuel a sql parameters timeout =
     bind (sync_connection a) (\<lambda>c.
     bind (sync (Request_start H c sql parameters
       \<lparr>sa_chunk_rows = PInt 0, sa_timeout = timeout_arg timeout, sa_result_buffer_limit = PInt 0,
        sa_script = False, sa_on_notice = None\<rparr>)) (\<lambda>r.
     bind (collect_request A H fuel r) (\<lambda>xs. case xs of
         [x] \<Rightarrow> ret x
       | _ \<Rightarrow> raise (interface_error ''query returned an invalid result sequence''))))"

definition begin_if_needed ::
  "'k sched \<Rightarrow> 'k host \<Rightarrow> nat \<Rightarrow> nat \<Rightarrow> pystr \<Rightarrow> timeout \<Rightarrow> ('k, unit) coro" where
  "begin_if_needed A H fuel a sql timeout =
     bind (sync_connection a) (\<lambda>c.
     bind (sync (gets (\<lambda>w. c_autocommit (connections w c)))) (\<lambda>autocommit.
     if \<not> autocommit \<and> \<not> is_transaction_control (uni (lib H)) sql
     then bind (sync (Connection_transaction_status H c)) (\<lambda>s.
       if s = TRANSACTION_IDLE
       then seq (execute_locked A H fuel a (lit ''BEGIN'') PNone timeout) (ret ())
       else ret ())
     else ret ()))"

text \<open>The timeout of the call, or the connection's default.\<close>

definition async_effective :: "'k host \<Rightarrow> nat \<Rightarrow> pyval \<Rightarrow> ('k, timeout) coro" where
  "async_effective H a timeout = bind (sync_connection a) (\<lambda>c. sync (effective_timeout H c timeout))"

definition async_require_open :: "nat \<Rightarrow> ('k, unit) coro" where
  "async_require_open a = bind (sync_connection a) (\<lambda>c. sync (Connection_require_open c))"

definition AsyncConnection_execute ::
  "'k sched \<Rightarrow> 'k host \<Rightarrow> nat \<Rightarrow> nat \<Rightarrow> nat \<Rightarrow> pystr \<Rightarrow> pyval \<Rightarrow> pyval \<Rightarrow> ('k, result) coro" where
  "AsyncConnection_execute A H fuel me a sql parameters timeout =
     bind (async_effective H a timeout) (\<lambda>effective.
     with_lock A me a
       (seq (async_require_open a)
       (seq (begin_if_needed A H fuel a sql effective)
       (execute_locked A H fuel a sql parameters effective))))"

definition AsyncRowStream_init :: "nat \<Rightarrow> nat \<Rightarrow> ('k, nat) coro" where
  "AsyncRowStream_init r l =
     bind aalloc (\<lambda>s.
     seq (set_astream s (\<lambda>_. \<lparr>as_request = r, as_columns = [], as_command_status = None, as_rowcount = - 1,
        as_rows = [], as_rows_seen = 0, as_release = Some l, as_closed = False\<rparr>)) (ret s))"

record stream_args =
  sg_chunk_rows :: pyval
  sg_timeout :: pyval
  sg_result_buffer_limit :: pyval
  sg_on_notice :: "handler_arg option"

definition AsyncConnection_stream ::
  "'k sched \<Rightarrow> 'k host \<Rightarrow> nat \<Rightarrow> nat \<Rightarrow> nat \<Rightarrow> pystr \<Rightarrow> pyval \<Rightarrow> stream_args \<Rightarrow> ('k, nat) coro" where
  "AsyncConnection_stream A H fuel me a sql parameters g =
     bind (lift (positive_int (sg_chunk_rows g) ''chunk_rows'')) (\<lambda>k.
     bind (async_effective H a (sg_timeout g)) (\<lambda>effective.
     holding_lock A me a
       (seq (async_require_open a)
       (seq (begin_if_needed A H fuel a sql effective)
       (bind (sync_connection a) (\<lambda>c.
       bind (sync (Request_start H c sql parameters
         \<lparr>sa_chunk_rows = PInt k, sa_timeout = timeout_arg effective,
          sa_result_buffer_limit = sg_result_buffer_limit g, sa_script = False,
          sa_on_notice = sg_on_notice g\<rparr>)) (\<lambda>r.
       AsyncRowStream_init r a)))))))"

definition AsyncConnection_execute_script ::
  "'k sched \<Rightarrow> 'k host \<Rightarrow> nat \<Rightarrow> nat \<Rightarrow> nat \<Rightarrow> pystr \<Rightarrow> pyval \<Rightarrow> ('k, result list) coro" where
  "AsyncConnection_execute_script A H fuel me a sql timeout =
     bind (async_effective H a timeout) (\<lambda>effective.
     with_lock A me a
       (bind (sync_connection a) (\<lambda>c.
       bind (sync (Request_start H c sql PNone
         \<lparr>sa_chunk_rows = PInt 0, sa_timeout = timeout_arg effective, sa_result_buffer_limit = PInt 0,
          sa_script = True, sa_on_notice = None\<rparr>))
       (collect_request A H fuel))))"

text \<open>An \<^verbatim>\<open>AsyncPreparedStatement\<close> is the pair of its connection and its statement.\<close>

type_synonym astatement = "nat \<times> nat"

definition AsyncConnection_prepare ::
  "'k sched \<Rightarrow> 'k host \<Rightarrow> nat \<Rightarrow> nat \<Rightarrow> pystr \<Rightarrow> int list option \<Rightarrow> ('k, astatement) coro" where
  "AsyncConnection_prepare A H me a sql oids =
     with_lock A me a
       (bind (sync_connection a) (\<lambda>c.
       bind (to_thread A (Connection_prepare H c sql oids)) (\<lambda>st. ret (a, st))))"

definition AsyncCopy_init :: "nat \<Rightarrow> nat \<Rightarrow> ('k, nat) coro" where
  "AsyncCopy_init cp l =
     bind aalloc (\<lambda>y.
     seq (set_acopy y (\<lambda>_. \<lparr>ay_copy = cp, ay_release = Some l, ay_closed = False\<rparr>)) (ret y))"

definition AsyncConnection_copy ::
  "'k sched \<Rightarrow> 'k host \<Rightarrow> nat \<Rightarrow> nat \<Rightarrow> nat \<Rightarrow> pystr \<Rightarrow> pyval \<Rightarrow> ('k, nat) coro" where
  "AsyncConnection_copy A H fuel me a sql timeout =
     bind (async_effective H a timeout) (\<lambda>effective.
     holding_lock A me a
       (seq (async_require_open a)
       (seq (begin_if_needed A H fuel a sql effective)
       (bind (sync_connection a) (\<lambda>c.
       bind (sync (Request_start H c sql PNone
         \<lparr>sa_chunk_rows = PInt 0, sa_timeout = timeout_arg effective, sa_result_buffer_limit = PInt 0,
          sa_script = False, sa_on_notice = None\<rparr>)) (\<lambda>r.
       bind (await_request_result A H fuel r) (\<lambda>i. case i of
           Some (CopyItem cp) \<Rightarrow> AsyncCopy_init cp a
         | _ \<Rightarrow> seq (sync (Request_close H r)) (raise (programming_error ''SQL did not enter COPY mode'')))))))))"

text \<open>The command that ends a transaction that is not idle, through the request interface.\<close>

definition async_end_transaction :: "'k sched \<Rightarrow> 'k host \<Rightarrow> nat \<Rightarrow> nat \<Rightarrow> string \<Rightarrow> ('k, unit) coro" where
  "async_end_transaction A H fuel a command =
     bind (sync_connection a) (\<lambda>c.
     bind (sync (Connection_transaction_status H c)) (\<lambda>s.
     if s \<noteq> TRANSACTION_IDLE
     then bind (sync (gets (\<lambda>w. c_timeout (connections w c)))) (\<lambda>timeout.
       seq (execute_locked A H fuel a (lit command) PNone timeout) (ret ()))
     else ret ()))"

definition async_scope_guard :: "nat \<Rightarrow> string \<Rightarrow> ('k, unit) coro" where
  "async_scope_guard a m =
     bind (sync_connection a) (\<lambda>c.
       sync (guard (\<lambda>w. c_scope_active (connections w c)) (programming_error m)))"

definition AsyncConnection_commit :: "'k sched \<Rightarrow> 'k host \<Rightarrow> nat \<Rightarrow> nat \<Rightarrow> nat \<Rightarrow> ('k, unit) coro" where
  "AsyncConnection_commit A H fuel me a =
     with_lock A me a
       (seq (async_require_open a)
       (seq (async_scope_guard a ''transaction() owns commit; leave its context to commit'')
       (async_end_transaction A H fuel a ''COMMIT'')))"

definition AsyncConnection_rollback :: "'k sched \<Rightarrow> 'k host \<Rightarrow> nat \<Rightarrow> nat \<Rightarrow> nat \<Rightarrow> ('k, unit) coro" where
  "AsyncConnection_rollback A H fuel me a =
     with_lock A me a
       (seq (async_require_open a)
       (seq (async_scope_guard a ''transaction() owns rollback; raise from its context to roll back'')
       (async_end_transaction A H fuel a ''ROLLBACK'')))"

definition async_enter_scope :: "'k sched \<Rightarrow> 'k host \<Rightarrow> nat \<Rightarrow> nat \<Rightarrow> nat \<Rightarrow> ('k, unit) coro" where
  "async_enter_scope A H fuel me a =
     with_lock A me a
       (bind (sync_connection a) (\<lambda>c.
       seq (sync (Connection_claim_transaction_scope H c))
       (bind (sync (gets (\<lambda>w. c_timeout (connections w c)))) (\<lambda>timeout.
       catch (seq (execute_locked A H fuel a (lit ''BEGIN'') PNone timeout) (ret ()))
         (\<lambda>e. seq (sync (Connection_release_transaction_scope c)) (raise e))))))"

definition async_exit_scope ::
  "'k sched \<Rightarrow> 'k host \<Rightarrow> nat \<Rightarrow> nat \<Rightarrow> nat \<Rightarrow> bool \<Rightarrow> exc option \<Rightarrow> ('k, unit) coro" where
  "async_exit_scope A H fuel me a commit primary =
     tryfinally
       (with_lock A me a
         (seq (async_require_open a)
         (bind (sync_connection a) (\<lambda>c.
         bind (sync (Connection_transaction_status H c)) (\<lambda>s.
         onlyif (s \<noteq> TRANSACTION_IDLE)
           (catch
             (bind (sync (gets (\<lambda>w. c_timeout (connections w c)))) (\<lambda>timeout.
              seq (execute_locked A H fuel a (lit (if commit then ''COMMIT'' else ''ROLLBACK'')) PNone timeout) (ret ())))
             (\<lambda>e. if primary = None then raise e
                else sync (warn_preserved_cleanup_error ''async transaction-scope rollback'' e primary))))))))
       (\<lambda>_. bind (sync_connection a) (\<lambda>c. sync (Connection_release_transaction_scope c)))"

definition AsyncConnection_cancel :: "'k host \<Rightarrow> nat \<Rightarrow> ('k, bool) coro" where
  "AsyncConnection_cancel H a = bind (sync_connection a) (\<lambda>c. sync (Connection_cancel H c))"

definition AsyncConnection_close :: "'k sched \<Rightarrow> 'k host \<Rightarrow> nat \<Rightarrow> nat \<Rightarrow> pyval \<Rightarrow> ('k, unit) coro" where
  "AsyncConnection_close A H me a timeout =
     with_lock A me a (bind (sync_connection a) (\<lambda>c. to_thread A (Connection_close H c timeout)))"

definition AsyncConnection_aenter :: "nat \<Rightarrow> ('k, nat) coro" where
  "AsyncConnection_aenter a = seq (async_require_open a) (ret a)"

definition AsyncConnection_aexit :: "'k sched \<Rightarrow> 'k host \<Rightarrow> nat \<Rightarrow> nat \<Rightarrow> nat \<Rightarrow> exc option \<Rightarrow> ('k, unit) coro" where
  "AsyncConnection_aexit A H fuel me a exc =
     (case exc of
        None \<Rightarrow>
          seq (catch (AsyncConnection_commit A H fuel me a) (\<lambda>primary.
            seq (catch (AsyncConnection_close A H me a PNone)
              (\<lambda>e. sync (warn_preserved_cleanup_error ''async connection close'' e (Some primary))))
            (raise primary)))
          (AsyncConnection_close A H me a PNone)
      | Some e0 \<Rightarrow>
          seq (catch (AsyncConnection_rollback A H fuel me a)
            (\<lambda>e. sync (warn_preserved_cleanup_error ''async transaction rollback'' e (Some e0))))
          (catch (AsyncConnection_close A H me a PNone)
            (\<lambda>e. sync (warn_preserved_cleanup_error ''async connection close'' e (Some e0)))))"

section \<open>\<^verbatim>\<open>_AsyncTransactionContext\<close>\<close>

definition AsyncTransactionContext_init :: "nat \<Rightarrow> ('k, nat) coro" where
  "AsyncTransactionContext_init a =
     bind aalloc (\<lambda>t.
     seq (set_ascope t (\<lambda>_. \<lparr>ax_connection = a, ax_entered = False, ax_used = False\<rparr>)) (ret t))"

definition AsyncTransactionContext_aenter :: "'k sched \<Rightarrow> 'k host \<Rightarrow> nat \<Rightarrow> nat \<Rightarrow> nat \<Rightarrow> ('k, nat) coro" where
  "AsyncTransactionContext_aenter A H fuel me t =
     bind (gets (\<lambda>w. ascopes w t)) (\<lambda>x.
     if ax_used x then raise (programming_error ''a transaction scope is single-use'')
     else seq (set_ascope t (\<lambda>y. y\<lparr>ax_used := True\<rparr>))
       (seq (async_enter_scope A H fuel me (ax_connection x))
       (seq (set_ascope t (\<lambda>y. y\<lparr>ax_entered := True\<rparr>)) (ret (ax_connection x)))))"

definition AsyncTransactionContext_aexit ::
  "'k sched \<Rightarrow> 'k host \<Rightarrow> nat \<Rightarrow> nat \<Rightarrow> nat \<Rightarrow> exc option \<Rightarrow> ('k, unit) coro" where
  "AsyncTransactionContext_aexit A H fuel me t exc =
     bind (gets (\<lambda>w. ascopes w t)) (\<lambda>x.
     if \<not> ax_entered x then ret ()
     else tryfinally (async_exit_scope A H fuel me (ax_connection x) (exc = None) exc)
       (\<lambda>_. set_ascope t (\<lambda>y. y\<lparr>ax_entered := False\<rparr>)))"

text \<open>\<^verbatim>\<open>async with connection.transaction(): body\<close>\<close>

definition async_transaction ::
  "'k sched \<Rightarrow> 'k host \<Rightarrow> nat \<Rightarrow> nat \<Rightarrow> nat \<Rightarrow> ('k, 'a) coro \<Rightarrow> ('k, 'a) coro" where
  "async_transaction A H fuel me a body =
     bind (AsyncTransactionContext_init a) (\<lambda>t.
     seq (AsyncTransactionContext_aenter A H fuel me t)
     (tryfinally body (AsyncTransactionContext_aexit A H fuel me t)))"

end
