(* ===== verification/Async_Streams.thy ===== *)
theory Async_Streams
  imports Async
begin

text \<open>
  The asynchronous row streams, COPY streams, prepared statements, databases and management
  operations of \<^verbatim>\<open>_async.py\<close>. A row stream and a COPY stream keep the lock of their connection until
  they are closed. The async generator \<^verbatim>\<open>events\<close> is one function from its loop head to the next
  \<^verbatim>\<open>yield\<close> or the end.
\<close>

section \<open>\<^verbatim>\<open>AsyncRowStream\<close>\<close>

definition astream_finish_close :: "nat \<Rightarrow> ('k, unit) coro" where
  "astream_finish_close s =
     bind (gets (\<lambda>w. astreams w s)) (\<lambda>x.
     if as_closed x then ret ()
     else seq (set_astream s (\<lambda>y. y\<lparr>as_closed := True, as_release := None\<rparr>))
       (case as_release x of None \<Rightarrow> ret () | Some l \<Rightarrow> lock_release l))"

definition AsyncRowStream_aclose :: "'k host \<Rightarrow> nat \<Rightarrow> ('k, unit) coro" where
  "AsyncRowStream_aclose H s =
     bind (gets (\<lambda>w. astreams w s)) (\<lambda>x.
     if as_closed x then ret ()
     else seq (sync (Request_close H (as_request x))) (astream_finish_close s))"

definition astream_account :: "result \<Rightarrow> arow_stream \<Rightarrow> arow_stream" where
  "astream_account x s =
     (let s1 = (if res_columns x \<noteq> [] \<and> as_columns s = [] then s\<lparr>as_columns := res_columns x\<rparr> else s);
          seen = as_rows_seen s1 + int (length (res_rows x))
      in if res_kind x = RESULT_TUPLES_CHUNK then s1\<lparr>as_rows_seen := seen, as_rows := as_rows s1 @ res_rows x\<rparr>
         else s1\<lparr>as_command_status := res_command_status x, as_rows_seen := seen, as_rowcount := seen,
                 as_rows := as_rows s1 @ res_rows x\<rparr>)"

fun afetch_loop :: "'k sched \<Rightarrow> 'k host \<Rightarrow> nat \<Rightarrow> nat \<Rightarrow> ('k, row option) coro" where
  "afetch_loop A H fuel s =
     bind (gets (\<lambda>w. astreams w s)) (\<lambda>x. case as_rows x of
         row # rest \<Rightarrow> seq (set_astream s (\<lambda>y. y\<lparr>as_rows := rest\<rparr>)) (ret (Some row))
       | [] \<Rightarrow>
         (if as_closed x then ret None
          else case fuel of
            0 \<Rightarrow> hang OutOfFuel
          | Suc n \<Rightarrow>
              bind (await_request_result A H n (as_request x)) (\<lambda>i. case i of
                  None \<Rightarrow> seq (AsyncRowStream_aclose H s) (ret None)
                | Some (CopyItem cp) \<Rightarrow>
                    seq (sync (Copy_close H cp)) (raise (programming_error ''row stream received a COPY result''))
                | Some (ResultItem y) \<Rightarrow> seq (set_astream s (astream_account y)) (afetch_loop A H n s))))"

declare afetch_loop.simps [simp del]

definition AsyncRowStream_fetchone :: "'k sched \<Rightarrow> 'k host \<Rightarrow> nat \<Rightarrow> nat \<Rightarrow> ('k, row option) coro" where
  "AsyncRowStream_fetchone A H fuel s =
     catch (afetch_loop A H fuel s) (\<lambda>primary.
       seq (catch (AsyncRowStream_aclose H s)
         (\<lambda>e. sync (warn_preserved_cleanup_error ''async row-stream close'' e (Some primary))))
       (raise primary))"

fun afetchmany_loop :: "'k sched \<Rightarrow> 'k host \<Rightarrow> nat \<Rightarrow> nat \<Rightarrow> nat \<Rightarrow> ('k, row list) coro" where
  "afetchmany_loop A H fuel s 0 = ret []"
| "afetchmany_loop A H fuel s (Suc k) =
     bind (AsyncRowStream_fetchone A H fuel s) (\<lambda>row. case row of
         None \<Rightarrow> ret []
       | Some x \<Rightarrow> bind (afetchmany_loop A H fuel s k) (\<lambda>xs. ret (x # xs)))"

definition AsyncRowStream_fetchmany :: "'k sched \<Rightarrow> 'k host \<Rightarrow> nat \<Rightarrow> nat \<Rightarrow> pyval \<Rightarrow> ('k, row list) coro" where
  "AsyncRowStream_fetchmany A H fuel s n =
     bind (lift (nonnegative_int n ''size'')) (\<lambda>k. afetchmany_loop A H fuel s (nat k))"

definition AsyncRowStream_anext :: "'k sched \<Rightarrow> 'k host \<Rightarrow> nat \<Rightarrow> nat \<Rightarrow> ('k, row) coro" where
  "AsyncRowStream_anext A H fuel s =
     bind (AsyncRowStream_fetchone A H fuel s) (\<lambda>row. case row of None \<Rightarrow> raise StopAsyncIter | Some x \<Rightarrow> ret x)"

definition AsyncRowStream_aexit :: "'k host \<Rightarrow> nat \<Rightarrow> exc option \<Rightarrow> ('k, unit) coro" where
  "AsyncRowStream_aexit H s exc = AsyncRowStream_aclose H s"

text \<open>A finalizer: the first failing step ends it with a warning.\<close>

definition AsyncRowStream_del :: "'k host \<Rightarrow> nat \<Rightarrow> ('k, unit) coro" where
  "AsyncRowStream_del H s =
     bind (gets (\<lambda>w. astreams w s)) (\<lambda>x.
     if as_closed x then ret ()
     else seq (sync (warn_resource_leak ''unclosed PostGamma AsyncRowStream''))
       (bind (catch (seq (sync (Request_close H (as_request x))) (ret True))
          (\<lambda>e. seq (sync (warn_preserved_cleanup_error ''abandoned async row-stream close'' e None)) (ret False))) (\<lambda>ok.
        onlyif ok (catch (astream_finish_close s)
          (\<lambda>e. sync (warn_preserved_cleanup_error ''abandoned async row-stream lease release'' e None))))))"

section \<open>\<^verbatim>\<open>AsyncCopy\<close>\<close>

definition acopy_kind :: "nat \<Rightarrow> ('k, copy_kind) coro" where
  "acopy_kind y = gets (\<lambda>w. cp_kind (copies (base w) (ay_copy (acopies w y))))"

definition AsyncCopy_direction :: "nat \<Rightarrow> ('k, pystr) coro" where
  "AsyncCopy_direction y = bind (acopy_kind y) (\<lambda>k. ret (if k = CopyIn then lit ''in'' else lit ''out''))"

definition acopy_finish_close :: "nat \<Rightarrow> ('k, unit) coro" where
  "acopy_finish_close y =
     bind (gets (\<lambda>w. acopies w y)) (\<lambda>x.
     onlyif (\<not> ay_closed x)
       (seq (set_acopy y (\<lambda>z. z\<lparr>ay_closed := True, ay_release := None\<rparr>))
        (case ay_release x of None \<Rightarrow> ret () | Some l \<Rightarrow> lock_release l)))"

definition abort_preserving :: "'k sched \<Rightarrow> 'k host \<Rightarrow> nat \<Rightarrow> exc \<Rightarrow> ('k, unit) coro" where
  "abort_preserving A H y primary =
     bind (gets (\<lambda>w. acopies w y)) (\<lambda>x.
     if ay_closed x then ret ()
     else tryfinally
       (catch (to_thread A (Copy_close H (ay_copy x)))
         (\<lambda>e. sync (warn_preserved_cleanup_error ''async COPY close'' e (Some primary))))
       (\<lambda>_. acopy_finish_close y))"

text \<open>The handlers that end \<^verbatim>\<open>write\<close>, \<^verbatim>\<open>finish\<close>, \<^verbatim>\<open>read\<close>, \<^verbatim>\<open>copy_from\<close> and \<^verbatim>\<open>copy_to\<close>: a native error is translated.\<close>

definition aborting :: "'k sched \<Rightarrow> 'k host \<Rightarrow> nat \<Rightarrow> ('k, 'a) coro \<Rightarrow> ('k, 'a) coro" where
  "aborting A H y m =
     catch m (\<lambda>e. seq (abort_preserving A H y (translate_exc e)) (raise (translate_exc e)))"

text \<open>A native call on the handle of the COPY stream.\<close>

definition on_acopy :: "nat \<Rightarrow> (handle \<Rightarrow> ncall) \<Rightarrow> (handle \<Rightarrow> ('k, 'a) host_fun) \<Rightarrow> ('k, 'a) coro" where
  "on_acopy y call f =
     bind (gets (\<lambda>w. cp_handle (copies (base w) (ay_copy (acopies w y))))) (\<lambda>h.
       sync (with_handle h (\<lambda>x. native (call x) (f x))))"

text \<open>Progress of the request of a COPY stream, then the wait for its descriptor.\<close>

definition acopy_wait :: "'k sched \<Rightarrow> 'k host \<Rightarrow> nat \<Rightarrow> nat \<Rightarrow> ('k, unit) coro" where
  "acopy_wait A H fuel y =
     bind (gets (\<lambda>w. cp_request (copies (base w) (ay_copy (acopies w y))))) (\<lambda>r.
     seq (sync (Request_progress H fuel r)) (wait_request A H r))"

fun awrite_loop :: "'k sched \<Rightarrow> 'k host \<Rightarrow> nat \<Rightarrow> nat \<Rightarrow> pybytes \<Rightarrow> int \<Rightarrow> ('k, int) coro" where
  "awrite_loop A H fuel y view offset =
     (if view = [] then ret offset
      else case fuel of
        0 \<Rightarrow> hang OutOfFuel
      | Suc n \<Rightarrow>
          bind (on_acopy y (\<lambda>h. CopyWrite h view) (\<lambda>h. copy_write H h view)) (\<lambda>(consumed, state).
          if consumed < 0 \<or> int (length view) < consumed
          then raise (interface_error ''native COPY writer returned an invalid count'')
          else let rest = drop (nat consumed) view in
            if state = IO_AGAIN then
              (if consumed \<noteq> 0
               then raise (interface_error ''native COPY writer reported progress and backpressure'')
               else seq (acopy_wait A H n y) (awrite_loop A H n y rest (offset + consumed)))
            else if state \<noteq> IO_PROGRESS then
              raise (interface_error ''native COPY writer returned an invalid state'')
            else if consumed = 0 \<and> rest \<noteq> []
              then raise (interface_error ''native COPY writer made no progress'')
            else awrite_loop A H n y rest (offset + consumed)))"

declare awrite_loop.simps [simp del]

definition AsyncCopy_write :: "'k sched \<Rightarrow> 'k host \<Rightarrow> nat \<Rightarrow> nat \<Rightarrow> pybytes \<Rightarrow> ('k, int) coro" where
  "AsyncCopy_write A H fuel y data =
     bind (acopy_kind y) (\<lambda>k.
     if k \<noteq> CopyIn then raise (programming_error ''COPY TO STDOUT is not writable'')
     else aborting A H y (awrite_loop A H fuel y data 0))"

fun afinish_loop :: "'k sched \<Rightarrow> 'k host \<Rightarrow> nat \<Rightarrow> nat \<Rightarrow> ('k, unit) coro" where
  "afinish_loop A H 0 y = hang OutOfFuel"
| "afinish_loop A H (Suc n) y =
     bind (translating (on_acopy y (\<lambda>h. CopyFinish h None) (\<lambda>h. copy_finish H h None))) (\<lambda>state.
     if state = IO_END then ret ()
     else if state \<noteq> IO_AGAIN then raise (interface_error ''native COPY finish returned an invalid state'')
     else seq (acopy_wait A H n y) (afinish_loop A H n y))"

text \<open>The command result of a COPY whose data have ended.\<close>

definition acopy_result :: "'k sched \<Rightarrow> 'k host \<Rightarrow> nat \<Rightarrow> nat \<Rightarrow> ('k, result) coro" where
  "acopy_result A H fuel y =
     bind (gets (\<lambda>w. ay_copy (acopies w y))) (\<lambda>cp.
     seq (sync (Copy_release H cp))
     (bind (gets (\<lambda>w. cp_request (copies (base w) cp))) (\<lambda>r.
     bind (collect_request A H fuel r) (\<lambda>xs. case xs of
         [x] \<Rightarrow> seq (sync (set_copy cp (\<lambda>z. z\<lparr>cp_command_result := Some x\<rparr>)))
                (seq (acopy_finish_close y) (ret x))
       | _ \<Rightarrow> raise (interface_error ''COPY returned an invalid result sequence'')))))"

definition AsyncCopy_finish :: "'k sched \<Rightarrow> 'k host \<Rightarrow> nat \<Rightarrow> nat \<Rightarrow> ('k, result) coro" where
  "AsyncCopy_finish A H fuel y =
     bind (acopy_kind y) (\<lambda>k.
     if k \<noteq> CopyIn then raise (programming_error ''COPY TO STDOUT cannot be finished as input'')
     else aborting A H y
       (seq (afinish_loop A H fuel y)
       (bind (gets (\<lambda>w. ay_copy (acopies w y))) (\<lambda>cp.
       seq (sync (set_copy cp (\<lambda>z. z\<lparr>cp_io_ended := True\<rparr>)))
       (acopy_result A H fuel y)))))"

fun acopy_from_loop :: "'k sched \<Rightarrow> 'k host \<Rightarrow> nat \<Rightarrow> nat \<Rightarrow> nat \<Rightarrow> int \<Rightarrow> ('k, unit) coro" where
  "acopy_from_loop A H 0 y source chunk_size = hang OutOfFuel"
| "acopy_from_loop A H (Suc n) y source chunk_size =
     bind (sync (host_call (source_read H source chunk_size))) (\<lambda>chunk.
     if chunk = [] then ret ()
     else seq (AsyncCopy_write A H n y chunk) (acopy_from_loop A H n y source chunk_size))"

definition AsyncCopy_copy_from ::
  "'k sched \<Rightarrow> 'k host \<Rightarrow> nat \<Rightarrow> nat \<Rightarrow> nat \<Rightarrow> pyval \<Rightarrow> ('k, result) coro" where
  "AsyncCopy_copy_from A H fuel y source chunk_size =
     bind (acopy_kind y) (\<lambda>k.
     if k \<noteq> CopyIn then raise (programming_error ''COPY TO STDOUT has no input source'')
     else bind (lift (positive_int chunk_size ''chunk_size'')) (\<lambda>size.
       catch (seq (acopy_from_loop A H fuel y source size) (AsyncCopy_finish A H fuel y))
         (\<lambda>e. seq (abort_preserving A H y e) (raise e))))"

fun aread_loop :: "'k sched \<Rightarrow> 'k host \<Rightarrow> nat \<Rightarrow> nat \<Rightarrow> int \<Rightarrow> ('k, pybytes) coro" where
  "aread_loop A H 0 y capacity = hang OutOfFuel"
| "aread_loop A H (Suc n) y capacity =
     bind (gets (\<lambda>w. ay_copy (acopies w y))) (\<lambda>cp.
     bind (gets (\<lambda>w. cp_io_ended (copies (base w) cp))) (\<lambda>ended.
     if ended then seq (acopy_result A H n y) (ret [])
     else bind (on_acopy y (\<lambda>h. CopyRead h capacity) (\<lambda>h. copy_read H h capacity)) (\<lambda>(data, state).
       seq (onlyif (state = IO_END) (sync (set_copy cp (\<lambda>z. z\<lparr>cp_io_ended := True\<rparr>))))
       (if data \<noteq> [] then
          (if state \<noteq> IO_PROGRESS
           then raise (interface_error ''native COPY reader returned data with an invalid state'')
           else ret data)
        else if state = IO_END then aread_loop A H n y capacity
        else if state \<noteq> IO_AGAIN then raise (interface_error ''native COPY reader returned an invalid state'')
        else seq (acopy_wait A H n y) (aread_loop A H n y capacity)))))"

definition AsyncCopy_read :: "'k sched \<Rightarrow> 'k host \<Rightarrow> nat \<Rightarrow> nat \<Rightarrow> pyval \<Rightarrow> ('k, pybytes) coro" where
  "AsyncCopy_read A H fuel y capacity =
     bind (acopy_kind y) (\<lambda>k.
     if k \<noteq> CopyOut then raise (programming_error ''COPY FROM STDIN is not readable'')
     else bind (lift (positive_int capacity ''size'')) (\<lambda>n. aborting A H y (aread_loop A H fuel y n)))"

fun acopy_to_loop :: "'k sched \<Rightarrow> 'k host \<Rightarrow> nat \<Rightarrow> nat \<Rightarrow> nat \<Rightarrow> int \<Rightarrow> ('k, unit) coro" where
  "acopy_to_loop A H 0 y target chunk_size = hang OutOfFuel"
| "acopy_to_loop A H (Suc n) y target chunk_size =
     bind (AsyncCopy_read A H n y (PInt chunk_size)) (\<lambda>chunk.
     if chunk = [] then ret ()
     else seq (sync (drain_loop H (length chunk) target chunk)) (acopy_to_loop A H n y target chunk_size))"

definition AsyncCopy_copy_to ::
  "'k sched \<Rightarrow> 'k host \<Rightarrow> nat \<Rightarrow> nat \<Rightarrow> nat \<Rightarrow> pyval \<Rightarrow> ('k, result) coro" where
  "AsyncCopy_copy_to A H fuel y target chunk_size =
     bind (acopy_kind y) (\<lambda>k.
     if k \<noteq> CopyOut then raise (programming_error ''COPY FROM STDIN has no output target'')
     else bind (lift (positive_int chunk_size ''chunk_size'')) (\<lambda>size.
       catch
         (seq (acopy_to_loop A H fuel y target size)
         (bind (gets (\<lambda>w. cp_command_result (copies (base w) (ay_copy (acopies w y))))) (\<lambda>x. case x of
             None \<Rightarrow> raise (interface_error ''COPY output completed without a command result'')
           | Some z \<Rightarrow> ret z)))
         (\<lambda>e. seq (abort_preserving A H y e) (raise e))))"

definition AsyncCopy_aclose :: "'k sched \<Rightarrow> 'k host \<Rightarrow> nat \<Rightarrow> ('k, unit) coro" where
  "AsyncCopy_aclose A H y =
     bind (gets (\<lambda>w. acopies w y)) (\<lambda>x.
     if ay_closed x then ret ()
     else tryfinally (to_thread A (Copy_close H (ay_copy x))) (\<lambda>_. acopy_finish_close y))"

definition AsyncCopy_aexit :: "'k sched \<Rightarrow> 'k host \<Rightarrow> nat \<Rightarrow> exc option \<Rightarrow> ('k, unit) coro" where
  "AsyncCopy_aexit A H y exc = AsyncCopy_aclose A H y"

definition AsyncCopy_del :: "'k host \<Rightarrow> nat \<Rightarrow> ('k, unit) coro" where
  "AsyncCopy_del H y =
     bind (gets (\<lambda>w. acopies w y)) (\<lambda>x.
     if ay_closed x then ret ()
     else seq (sync (warn_resource_leak ''unclosed PostGamma AsyncCopy''))
       (bind (catch (seq (sync (Copy_close H (ay_copy x))) (ret True))
          (\<lambda>e. seq (sync (warn_preserved_cleanup_error ''abandoned async COPY close'' e None)) (ret False))) (\<lambda>ok.
        onlyif ok (catch (acopy_finish_close y)
          (\<lambda>e. sync (warn_preserved_cleanup_error ''abandoned async COPY lease release'' e None))))))"

section \<open>\<^verbatim>\<open>AsyncPreparedStatement\<close>\<close>

definition AsyncPreparedStatement_description :: "'k host \<Rightarrow> astatement \<Rightarrow> ('k, int list \<times> column list) coro" where
  "AsyncPreparedStatement_description H p = sync (PreparedStatement_description H (snd p))"

definition AsyncPreparedStatement_execute ::
  "'k sched \<Rightarrow> 'k host \<Rightarrow> nat \<Rightarrow> nat \<Rightarrow> astatement \<Rightarrow> pyval \<Rightarrow> pyval \<Rightarrow> handler_arg option \<Rightarrow> ('k, result) coro" where
  "AsyncPreparedStatement_execute A H fuel me p parameters timeout on_notice =
     bind (async_effective H (fst p) timeout) (\<lambda>effective.
     bind (with_lock A me (fst p)
       (bind (sync (gets (\<lambda>w. st_sql (statements w (snd p))))) (\<lambda>sql.
       seq (begin_if_needed A H fuel (fst p) sql effective)
       (bind (sync (Request_from_statement H (snd p) parameters 0 (timeout_arg effective) 0 on_notice))
       (collect_request A H fuel))))) (\<lambda>xs. case xs of
         [x] \<Rightarrow> ret x
       | _ \<Rightarrow> raise (interface_error ''prepared statement returned an invalid result sequence'')))"

text \<open>\<^verbatim>\<open>result_buffer_limit\<close> is handed to the native module unchecked.\<close>

definition AsyncPreparedStatement_stream ::
  "'k sched \<Rightarrow> 'k host \<Rightarrow> nat \<Rightarrow> nat \<Rightarrow> astatement \<Rightarrow> pyval \<Rightarrow> pyval \<Rightarrow> pyval \<Rightarrow> int \<Rightarrow> handler_arg option \<Rightarrow>
   ('k, nat) coro" where
  "AsyncPreparedStatement_stream A H fuel me p parameters chunk_rows timeout limit on_notice =
     bind (lift (positive_int chunk_rows ''chunk_rows'')) (\<lambda>k.
     bind (async_effective H (fst p) timeout) (\<lambda>effective.
     holding_lock A me (fst p)
       (bind (sync (gets (\<lambda>w. st_sql (statements w (snd p))))) (\<lambda>sql.
       seq (begin_if_needed A H fuel (fst p) sql effective)
       (bind (sync (Request_from_statement H (snd p) parameters k (timeout_arg effective) limit on_notice))
       (\<lambda>r. AsyncRowStream_init r (fst p)))))))"

definition AsyncPreparedStatement_close :: "'k sched \<Rightarrow> 'k host \<Rightarrow> nat \<Rightarrow> astatement \<Rightarrow> ('k, unit) coro" where
  "AsyncPreparedStatement_close A H me p =
     with_lock A me (fst p) (to_thread A (PreparedStatement_close H (snd p)))"

definition AsyncPreparedStatement_aexit ::
  "'k sched \<Rightarrow> 'k host \<Rightarrow> nat \<Rightarrow> astatement \<Rightarrow> exc option \<Rightarrow> ('k, unit) coro" where
  "AsyncPreparedStatement_aexit A H me p exc = AsyncPreparedStatement_close A H me p"

section \<open>Management operations\<close>

fun wait_operation_loop ::
  "'k sched \<Rightarrow> 'k host \<Rightarrow> nat \<Rightarrow> nat \<Rightarrow> pyfloat option \<Rightarrow> ('k, operation_progress) coro" where
  "wait_operation_loop A H 0 p deadline = hang OutOfFuel"
| "wait_operation_loop A H (Suc n) p deadline =
     bind (sync (Operation_progress H p)) (\<lambda>state.
     bind (sync (Operation_snapshot H p)) (\<lambda>snapshot.
     if state = OpCompleted then ret snapshot
     else if state = OpCanceled then raise operation_canceled
     else if state = OpFailed then raise (interface_error ''PostGamma management operation failed'')
     else bind (case deadline of
           None \<Rightarrow> ret None
         | Some f \<Rightarrow> bind (sync (now H)) (\<lambda>m. ret (Some (float_minus f m)))) (\<lambda>remaining.
       seq (onlyif (remaining \<noteq> None \<and> float_le_zero (the remaining))
         (seq (sync (Operation_cancel H p)) (raise operation_timeout)))
       (bind (gets (\<lambda>w. o_waitable (operations (base w) p))) (\<lambda>d.
       seq (catch (suspend A (OnFd d remaining))
         (\<lambda>e. if e = TimeoutErr then seq (sync (Operation_cancel H p)) (raise operation_timeout) else raise e))
       (wait_operation_loop A H n p deadline))))))"

definition wait_operation :: "'k sched \<Rightarrow> 'k host \<Rightarrow> nat \<Rightarrow> nat \<Rightarrow> pyval \<Rightarrow> ('k, operation_progress) coro" where
  "wait_operation A H fuel p timeout =
     bind (if timeout = PNone
           then sync (gets (\<lambda>w. d_timeout (databases w (o_database (operations w p)))))
           else lift (normalize_timeout (lib H) timeout)) (\<lambda>normalized.
     bind (case normalized of
         None \<Rightarrow> ret None
       | Some t \<Rightarrow> bind (sync (now H)) (\<lambda>m. ret (Some (float_of_rat (m + t))))) (\<lambda>deadline.
     tryfinally
       (catch (wait_operation_loop A H fuel p deadline) (\<lambda>e.
          if e = CancelledErr
          then seq (catch (sync (Operation_cancel H p))
                 (\<lambda>c. sync (warn_preserved_cleanup_error ''canceled operation cancellation'' c (Some e))))
               (raise e)
          else raise e))
       (\<lambda>primary. sync (cleanup_preserving ''async management operation close'' (Operation_close H p) primary))))"

section \<open>\<^verbatim>\<open>AsyncDatabase\<close>\<close>

text \<open>The argument of the constructor: an open \<^verbatim>\<open>Database\<close>, or what to make one from.\<close>

datatype adatabase_arg = ExistingDatabase nat bool | NewDatabase database_args

definition AsyncDatabase_init :: "'k host \<Rightarrow> adatabase_arg \<Rightarrow> ('k, nat) coro" where
  "AsyncDatabase_init H x =
     bind (case x of
         ExistingDatabase db options \<Rightarrow>
           (if options then raise (TypeErr (lit ''options cannot accompany an existing Database''))
            else ret (db, False))
       | NewDatabase a \<Rightarrow> bind (sync (Database_init H a)) (\<lambda>db. ret (db, True))) (\<lambda>(db, owns).
     bind aalloc (\<lambda>i.
     seq (set_adatabase i (\<lambda>_. \<lparr>ad_database = db, ad_owns = owns, ad_closing = False\<rparr>)) (ret i)))"

definition sync_database :: "nat \<Rightarrow> ('k, nat) coro" where
  "sync_database i = gets (\<lambda>w. ad_database (adatabases w i))"

definition AsyncDatabase_open :: "'k sched \<Rightarrow> 'k host \<Rightarrow> nat \<Rightarrow> ('k, nat) coro" where
  "AsyncDatabase_open A H i =
     bind (sync_database i) (\<lambda>db. seq (to_thread A (Database_open H db)) (ret i))"

definition AsyncDatabase_connect :: "'k sched \<Rightarrow> 'k host \<Rightarrow> nat \<Rightarrow> session_args \<Rightarrow> ('k, nat) coro" where
  "AsyncDatabase_connect A H i a =
     bind (sync_database i) (\<lambda>db. bind (to_thread A (Database_connect H db a)) AsyncConnection_init)"

definition AsyncDatabase_execute ::
  "'k sched \<Rightarrow> 'k host \<Rightarrow> nat \<Rightarrow> nat \<Rightarrow> nat \<Rightarrow> pystr \<Rightarrow> pyval \<Rightarrow> pyval \<Rightarrow> ('k, result) coro" where
  "AsyncDatabase_execute A H fuel me i sql parameters timeout =
     bind (AsyncDatabase_connect A H i (default_session\<lparr>se_autocommit := True, se_timeout := timeout\<rparr>)) (\<lambda>a.
     tryfinally (AsyncConnection_execute A H fuel me a sql parameters timeout)
       (\<lambda>primary. catch (AsyncConnection_close A H me a PNone)
          (\<lambda>e. if primary = None then raise e
             else sync (warn_preserved_cleanup_error ''async connection close'' e primary))))"

definition is_interface_error :: "exc \<Rightarrow> bool" where
  "is_interface_error e = (case e of PgError c _ \<Rightarrow> issubclass c InterfaceError | _ \<Rightarrow> False)"

definition database_gone :: "nat \<Rightarrow> ('k, bool) coro" where
  "database_gone i =
     gets (\<lambda>w. ad_closing (adatabases w i) \<or> d_closed (databases (base w) (ad_database (adatabases w i))))"

text \<open>From the head of the loop of \<^verbatim>\<open>events\<close> to its next \<^verbatim>\<open>yield\<close>; \<open>None\<close> is the end of the generator.\<close>

fun events_loop :: "'k sched \<Rightarrow> 'k host \<Rightarrow> nat \<Rightarrow> nat \<Rightarrow> ('k, event option) coro" where
  "events_loop A H 0 i = hang OutOfFuel"
| "events_loop A H (Suc n) i =
     bind (database_gone i) (\<lambda>gone.
     if gone then ret None
     else bind (sync_database i) (\<lambda>db.
       bind (catch (bind (sync (Database_next_event H db (PInt 0))) (\<lambda>e. ret (Some e)))
         (\<lambda>e. if is_interface_error e
            then bind (database_gone i) (\<lambda>gone'. if gone' then ret None else raise e) else raise e)) (\<lambda>polled.
       case polled of
         None \<Rightarrow> ret None
       | Some (Some event) \<Rightarrow> ret (Some event)
       | Some None \<Rightarrow>
          bind (catch (bind (sync (Database_waitable H db)) (\<lambda>d. ret (Some d)))
            (\<lambda>e. if is_interface_error e
               then bind (database_gone i) (\<lambda>gone'. if gone' then ret None else raise e) else raise e)) (\<lambda>descriptor.
          case descriptor of
            None \<Rightarrow> ret None
          | Some d \<Rightarrow>
              seq (catch (suspend A (OnFd d (Some (Fin (1 / 4))))) (\<lambda>e. if e = TimeoutErr then ret () else raise e))
              (events_loop A H n i)))))"

definition AsyncDatabase_events :: "'k sched \<Rightarrow> 'k host \<Rightarrow> nat \<Rightarrow> nat \<Rightarrow> bool \<Rightarrow> ('k, event option) coro" where
  "AsyncDatabase_events A H fuel i started =
     seq (onlyif (\<not> started)
       (bind (sync_database i) (\<lambda>db. seq (to_thread A (Database_open H db)) (ret ()))))
     (events_loop A H fuel i)"

text \<open>The operation that a \<^verbatim>\<open>Database\<close> call with \<^verbatim>\<open>wait=False\<close> returns, driven to its end.\<close>

definition drive_operation ::
  "'k sched \<Rightarrow> 'k host \<Rightarrow> nat \<Rightarrow> ('k, nat + operation_progress) call \<Rightarrow> pyval \<Rightarrow> ('k, operation_progress) coro" where
  "drive_operation A H fuel start timeout =
     bind (sync start) (\<lambda>x. case x of Inl p \<Rightarrow> wait_operation A H fuel p timeout | Inr y \<Rightarrow> ret y)"

definition AsyncDatabase_checkpoint ::
  "'k sched \<Rightarrow> 'k host \<Rightarrow> nat \<Rightarrow> nat \<Rightarrow> pyval \<Rightarrow> ('k, operation_progress) coro" where
  "AsyncDatabase_checkpoint A H fuel i timeout =
     bind (sync_database i) (\<lambda>db. drive_operation A H fuel (Database_checkpoint H fuel db False PNone) timeout)"

definition AsyncDatabase_maintenance ::
  "'k sched \<Rightarrow> 'k host \<Rightarrow> nat \<Rightarrow> nat \<Rightarrow> maintenance_arg \<Rightarrow> pystr option \<Rightarrow> pystr option \<Rightarrow> pyval \<Rightarrow>
   ('k, operation_progress) coro" where
  "AsyncDatabase_maintenance A H fuel i kind database user timeout =
     bind (sync_database i) (\<lambda>db.
       drive_operation A H fuel (Database_maintenance H fuel db kind database user False PNone) timeout)"

definition AsyncDatabase_logical_dump ::
  "'k sched \<Rightarrow> 'k host \<Rightarrow> nat \<Rightarrow> nat \<Rightarrow> nat \<Rightarrow> logical_args \<Rightarrow> pyval \<Rightarrow> ('k, operation_progress) coro" where
  "AsyncDatabase_logical_dump A H fuel i stream a timeout =
     bind (sync_database i) (\<lambda>db.
       drive_operation A H fuel (Database_logical_dump H fuel db stream a False PNone) timeout)"

definition AsyncDatabase_logical_restore ::
  "'k sched \<Rightarrow> 'k host \<Rightarrow> nat \<Rightarrow> nat \<Rightarrow> nat \<Rightarrow> logical_args \<Rightarrow> pyval \<Rightarrow> ('k, operation_progress) coro" where
  "AsyncDatabase_logical_restore A H fuel i stream a timeout =
     bind (sync_database i) (\<lambda>db.
       drive_operation A H fuel (Database_logical_restore H fuel db stream a False PNone) timeout)"

definition AsyncDatabase_close :: "'k sched \<Rightarrow> 'k host \<Rightarrow> nat \<Rightarrow> pystr \<Rightarrow> pyval \<Rightarrow> ('k, unit) coro" where
  "AsyncDatabase_close A H i mode timeout =
     bind (sync_database i) (\<lambda>db.
     bind (sync (Database_closed db)) (\<lambda>closed.
     if closed then ret ()
     else seq (set_adatabase i (\<lambda>x. x\<lparr>ad_closing := True\<rparr>))
       (catch
         (bind (sync (Database_opened db)) (\<lambda>opened.
          seq (onlyif opened
            (catch (bind (sync (Database_waitable H db)) (\<lambda>d. modify (\<lambda>w. w\<lparr>interrupts := interrupts w @ [d]\<rparr>)))
              (\<lambda>e. if is_interface_error e
                 then bind (sync (Database_closed db)) (\<lambda>closed'. if closed' then ret () else raise e)
                 else raise e)))
          (to_thread A (Database_close H db mode timeout))))
         (\<lambda>e. seq (set_adatabase i (\<lambda>x. x\<lparr>ad_closing := False\<rparr>)) (raise e)))))"

definition AsyncDatabase_aexit :: "'k sched \<Rightarrow> 'k host \<Rightarrow> nat \<Rightarrow> exc option \<Rightarrow> ('k, unit) coro" where
  "AsyncDatabase_aexit A H i exc =
     bind (gets (\<lambda>w. ad_owns (adatabases w i))) (\<lambda>owns.
     bind (sync_database i) (\<lambda>db.
     bind (sync (Database_closed db)) (\<lambda>closed.
     onlyif (owns \<or> \<not> closed) (AsyncDatabase_close A H i (lit ''fast'') PNone))))"

definition connect_async :: "'k sched \<Rightarrow> 'k host \<Rightarrow> connect_args \<Rightarrow> ('k, nat) coro" where
  "connect_async A H a = bind (to_thread A (connect H a)) AsyncConnection_init"

end
