(* ===== verification/Frames.thy ===== *)
theory Frames
  imports Connections
begin

text \<open>
  What driving a request leaves alone. The locale \<open>driver\<close> is the contract between an invariant
  of the world and the operations that drive and close requests and COPY streams: the invariant
  survives the updates these operations make one by one, and then it survives every operation.
\<close>

lemma keeps_item:
  "(\<And>x. keeps I (f x)) \<Longrightarrow> (\<And>x. keeps I (g x)) \<Longrightarrow>
   keeps I (case y of ResultItem x \<Rightarrow> f x | CopyItem x \<Rightarrow> g x)"
  by (simp split: item.split)

locale driver =
  fixes H :: "'k host" and I :: "'k world \<Rightarrow> bool"
  assumes I_kernel: "I w \<Longrightarrow> I (w\<lparr>kernel := k\<rparr>)"
    and I_calls: "I w \<Longrightarrow> I (w\<lparr>calls := calls w @ [x]\<rparr>)"
    and I_warned: "I w \<Longrightarrow> I (w\<lparr>warned := warned w @ [m]\<rparr>)"
    and I_next_id: "I w \<Longrightarrow> I (w\<lparr>next_id := next_id w + 1\<rparr>)"
    and I_database: "(\<And>x. d_timeout (f x) = d_timeout x) \<Longrightarrow> (\<And>x. d_connections (f x) = d_connections x) \<Longrightarrow>
      I w \<Longrightarrow> I (w\<lparr>databases := (databases w)(db := f (databases w db))\<rparr>)"
    and I_request: "(\<And>x. r_connection (g x) = r_connection x) \<Longrightarrow> (\<And>x. r_handle (g x) = r_handle x) \<Longrightarrow>
      (\<And>x. r_closed (g x) = r_closed x) \<Longrightarrow> (\<And>x. r_owns_gate (g x) = r_owns_gate x) \<Longrightarrow>
      I w \<Longrightarrow> I (w\<lparr>requests := (requests w)(r := g (requests w r))\<rparr>)"
    and I_copy: "I w \<Longrightarrow> I (w\<lparr>copies := cps\<rparr>)"
    and keeps_retire [keeps_rules]: "keeps I (retire_request H r)"
begin

section \<open>Native calls and objects\<close>

lemma keeps_io [keeps_rules]:
  shows "keeps I (native c f)" and "keeps I (host_call g)" and "keeps I (now H)"
proof -
  show "keeps I (native c f)" by (rule keeps_native) (use I_calls [OF I_kernel] in simp)
qed (auto intro: keeps_host_call keeps_now I_kernel)

lemma keeps_alloc_id [keeps_rules]: "keeps I alloc"
  by (rule keeps_alloc) (rule I_next_id)

lemma keeps_warnings [keeps_rules]:
  "keeps I (warn_resource_leak s)" "keeps I (warn_preserved_cleanup_error a e p)"
  by (auto intro: keeps_warn I_warned)

lemma keeps_cleanup [keeps_rules]: "keeps I m \<Longrightarrow> keeps I (cleanup_preserving a m p)"
  by (intro keeps_cleanup_preserving I_warned)

lemma keeps_set_database:
  "(\<And>x. d_timeout (f x) = d_timeout x) \<Longrightarrow> (\<And>x. d_connections (f x) = d_connections x) \<Longrightarrow> keeps I (set_database db f)"
  unfolding set_database_def by (intro keeps_modify I_database)

lemma keeps_set_request:
  "(\<And>x. r_connection (f x) = r_connection x) \<Longrightarrow> (\<And>x. r_handle (f x) = r_handle x) \<Longrightarrow>
   (\<And>x. r_closed (f x) = r_closed x) \<Longrightarrow> (\<And>x. r_owns_gate (f x) = r_owns_gate x) \<Longrightarrow> keeps I (set_request r f)"
  unfolding set_request_def by (intro keeps_modify I_request)

lemma keeps_set_copy [keeps_rules]: "keeps I (set_copy cp f)"
  unfolding set_copy_def by (intro keeps_modify I_copy)

lemma keeps_require_open [keeps_rules]:
  "keeps I (Connection_require_open c)" "keeps I (Request_require_open r)" "keeps I (Copy_require_open cp)"
  unfolding Connection_require_open_def Request_require_open_def Copy_require_open_def
  by (intro keeps_rules)+

lemma keeps_on [keeps_rules]:
  "keeps I (on_connection c a b)" "keeps I (on_request r a b')" "keeps I (on_copy cp a b'')"
  unfolding on_connection_def on_request_def on_copy_def by (intro keeps_rules)+

lemma keeps_values [keeps_rules]: "keeps I (make_result H n)" "keeps I (encoded_parameters H ps)"
  unfolding make_result_def encoded_parameters_def by (intro keeps_rules)+

section \<open>The event queue\<close>

lemma keeps_resolve [keeps_rules]: "keeps I (resolve_runtime_paths H a b)"
  unfolding resolve_runtime_paths_def by (intro keeps_rules)

lemma keeps_ensure_open [keeps_rules]: "keeps I (Database_ensure_open H db)"
  unfolding Database_ensure_open_def by (intro keeps_rules keeps_set_database) simp_all

lemma keeps_dispatch_loop [keeps_rules]: "keeps I (dispatch_loop H fuel db m d)"
proof (induction fuel arbitrary: d)
  case 0
  show ?case by (subst dispatch_loop.simps) (simp add: keeps_hang keeps_ret)
next
  case (Suc n)
  show ?case by (subst dispatch_loop.simps) (simp only: nat.case, intro keeps_rules keeps_set_database Suc; simp)
qed

lemma keeps_dispatch [keeps_rules]:
  "keeps I (Database_dispatch_events H fuel db m)" "keeps I (dispatch_for H fuel r)"
  unfolding Database_dispatch_events_def dispatch_for_def request_database_def by (intro keeps_rules)+

section \<open>Closing\<close>

lemma keeps_remaining [keeps_rules]: "keeps I (Request_remaining H r)"
  unfolding Request_remaining_def by (intro keeps_rules)

lemma keeps_copy_release [keeps_rules]: "keeps I (Copy_release H cp)"
  unfolding Copy_release_def by (intro keeps_rules)

lemma keeps_close_at [keeps_rules]: "keeps I (Request_close_at H d r)" "keeps I (Copy_close_at H d cp)"
proof -
  have "(\<forall>r. keeps I (Request_close_at H d r)) \<and> (\<forall>cp. keeps I (Copy_close_at H d cp))"
  proof (induction d)
    case 0
    show ?case by (simp add: keeps_raise)
  next
    case (Suc d)
    then have "keeps I (Request_close_at H d r)" "keeps I (Copy_close_at H d cp)" for r cp by auto
    then show ?case by (simp only: Request_close_at.simps Copy_close_at.simps) (intro conjI allI keeps_rules)
  qed
  then show "keeps I (Request_close_at H d r)" "keeps I (Copy_close_at H d cp)" by auto
qed

lemma keeps_close [keeps_rules]: "keeps I (Request_close H r)" "keeps I (Copy_close H cp)"
  unfolding Request_close_def Copy_close_def by (intro keeps_rules)+

section \<open>Driving a request\<close>

lemma keeps_cancel [keeps_rules]: "keeps I (Request_cancel H r)" "keeps I (Request_state H r)"
  unfolding Request_cancel_def Request_state_def by (intro keeps_rules)+

lemma keeps_timed_out [keeps_rules]: "keeps I (Request_timed_out H r)"
  unfolding Request_timed_out_def by (intro keeps_rules)

lemma keeps_closing_on_error [keeps_rules]: "keeps I m \<Longrightarrow> keeps I (closing_on_error H r a m)"
  unfolding closing_on_error_def by (intro keeps_rules)

lemma keeps_take_loop [keeps_rules]: "keeps I (take_loop H fuel r block)"
proof (induction fuel)
  case 0
  show ?case by (simp add: take_loop.simps keeps_hang)
next
  case (Suc n)
  show ?case by (subst take_loop.simps) (intro keeps_rules Suc)
qed

lemma keeps_take [keeps_rules]: "keeps I (Request_take H fuel r block)"
  unfolding Request_take_def by (intro keeps_rules)

lemma keeps_convert [keeps_rules]: "keeps I (Request_convert H r n)"
  unfolding Request_convert_def Copy_init_def by (intro keeps_rules keeps_set_request) simp_all

lemma keeps_next [keeps_rules]: "keeps I (Request_try_next H fuel r)" "keeps I (Request_next_result H fuel r)"
  unfolding Request_try_next_def Request_next_result_def by (intro keeps_rules keeps_case_bool)+

lemma keeps_results [keeps_rules]: "keeps I (Request_results H fuel r)"
proof (induction fuel)
  case 0
  show ?case by (simp add: keeps_hang)
next
  case (Suc n)
  show ?case by (subst Request_results.simps) (intro keeps_rules keeps_item Suc)
qed

lemma keeps_progress [keeps_rules]: "keeps I (Request_progress H fuel r)"
  unfolding Request_progress_def by (intro keeps_rules)

lemma keeps_request_end [keeps_rules]: "keeps I (Request_exit H r e)" "keeps I (Request_del H r)"
  unfolding Request_exit_def Request_del_def by (intro keeps_rules)+

section \<open>COPY\<close>

lemma keeps_progress_wait [keeps_rules]: "keeps I (Copy_progress_wait H fuel cp)"
  unfolding Copy_progress_wait_def by (intro keeps_rules)

lemma keeps_finish_request [keeps_rules]: "keeps I (Copy_finish_request H fuel cp)"
  unfolding Copy_finish_request_def by (intro keeps_rules)

lemma keeps_abort [keeps_rules]: "keeps I (Copy_abort H cp msg)"
  unfolding Copy_abort_def by (intro keeps_rules)

lemma keeps_write_loop [keeps_rules]: "keeps I (write_loop H fuel cp view offset)"
proof (induction fuel arbitrary: view offset)
  case 0
  show ?case by (subst write_loop.simps) (simp add: keeps_hang keeps_ret)
next
  case (Suc n)
  show ?case by (subst write_loop.simps) (simp only: nat.case, intro keeps_rules Suc)
qed

lemma keeps_write [keeps_rules]: "keeps I (CopyIn_write H fuel cp bytes)"
  unfolding CopyIn_write_def by (intro keeps_rules)

lemma keeps_finish_loop [keeps_rules]: "keeps I (finish_loop H fuel cp m)"
proof (induction fuel)
  case 0
  show ?case by (simp add: keeps_hang)
next
  case (Suc n)
  show ?case by (subst finish_loop.simps) (intro keeps_rules Suc)
qed

lemma keeps_finish [keeps_rules]: "keeps I (CopyIn_finish H fuel cp m)"
  unfolding CopyIn_finish_def by (intro keeps_rules)

lemma keeps_copy_from_loop [keeps_rules]: "keeps I (copy_from_loop H fuel cp src k)"
proof (induction fuel)
  case 0
  show ?case by (simp add: keeps_hang)
next
  case (Suc n)
  show ?case by (subst copy_from_loop.simps) (intro keeps_rules Suc)
qed

lemma keeps_read_loop [keeps_rules]: "keeps I (read_loop H fuel cp k)"
proof (induction fuel)
  case 0
  show ?case by (simp add: keeps_hang)
next
  case (Suc n)
  show ?case by (subst read_loop.simps) (intro keeps_rules Suc)
qed

lemma keeps_read [keeps_rules]: "keeps I (CopyOut_read H fuel cp n)"
  unfolding CopyOut_read_def by (intro keeps_rules)

lemma keeps_drain_loop [keeps_rules]: "keeps I (drain_loop H fuel target bytes)"
proof (induction fuel arbitrary: bytes)
  case 0
  show ?case by (subst drain_loop.simps) (simp add: keeps_hang keeps_ret)
next
  case (Suc n)
  show ?case by (subst drain_loop.simps) (simp only: nat.case, intro keeps_rules Suc)
qed

lemma keeps_copy_to_loop [keeps_rules]: "keeps I (copy_to_loop H fuel cp target k)"
proof (induction fuel)
  case 0
  show ?case by (simp add: keeps_hang)
next
  case (Suc n)
  show ?case by (subst copy_to_loop.simps) (intro keeps_rules Suc)
qed

lemma keeps_copy [keeps_rules]:
  "keeps I (CopyIn_copy_from H fuel cp src k)" "keeps I (CopyOut_copy_to H fuel cp target k)"
  "keeps I (Copy_exit H fuel cp e)" "keeps I (Copy_del H cp)"
  unfolding CopyIn_copy_from_def CopyOut_copy_to_def Copy_exit_def Copy_del_def by (intro keeps_rules)+

end

end
