(* ===== verification/Gate.thy ===== *)
theory Gate
  imports Frames
begin

text \<open>
  The request gate of a connection. PostgreSQL serves one request of a session at a time, so a
  request (or a short native call) takes its connection's gate and gives it back when it ends.
  \<open>gate_ok\<close> says who holds which gate; every public call keeps it.
\<close>

section \<open>The invariant\<close>

definition owner :: "'k world \<Rightarrow> nat \<Rightarrow> nat \<Rightarrow> bool" where
  "owner w r c \<longleftrightarrow> r_owns_gate (requests w r) \<and> r_connection (requests w r) = c"

text \<open>
  \<open>x\<close> is the connection whose gate the call in progress holds itself. Apart from that a gate is
  held exactly by the one request that owns it, which is open and has its native handle.
\<close>

definition gate_ok :: "nat option \<Rightarrow> 'k world \<Rightarrow> bool" where
  "gate_ok x w \<longleftrightarrow>
     (\<forall>c. c_gate (connections w c) \<longleftrightarrow> x = Some c \<or> (\<exists>r. owner w r c)) \<and>
     (\<forall>r r' c. owner w r c \<longrightarrow> owner w r' c \<longrightarrow> r = r') \<and>
     (\<forall>c r. x = Some c \<longrightarrow> \<not> owner w r c) \<and>
     (\<forall>r c. owner w r c \<longrightarrow> r < next_id w \<and> \<not> r_closed (requests w r) \<and> r_handle (requests w r) \<noteq> None) \<and>
     (\<forall>c. c_gate (connections w c) \<longrightarrow> c < next_id w)"

definition nonnegative :: "timeout \<Rightarrow> bool" where
  "nonnegative t \<longleftrightarrow> (\<forall>q. t = Some q \<longrightarrow> 0 \<le> q)"

text \<open>The connections that other objects refer to exist, and default timeouts are normal.\<close>

definition refs_ok :: "'k world \<Rightarrow> bool" where
  "refs_ok w \<longleftrightarrow>
     (\<forall>st. st_connection (statements w st) < next_id w) \<and>
     (\<forall>u. cu_connection (cursors w u) < next_id w) \<and>
     (\<forall>t. sc_connection (scopes w t) < next_id w) \<and>
     (\<forall>db. \<forall>c \<in> set (d_connections (databases w db)). c < next_id w) \<and>
     (\<forall>c. nonnegative (c_timeout (connections w c))) \<and>
     (\<forall>db. nonnegative (d_timeout (databases w db)))"

definition world_inv :: "nat option \<Rightarrow> nat \<Rightarrow> 'k world \<Rightarrow> bool" where
  "world_inv x n w \<longleftrightarrow> gate_ok x w \<and> refs_ok w \<and> n \<le> next_id w"

lemma gate_ok_cong:
  assumes "\<And>c. c_gate (connections w' c) = c_gate (connections w c)"
    and "\<And>r. r_owns_gate (requests w' r) = r_owns_gate (requests w r)"
    and "\<And>r. r_connection (requests w' r) = r_connection (requests w r)"
    and "\<And>r. r_closed (requests w' r) = r_closed (requests w r)"
    and "\<And>r. r_handle (requests w' r) = r_handle (requests w r)"
    and "next_id w \<le> next_id w'"
  shows "gate_ok x w \<Longrightarrow> gate_ok x w'"
  using assms(6) unfolding gate_ok_def owner_def assms(1-5) by (meson less_le_trans)

lemma refs_ok_connection:
  "refs_ok w \<Longrightarrow> nonnegative (c_timeout x) \<Longrightarrow> refs_ok (w\<lparr>connections := (connections w)(c := x)\<rparr>)"
  by (simp add: refs_ok_def)

lemma gate_free:
  "gate_ok None w \<Longrightarrow> \<not> c_gate (connections w c) \<Longrightarrow> c < next_id w \<Longrightarrow>
   gate_ok (Some c) (w\<lparr>connections := (connections w)(c := (connections w c)\<lparr>c_gate := True\<rparr>)\<rparr>)"
  unfolding gate_ok_def owner_def by auto

lemma gate_given_back:
  "gate_ok (Some c) w \<Longrightarrow>
   gate_ok None (w\<lparr>connections := (connections w)(c := (connections w c)\<lparr>c_gate := False\<rparr>)\<rparr>)"
  unfolding gate_ok_def owner_def by auto

lemma gate_held: "gate_ok (Some c) w \<Longrightarrow> c_gate (connections w c)"
  unfolding gate_ok_def by auto

text \<open>A request that gives up the gate leaves it to the call in progress.\<close>

lemma owner_gives_up:
  assumes "gate_ok None w" and "owner w r c" and "\<not> r_owns_gate x"
  shows "gate_ok (Some c) (w\<lparr>requests := (requests w)(r := x)\<rparr>)"
  using assms unfolding gate_ok_def owner_def by auto

lemma new_owner:
  assumes "gate_ok (Some c) w" and "next_id w = r" and "r_owns_gate x" and "r_connection x = c"
    and "\<not> r_closed x" and "r_handle x \<noteq> None"
  shows "gate_ok None (w\<lparr>next_id := r + 1, requests := (requests w)(r := x)\<rparr>)"
  using assms unfolding gate_ok_def owner_def by (auto simp: less_Suc_eq) (metis less_irrefl)

text \<open>The gate goes when its owner does.\<close>

lemma gate_ok_drop:
  assumes "gate_ok x w" and "\<And>r' c. owner w' r' c \<longleftrightarrow> owner w r' c \<and> r' \<noteq> r"
    and "\<And>c. c_gate (connections w' c) \<longleftrightarrow> c_gate (connections w c) \<and> \<not> owner w r c"
    and "\<And>r'. r' \<noteq> r \<Longrightarrow> requests w' r' = requests w r'" and "next_id w' = next_id w"
  shows "gate_ok x w'"
  using assms(1,4) unfolding gate_ok_def assms(2,3,5)
  by (elim conjE, intro conjI allI impI; (elim conjE)?; metis)

text \<open>The part of \<open>retire_request\<close> after the native call.\<close>

definition retire_rest :: "nat \<Rightarrow> request \<Rightarrow> ('k, unit) call" where
  "retire_rest r q =
     seq (set_request r (\<lambda>x. x\<lparr>r_handle := None, r_closed := True\<rparr>))
     (seq (set_connection (r_connection q) (\<lambda>x. x\<lparr>c_requests := remove1 r (c_requests x)\<rparr>))
     (seq (case r_on_notice q of
         None \<Rightarrow> ret ()
       | Some f \<Rightarrow> bind (gets (\<lambda>w. c_database (connections w (r_connection q)))) (\<lambda>db.
           set_database db (\<lambda>x. x\<lparr>d_request_event_handlers :=
             (d_request_event_handlers x)(r_id q := remove1 f (d_request_event_handlers x (r_id q)))\<rparr>)))
     (bind (gets (\<lambda>w. r_owns_gate (requests w r))) (\<lambda>owns.
     onlyif owns (seq (set_request r (\<lambda>x. x\<lparr>r_owns_gate := False\<rparr>)) (gate_release (r_connection q)))))))"

lemma retire_request_split:
  "retire_request H r = bind (gets (\<lambda>w. requests w r)) (\<lambda>q.
     seq (case r_handle q of None \<Rightarrow> ret () | Some h \<Rightarrow> translating (native (RequestClose h) (request_close H h)))
       (retire_rest r q))"
  by (simp add: retire_request_def retire_rest_def)

lemma retire_rest_run:
  assumes inv: "world_inv x n w" and q: "requests w r = q"
  shows "\<exists>w'. retire_rest r q w = (Val (), w') \<and> world_inv x n w' \<and> r_closed (requests w' r) \<and>
    r_handle (requests w' r) = None \<and> \<not> r_owns_gate (requests w' r)"
proof -
  have held: "c_gate (connections w (r_connection q))" if "r_owns_gate q"
    using inv q that by (auto simp: world_inv_def gate_ok_def owner_def)
  obtain w' where run: "retire_rest r q w = (Val (), w')"
    and req: "\<And>r'. r' \<noteq> r \<Longrightarrow> requests w' r' = requests w r'"
    and fin: "r_closed (requests w' r)" "r_handle (requests w' r) = None" "\<not> r_owns_gate (requests w' r)"
    and gate: "\<And>c. c_gate (connections w' c) \<longleftrightarrow> c_gate (connections w c) \<and> \<not> owner w r c"
    and time: "\<And>c. c_timeout (connections w' c) = c_timeout (connections w c)"
    and dbs: "\<And>d. d_timeout (databases w' d) = d_timeout (databases w d)"
      "\<And>d. d_connections (databases w' d) = d_connections (databases w d)"
    and rest: "next_id w' = next_id w" "statements w' = statements w" "cursors w' = cursors w" "scopes w' = scopes w"
    using held q
    by (cases "r_owns_gate q"; cases "r_on_notice q")
       (auto simp: retire_rest_def bind_def gets_def ret_def obj_defs modify_def onlyif_def gate_release_def owner_def)
  have "owner w' r' c \<longleftrightarrow> owner w r' c \<and> r' \<noteq> r" for r' c
    using fin req [of r'] by (cases "r' = r") (auto simp: owner_def)
  then have "gate_ok x w'"
    using inv by (intro gate_ok_drop [of x w w' r]) (auto simp: world_inv_def req gate rest)
  moreover have "refs_ok w'" using inv by (simp add: world_inv_def refs_ok_def time dbs rest)
  ultimately show ?thesis using run inv rest(1) by (auto simp: world_inv_def fin)
qed

lemma world_inv_io: "world_inv x n w \<Longrightarrow> world_inv x n (w\<lparr>kernel := k, calls := cs\<rparr>)"
  by (auto simp: world_inv_def refs_ok_def intro: gate_ok_cong [of _ w])

lemma keeps_retire_request: "keeps (world_inv x n) (retire_request H r)"
proof -
  define first where "first q = (case r_handle q of None \<Rightarrow> ret () | Some h \<Rightarrow>
    translating (native (RequestClose h) (request_close H h)))" for q :: request
  have inv: "keeps (world_inv x n) (first q)" for q
    unfolding first_def by (intro keeps_rules keeps_native world_inv_io)
  have req: "keeps (\<lambda>w. requests w = v) (first q)" for q v
    unfolding first_def by (intro keeps_rules keeps_native) simp
  have run: "retire_request H r w = seq (first (requests w r)) (retire_rest r (requests w r)) w" for w
    by (simp add: retire_request_split first_def [symmetric] bind_def gets_def)
  show ?thesis
  proof (rule keepsI)
    fix w a w' assume w: "world_inv x n w" "retire_request H r w = (Val a, w')"
    then obtain w1 where w1: "first (requests w r) w = (Val (), w1)" "retire_rest r (requests w r) w1 = (Val a, w')"
      by (auto simp: run bind_eq_Val)
    with w(1) have "world_inv x n w1" "requests w1 = requests w"
      using keeps_Val [OF inv] keeps_frame_Val [OF req] by blast+
    then show "world_inv x n w'" using retire_rest_run [of x n w1 r] w1(2) by auto
  next
    fix w e w' assume w: "world_inv x n w" "retire_request H r w = (Exc e, w')"
    then consider "first (requests w r) w = (Exc e, w')"
      | w1 where "first (requests w r) w = (Val (), w1)" "retire_rest r (requests w r) w1 = (Exc e, w')"
      by (auto simp: run bind_eq_Exc)
    then show "world_inv x n w'"
    proof cases
      case 1 with w(1) show ?thesis using keeps_Exc [OF inv] by blast
    next
      case (2 w1)
      then have "world_inv x n w1" "requests w1 = requests w"
        using w(1) keeps_Val [OF inv] keeps_frame_Val [OF req] by blast+
      then show ?thesis using retire_rest_run [of x n w1 r] 2(2) by auto
    qed
  qed
qed

interpretation gate: driver H "world_inv x n" for H :: "'k host" and x n
proof unfold_locales
  show "world_inv x n w \<Longrightarrow> world_inv x n (w\<lparr>kernel := k\<rparr>)"
    "world_inv x n w \<Longrightarrow> world_inv x n (w\<lparr>calls := calls w @ [cs]\<rparr>)"
    "world_inv x n w \<Longrightarrow> world_inv x n (w\<lparr>warned := warned w @ [m]\<rparr>)"
    "world_inv x n w \<Longrightarrow> world_inv x n (w\<lparr>copies := cps\<rparr>)" for w :: "'k world" and k cs m cps
    by (auto simp: world_inv_def refs_ok_def intro: gate_ok_cong [of _ w])
  show "world_inv x n (w\<lparr>next_id := next_id w + 1\<rparr>)" if "world_inv x n w" for w :: "'k world"
    using that by (auto simp: world_inv_def refs_ok_def intro: gate_ok_cong [of _ w] less_SucI)
  show "world_inv x n (w\<lparr>databases := (databases w)(db := f (databases w db))\<rparr>)"
    if "\<And>x. d_timeout (f x) = d_timeout x" "\<And>x. d_connections (f x) = d_connections x" "world_inv x n w"
    for w :: "'k world" and f db
    using that by (auto simp: world_inv_def refs_ok_def intro: gate_ok_cong [of _ w])
  show "world_inv x n (w\<lparr>requests := (requests w)(r := g (requests w r))\<rparr>)"
    if "\<And>x. r_connection (g x) = r_connection x" "\<And>x. r_handle (g x) = r_handle x"
      "\<And>x. r_closed (g x) = r_closed x" "\<And>x. r_owns_gate (g x) = r_owns_gate x" "world_inv x n w"
    for w :: "'k world" and g r
  proof -
    have "gate_ok x (w\<lparr>requests := (requests w)(r := g (requests w r))\<rparr>)"
      by (rule gate_ok_cong [of _ w]) (use that in \<open>auto simp: world_inv_def\<close>)
    then show ?thesis using that(5) by (simp add: world_inv_def refs_ok_def)
  qed
qed (rule keeps_retire_request)

section \<open>Taking and giving back\<close>

lemma acquire_inv:
  "gate_acquire c w = (Val u, w') \<Longrightarrow> world_inv None n w \<Longrightarrow> c < n \<Longrightarrow> world_inv (Some c) n w'"
  by (auto simp: gate_acquire_def bind_def gets_def hang_def set_connection_def modify_def world_inv_def
      refs_ok_def intro!: gate_free split: if_splits)

lemma acquire_no_raise: "gate_acquire c w \<noteq> (Exc e, w')"
  by (simp add: gate_acquire_def bind_def gets_def hang_def set_connection_def modify_def)

lemma release_run:
  assumes "world_inv (Some c) n w"
  shows "\<exists>w'. gate_release c w = (Val (), w') \<and> world_inv None n w'"
  using assms gate_held [of c w]
  by (auto simp: gate_release_def bind_def gets_def set_connection_def modify_def world_inv_def
      refs_ok_def intro!: gate_given_back)

lemma keeps_gated [keeps_rules]:
  assumes c: "c < n" and m: "keeps (world_inv (Some c) n) m"
  shows "keeps (world_inv None n) (with_gate c m)"
proof (rule keepsI)
  fix w a w' assume w: "world_inv None n w" "with_gate c m w = (Val a, w')"
  then obtain w1 where w1: "gate_acquire c w = (Val (), w1)" "tryfinally m (\<lambda>_. gate_release c) w1 = (Val a, w')"
    by (auto simp: with_gate_def bind_eq_Val)
  then have i1: "world_inv (Some c) n w1" using acquire_inv w(1) c by blast
  from w1(2) obtain w2 where w2: "m w1 = (Val a, w2)" "gate_release c w2 = (Val (), w')"
    by (auto simp: tryfinally_eq_Val)
  then show "world_inv None n w'" using release_run [of c n w2] keeps_Val [OF m i1 w2(1)] by auto
next
  fix w e w' assume w: "world_inv None n w" "with_gate c m w = (Exc e, w')"
  then obtain w1 where w1: "gate_acquire c w = (Val (), w1)" "tryfinally m (\<lambda>_. gate_release c) w1 = (Exc e, w')"
    using acquire_no_raise [of c w e w'] by (auto simp: with_gate_def bind_eq_Exc)
  then have i1: "world_inv (Some c) n w1" using acquire_inv w(1) c by blast
  from w1(2) show "world_inv None n w'"
    using keeps_Val [OF m i1] keeps_Exc [OF m i1] release_run [of c n]
    by (fastforce simp: tryfinally_eq_Exc)
qed

section \<open>Requests\<close>

text \<open>What the native module documents: these two queries of a request handle raise only its own error.\<close>

definition request_queries_native :: "'k host \<Rightarrow> bool" where
  "request_queries_native H \<longleftrightarrow>
     (\<forall>h k e k'. request_identity H h k = (Inl e, k') \<longrightarrow> is_native e) \<and>
     (\<forall>h k e k'. request_waitable H h k = (Inl e, k') \<longrightarrow> is_native e)"

lemma gated_start_inv:
  assumes c: "c < n" and m: "keeps (world_inv (Some c) n) m"
  shows "hoare (world_inv None n) (gated_start c m) (\<lambda>_. world_inv (Some c) n) (\<lambda>_. world_inv None n)"
proof (rule hoareI)
  fix w a w' assume w: "world_inv None n w" "gated_start c m w = (Val a, w')"
  then obtain w1 where w1: "gate_acquire c w = (Val (), w1)"
    and m1: "catch m (\<lambda>e. seq (gate_release c) (raise (translate_exc e))) w1 = (Val a, w')"
    by (auto simp: gated_start_def bind_eq_Val)
  have "world_inv (Some c) n w1" using acquire_inv [OF w1 w(1) c] .
  then show "world_inv (Some c) n w'"
    using m1 keeps_Val [OF m] by (auto simp: catch_eq_Val bind_eq_Val raise_def)
next
  fix w e w' assume w: "world_inv None n w" "gated_start c m w = (Exc e, w')"
  then obtain w1 where w1: "gate_acquire c w = (Val (), w1)"
    and m1: "catch m (\<lambda>e. seq (gate_release c) (raise (translate_exc e))) w1 = (Exc e, w')"
    using acquire_no_raise [of c w e w'] by (auto simp: gated_start_def bind_eq_Exc)
  then show "world_inv None n w'"
    using keeps_Exc [OF m acquire_inv [OF w1 w(1) c]] release_run [of c n]
    by (fastforce simp: catch_eq_Exc bind_eq_Exc raise_def)
qed

text \<open>The two queries of \<open>Request_init\<close>; when one fails the request is undone and the gate given back.\<close>

definition init_queries :: "'k host \<Rightarrow> nat \<Rightarrow> handle \<Rightarrow> ('k, unit) call" where
  "init_queries H r h =
     bind (native (Query h) (request_identity H h)) (\<lambda>i.
       seq (set_request r (\<lambda>x. x\<lparr>r_id := i\<rparr>))
       (bind (native (Query h) (request_waitable H h)) (\<lambda>v.
       set_request r (\<lambda>x. x\<lparr>r_waitable := v\<rparr>))))"

definition undo_request :: "'k host \<Rightarrow> nat \<Rightarrow> nat \<Rightarrow> handle \<Rightarrow> exc \<Rightarrow> ('k, unit) call" where
  "undo_request H c r h e =
     seq (catch (native (RequestClose h) (request_close H h)) (\<lambda>_. ret ()))
     (seq (set_request r (\<lambda>x. x\<lparr>r_handle := None, r_closed := True, r_owns_gate := False\<rparr>))
     (seq (gate_release c) (raise (translate_exc e))))"

lemma keeps_init_queries: "keeps (world_inv x n) (init_queries H r h)"
  unfolding init_queries_def by (intro keeps_rules gate.keeps_set_request) simp_all

lemma keeps_owner:
  "keeps (\<lambda>w. owner w r c) (init_queries H r h)"
  "keeps (\<lambda>w. owner w r c) (catch (native (RequestClose h) f) (\<lambda>_. ret ()))"
  unfolding init_queries_def set_request_def
  by (intro keeps_rules keeps_native keeps_modify; simp add: owner_def)+

lemma init_queries_native:
  assumes "request_queries_native H" and "init_queries H r h w = (Exc e, w')"
  shows "is_native e"
  using assms by (auto simp: init_queries_def request_queries_native_def bind_eq_Exc native_eq_Exc
      set_request_def modify_def) blast

lemma undo_request_inv:
  assumes inv: "world_inv None n w" and own: "owner w r c" and run: "undo_request H c r h e w = (out, w')"
    and "\<And>x. out \<noteq> Hang x"
  shows "world_inv None n w' \<and> out = Exc (translate_exc e)"
proof -
  define close where "close = catch (native (RequestClose h) (request_close H h)) (\<lambda>_. ret () :: ('a, unit) call)"
  obtain w1 where w1: "close w = (Val (), w1)"
    using native_returns [of "RequestClose h" "request_close H h" w]
    by (cases "native (RequestClose h) (request_close H h) w"; cases "fst (native (RequestClose h) (request_close H h) w)")
       (auto simp: close_def catch_def ret_def)
  have i1: "world_inv None n w1"
    using w1 inv keeps_Val [OF gate.keeps_io(1)] keeps_Exc [OF gate.keeps_io(1)]
    unfolding close_def catch_eq_Val by (auto simp: ret_def)
  have o1: "owner w1 r c" using keeps_Val [OF keeps_owner(2) own w1 [unfolded close_def]] .
  define w2 where "w2 = w1\<lparr>requests := (requests w1)(r := (requests w1 r)
    \<lparr>r_handle := None, r_closed := True, r_owns_gate := False\<rparr>)\<rparr>"
  have "world_inv (Some c) n w2"
    using i1 owner_gives_up [OF _ o1] unfolding w2_def by (simp add: world_inv_def refs_ok_def)
  then obtain w3 where "gate_release c w2 = (Val (), w3)" "world_inv None n w3" using release_run by blast
  then show ?thesis
    using run w1 by (simp add: undo_request_def close_def [symmetric] bind_def set_request_def modify_def
        w2_def [symmetric] raise_def)
qed

definition request_deadline :: "'k host \<Rightarrow> timeout \<Rightarrow> ('k, pyfloat option) call" where
  "request_deadline H t = (case t of
       None \<Rightarrow> ret None
     | Some q \<Rightarrow> bind (now H) (\<lambda>m. ret (Some (float_of_rat (m + q)))))"

definition new_request :: "nat \<Rightarrow> handle \<Rightarrow> pyfloat option \<Rightarrow> handler option \<Rightarrow> ('k, nat) call" where
  "new_request c h deadline notice =
     bind alloc (\<lambda>r.
     seq (set_request r (\<lambda>_. \<lparr>r_connection = c, r_handle = Some h, r_closed = False, r_deadline = deadline,
        r_on_notice = notice, r_copy = None, r_owns_gate = True, r_id = 0, r_waitable = 0\<rparr>)) (ret r))"

definition register_request :: "nat \<Rightarrow> handler option \<Rightarrow> nat \<Rightarrow> ('k, nat) call" where
  "register_request c notice r =
     seq (set_connection c (\<lambda>x. x\<lparr>c_requests := c_requests x @ [r]\<rparr>))
     (bind (gets (\<lambda>w. (c_database (connections w c), r_id (requests w r)))) (\<lambda>(db, i).
     seq (case notice of
         None \<Rightarrow> ret ()
       | Some f \<Rightarrow> set_database db (\<lambda>x. x\<lparr>d_request_event_handlers :=
           (d_request_event_handlers x)(i := d_request_event_handlers x i @ [f])\<rparr>))
     (ret r)))"

lemma Request_init_split:
  assumes "normalize_timeout (lib H) timeout = Inr t" and "notice_check on_notice = Inr z"
  shows "Request_init H c h timeout on_notice =
     bind (request_deadline H t) (\<lambda>d. bind (new_request c h d z) (\<lambda>r.
     seq (catch (init_queries H r h) (\<lambda>e. if is_native e then undo_request H c r h e else raise e))
       (register_request c z r)))"
  by (simp add: Request_init_def assms lift_def request_deadline_def new_request_def init_queries_def
      undo_request_def register_request_def bind_assoc ret_def [symmetric] cong: if_cong)

lemma deadline_run: "\<exists>d k. request_deadline H t w = (Val d, w\<lparr>kernel := k\<rparr>)"
  by (cases t; cases "monotonic H (kernel w)")
     (auto simp: request_deadline_def ret_def bind_def now_def intro: exI [of _ "kernel w"])

lemma new_request_run:
  assumes "world_inv (Some c) n w"
  shows "\<exists>w'. new_request c h d z w = (Val (next_id w), w') \<and> world_inv None n w' \<and> owner w' (next_id w) c"
proof -
  let ?x = "\<lparr>r_connection = c, r_handle = Some h, r_closed = False, r_deadline = d,
        r_on_notice = z, r_copy = None, r_owns_gate = True, r_id = 0, r_waitable = 0\<rparr>"
  let ?w = "w\<lparr>next_id := next_id w + 1, requests := (requests w)(next_id w := ?x)\<rparr>"
  have "gate_ok None ?w" using assms by (intro new_owner [where c = c]) (auto simp: world_inv_def)
  then have "world_inv None n ?w \<and> owner ?w (next_id w) c"
    using assms by (auto simp: world_inv_def refs_ok_def owner_def less_SucI)
  then show ?thesis by (simp add: new_request_def alloc_def bind_def set_request_def modify_def ret_def)
qed

lemma keeps_set_connection_inv:
  assumes "\<And>x. c_gate (f x) = c_gate x" and "\<And>x. nonnegative (c_timeout x) \<Longrightarrow> nonnegative (c_timeout (f x))"
  shows "keeps (world_inv x n) (set_connection c f)"
proof (rule keeps_set_connection)
  fix w :: "'a world" assume w: "world_inv x n w"
  have "gate_ok x (w\<lparr>connections := (connections w)(c := f (connections w c))\<rparr>)"
    by (rule gate_ok_cong [of _ w]) (use w assms in \<open>auto simp: world_inv_def\<close>)
  then show "world_inv x n (w\<lparr>connections := (connections w)(c := f (connections w c))\<rparr>)"
    using w assms(2) by (auto simp: world_inv_def refs_ok_def)
qed

lemma keeps_register: "keeps (world_inv x n) (register_request c z r)"
  unfolding register_request_def
  by (intro keeps_rules keeps_set_connection_inv gate.keeps_set_database) simp_all

lemma queries_or_undo_inv:
  assumes nat: "request_queries_native H"
  shows "hoare (\<lambda>w. world_inv None n w \<and> owner w r c)
    (catch (init_queries H r h) (\<lambda>e. if is_native e then undo_request H c r h e else raise e))
    (\<lambda>_. world_inv None n) (\<lambda>_. world_inv None n)"
proof -
  have undo: "world_inv None n w2" if w: "world_inv None n w" "owner w r c" "init_queries H r h w = (Exc e, w1)"
    "(if is_native e then undo_request H c r h e else raise e) w1 = (out, w2)" "\<And>x. out \<noteq> Hang x" for w w1 w2 e out
  proof -
    have "world_inv None n w1" "owner w1 r c" "is_native e"
      using w keeps_Exc [OF keeps_init_queries w(1,3)] keeps_Exc [OF keeps_owner(1) w(2,3)] init_queries_native [OF nat w(3)] by auto
    then show ?thesis using undo_request_inv [of n w1 r c H h e out w2] w(4,5) by auto
  qed
  show ?thesis
    by (rule hoareI) (auto simp: catch_eq_Val catch_eq_Exc dest: keeps_Val [OF keeps_init_queries] undo)
qed

lemma Request_init_inv:
  assumes t: "normalize_timeout (lib H) timeout = Inr t" and z: "notice_check on_notice = Inr z"
    and nat: "request_queries_native H"
  shows "hoare (world_inv (Some c) n) (Request_init H c h timeout on_notice)
    (\<lambda>_. world_inv None n) (\<lambda>_. world_inv None n)"
proof -
  let ?rest = "\<lambda>r. seq (catch (init_queries H r h) (\<lambda>e. if is_native e then undo_request H c r h e else raise e))
       (register_request c z r)"
  have rest: "hoare (\<lambda>w. world_inv None n w \<and> owner w r c) (?rest r) (\<lambda>_. world_inv None n) (\<lambda>_. world_inv None n)" for r
    by (rule hoare_bind [OF keeps_hoare [OF keeps_register] queries_or_undo_inv [OF nat]])
  have start: "\<exists>r w2. Request_init H c h timeout on_notice w = ?rest r w2 \<and> world_inv None n w2 \<and> owner w2 r c"
    if inv: "world_inv (Some c) n w" for w
  proof -
    obtain d k where d: "request_deadline H t w = (Val d, w\<lparr>kernel := k\<rparr>)" using deadline_run [of H t w] by blast
    obtain w2 where w2: "new_request c h d z (w\<lparr>kernel := k\<rparr>) = (Val (next_id w), w2)"
      "world_inv None n w2" "owner w2 (next_id w) c"
      using new_request_run [OF gate.I_kernel [OF inv, of k], of h d z] by auto
    show ?thesis using d w2 by (intro exI [of _ "next_id w"] exI [of _ w2]) (simp add: Request_init_split [OF t z] bind_def)
  qed
  show ?thesis
  proof (rule hoareI)
    fix w a w' assume w: "world_inv (Some c) n w" "Request_init H c h timeout on_notice w = (Val a, w')"
    then obtain r w2 where "?rest r w2 = (Val a, w')" "world_inv None n w2 \<and> owner w2 r c" using start [OF w(1)] by auto
    then show "world_inv None n w'" using hoare_Val [OF rest] by blast
  next
    fix w e w' assume w: "world_inv (Some c) n w" "Request_init H c h timeout on_notice w = (Exc e, w')"
    then obtain r w2 where "?rest r w2 = (Exc e, w')" "world_inv None n w2 \<and> owner w2 r c" using start [OF w(1)] by auto
    then show "world_inv None n w'" using hoare_Exc [OF rest] by blast
  qed
qed

lemma keeps_Request_start [keeps_rules]:
  assumes c: "c < n" and t: "normalize_timeout (lib H) (sa_timeout a) = Inr t" and nat: "request_queries_native H"
  shows "keeps (world_inv None n) (Request_start H c sql ps a)"
proof (cases "notice_check (sa_on_notice a)")
  case (Inl e)
  then show ?thesis unfolding Request_start_def by (simp add: lift_Inl) (intro keeps_rules)
next
  case (Inr z)
  let ?m = "\<lambda>ps k l. bind (gets (\<lambda>w. c_handle (connections w c))) (\<lambda>h. with_handle h (\<lambda>x.
     native (RequestStart x sql ps k l (sa_script a)) (request_start H x sql ps k l (sa_script a))))"
  have "keeps (world_inv None n) (bind (gated_start c (?m ps k l)) (\<lambda>h. Request_init H c h (sa_timeout a) (sa_on_notice a)))" for ps k l
    unfolding keeps_hoare_iff
    by (rule hoare_bind [OF Request_init_inv [OF t Inr nat] gated_start_inv [OF c]]) (intro keeps_rules)
  then show ?thesis unfolding Request_start_def
    by (intro keeps_bind [OF keeps_lift] keeps_bind [OF gate.keeps_values(2)])
qed

text \<open>A connection that an object refers to exists, so the bound grows to cover it.\<close>

lemma keeps_ref:
  fixes f :: "nat \<Rightarrow> ('k, 'b) call"
  assumes "\<And>w. world_inv x n w \<Longrightarrow> g w < next_id w" and "\<And>c. keeps (world_inv x (max n (Suc c))) (f c)"
  shows "keeps (world_inv x n) (bind (gets g) f)"
proof (rule keeps_gets_bind [where P = "\<lambda>c w. c < next_id w"])
  show "keeps (\<lambda>w. world_inv x n w \<and> c < next_id w) (f c)" for c
  proof -
    have "(\<lambda>w :: 'k world. world_inv x n w \<and> c < next_id w) = world_inv x (max n (Suc c))"
      by (auto simp: world_inv_def fun_eq_iff)
    then show ?thesis using assms(2) [of c] by simp
  qed
qed (rule assms(1))

lemma keeps_Request_from_statement [keeps_rules]:
  assumes t: "normalize_timeout (lib H) timeout = Inr t" and nat: "request_queries_native H"
  shows "keeps (world_inv None n) (Request_from_statement H st ps k timeout l on_notice)"
proof (cases "notice_check on_notice")
  case (Inl e)
  then show ?thesis unfolding Request_from_statement_def by (simp add: lift_Inl keeps_raise)
next
  case (Inr z)
  have "keeps (world_inv None (max n (Suc c))) (bind (gated_start c
       (bind (gets (\<lambda>w. st_handle (statements w st))) (\<lambda>h.
         with_handle h (\<lambda>x. native (StatementExecute x ps k l) (statement_execute H x ps k l)))))
     (\<lambda>h. Request_init H c h timeout on_notice))" for ps c
    unfolding keeps_hoare_iff
    by (rule hoare_bind [OF Request_init_inv [OF t Inr nat] gated_start_inv]) (simp, intro keeps_rules)
  then show ?thesis unfolding Request_from_statement_def
    by (intro keeps_bind [OF keeps_lift] keeps_bind [OF gate.keeps_values(2)] keeps_ref)
       (auto simp: world_inv_def refs_ok_def)
qed

end
