(* ===== verification/Sample.thy ===== *)
theory Sample
  imports Connections
begin

text \<open>
  A small host and the world it starts from, on which the properties of the objects are tried:
  a server that accepts everything, whose first result is one chunk of rows and whose state is
  the number of results and events it has handed out.
\<close>

definition chunk_native :: native_result where
  "chunk_native = \<lparr>nr_kind = RESULT_TUPLES_CHUNK, nr_command_status = None,
     nr_columns = [], nr_rows = [[Some (16, 0, [116])], [None]], nr_copy = None\<rparr>"

definition command_native :: native_result where
  "command_native = \<lparr>nr_kind = 1, nr_command_status = Some (lit ''SELECT 2''), nr_columns = [], nr_rows = [],
     nr_copy = None\<rparr>"

definition copy_native :: native_result where
  "copy_native = \<lparr>nr_kind = RESULT_COPY_IN, nr_command_status = None, nr_columns = [], nr_rows = [],
     nr_copy = Some 30\<rparr>"

definition notice_native :: native_event where
  "notice_native = \<lparr>ne_kind = 1, ne_connection_id = 3, ne_request_id = 5, ne_virtual_backend_pid = 1,
     ne_severity = None, ne_sqlstate = None, ne_message = Some (lit ''hello''), ne_detail = None, ne_hint = None,
     ne_channel = None, ne_payload = None, ne_dropped_kind = 0, ne_dropped_count = 0\<rparr>"

definition progress_native :: native_progress where
  "progress_native = \<lparr>np_kind = 0, np_state = 2, np_phase = 6, np_bytes_received = 0, np_bytes_produced = 0,
     np_total_bytes = 0, np_objects_completed = 1, np_objects_total = 1\<rparr>"

definition sample_host :: "nat host" where
  "sample_host = \<lparr>
     lib = small_lib,
     instance_open = (\<lambda>_ _ k. (Inr 10, k)), instance_close = (\<lambda>_ _ _ k. (Inr (), k)),
     instance_telemetry = (\<lambda>_ k. (Inr [], k)), instance_waitable = (\<lambda>_ k. (Inr 3, k)),
     instance_next_event = (\<lambda>_ _ k. (Inr None, k)),
     connection_open = (\<lambda>_ _ k. (Inr 20, k)), connection_close = (\<lambda>_ _ k. (Inr (), k)),
     connection_execute = (\<lambda>_ _ _ _ k. (Inr command_native, k)),
     connection_execute_arrow = (\<lambda>_ _ _ _ _ k. (Inr [1, 2], k)),
     connection_transaction_status = (\<lambda>_ k. (Inr 0, k)), connection_identity = (\<lambda>_ k. (Inr 3, k)),
     connection_parameter_status = (\<lambda>_ _ k. (Inr None, k)),
     connection_status = (\<lambda>_ k. (Inr \<lparr>cs_transaction_status = 0, cs_pin_reasons = 0, cs_carrier_retained = False,
        cs_virtual_backend_pid = 1, cs_connection_id = 3, cs_active_request_id = 0\<rparr>, k)),
     connection_cancel = (\<lambda>_ k. (Inr True, k)),
     request_start = (\<lambda>_ _ _ _ _ _ k. (Inr 40, k)), request_identity = (\<lambda>_ k. (Inr 5, k)),
     request_waitable = (\<lambda>_ k. (Inr 6, k)),
     request_next = (\<lambda>_ _ k. (Inr (if k = 0 then (0, Some chunk_native) else if k = 1 then (0, Some command_native)
        else (2, None)), k + 1)),
     request_poll = (\<lambda>_ k. (Inr 0, k)), request_progress = (\<lambda>_ k. (Inr 0, k)),
     request_cancel = (\<lambda>_ k. (Inr True, k)), request_close = (\<lambda>_ k. (Inr (), k)),
     copy_write = (\<lambda>_ bs k. (Inr (min 2 (int (length bs)), 0), k)), copy_read = (\<lambda>_ _ k. (Inr ([], 2), k)),
     copy_finish = (\<lambda>_ _ k. (Inr 2, k)), copy_abort = (\<lambda>_ _ k. (Inr (), k)), copy_close = (\<lambda>_ _ k. (Inr (), k)),
     statement_prepare = (\<lambda>_ _ _ k. (Inr 50, k)), statement_describe = (\<lambda>_ k. (Inr ([], []), k)),
     statement_execute = (\<lambda>_ _ _ _ k. (Inr 41, k)), statement_close = (\<lambda>_ k. (Inr (), k)),
     operation_checkpoint = (\<lambda>_ k. (Inr 60, k)), operation_maintenance = (\<lambda>_ _ _ _ k. (Inr 61, k)),
     operation_logical_dump = (\<lambda>_ _ _ k. (Inr 62, k)), operation_logical_restore = (\<lambda>_ _ _ k. (Inr 63, k)),
     operation_waitable = (\<lambda>_ k. (Inr 7, k)), operation_snapshot = (\<lambda>_ k. (Inr progress_native, k)),
     operation_progress_native = (\<lambda>_ k. (Inr 2, k)), operation_cancel = (\<lambda>_ k. (Inr (), k)),
     operation_close = (\<lambda>_ k. (Inr (), k)), bundled_extensions_native = (\<lambda>k. (Inr [], k)),
     getpid = (\<lambda>_. 100), monotonic = (\<lambda>k. (0, k)), select_wait = (\<lambda>_ _ k. (Inr (), k)),
     call_handler = (\<lambda>_ _ k. (Inr (), k)), source_read = (\<lambda>_ _ k. (Inr [], k)),
     target_write = (\<lambda>_ bs k. (Inr None, k)), realpath = (\<lambda>p _. p), join_path = (\<lambda>p ps. concat (p # ps)),
     is_dir = (\<lambda>_ _. True), is_file = (\<lambda>_ _. True), environ_resource_root = (\<lambda>_. None),
     packaged_resources = lit ''/r'', str_value = (\<lambda>_. Inr []), logical_flag_value = Inr, recursion_limit = 6\<rparr>"

lemma sample_host_simps [simp]:
  "lib sample_host = small_lib" "instance_next_event sample_host h ms k = (Inr None, k)"
  "request_close sample_host h k = (Inr (), k)" "getpid sample_host k = 100" "monotonic sample_host k = (0, k)"
  "recursion_limit sample_host = 6" "request_cancel sample_host h k = (Inr True, k)" "copy_close sample_host h ms k = (Inr (), k)"
  by (simp_all add: sample_host_def)

definition no_database :: database where
  "no_database = \<lparr>d_path = [], d_mode = OPEN_OR_CREATE, d_settings = [], d_worker_count = 1, d_timeout = None,
     d_resource_root = None, d_executable_path = None, d_result_buffer_limit = 0, d_maximum_value_size = 0,
     d_event_queue_capacity = 1, d_handle = None, d_owner_pid = None, d_closed = True, d_connections = [],
     d_operations = [], d_event_handlers = (\<lambda>_. []), d_request_event_handlers = (\<lambda>_. []), d_event_backlog = []\<rparr>"

definition no_connection :: connection where
  "no_connection = \<lparr>c_database = 0, c_handle = None, c_autocommit = False, c_timeout = None, c_closed = True,
     c_close_pending = False, c_implicit_release = None, c_scope_active = False, c_gate = False, c_cursors = [],
     c_requests = [], c_statements = []\<rparr>"

definition empty_world :: "nat world" where
  "empty_world = \<lparr>kernel = 0, calls = [], warned = [], codec_registry = no_codecs, next_id = 1,
     databases = (\<lambda>_. no_database), connections = (\<lambda>_. no_connection),
     cursors = (\<lambda>_. \<lparr>cu_connection = 0, cu_arraysize = 1, cu_result = None, cu_closed = True, cu_rowcount = - 1,
        cu_description = None\<rparr>),
     requests = (\<lambda>_. \<lparr>r_connection = 0, r_handle = None, r_closed = True, r_deadline = None, r_on_notice = None,
        r_copy = None, r_owns_gate = False, r_id = 0, r_waitable = 0\<rparr>),
     streams = (\<lambda>_. \<lparr>s_request = 0, s_columns = [], s_command_status = None, s_rowcount = - 1, s_rows = [],
        s_chunks = ChunksDone, s_rows_seen = 0, s_closed = True\<rparr>),
     copies = (\<lambda>_. \<lparr>cp_kind = CopyIn, cp_request = 0, cp_handle = None, cp_closed = True, cp_io_ended = False,
        cp_command_result = None\<rparr>),
     statements = (\<lambda>_. \<lparr>st_connection = 0, st_sql = [], st_handle = None, st_closed = True, st_description = None\<rparr>),
     operations = (\<lambda>_. \<lparr>o_database = 0, o_handle = None, o_closed = True, o_waitable = 0\<rparr>),
     scopes = (\<lambda>_. \<lparr>sc_connection = 0, sc_entered = False, sc_used = True\<rparr>),
     entries = (\<lambda>_. \<lparr>e_key = (0, []), e_database = 0, e_configuration = \<lparr>cf_settings = [], cf_worker_count = 1,
        cf_resource_root = None, cf_executable_path = None\<rparr>, e_leases = 0, e_closing = False\<rparr>),
     registry = (\<lambda>_. None)\<rparr>"

text \<open>Database 1 is open and connection 2 is a session of it in autocommit mode.\<close>

definition open_world :: "nat world" where
  "open_world = empty_world\<lparr>next_id := 3,
     databases := (\<lambda>_. no_database)(1 := no_database\<lparr>d_handle := Some 10, d_owner_pid := Some 100, d_closed := False,
       d_connections := [2]\<rparr>),
     connections := (\<lambda>_. no_connection)(2 := no_connection\<lparr>c_database := 1, c_handle := Some 20, c_autocommit := True,
       c_closed := False\<rparr>)\<rparr>"

end
