(* ===== verification/Reachable.thy ===== *)
theory Reachable
  imports Gate Sample
begin

text \<open>
  Every public call keeps the invariant of the request gates, so it holds in every world that a
  program using the package can reach.
\<close>

section \<open>Updates that the invariant does not see\<close>

lemma gate_ok_unseen [simp]:
  "gate_ok x (w\<lparr>streams := a1\<rparr>) = gate_ok x w" "gate_ok x (w\<lparr>operations := a2\<rparr>) = gate_ok x w"
  "gate_ok x (w\<lparr>entries := a3\<rparr>) = gate_ok x w" "gate_ok x (w\<lparr>registry := a4\<rparr>) = gate_ok x w"
  "gate_ok x (w\<lparr>cursors := a5\<rparr>) = gate_ok x w" "gate_ok x (w\<lparr>scopes := a6\<rparr>) = gate_ok x w"
  "gate_ok x (w\<lparr>codec_registry := a9\<rparr>) = gate_ok x w"
  "gate_ok x (w\<lparr>statements := a7\<rparr>) = gate_ok x w" "gate_ok x (w\<lparr>databases := a8\<rparr>) = gate_ok x w"
  by (simp_all add: gate_ok_def owner_def)

lemma keeps_unseen [keeps_rules]:
  "keeps (world_inv x n) (set_stream s f1)" "keeps (world_inv x n) (set_operation p f2)"
  "keeps (world_inv x n) (set_entry e f3)" "keeps (world_inv x n) (set_registry k v)"
  unfolding obj_defs by (intro keeps_modify; simp add: world_inv_def refs_ok_def)+

lemma keeps_set_cursor: "(\<And>x. cu_connection (f x) = cu_connection x) \<Longrightarrow> keeps (world_inv x n) (set_cursor u f)"
  unfolding obj_defs by (intro keeps_modify) (simp add: world_inv_def refs_ok_def)

lemma keeps_set_scope: "(\<And>x. sc_connection (f x) = sc_connection x) \<Longrightarrow> keeps (world_inv x n) (set_scope t f)"
  unfolding obj_defs by (intro keeps_modify) (simp add: world_inv_def refs_ok_def)

lemma keeps_set_statement: "(\<And>x. st_connection (f x) = st_connection x) \<Longrightarrow> keeps (world_inv x n) (set_statement st f)"
  unfolding obj_defs by (intro keeps_modify) (simp add: world_inv_def refs_ok_def)

lemma keeps_new_cursor: "c < n \<Longrightarrow> (\<And>x. cu_connection (f x) = c) \<Longrightarrow> keeps (world_inv x n) (set_cursor u f)"
  unfolding obj_defs by (intro keeps_modify) (simp add: world_inv_def refs_ok_def)

lemma keeps_new_scope: "c < n \<Longrightarrow> (\<And>x. sc_connection (f x) = c) \<Longrightarrow> keeps (world_inv x n) (set_scope t f)"
  unfolding obj_defs by (intro keeps_modify) (simp add: world_inv_def refs_ok_def)

lemma keeps_new_statement: "c < n \<Longrightarrow> (\<And>x. st_connection (f x) = c) \<Longrightarrow> keeps (world_inv x n) (set_statement st f)"
  unfolding obj_defs by (intro keeps_modify) (simp add: world_inv_def refs_ok_def)

section \<open>Sessions\<close>

lemma keeps_queries [keeps_rules]:
  "keeps (world_inv x n) (Connection_transaction_status H c)" "keeps (world_inv x n) (Connection_id H c)"
  "keeps (world_inv x n) (Connection_parameter_status H c name)" "keeps (world_inv x n) (Connection_status H c)"
  "keeps (world_inv x n) (Connection_cancel H c)"
  unfolding Connection_transaction_status_def Connection_id_def Connection_parameter_status_def
    Connection_status_def Connection_cancel_def by (intro keeps_rules)+

lemma keeps_effective:
  assumes "\<And>t. nonnegative t \<Longrightarrow> keeps (world_inv x n) (f t)"
  shows "keeps (world_inv x n) (bind (effective_timeout H c timeout) f)"
  unfolding keeps_hoare_iff
proof (rule hoare_bind [where R = "\<lambda>t w. world_inv x n w \<and> nonnegative t"])
  show "hoare (\<lambda>w. world_inv x n w \<and> nonnegative t) (f t) (\<lambda>_. world_inv x n) (\<lambda>_. world_inv x n)" for t
    using assms [of t] by (auto simp: keeps_hoare_iff hoare_def)
  show "hoare (world_inv x n) (effective_timeout H c timeout) (\<lambda>t w. world_inv x n w \<and> nonnegative t) (\<lambda>_. world_inv x n)"
    by (auto simp: effective_timeout_def hoare_def gets_def lift_def world_inv_def refs_ok_def nonnegative_def
        dest: normalize_timeout_nonneg split: sum.splits)
qed

lemma keeps_native_execute [keeps_rules]: "c < n \<Longrightarrow> keeps (world_inv None n) (Connection_native_execute H c sql ps t)"
  unfolding Connection_native_execute_def by (intro keeps_rules)

lemma keeps_begin [keeps_rules]: "c < n \<Longrightarrow> keeps (world_inv None n) (Connection_begin_transaction_if_needed H c sql t)"
  unfolding Connection_begin_transaction_if_needed_def by (intro keeps_rules)

lemma keeps_execute [keeps_rules]:
  assumes "c < n"
  shows "keeps (world_inv None n) (Connection_execute H c sql ps t)"
    and "keeps (world_inv None n) (Connection_execute_arrow H c sql ps t)"
  unfolding Connection_execute_def Connection_execute_arrow_def
  by (intro keeps_bind [OF gate.keeps_require_open(1)] keeps_effective keeps_rules assms)+

lemma keeps_autocommit [keeps_rules]: "keeps (world_inv x n) (Connection_set_autocommit H c v)"
  unfolding Connection_set_autocommit_def by (intro keeps_rules keeps_set_connection_inv) simp_all

lemma keeps_end_transaction [keeps_rules]: "c < n \<Longrightarrow> keeps (world_inv None n) (end_transaction H c cmd)"
  unfolding end_transaction_def by (intro keeps_rules)

lemma keeps_scope [keeps_rules]:
  assumes "c < n"
  shows "keeps (world_inv None n) (Connection_enter_transaction_scope H c)"
    "keeps (world_inv None n) (Connection_complete_transaction_scope H c b)"
    "keeps (world_inv None n) (Connection_release_transaction_scope c)"
    "keeps (world_inv None n) (Connection_commit H c)" "keeps (world_inv None n) (Connection_rollback H c)"
  unfolding Connection_enter_transaction_scope_def Connection_claim_transaction_scope_def
    Connection_complete_transaction_scope_def Connection_release_transaction_scope_def
    Connection_commit_def Connection_rollback_def
  by (intro keeps_rules keeps_set_connection_inv assms; simp)+

lemma keeps_scope_ref:
  fixes f :: "scope \<Rightarrow> ('k, 'b) call"
  assumes "\<And>sc n. sc_connection sc < n \<Longrightarrow> keeps (world_inv x n) (f sc)"
  shows "keeps (world_inv x n) (bind (gets (\<lambda>w. scopes w t)) f)"
proof (rule keeps_gets_bind [where P = "\<lambda>sc w. sc_connection sc < next_id w"])
  show "keeps (\<lambda>w. world_inv x n w \<and> sc_connection sc < next_id w) (f sc)" for sc
  proof -
    have "(\<lambda>w :: 'k world. world_inv x n w \<and> sc_connection sc < next_id w) = world_inv x (max n (Suc (sc_connection sc)))"
      by (auto simp: world_inv_def fun_eq_iff)
    then show ?thesis using assms [of sc] by simp
  qed
qed (simp add: world_inv_def refs_ok_def)

lemma keeps_transaction_init [keeps_rules]: "c < n \<Longrightarrow> keeps (world_inv x n) (TransactionContext_init c)"
  unfolding TransactionContext_init_def by (intro keeps_rules keeps_new_scope [where c = c]) simp_all

lemma keeps_transaction [keeps_rules]:
  "keeps (world_inv None n) (TransactionContext_enter H t)" "keeps (world_inv None n) (TransactionContext_exit H t e)"
  unfolding TransactionContext_enter_def TransactionContext_exit_def
  by (intro keeps_scope_ref keeps_rules keeps_set_scope; simp)+

section \<open>Cursors\<close>

lemma keeps_cursor_new [keeps_rules]: "c < n \<Longrightarrow> keeps (world_inv x n) (Connection_cursor c)"
  unfolding Connection_cursor_def Cursor_init_def
  by (intro keeps_rules keeps_new_cursor [where c = c] keeps_set_connection_inv) simp_all

lemma keeps_cursor_open [keeps_rules]: "keeps (world_inv x n) (Cursor_require_open u)"
  unfolding Cursor_require_open_def by (intro keeps_rules)

lemma keeps_cursor_execute [keeps_rules]: "keeps (world_inv None n) (Cursor_execute H u op ps t)"
proof -
  have "keeps (world_inv None n) (bind (gets (\<lambda>w. cu_connection (cursors w u))) (\<lambda>c.
     bind (Connection_execute H c adapted ps t) (\<lambda>r.
     set_cursor u (\<lambda>x. x\<lparr>cu_result := Some r, cu_rowcount := res_rowcount r,
       cu_description := result_description r\<rparr>))))" for adapted
    by (rule keeps_ref) (simp_all add: world_inv_def [of None] refs_ok_def keeps_rules keeps_set_cursor)
  then show ?thesis unfolding Cursor_execute_def by (intro keeps_bind [OF keeps_cursor_open] keeps_bind [OF keeps_lift])
qed

lemma keeps_executemany_loop [keeps_rules]: "keeps (world_inv None n) (executemany_loop H u op pss acc)"
  by (induction pss arbitrary: acc) (simp_all add: keeps_ret, intro keeps_rules)

lemma keeps_cursor [keeps_rules]:
  "keeps (world_inv None n) (Cursor_executemany H u op pss)" "keeps (world_inv x n) (Cursor_callproc u)"
  "keeps (world_inv x n) (Cursor_result u)" "keeps (world_inv x n) (Cursor_close u)"
  unfolding Cursor_executemany_def Cursor_callproc_def Cursor_result_def Cursor_close_def
  by (intro keeps_rules keeps_set_cursor; simp)+

lemma keeps_cursor_fetch [keeps_rules]:
  "keeps (world_inv x n) (Cursor_fetchone u)" "keeps (world_inv x n) (Cursor_fetchmany u k)"
  "keeps (world_inv x n) (Cursor_fetchall u)"
  unfolding Cursor_fetchone_def Cursor_fetchmany_def Cursor_fetchall_def
  by (intro keeps_rules keeps_set_cursor; simp)+

lemma keeps_cursor_rest [keeps_rules]:
  "keeps (world_inv x n) (Cursor_next u)" "keeps (world_inv x n) (Cursor_noop u)" "keeps (world_inv x n) (Cursor_exit u e)"
  unfolding Cursor_next_def Cursor_noop_def Cursor_exit_def by (intro keeps_rules)+

section \<open>Row streams and prepared statements\<close>

lemma normal_arg: "nonnegative t \<Longrightarrow> normalize_timeout L (timeout_arg t) = Inr t"
  by (simp add: nonnegative_def)

lemma keeps_stream_start [keeps_rules]:
  assumes "request_queries_native H" "c < n" "nonnegative t"
  shows "keeps (world_inv None n) (RowStream_start H c sql ps k t l z)"
  unfolding RowStream_start_def RowStream_init_def
  by (intro keeps_rules assms; simp add: normal_arg [OF assms(3)])

lemma keeps_stream_close [keeps_rules]: "keeps (world_inv x n) (RowStream_close H s)"
  unfolding RowStream_close_def by (intro keeps_rules)

lemma keeps_chunk_loop [keeps_rules]: "keeps (world_inv x n) (chunk_loop H fuel s)"
proof (induction fuel)
  case 0
  show ?case by (simp add: keeps_hang)
next
  case (Suc n)
  show ?case by (subst chunk_loop.simps) (intro keeps_rules keeps_item Suc)
qed

lemma keeps_next_chunk [keeps_rules]: "keeps (world_inv x n) (RowStream_next_chunk H fuel s)"
  unfolding RowStream_next_chunk_def by (intro keeps_rules)

lemma keeps_stream_fetchone [keeps_rules]: "keeps (world_inv x n) (RowStream_fetchone H fuel s)"
proof (induction fuel)
  case 0
  show ?case by (subst RowStream_fetchone.simps) (simp only: nat.case, intro keeps_rules)
next
  case (Suc n)
  show ?case by (subst RowStream_fetchone.simps) (simp only: nat.case, intro keeps_rules Suc)
qed

lemma keeps_stream_fetchmany_loop [keeps_rules]: "keeps (world_inv x n) (fetchmany_loop H fuel s k)"
  by (induction k) (simp_all add: keeps_ret, intro keeps_rules)

lemma keeps_stream_fetchall [keeps_rules]: "keeps (world_inv x n) (RowStream_fetchall H fuel s)"
proof (induction fuel)
  case 0
  show ?case by (simp add: keeps_hang)
next
  case (Suc n)
  show ?case by (subst RowStream_fetchall.simps) (intro keeps_rules Suc)
qed

lemma keeps_stream [keeps_rules]:
  "keeps (world_inv x n) (RowStream_fetchmany H fuel s k)" "keeps (world_inv x n) (RowStream_next H fuel s)"
  "keeps (world_inv x n) (RowStream_enter s)" "keeps (world_inv x n) (RowStream_exit H s e)"
  "keeps (world_inv x n) (RowStream_del H s)"
  unfolding RowStream_fetchmany_def RowStream_next_def RowStream_enter_def RowStream_exit_def RowStream_del_def
  by (intro keeps_rules)+

lemma keeps_prepare [keeps_rules]: "c < n \<Longrightarrow> keeps (world_inv None n) (Connection_prepare H c sql oids)"
  unfolding Connection_prepare_def PreparedStatement_prepare_def
  by (intro keeps_rules keeps_new_statement [where c = c] keeps_set_connection_inv) simp_all

lemma keeps_statement_ref:
  fixes f :: "statement \<Rightarrow> ('k, 'b) call"
  assumes "\<And>st n'. st_connection st < n' \<Longrightarrow> keeps (world_inv x n') (f st)"
  shows "keeps (world_inv x n) (bind (gets (\<lambda>w. statements w t)) f)"
proof (rule keeps_gets_bind [where P = "\<lambda>st w. st_connection st < next_id w"])
  show "keeps (\<lambda>w. world_inv x n w \<and> st_connection st < next_id w) (f st)" for st
  proof -
    have "(\<lambda>w :: 'k world. world_inv x n w \<and> st_connection st < next_id w) = world_inv x (max n (Suc (st_connection st)))"
      by (auto simp: world_inv_def fun_eq_iff)
    then show ?thesis using assms [of st] by simp
  qed
qed (simp add: world_inv_def refs_ok_def)

lemma keeps_statement_begin:
  assumes "\<And>t m. nonnegative t \<Longrightarrow> keeps (world_inv None m) (f t)"
  shows "keeps (world_inv None n) (bind (statement_begin H st timeout) f)"
  unfolding statement_begin_def bind_assoc bind_ret_left
  by (intro keeps_statement_ref keeps_bind [OF gate.keeps_require_open(1)] keeps_bind [OF keeps_guard]
      keeps_effective keeps_bind [OF keeps_begin] assms)

lemma keeps_description [keeps_rules]: "keeps (world_inv x n) (PreparedStatement_description H st)"
  unfolding PreparedStatement_description_def by (intro keeps_rules keeps_set_statement) simp_all

lemma keeps_statement_execute [keeps_rules]:
  assumes "request_queries_native H"
  shows "keeps (world_inv None n) (PreparedStatement_execute H fuel st ps t z)"
    "keeps (world_inv None n) (PreparedStatement_stream H st ps k t l z)"
  unfolding PreparedStatement_execute_def PreparedStatement_stream_def RowStream_init_def
  by (intro keeps_bind [OF keeps_lift] keeps_statement_begin keeps_rules assms; simp add: normal_arg)+

lemma keeps_statement_close [keeps_rules]: "keeps (world_inv None n) (PreparedStatement_close H st)"
  unfolding PreparedStatement_close_def
  by (intro keeps_statement_ref keeps_rules keeps_set_statement keeps_set_connection_inv; simp)

lemma keeps_statement_rest [keeps_rules]:
  "keeps (world_inv x n) (PreparedStatement_enter st)" "keeps (world_inv None n) (PreparedStatement_exit H st e)"
  "keeps (world_inv x n) (PreparedStatement_del st)"
  unfolding PreparedStatement_enter_def PreparedStatement_exit_def PreparedStatement_del_def by (intro keeps_rules)+

section \<open>Databases and operations\<close>

lemma keeps_database_calls [keeps_rules]:
  "keeps (world_inv x n) (Database_open H db)" "keeps (world_inv x n) (Database_telemetry H db)"
  "keeps (world_inv x n) (Database_waitable H db)" "keeps (world_inv x n) (Database_bundled_extensions H)"
  "keeps (world_inv x n) (Database_del db)"
  unfolding Database_open_def Database_telemetry_def Database_waitable_def Database_bundled_extensions_def
    Database_del_def by (intro keeps_rules)+

lemma keeps_database_events [keeps_rules]:
  "keeps (world_inv x n) (Database_next_event H db t)" "keeps (world_inv x n) (Database_remove_event_handler db h k)"
  unfolding Database_next_event_def Database_remove_event_handler_def
  by (intro keeps_rules gate.keeps_set_database; simp)+

lemma keeps_add_handler [keeps_rules]: "keeps (world_inv x n) (Database_add_event_handler db h k)"
  unfolding Database_add_event_handler_def
  by (cases h) (auto intro!: keeps_rules gate.keeps_set_database)

lemma keeps_operation_init [keeps_rules]: "keeps (world_inv x n) (Operation_init H db h)"
proof -
  have "keeps (world_inv x n) (catch (native (Query h) (operation_waitable H h))
       (\<lambda>e. case e of
          NativeError d \<Rightarrow>
            seq (catch (native (OperationClose h) (operation_close H h)) (\<lambda>_. ret ())) (raise_translated d)
        | _ \<Rightarrow> raise e))"
    by (rule keeps_catch) (auto split: exc.split intro!: keeps_rules simp: raise_translated_def)
  then show ?thesis unfolding Operation_init_def
    by (intro keeps_bind gate.keeps_alloc_id keeps_unseen gate.keeps_set_database keeps_ret) simp_all
qed

lemma keeps_operation_start [keeps_rules]:
  "keeps (world_inv x n) (Operation_checkpoint H db)" "keeps (world_inv x n) (Operation_maintenance H db k d u)"
  "keeps (world_inv x n) (Operation_logical H db s b a)"
  unfolding Operation_checkpoint_def Operation_maintenance_def Operation_logical_def by (intro keeps_rules)+

lemma keeps_on_operation [keeps_rules]:
  "keeps (world_inv x n) (on_operation p a f)" "keeps (world_inv x n) (Operation_require_open p)"
  unfolding on_operation_def Operation_require_open_def by (intro keeps_rules)+

lemma keeps_operation [keeps_rules]:
  "keeps (world_inv x n) (Operation_snapshot H p)" "keeps (world_inv x n) (Operation_progress H p)"
  "keeps (world_inv x n) (Operation_cancel H p)" "keeps (world_inv x n) (Operation_close H p)"
  unfolding Operation_snapshot_def Operation_progress_def Operation_cancel_def Operation_close_def
  by (intro keeps_rules gate.keeps_set_database; simp)+

lemma keeps_wait_loop [keeps_rules]: "keeps (world_inv x n) (wait_loop H fuel p d)"
proof (induction fuel)
  case 0
  show ?case by (simp add: keeps_hang)
next
  case (Suc n)
  show ?case by (subst wait_loop.simps) (intro keeps_rules Suc)
qed

lemma keeps_wait [keeps_rules]:
  "keeps (world_inv x n) (Operation_wait H fuel p t)" "keeps (world_inv x n) (Operation_enter p)"
  "keeps (world_inv x n) (Operation_exit H p e)" "keeps (world_inv x n) (Operation_del p)"
  unfolding Operation_wait_def Operation_enter_def Operation_exit_def Operation_del_def by (intro keeps_rules)+

lemma keeps_started [keeps_rules]: "keeps (world_inv x n) (started_or_done H fuel b t p)"
  unfolding started_or_done_def by (intro keeps_rules)

lemma keeps_management [keeps_rules]:
  "keeps (world_inv x n) (Database_checkpoint H fuel db b t)"
  "keeps (world_inv x n) (Database_maintenance H fuel db k d u b t)"
  "keeps (world_inv x n) (Database_logical_dump H fuel db s a b t)"
  "keeps (world_inv x n) (Database_logical_restore H fuel db s a b t)"
  unfolding Database_checkpoint_def Database_maintenance_def Database_logical_dump_def Database_logical_restore_def
  by (intro keeps_rules)+

lemma keeps_database_init [keeps_rules]: "keeps (world_inv x n) (Database_init H a)"
proof (cases "normalize_timeout (lib H) (da_timeout a)")
  case (Inl e)
  then show ?thesis unfolding Database_init_def by (simp add: lift_Inl) (intro keeps_rules)
next
  case (Inr t)
  have "nonnegative t" using normalize_timeout_nonneg [of "lib H" "da_timeout a"] Inr by (auto simp: nonnegative_def)
  then show ?thesis unfolding Database_init_def set_database_def
    by (simp add: Inr lift_Inr) (intro keeps_rules keeps_modify, auto simp: world_inv_def refs_ok_def)
qed

section \<open>Connections\<close>

lemma keeps_connection_calls [keeps_rules]:
  assumes "request_queries_native H" "c < n"
  shows "keeps (world_inv None n) (Connection_stream H c sql ps k t l z)"
    and "keeps (world_inv None n) (Connection_execute_script H fuel c sql t)"
  unfolding Connection_stream_def Connection_execute_script_def
  by (intro keeps_bind [OF gate.keeps_require_open(1)] keeps_effective keeps_rules assms; simp add: normal_arg)+

lemma keeps_start_copy [keeps_rules]:
  assumes "request_queries_native H" "c < n" "nonnegative t"
  shows "keeps (world_inv None n) (start_copy H fuel c sql t)"
  unfolding start_copy_def
  by (intro keeps_rules keeps_item assms; simp add: normal_arg [OF assms(3)])

lemma keeps_connection_copy [keeps_rules]:
  assumes "request_queries_native H" "c < n"
  shows "keeps (world_inv None n) (Connection_copy H fuel c sql t)"
  unfolding Connection_copy_def
  by (intro keeps_bind [OF gate.keeps_require_open(1)] keeps_effective keeps_rules assms)

lemma keeps_connection_transfer [keeps_rules]:
  assumes "request_queries_native H" "c < n"
  shows "keeps (world_inv None n) (Connection_copy_from H fuel c sql s k t)"
    and "keeps (world_inv None n) (Connection_copy_to H fuel c sql s k t)"
  unfolding Connection_copy_from_def Connection_copy_to_def by (intro keeps_rules assms)+

lemma keeps_close_dependents [keeps_rules]: "c < n \<Longrightarrow> keeps (world_inv None n) (close_dependents H c)"
  unfolding close_dependents_def by (intro keeps_rules keeps_set_connection_inv) simp_all

lemma keeps_close_session [keeps_rules]: "keeps (world_inv x n) (close_session H c ms)"
  unfolding close_session_def by (intro keeps_rules keeps_set_connection_inv) simp_all

lemma keeps_close_instance [keeps_rules]: "keeps (world_inv x n) (close_instance H db mode t)"
  unfolding close_instance_def by (intro keeps_rules gate.keeps_set_database) simp_all

lemma keeps_attempt [keeps_rules]: "keeps I m \<Longrightarrow> keeps I (attempt m)"
  unfolding attempt_def by (intro keeps_rules)

lemma keeps_list_ref:
  fixes f :: "nat list \<Rightarrow> ('k, 'b) call"
  assumes ref: "\<And>w c. world_inv x n w \<Longrightarrow> c \<in> set (g w) \<Longrightarrow> c < next_id w"
    and f: "\<And>cs m. (\<forall>c \<in> set cs. c < m) \<Longrightarrow> keeps (world_inv x m) (f cs)"
  shows "keeps (world_inv x n) (bind (gets g) f)"
proof (rule keeps_gets_bind [where P = "\<lambda>cs w. \<forall>c \<in> set cs. c < next_id w"])
  fix cs
  have "(\<lambda>w :: 'k world. world_inv x n w \<and> (\<forall>c \<in> set cs. c < next_id w)) = world_inv x (foldr (\<lambda>c. max (Suc c)) cs n)"
    by (induction cs) (auto simp: world_inv_def fun_eq_iff)
  moreover have "\<forall>c \<in> set cs. c < foldr (\<lambda>c. max (Suc c)) cs n"
    by (induction cs) (auto simp: less_max_iff_disj)
  ultimately show "keeps (\<lambda>w. world_inv x n w \<and> (\<forall>c \<in> set cs. c < next_id w)) (f cs)" using f [of cs] by simp
qed (use ref in blast)

lemma keeps_closing_at:
  "(\<forall>c n. c < n \<longrightarrow> keeps (world_inv None n) (Connection_close_at H d c t)) \<and>
   (\<forall>e n. keeps (world_inv None n) (release_at H d e t)) \<and>
   (\<forall>db mode n. keeps (world_inv None n) (Database_close_at H d db mode t))"
proof (induction d)
  case 0
  show ?case by (simp add: keeps_raise)
next
  case (Suc d)
  then have IH: "c < n \<Longrightarrow> keeps (world_inv None n) (Connection_close_at H d c t)"
    "keeps (world_inv None n) (release_at H d e t)" "keeps (world_inv None n) (Database_close_at H d db mode t)"
    for c n e db mode by auto
  have "keeps (world_inv None n) (bind (gets (\<lambda>w. d_connections (databases w db))) (\<lambda>cs.
       seq (for_each cs (\<lambda>c. Connection_close_at H d c t))
       (seq (close_instance H db mode t) (set_database db (\<lambda>y. y\<lparr>d_closed := True\<rparr>)))))" for n db mode
  proof (rule keeps_list_ref)
    fix w :: "'a world" and c assume "world_inv None n w" "c \<in> set (d_connections (databases w db))"
    then show "c < next_id w" by (auto simp: world_inv_def refs_ok_def)
  next
    fix cs and m :: nat assume "\<forall>c \<in> set cs. c < m"
    then show "keeps (world_inv None m) (seq (for_each cs (\<lambda>c. Connection_close_at H d c t))
       (seq (close_instance H db mode t) (set_database db (\<lambda>y. y\<lparr>d_closed := True\<rparr>))))"
      by (intro keeps_bind keeps_for_each_in IH keeps_close_instance gate.keeps_set_database) auto
  qed
  note rest = this
  have db: "keeps (world_inv None n) (Database_close_at H (Suc d) db mode t)" for n db mode
    by (simp only: Database_close_at.simps)
       (rule keeps_bind [OF keeps_gets], rule keeps_if, rule keeps_ret,
        rule keeps_bind [OF keeps_for_each [OF keeps_operation(4)] rest])
  have "c < n \<Longrightarrow> keeps (world_inv None n) (Connection_close_at H (Suc d) c t)" for c n
    by (simp only: Connection_close_at.simps) (intro keeps_rules IH)
  moreover have "keeps (world_inv None n) (release_at H (Suc d) e t)" for e n
    by (simp only: release_at.simps) (intro keeps_rules IH)
  ultimately show ?case using db by blast
qed

lemma keeps_closing [keeps_rules]:
  "c < n \<Longrightarrow> keeps (world_inv None n) (Connection_close H c t)"
  "keeps (world_inv None n) (release_implicit_database H e t)"
  "keeps (world_inv None n) (Database_close H db mode t)"
  "keeps (world_inv None n) (Database_close_before_fork H db t)"
  unfolding Connection_close_def release_implicit_database_def Database_close_def Database_close_before_fork_def
  using keeps_closing_at by blast+

lemma keeps_connection_ends [keeps_rules]:
  assumes "c < n"
  shows "keeps (world_inv None n) (Connection_enter c)" "keeps (world_inv None n) (Connection_exit H c e)"
    "keeps (world_inv None n) (Connection_del H c)"
  unfolding Connection_enter_def Connection_exit_def Connection_del_def by (intro keeps_rules assms)+

lemma keeps_database_exit [keeps_rules]: "keeps (world_inv None n) (Database_exit H db e)"
  unfolding Database_exit_def by (intro keeps_rules)

text \<open>A new connection has a number that no object refers to yet; its gate is free.\<close>

lemma connection_init_inv:
  assumes "nonnegative t"
  shows "hoare (world_inv None n) (Connection_init db h ac t rel) (\<lambda>c w. world_inv None n w \<and> c < next_id w)
    (\<lambda>_. world_inv None n)"
proof (rule hoareI)
  fix w c w' assume w: "world_inv None n w" "Connection_init db h ac t rel w = (Val c, w')"
  have "\<not> c_gate (connections w (next_id w))" using w(1) by (auto simp: world_inv_def gate_ok_def)
  then have "gate_ok None w'"
    using w by (intro gate_ok_cong [of w' w])
      (auto simp: Connection_init_def alloc_def bind_def set_connection_def modify_def ret_def world_inv_def
        split: if_splits)
  moreover have "refs_ok w'" "next_id w' = Suc (next_id w)" "c = next_id w"
    using w assms by (auto simp: Connection_init_def alloc_def bind_def set_connection_def modify_def ret_def
        world_inv_def refs_ok_def less_SucI)
  ultimately show "world_inv None n w' \<and> c < next_id w'" using w(1) by (auto simp: world_inv_def)
qed (simp add: Connection_init_def alloc_def bind_def set_connection_def modify_def ret_def)

lemma database_timeout_inv:
  "hoare (world_inv None n) (if v = PNone then gets (\<lambda>w. d_timeout (databases w db)) else lift (normalize_timeout L v))
     (\<lambda>t w. world_inv None n w \<and> nonnegative t) (\<lambda>_. world_inv None n)"
  by (auto simp: hoare_def gets_def lift_def world_inv_def refs_ok_def nonnegative_def
      dest: normalize_timeout_nonneg split: sum.splits)

lemma database_connect_inv:
  "hoare (world_inv None n) (Database_connect H db a) (\<lambda>c w. world_inv None n w \<and> c < next_id w) (\<lambda>_. world_inv None n)"
proof -
  have reg: "hoare (\<lambda>w. world_inv None n w \<and> c < next_id w)
      (seq (set_database db (\<lambda>x. x\<lparr>d_connections := d_connections x @ [c]\<rparr>)) (ret c))
      (\<lambda>c w. world_inv None n w \<and> c < next_id w) (\<lambda>_. world_inv None n)" for c
    by (auto simp: hoare_def set_database_def modify_def bind_def ret_def world_inv_def refs_ok_def)
  have "hoare (\<lambda>w. world_inv None n w \<and> nonnegative t)
      (bind (Connection_init db h ac t None) (\<lambda>c. seq (set_database db (\<lambda>x. x\<lparr>d_connections := d_connections x @ [c]\<rparr>)) (ret c)))
      (\<lambda>c w. world_inv None n w \<and> c < next_id w) (\<lambda>_. world_inv None n)" for h ac t
    by (rule hoare_assuming, rule hoare_bind [OF reg connection_init_inv])
  note conn = hoare_bind [OF this database_timeout_inv]
  show ?thesis unfolding Database_connect_def Let_def
    by (intro hoare_bind [OF _ keeps_hoare] conn gate.keeps_ensure_open keeps_lift keeps_translating gate.keeps_io(1))
qed

lemma keeps_connected:
  fixes f :: "nat \<Rightarrow> ('k, 'b) call"
  assumes "\<And>c m. c < m \<Longrightarrow> keeps (world_inv None m) (f c)"
  shows "keeps (world_inv None n) (bind (Database_connect H db a) f)"
  unfolding keeps_hoare_iff
proof (rule hoare_bind [OF _ database_connect_inv])
  fix c
  have "(\<lambda>w :: 'k world. world_inv None n w \<and> c < next_id w) = world_inv None (max n (Suc c))"
    by (auto simp: world_inv_def fun_eq_iff)
  then show "hoare (\<lambda>w. world_inv None n w \<and> c < next_id w) (f c) (\<lambda>_. world_inv None n) (\<lambda>_. world_inv None n)"
    using keeps_hoare [OF assms, of c "max n (Suc c)"] hoare_post by (fastforce simp: world_inv_def)
qed

lemma keeps_database_connect [keeps_rules]: "keeps (world_inv None n) (Database_connect H db a)"
  unfolding keeps_hoare_iff by (rule hoare_post [OF database_connect_inv]) auto

lemma keeps_database_execute [keeps_rules]: "keeps (world_inv None n) (Database_execute H db sql ps t)"
  unfolding Database_execute_def by (intro keeps_connected keeps_rules)

section \<open>The implicit registry\<close>

lemma keeps_paths [keeps_rules]:
  "keeps I (canonical_cluster_path H p)" "keeps I (canonical_optional_path H q)" "keeps I (implicit_configuration H s k a b)"
  unfolding implicit_configuration_def canonical_optional_path_def canonical_cluster_path_def by (intro keeps_rules)+

lemma keeps_acquire [keeps_rules]: "keeps (world_inv x n) (acquire_implicit_database H a)"
  unfolding acquire_implicit_database_def register_implicit_def by (intro keeps_rules)

lemma keeps_connect [keeps_rules]: "keeps (world_inv None n) (connect H a)"
  unfolding connect_def by (intro keeps_rules keeps_set_connection_inv) simp_all

section \<open>Reachable worlds\<close>

text \<open>
  A call of the public interface. The connections a program names exist; a request started
  directly is given a timeout that can be normalized.
\<close>

abbreviation called :: "('k, 'a) call \<Rightarrow> ('k, unit) call" where
  "called m \<equiv> seq m (ret ())"

inductive api_call :: "'k host \<Rightarrow> 'k world \<Rightarrow> ('k, unit) call \<Rightarrow> bool" for H w where
  "c < next_id w \<Longrightarrow> api_call H w (called (Connection_transaction_status H c))"
| "c < next_id w \<Longrightarrow> api_call H w (called (Connection_id H c))"
| "c < next_id w \<Longrightarrow> api_call H w (called (Connection_parameter_status H c name))"
| "c < next_id w \<Longrightarrow> api_call H w (called (Connection_status H c))"
| "c < next_id w \<Longrightarrow> api_call H w (called (Connection_set_autocommit H c b))"
| "c < next_id w \<Longrightarrow> api_call H w (called (Connection_execute H c sql ps t))"
| "c < next_id w \<Longrightarrow> api_call H w (called (Connection_execute_arrow H c sql ps t))"
| "c < next_id w \<Longrightarrow> api_call H w (called (Connection_stream H c sql ps k t l z))"
| "c < next_id w \<Longrightarrow> api_call H w (called (Connection_execute_script H fuel c sql t))"
| "c < next_id w \<Longrightarrow> api_call H w (called (Connection_prepare H c sql oids))"
| "c < next_id w \<Longrightarrow> api_call H w (called (Connection_copy H fuel c sql t))"
| "c < next_id w \<Longrightarrow> api_call H w (called (Connection_copy_from H fuel c sql s k t))"
| "c < next_id w \<Longrightarrow> api_call H w (called (Connection_copy_to H fuel c sql s k t))"
| "c < next_id w \<Longrightarrow> api_call H w (called (Connection_cursor c))"
| "c < next_id w \<Longrightarrow> api_call H w (called (TransactionContext_init c))"
| "c < next_id w \<Longrightarrow> api_call H w (called (Connection_commit H c))"
| "c < next_id w \<Longrightarrow> api_call H w (called (Connection_rollback H c))"
| "c < next_id w \<Longrightarrow> api_call H w (called (Connection_cancel H c))"
| "c < next_id w \<Longrightarrow> api_call H w (called (Connection_close H c t))"
| "c < next_id w \<Longrightarrow> api_call H w (called (Connection_enter c))"
| "c < next_id w \<Longrightarrow> api_call H w (called (Connection_exit H c e))"
| "c < next_id w \<Longrightarrow> api_call H w (called (Connection_del H c))"
| "c < next_id w \<Longrightarrow> normalize_timeout (lib H) (sa_timeout sta) = Inr normal \<Longrightarrow>
    api_call H w (called (Request_start H c sql ps sta))"
| "api_call H w (called (Database_init H da))"
| "api_call H w (called (Database_open H db))"
| "api_call H w (called (Database_telemetry H db))"
| "api_call H w (called (Database_waitable H db))"
| "api_call H w (called (Database_next_event H db t))"
| "api_call H w (called (Database_add_event_handler db f kind))"
| "api_call H w (called (Database_remove_event_handler db g kind))"
| "api_call H w (called (Database_dispatch_events H fuel db t))"
| "api_call H w (called (Database_bundled_extensions H))"
| "api_call H w (called (Database_connect H db sa))"
| "api_call H w (called (Database_execute H db sql ps t))"
| "api_call H w (called (Database_checkpoint H fuel db b t))"
| "api_call H w (called (Database_maintenance H fuel db mk d u b t))"
| "api_call H w (called (Database_logical_dump H fuel db s la b t))"
| "api_call H w (called (Database_logical_restore H fuel db s la b t))"
| "api_call H w (called (Database_close H db mode t))"
| "api_call H w (called (Database_close_before_fork H db t))"
| "api_call H w (called (Database_exit H db e))"
| "api_call H w (called (Database_del db))"
| "api_call H w (called (Operation_snapshot H p))"
| "api_call H w (called (Operation_progress H p))"
| "api_call H w (called (Operation_cancel H p))"
| "api_call H w (called (Operation_close H p))"
| "api_call H w (called (Operation_wait H fuel p t))"
| "api_call H w (called (Operation_del p))"
| "api_call H w (called (TransactionContext_enter H tc))"
| "api_call H w (called (TransactionContext_exit H tc e))"
| "api_call H w (called (Cursor_execute H u sql ps t))"
| "api_call H w (called (Cursor_executemany H u sql ps))"
| "api_call H w (called (Cursor_callproc u))"
| "api_call H w (called (Cursor_fetchone u))"
| "api_call H w (called (Cursor_fetchmany u i))"
| "api_call H w (called (Cursor_fetchall u))"
| "api_call H w (called (Cursor_next u))"
| "api_call H w (called (Cursor_close u))"
| "api_call H w (called (Cursor_noop u))"
| "api_call H w (called (Request_state H r))"
| "api_call H w (called (Request_try_next H fuel r))"
| "api_call H w (called (Request_next_result H fuel r))"
| "api_call H w (called (Request_results H fuel r))"
| "api_call H w (called (Request_progress H fuel r))"
| "api_call H w (called (Request_cancel H r))"
| "api_call H w (called (Request_close H r))"
| "api_call H w (called (Request_del H r))"
| "api_call H w (called (CopyIn_write H fuel cp bs))"
| "api_call H w (called (CopyIn_finish H fuel cp m))"
| "api_call H w (called (CopyIn_copy_from H fuel cp s k))"
| "api_call H w (called (CopyOut_read H fuel cp k))"
| "api_call H w (called (CopyOut_copy_to H fuel cp s k))"
| "api_call H w (called (Copy_abort H cp m))"
| "api_call H w (called (Copy_close H cp))"
| "api_call H w (called (Copy_exit H fuel cp e))"
| "api_call H w (called (Copy_del H cp))"
| "api_call H w (called (RowStream_next_chunk H fuel st))"
| "api_call H w (called (RowStream_fetchone H fuel st))"
| "api_call H w (called (RowStream_fetchmany H fuel st k))"
| "api_call H w (called (RowStream_fetchall H fuel st))"
| "api_call H w (called (RowStream_next H fuel st))"
| "api_call H w (called (RowStream_close H st))"
| "api_call H w (called (RowStream_enter st))"
| "api_call H w (called (RowStream_del H st))"
| "api_call H w (called (PreparedStatement_description H ps'))"
| "api_call H w (called (PreparedStatement_execute H fuel ps' ps t z))"
| "api_call H w (called (PreparedStatement_stream H ps' ps k t l z))"
| "api_call H w (called (PreparedStatement_close H ps'))"
| "api_call H w (called (PreparedStatement_enter ps'))"
| "api_call H w (called (PreparedStatement_del ps'))"
| "api_call H w (called (connect H ca))"
| "api_call H w (modify (\<lambda>w. w\<lparr>codec_registry := cs\<rparr>))"

definition initial :: "'k world \<Rightarrow> bool" where
  "initial w \<longleftrightarrow> next_id w = 1 \<and> (\<forall>c. \<not> c_gate (connections w c) \<and> c_timeout (connections w c) = None) \<and>
     (\<forall>r. \<not> r_owns_gate (requests w r)) \<and> (\<forall>st. st_connection (statements w st) = 0) \<and>
     (\<forall>u. cu_connection (cursors w u) = 0) \<and> (\<forall>t. sc_connection (scopes w t) = 0) \<and>
     (\<forall>db. d_connections (databases w db) = [] \<and> d_timeout (databases w db) = None)"

inductive reachable :: "'k host \<Rightarrow> 'k world \<Rightarrow> bool" for H where
  reachable_initial: "initial w \<Longrightarrow> reachable H w"
| reachable_call: "reachable H w \<Longrightarrow> api_call H w m \<Longrightarrow> m w = (out, w') \<Longrightarrow> (\<forall>h. out \<noteq> Hang h) \<Longrightarrow> reachable H w'"

lemma initial_inv: "initial w \<Longrightarrow> world_inv None 0 w"
  by (auto simp: initial_def world_inv_def gate_ok_def owner_def refs_ok_def nonnegative_def)

lemma api_call_keeps:
  assumes "request_queries_native H" and "api_call H w m"
  shows "keeps (world_inv None (next_id w)) m"
  using assms(2)
  by cases (auto intro!: keeps_modify keeps_bind [OF _ keeps_ret] intro: keeps_rules assms(1) simp: world_inv_def refs_ok_def)

lemma reachable_inv:
  assumes "request_queries_native H" and "reachable H w"
  shows "world_inv None 0 w"
  using assms(2)
proof induction
  case (reachable_initial w)
  then show ?case by (rule initial_inv)
next
  case (reachable_call w m out w')
  have "world_inv None (next_id w) w" using reachable_call.IH by (simp add: world_inv_def)
  then have "world_inv None (next_id w) w'"
    using api_call_keeps [OF assms(1) reachable_call.hyps(2)] reachable_call.hyps(3,4)
    by (cases out) (auto dest: keeps_Val keeps_Exc)
  then show ?case by (simp add: world_inv_def)
qed

text \<open>
  C1: In every reachable world the gate of a connection is held exactly when one request owns it;
  it is then one request only, and that request is open and still has its native handle. So a
  connection never serves two requests, and closing or failing requests never leaves it blocked.
\<close>

theorem gate_held_by_one_open_request:
  assumes "request_queries_native H" and "reachable H w"
  shows "(c_gate (connections w c) \<longleftrightarrow>
      (\<exists>!r. r_owns_gate (requests w r) \<and> r_connection (requests w r) = c)) \<and>
    (\<forall>r. r_owns_gate (requests w r) \<longrightarrow>
      \<not> r_closed (requests w r) \<and> r_handle (requests w r) \<noteq> None \<and> c_gate (connections w (r_connection (requests w r))))"
proof -
  have "gate_ok None w" using reachable_inv [OF assms] by (simp add: world_inv_def)
  then show ?thesis unfolding gate_ok_def owner_def by blast
qed

lemma reachable_Val:
  "reachable H w \<Longrightarrow> api_call H w (called m) \<Longrightarrow> fst (m w) = Val a \<Longrightarrow> reachable H (snd (m w))"
  by (cases "m w") (auto intro: reachable_call [where out = "Val ()" and m = "called m"] simp: run_bind_Val run_ret)

definition sample_database :: database_args where
  "sample_database = \<lparr>da_path = lit ''/d'', da_mode = ModeMember OPEN_OR_CREATE, da_settings = PNone, da_worker_count = PInt 1,
     da_timeout = PNone, da_resource_root = None, da_executable_path = None, da_result_buffer_limit = PInt 0,
     da_maximum_value_size = PInt 0, da_event_queue_capacity = PInt 64\<rparr>"

definition created_world :: "nat world" where
  "created_world = empty_world\<lparr>next_id := 2, databases := (\<lambda>_. no_database)(1 := no_database\<lparr>d_path := lit ''/d'', d_closed := False,
     d_event_queue_capacity := 64\<rparr>)\<rparr>"

definition connected_world :: "nat world" where
  "connected_world = created_world\<lparr>next_id := 3,
     calls := [InstanceOpen (lit ''/d'') \<lparr>oo_create = True, oo_create_new = False, oo_executable_path = lit ''/rbinpostgres'',
         oo_resource_root = lit ''/r'', oo_settings = [], oo_worker_count = 1, oo_result_buffer_limit = 0,
         oo_maximum_value_size = 0, oo_event_queue_capacity = 64\<rparr>,
       ConnectionOpen 10 \<lparr>so_user = lit ''postgamma'', so_database = lit ''postgres'',
         so_application_name = lit ''postgamma-python'', so_settings = []\<rparr>],
     databases := (\<lambda>_. no_database)(1 := no_database\<lparr>d_path := lit ''/d'', d_closed := False,
       d_event_queue_capacity := 64, d_handle := Some 10, d_owner_pid := Some 100, d_connections := [2]\<rparr>),
     connections := (\<lambda>_. no_connection)(2 := no_connection\<lparr>c_database := 1, c_handle := Some 20, c_autocommit := True,
       c_closed := False\<rparr>)\<rparr>"

definition streaming_world :: "nat world" where
  "streaming_world = connected_world\<lparr>next_id := 5,
     calls := calls connected_world @ [RequestStart 20 (lit ''SELECT'') [] 10 0 False, Query 40, Query 40],
     connections := (connections connected_world)(2 := (connections connected_world 2)\<lparr>c_gate := True, c_requests := [3]\<rparr>),
     requests := (requests connected_world)(3 := \<lparr>r_connection = 2, r_handle = Some 40, r_closed = False, r_deadline = None,
        r_on_notice = None, r_copy = None, r_owns_gate = True, r_id = 5, r_waitable = 6\<rparr>),
     streams := (streams connected_world)(4 := \<lparr>s_request = 3, s_columns = [], s_command_status = None, s_rowcount = - 1,
        s_rows = [], s_chunks = ChunksFresh, s_rows_seen = 0, s_closed = False\<rparr>)\<rparr>"

lemma sample_queries_native: "request_queries_native sample_host"
  by (simp add: request_queries_native_def sample_host_def)

lemma created: "Database_init sample_host sample_database empty_world = (Val 1, created_world)"
  by (simp add: Database_init_def sample_database_def open_mode_parse_def normalize_settings_def positive_int_def
      nonnegative_int_def normalize_timeout_def lift_Inr bind_def alloc_def set_database_def modify_def ret_def
      empty_world_def no_database_def created_world_def)

lemma connected:
  "Database_connect sample_host 1 (default_session\<lparr>se_autocommit := True\<rparr>) created_world = (Val 2, connected_world)"
  by (simp add: Database_connect_def Database_ensure_open_def resolve_runtime_paths_def host_get_def normalize_settings_def
      lift_Inr bind_def gets_def alloc_def set_database_def set_connection_def modify_def ret_def translating_def catch_def
      native_def sample_host_def Connection_init_def default_session_def lit_def fun_eq_iff
      empty_world_def no_database_def no_connection_def created_world_def connected_world_def)

lemma connected_world_reachable: "reachable sample_host connected_world"
proof -
  have "initial empty_world" by (simp add: initial_def empty_world_def no_connection_def no_database_def)
  then have "reachable sample_host created_world"
    using reachable_Val [OF reachable_initial, of empty_world sample_host "Database_init sample_host sample_database"] created
    by (auto intro: api_call.intros)
  then show ?thesis
    using reachable_Val [of sample_host created_world "Database_connect sample_host 1 (default_session\<lparr>se_autocommit := True\<rparr>)"] connected
    by (auto intro: api_call.intros)
qed

lemma streaming:
  "Connection_stream sample_host 2 (lit ''SELECT'') PNone (PInt 10) PNone (PInt 0) None connected_world = (Val 4, streaming_world)"
  by (simp add: Connection_stream_def Connection_require_open_def effective_timeout_def Connection_begin_transaction_if_needed_def
      RowStream_start_def Request_start_def encoded_parameters_def encode_parameters_def positive_int_def nonnegative_int_def
      notice_check_def gated_start_def gate_acquire_def Request_init_def normalize_timeout_def timeout_arg_def with_handle_def native_def
      alloc_def obj_defs RowStream_init_def bind_def gets_def guard_def lift_Inr ret_def modify_def catch_def sample_host_def
      created_world_def connected_world_def streaming_world_def empty_world_def no_connection_def no_database_def)

lemma streaming_world_reachable: "reachable sample_host streaming_world"
proof -
  have v: "fst (Connection_stream sample_host 2 (lit ''SELECT'') PNone (PInt 10) PNone (PInt 0) None connected_world) = Val 4"
    by (simp add: streaming)
  have "2 < next_id connected_world" by (simp add: connected_world_def)
  then have "api_call sample_host connected_world
    (called (Connection_stream sample_host 2 (lit ''SELECT'') PNone (PInt 10) PNone (PInt 0) None))" by (intro api_call.intros)
  from reachable_Val [OF connected_world_reachable this v] show ?thesis by (simp add: streaming)
qed

theorem gate_held_by_one_open_request_witness:
  "c_gate (connections streaming_world 2) \<and>
   (\<exists>!r. r_owns_gate (requests streaming_world r) \<and> r_connection (requests streaming_world r) = 2)"
proof -
  have "c_gate (connections streaming_world 2)" by (simp add: streaming_world_def)
  then show ?thesis
    using gate_held_by_one_open_request [OF sample_queries_native streaming_world_reachable, of 2] by simp
qed

end
