(* ===== verification/Session_Laws.thy ===== *)
theory Session_Laws
  imports Reachable
begin

text \<open>
  What the operations of a connection do on every branch: the calls a closed connection
  rejects, the native traffic of \<^verbatim>\<open>execute\<close>, the outcome of a transaction scope, and that a
  connection whose requests are closed is never blocked.
\<close>

section \<open>Running the calls of a session\<close>

declare run_eqs [simp]

definition unusable :: "'k world \<Rightarrow> nat \<Rightarrow> bool" where
  "unusable w c \<longleftrightarrow> c_closed (connections w c) \<or> c_handle (connections w c) = None \<or> c_close_pending (connections w c)"

definition unusable_error :: "'k world \<Rightarrow> nat \<Rightarrow> exc" where
  "unusable_error w c =
     (if c_closed (connections w c) \<or> c_handle (connections w c) = None then connection_closed_error
      else connection_pending_error)"

lemma require_open_run:
  "Connection_require_open c w = (if unusable w c then Exc (unusable_error w c) else Val (), w)"
  by (simp add: Connection_require_open_def unusable_def unusable_error_def bind_def guard_def)

lemma require_open_first:
  "seq (Connection_require_open c) m w = (if unusable w c then (Exc (unusable_error w c), w) else m w)"
  by (simp add: bind_def require_open_run)

lemma with_gate_eq_Val:
  "with_gate c m w = (Val a, w') \<longleftrightarrow> \<not> c_gate (connections w c) \<and>
     (\<exists>w2. m (w\<lparr>connections := (connections w)(c := (connections w c)\<lparr>c_gate := True\<rparr>)\<rparr>) = (Val a, w2) \<and>
       c_gate (connections w2 c) \<and>
       w' = w2\<lparr>connections := (connections w2)(c := (connections w2 c)\<lparr>c_gate := False\<rparr>)\<rparr>)"
  by (auto simp: with_gate_def gate_acquire_def gate_release_def bind_def gets_def hang_def set_connection_def
      modify_def tryfinally_eq_Val raise_def split: if_splits)

lemma on_connection_eq_Val:
  "on_connection c call f w = (Val a, w') \<longleftrightarrow> (\<exists>h k. c_handle (connections w c) = Some h \<and>
     f h (kernel w) = (Inr a, k) \<and> w' = w\<lparr>kernel := k, calls := calls w @ [call h]\<rparr>)"
  by (cases "c_handle (connections w c)")
     (auto simp: on_connection_def bind_def gets_def with_handle_def translating_Val_iff native_eq_Val)

lemma transaction_status_eq_Val:
  "Connection_transaction_status H c w = (Val s, w') \<longleftrightarrow> \<not> unusable w c \<and> (\<exists>h k. c_handle (connections w c) = Some h \<and>
     connection_transaction_status H h (kernel w) = (Inr s, k) \<and> w' = w\<lparr>kernel := k, calls := calls w @ [Query h]\<rparr>)"
  by (auto simp: Connection_transaction_status_def require_open_first on_connection_eq_Val)

lemma native_execute_Val:
  assumes "Connection_native_execute H c sql ps t w = (Val r, w')"
  shows "\<exists>h encoded ms k nr. c_handle (connections w c) = Some h \<and>
    encode_parameters (lib H) (codec_registry w) ps = Inr encoded \<and>
    timeout_milliseconds (lib H) (timeout_arg t) = Inr ms \<and> \<not> c_gate (connections w c) \<and>
    connection_execute H h sql encoded ms (kernel w) = (Inr nr, k) \<and>
    result_init (lib H) (codec_registry w) nr = Inr r \<and>
    w' = w\<lparr>kernel := k, calls := calls w @ [Execute h sql encoded ms]\<rparr>"
  using assms
  by (auto simp: Connection_native_execute_def bind_eq_Val encoded_parameters_def make_result_def with_gate_eq_Val
      on_connection_eq_Val fun_upd_idem)

section \<open>Rejected calls\<close>

text \<open>
  On a connection that is closed, or whose close has started and not succeeded, every
  operation raises the error that says so and changes nothing: no native call is made, no gate
  taken and no object created.
\<close>

theorem unusable_connection_rejects:
  assumes "unusable w c"
  shows "Connection_execute H c sql ps t w = (Exc (unusable_error w c), w) \<and>
    Connection_execute_arrow H c sql ps t w = (Exc (unusable_error w c), w) \<and>
    Connection_stream H c sql ps k t l z w = (Exc (unusable_error w c), w) \<and>
    Connection_execute_script H fuel c sql t w = (Exc (unusable_error w c), w) \<and>
    Connection_prepare H c sql oids w = (Exc (unusable_error w c), w) \<and>
    Connection_copy H fuel c sql t w = (Exc (unusable_error w c), w) \<and>
    Connection_cursor c w = (Exc (unusable_error w c), w) \<and>
    Connection_commit H c w = (Exc (unusable_error w c), w) \<and>
    Connection_rollback H c w = (Exc (unusable_error w c), w) \<and>
    Connection_cancel H c w = (Exc (unusable_error w c), w) \<and>
    Connection_set_autocommit H c b w = (Exc (unusable_error w c), w) \<and>
    Connection_enter_transaction_scope H c w = (Exc (unusable_error w c), w) \<and>
    Connection_transaction_status H c w = (Exc (unusable_error w c), w)"
  using assms
  by (simp add: Connection_execute_def Connection_execute_arrow_def Connection_stream_def Connection_execute_script_def
      Connection_prepare_def Connection_copy_def Connection_cursor_def Connection_commit_def Connection_rollback_def
      Connection_cancel_def Connection_set_autocommit_def Connection_enter_transaction_scope_def
      Connection_claim_transaction_scope_def Connection_transaction_status_def bind_assoc require_open_first)

definition pending_world :: "nat world" where
  "pending_world = open_world\<lparr>connections := (connections open_world)(2 := (connections open_world 2)\<lparr>c_close_pending := True\<rparr>)\<rparr>"

theorem unusable_connection_rejects_witness:
  "unusable pending_world 2 \<and>
   Connection_commit sample_host 2 pending_world = (Exc connection_pending_error, pending_world)"
proof -
  have u: "unusable pending_world 2" by (simp add: unusable_def pending_world_def)
  have "unusable_error pending_world 2 = connection_pending_error"
    by (simp add: unusable_error_def pending_world_def open_world_def no_connection_def)
  then show ?thesis using unusable_connection_rejects [OF u, where H = sample_host] u by simp
qed

text \<open>
  While a transaction scope is active, \<^verbatim>\<open>commit\<close>, \<^verbatim>\<open>rollback\<close>, \<^verbatim>\<open>close\<close> and a nested scope are
  rejected with \<^verbatim>\<open>ProgrammingError\<close> and change nothing: only leaving the scope ends its transaction.
\<close>

theorem scope_owns_transaction:
  assumes "c_scope_active (connections w c)" and "\<not> unusable w c" and "0 < recursion_limit H"
  shows "\<exists>m1 m2 m3 m4.
    Connection_commit H c w = (Exc (programming_error m1), w) \<and>
    Connection_rollback H c w = (Exc (programming_error m2), w) \<and>
    Connection_enter_transaction_scope H c w = (Exc (programming_error m3), w) \<and>
    Connection_close H c t w = (Exc (programming_error m4), w)"
proof -
  obtain d where d: "recursion_limit H = Suc d" using assms(3) by (cases "recursion_limit H") auto
  have "\<exists>m. Connection_close H c t w = (Exc (programming_error m), w)"
    using assms(1,2) by (auto simp: Connection_close_def d unusable_def bind_def gets_def raise_def)
  then show ?thesis using assms(1,2)
    by (auto simp: Connection_commit_def Connection_rollback_def Connection_enter_transaction_scope_def
        Connection_claim_transaction_scope_def require_open_run bind_def guard_def)
qed

definition scoped_world :: "nat world" where
  "scoped_world = open_world\<lparr>connections := (connections open_world)(2 := (connections open_world 2)\<lparr>c_scope_active := True\<rparr>)\<rparr>"

theorem scope_owns_transaction_witness:
  "\<exists>m. Connection_commit sample_host 2 scoped_world = (Exc (programming_error m), scoped_world)"
proof -
  have "c_scope_active (connections scoped_world 2)" "\<not> unusable scoped_world 2" "0 < recursion_limit sample_host"
    by (simp_all add: scoped_world_def unusable_def open_world_def no_connection_def sample_host_def)
  from scope_owns_transaction [OF this] show ?thesis by blast
qed

section \<open>The native traffic of \<^verbatim>\<open>execute\<close>\<close>

text \<open>
  C4: A successful \<^verbatim>\<open>execute\<close> sends its statement to the server once, with its encoded
  parameters, as the last native call. In autocommit mode, and for a transaction-control
  statement, that is the only call. Otherwise the transaction status is asked first, and exactly
  when the session is idle the statement is preceded by one \<^verbatim>\<open>BEGIN\<close> without parameters.
\<close>

theorem execute_native_calls:
  assumes "Connection_execute H c sql ps t w = (Val r, w')"
  shows "\<exists>h encoded ms. c_handle (connections w c) = Some h \<and>
    encode_parameters (lib H) (codec_registry w) ps = Inr encoded \<and>
    (if c_autocommit (connections w c) \<or> is_transaction_control (uni (lib H)) sql
     then calls w' = calls w @ [Execute h sql encoded ms]
     else \<exists>s k. connection_transaction_status H h (kernel w) = (Inr s, k) \<and>
       calls w' = calls w @ [Query h] @ (if s = TRANSACTION_IDLE then [Execute h (lit ''BEGIN'') [] ms] else []) @
         [Execute h sql encoded ms])"
proof -
  from assms obtain eff w1 where u: "\<not> unusable w c"
    and b: "Connection_begin_transaction_if_needed H c sql eff w = (Val (), w1)"
    and e: "Connection_native_execute H c sql ps eff w1 = (Val r, w')"
    by (auto simp: Connection_execute_def require_open_first bind_eq_Val effective_timeout_def split: if_splits)
  have none: "encode_parameters L cs PNone = Inr []" for L cs by (simp add: encode_parameters_def)
  show ?thesis
  proof (cases "c_autocommit (connections w c) \<or> is_transaction_control (uni (lib H)) sql")
    case True
    then have "w1 = w" using b by (auto simp: Connection_begin_transaction_if_needed_def bind_eq_Val)
    then show ?thesis using native_execute_Val [OF e] True by auto
  next
    case False
    then obtain s w0 where s: "Connection_transaction_status H c w = (Val s, w0)"
      and b1: "(if s = TRANSACTION_IDLE then seq (Connection_native_execute H c (lit ''BEGIN'') PNone eff) (ret ()) else ret ()) w0 = (Val (), w1)"
      using b by (auto simp: Connection_begin_transaction_if_needed_def bind_eq_Val)
    from s obtain h k where h: "c_handle (connections w c) = Some h" "connection_transaction_status H h (kernel w) = (Inr s, k)"
      and w0: "w0 = w\<lparr>kernel := k, calls := calls w @ [Query h]\<rparr>" by (auto simp: transaction_status_eq_Val)
    show ?thesis
    proof (cases "s = TRANSACTION_IDLE")
      case True
      then obtain r0 where "Connection_native_execute H c (lit ''BEGIN'') PNone eff w0 = (Val r0, w1)"
        using b1 by (auto simp: bind_eq_Val)
      from native_execute_Val [OF this] native_execute_Val [OF e] h False True show ?thesis
        by (auto simp: w0 none)
    next
      case idle: False
      then have "w1 = w0" using b1 by auto
      with native_execute_Val [OF e] h False idle show ?thesis by (auto simp: w0)
    qed
  qed
qed

definition manual_world :: "nat world" where
  "manual_world = open_world\<lparr>connections := (connections open_world)(2 := (connections open_world 2)\<lparr>c_autocommit := False\<rparr>)\<rparr>"

lemma manual_run:
  "case Connection_execute sample_host 2 (lit ''SELECT 1'') PNone PNone manual_world of (Val r, w) \<Rightarrow> True | _ \<Rightarrow> False"
  by code_simp

lemma manual_mode: "\<not> (c_autocommit (connections manual_world 2) \<or>
    is_transaction_control (uni (lib sample_host)) (lit ''SELECT 1''))"
  by code_simp

theorem execute_native_calls_witness:
  "\<exists>r w' ms. Connection_execute sample_host 2 (lit ''SELECT 1'') PNone PNone manual_world = (Val r, w') \<and>
     calls w' = [Query 20, Execute 20 (lit ''BEGIN'') [] ms, Execute 20 (lit ''SELECT 1'') [] ms]"
proof -
  obtain r w' where run: "Connection_execute sample_host 2 (lit ''SELECT 1'') PNone PNone manual_world = (Val r, w')"
    using manual_run by (auto split: prod.splits outcome.splits)
  have "c_handle (connections manual_world 2) = Some 20" "calls manual_world = []"
    "connection_transaction_status sample_host h k = (Inr TRANSACTION_IDLE, k)" for h k
    by (simp_all add: manual_world_def open_world_def empty_world_def sample_host_def TRANSACTION_IDLE_def)
  with execute_native_calls [OF run] manual_mode run show ?thesis by (auto simp: encode_parameters_def)
qed

section \<open>Transaction scopes\<close>

lemma keeps_status_connections: "keeps (\<lambda>w. connections w = v) (Connection_transaction_status H c)"
  unfolding Connection_transaction_status_def Connection_require_open_def on_connection_def
  by (intro keeps_rules keeps_native) simp

lemma enter_scope_Val:
  assumes "Connection_enter_transaction_scope H c w = (Val u, w')"
  shows "\<exists>h k ms. c_handle (connections w c) = Some h \<and>
    w' = w\<lparr>connections := (connections w)(c := (connections w c)\<lparr>c_scope_active := True\<rparr>),
      kernel := k, calls := calls w @ [Query h, Execute h (lit ''BEGIN'') [] ms]\<rparr>"
  using assms
  by (auto simp: Connection_enter_transaction_scope_def Connection_claim_transaction_scope_def bind_assoc
      require_open_first bind_eq_Val guard_def transaction_status_eq_Val set_connection_def catch_eq_Val
      encode_parameters_def dest!: native_execute_Val split: if_splits)
     (intro exI, rule refl)

lemma enter_scope_Exc:
  assumes "Connection_enter_transaction_scope H c w = (Exc e, w')" and "\<not> c_scope_active (connections w c)"
  shows "\<not> c_scope_active (connections w' c)"
proof -
  from assms(1) consider "Connection_claim_transaction_scope H c w = (Exc e, w')"
    | "\<not> c_scope_active (connections w' c)"
    by (auto simp: Connection_enter_transaction_scope_def bind_eq_Exc catch_eq_Exc set_connection_def)
  then show ?thesis
  proof cases
    case 1
    then have "w' = w \<or> Connection_transaction_status H c w = (Exc e, w') \<or> (\<exists>s. Connection_transaction_status H c w = (Val s, w'))"
      by (auto simp: Connection_claim_transaction_scope_def require_open_first bind_eq_Exc guard_def set_connection_def
          split: if_splits)
    then have "connections w' = connections w"
      using keeps_frame_Val [OF keeps_status_connections] keeps_frame_Exc [OF keeps_status_connections] by metis
    then show ?thesis using assms(2) by simp
  qed
qed

lemma alloc_run: "alloc w = (Val (next_id w), w\<lparr>next_id := next_id w + 1\<rparr>)"
  by (simp add: alloc_def)

text \<open>Leaving an entered scope ends the transaction and releases the scope whatever happens.\<close>

lemma exit_scope:
  assumes "sc_entered (scopes w t)" and "sc_connection (scopes w t) = c"
    and run: "TransactionContext_exit H t exc w = (out, w')" and "\<forall>h. out \<noteq> Hang h"
  shows "\<not> c_scope_active (connections w' c) \<and>
    (exc \<noteq> None \<longrightarrow> out = Val ()) \<and>
    (exc = None \<longrightarrow> (\<exists>w1. Connection_complete_transaction_scope H c True w = (out, w1)))"
proof -
  define fin :: "'a world \<Rightarrow> 'a world" where "fin w1 = w1\<lparr>connections := (connections w1)(c := (connections w1 c)\<lparr>c_scope_active := False\<rparr>),
    scopes := (scopes w1)(t := (scopes w1 t)\<lparr>sc_entered := False\<rparr>)\<rparr>" for w1
  let ?m = "if exc = None then Connection_complete_transaction_scope H c True
        else catch (Connection_complete_transaction_scope H c False)
          (\<lambda>e. warn_preserved_cleanup_error ''transaction-scope rollback'' e exc)"
  have "seq (Connection_release_transaction_scope c) (set_scope t (\<lambda>x. x\<lparr>sc_entered := False\<rparr>)) = (\<lambda>w1. (Val (), fin w1))"
    by (simp add: fun_eq_iff Connection_release_transaction_scope_def set_connection_def set_scope_def bind_modify fin_def)
  then have "tryfinally ?m (\<lambda>_ w1. (Val (), fin w1)) w = (out, w')"
    using run by (simp add: TransactionContext_exit_def bind_gets assms(1,2) cong: if_cong)
  moreover obtain o1 w1 where m: "?m w = (o1, w1)" by (cases "?m w")
  ultimately have o1: "o1 = out" "w' = fin w1"
    using assms(4) by (cases o1; auto simp: tryfinally_def bind_def ret_def raise_def)+
  moreover have "exc \<noteq> None \<Longrightarrow> out = Val ()"
    using m o1(1) assms(4) by (cases out) (auto simp: catch_eq_Exc warn_preserved_cleanup_error_def emit_resource_warning_def)
  ultimately show ?thesis using m by (auto simp: fin_def)
qed

text \<open>The outcome of the body decides the outcome of the scope, unless the commit fails.\<close>

definition scope_result :: "'k host \<Rightarrow> nat \<Rightarrow> (exc, 'a) outcome \<Rightarrow> 'k world \<Rightarrow> (exc, 'a) outcome \<Rightarrow> bool" where
  "scope_result H c b w2 out =
     (case b of
        Exc e \<Rightarrow> out = Exc e
      | Val a \<Rightarrow> (\<exists>w3. Connection_complete_transaction_scope H c True w2 = (Val (), w3)) \<and> out = Val a \<or>
          (\<exists>e w3. Connection_complete_transaction_scope H c True w2 = (Exc e, w3) \<and> out = Exc e)
      | Hang h \<Rightarrow> False)"

lemma leave_scope:
  assumes body: "\<And>v. keeps (\<lambda>w'. scopes w' t = v) body"
    and sc: "sc_entered (scopes wb t)" "sc_connection (scopes wb t) = c"
    and r: "tryfinally body (TransactionContext_exit H t) wb = (out, w')" and ends: "\<forall>h. out \<noteq> Hang h"
  shows "\<not> c_scope_active (connections w' c) \<and> (\<exists>b w2. body wb = (b, w2) \<and> scope_result H c b w2 out)"
proof -
  obtain b w2 where b: "body wb = (b, w2)" by (cases "body wb")
  have sc2: "sc_entered (scopes w2 t) \<and> sc_connection (scopes w2 t) = c" if "\<forall>h. b \<noteq> Hang h"
    using b that sc keeps_frame_Val [OF body] keeps_frame_Exc [OF body] by (cases b) fastforce+
  show ?thesis
  proof (cases b)
    case (Hang h)
    then show ?thesis using r b ends by (auto simp: tryfinally_def)
  next
    case (Exc e)
    obtain o2 w3 where x: "TransactionContext_exit H t (Some e) w2 = (o2, w3)" by (cases "TransactionContext_exit H t (Some e) w2")
    have "\<forall>h. o2 \<noteq> Hang h" using r b Exc x ends by (auto simp: tryfinally_def bind_def)
    from exit_scope [OF _ _ x this] sc2 Exc have "o2 = Val ()" "\<not> c_scope_active (connections w3 c)" by auto
    then have "out = Exc e" "\<not> c_scope_active (connections w' c)" using r b Exc x by (auto simp: tryfinally_def bind_def raise_def)
    then show ?thesis using b Exc by (auto simp: scope_result_def)
  next
    case (Val a)
    obtain o2 w3 where x: "TransactionContext_exit H t None w2 = (o2, w3)" by (cases "TransactionContext_exit H t None w2")
    have o2: "\<forall>h. o2 \<noteq> Hang h" using r b Val x ends by (auto simp: tryfinally_def bind_def)
    from exit_scope [OF _ _ x this] sc2 Val obtain w4 where
      c: "Connection_complete_transaction_scope H c True w2 = (o2, w4)" "\<not> c_scope_active (connections w3 c)" by auto
    then have "out = (case o2 of Val _ \<Rightarrow> Val a | Exc e \<Rightarrow> Exc e | Hang h \<Rightarrow> Hang h)" "w' = w3"
      using r b Val x o2 by (auto simp: tryfinally_def bind_def ret_def split: outcome.splits)
    then show ?thesis using b Val c o2 by (cases o2) (auto simp: scope_result_def)
  qed
qed


definition interrupt :: exc where
  "interrupt = OtherExc 1 (lit ''KeyboardInterrupt'')"

lemma interrupted_run:
  "case in_transaction sample_host 2 (raise interrupt :: (nat, unit) call) open_world of (Exc e, w) \<Rightarrow> True | _ \<Rightarrow> False"
  by code_simp


section \<open>Blocking\<close>

lemma settles_with_gate [settles_rules]:
  assumes m: "settles (\<lambda>w. c_gate (connections w c)) m"
  shows "settles (\<lambda>w. \<not> c_gate (connections w c)) (with_gate c m)"
proof (rule settlesI)
  fix w out w' assume free: "\<not> c_gate (connections w c)" and run: "with_gate c m w = (out, w')"
  let ?w = "w\<lparr>connections := (connections w)(c := (connections w c)\<lparr>c_gate := True\<rparr>)\<rparr>"
  have r: "with_gate c m w = tryfinally m (\<lambda>_. gate_release c) ?w"
    using free by (simp add: with_gate_def gate_acquire_def bind_gets bind_assoc set_connection_def bind_modify)
  obtain o1 w1 where m1: "m ?w = (o1, w1)" by (cases "m ?w")
  from settlesD [OF m _ this] have h: "\<forall>h. o1 \<noteq> Hang h" "c_gate (connections w1 c)" by auto
  then have "gate_release c w1 = (Val (), w1\<lparr>connections := (connections w1)(c := (connections w1 c)\<lparr>c_gate := False\<rparr>)\<rparr>)"
    by (simp add: gate_release_def bind_gets set_connection_def)
  then show "(\<forall>h. out \<noteq> Hang h) \<and> \<not> c_gate (connections w' c)" using run r m1 h
    by (cases o1) (auto simp: tryfinally_def bind_def ret_def raise_def)
qed

lemma settles_native:
  "(\<And>w k cs. I w \<Longrightarrow> I (w\<lparr>kernel := k, calls := cs\<rparr>)) \<Longrightarrow> settles I (native c f)"
  by (auto simp: settles_def native_def lift_def split: prod.splits sum.splits)

lemma settles_translating [settles_rules]: "settles I m \<Longrightarrow> settles I (translating m)"
  unfolding translating_def raise_translated_def
  by (rule settles_catch) (auto split: exc.split intro: settles_rules)

lemma settles_on_connection [settles_rules]:
  "settles (\<lambda>w. c_gate (connections w c') = v) (on_connection c call f)"
  unfolding on_connection_def with_handle_def
  by (rule settles_bind) (auto split: option.split intro!: settles_rules settles_native)

lemma settles_on_connection' [settles_rules]:
  "settles (\<lambda>w. \<not> c_gate (connections w c')) (on_connection c call f)"
  "settles (\<lambda>w. c_gate (connections w c')) (on_connection c call f)"
  using settles_on_connection [of c' False] settles_on_connection [of c' True] by simp_all

lemma settles_session [settles_rules]:
  "settles I (Connection_require_open c)" "settles I (encoded_parameters H ps)" "settles I (make_result H n)"
  "settles I (effective_timeout H c t)"
  unfolding Connection_require_open_def encoded_parameters_def make_result_def effective_timeout_def
  by (intro settles_rules)+

lemma settles_execute [settles_rules]:
  "settles (\<lambda>w. \<not> c_gate (connections w c)) (Connection_transaction_status H c)"
  "settles (\<lambda>w. \<not> c_gate (connections w c)) (Connection_native_execute H c sql ps timeout)"
  unfolding Connection_transaction_status_def Connection_native_execute_def by (intro settles_rules)+

lemma settles_calls [settles_rules]:
  "settles (\<lambda>w. \<not> c_gate (connections w c)) (Connection_execute H c sql ps t)"
  "settles (\<lambda>w. \<not> c_gate (connections w c)) (Connection_execute_arrow H c sql ps t)"
  "settles (\<lambda>w. \<not> c_gate (connections w c)) (Connection_commit H c)"
  "settles (\<lambda>w. \<not> c_gate (connections w c)) (Connection_rollback H c)"
  unfolding Connection_execute_def Connection_execute_arrow_def Connection_begin_transaction_if_needed_def
    Connection_commit_def Connection_rollback_def end_transaction_def by (intro settles_rules)+

text \<open>
  C3: In a reachable world, a connection all of whose requests are closed is not blocked: executing
  a statement, committing and rolling back, whatever the server does, return or raise and leave
  the gate free again.
\<close>

theorem closed_requests_leave_connection_free:
  assumes "request_queries_native H" and "reachable H w"
    and "\<forall>r. r_connection (requests w r) = c \<longrightarrow> r_closed (requests w r)"
    and "called (Connection_execute H c sql ps t) w = (out, w') \<or>
      Connection_commit H c w = (out, w') \<or> Connection_rollback H c w = (out, w')"
  shows "(\<forall>h. out \<noteq> Hang h) \<and> \<not> c_gate (connections w' c)"
proof -
  have free: "\<not> c_gate (connections w c)"
    using reachable_inv [OF assms(1,2)] assms(3) by (auto simp: world_inv_def gate_ok_def owner_def)
  have "settles (\<lambda>w. \<not> c_gate (connections w c)) (called (Connection_execute H c sql ps t))" by (intro settles_rules)
  then show ?thesis
    using assms(4) settlesD [where I = "\<lambda>w. \<not> c_gate (connections w c)" and w = w] free settles_calls(3,4) by metis
qed

theorem closed_requests_leave_connection_free_witness:
  "\<exists>out w'. Connection_commit sample_host 2 connected_world = (out, w') \<and> (\<forall>h. out \<noteq> Hang h) \<and> \<not> c_gate (connections w' 2)"
proof -
  obtain out w' where run: "Connection_commit sample_host 2 connected_world = (out, w')" by (cases "Connection_commit sample_host 2 connected_world")
  have "\<forall>r. r_connection (requests connected_world r) = 2 \<longrightarrow> r_closed (requests connected_world r)"
    by (simp add: connected_world_def created_world_def empty_world_def)
  from closed_requests_leave_connection_free [OF sample_queries_native connected_world_reachable this] run show ?thesis by blast
qed

text \<open>
  C39: A request started directly with a timeout that cannot be normalized is refused too late: the
  native request has been started and the gate of the connection is taken, the exception leaves
  both, no request object owns the gate, and the connection is blocked from then on.
\<close>

theorem invalid_timeout_leaks_gate:
  assumes "\<not> c_gate (connections w c)" and "c_handle (connections w c) = Some x"
    and "nonnegative_int (sa_chunk_rows a) ''chunk_rows'' = Inr k"
    and "nonnegative_int (sa_result_buffer_limit a) ''result_buffer_limit'' = Inr l"
    and "notice_check (sa_on_notice a) = Inr z" and "encode_parameters (lib H) (codec_registry w) ps = Inr encoded"
    and "request_start H x sql encoded k l (sa_script a) (kernel w) = (Inr h, k')"
    and "normalize_timeout (lib H) (sa_timeout a) = Inl e"
  shows "\<exists>w'. Request_start H c sql ps a w = (Exc e, w') \<and> c_gate (connections w' c) \<and> requests w' = requests w \<and>
    calls w' = calls w @ [RequestStart x sql encoded k l (sa_script a)] \<and>
    (\<forall>m :: ('k, unit) call. with_gate c m w' = (Hang Deadlock, w'))"
  using assms
  by (simp add: Request_start_def lift_Inr encoded_parameters_def bind_assoc bind_gets gated_start_def
      gate_acquire_def set_connection_def bind_modify with_handle_def run_bind_Val run_catch_Val native_eq_Val
      Request_init_def lift_Inl with_gate_def run_hang)

definition bad_start :: start_args where
  "bad_start = \<lparr>sa_chunk_rows = PInt 0, sa_timeout = PFloat (Fin (- 1)), sa_result_buffer_limit = PInt 0,
     sa_script = False, sa_on_notice = None\<rparr>"

theorem invalid_timeout_leaks_gate_witness:
  "\<exists>e w'. Request_start sample_host 2 (lit ''SELECT'') PNone bad_start open_world = (Exc e, w') \<and>
     c_gate (connections w' 2) \<and> with_gate 2 (ret () :: (nat, unit) call) w' = (Hang Deadlock, w')"
proof -
  have "\<not> c_gate (connections open_world 2)" "c_handle (connections open_world 2) = Some 20"
    by (simp_all add: open_world_def no_connection_def)
  moreover have "nonnegative_int (sa_chunk_rows bad_start) ''chunk_rows'' = Inr 0"
    "nonnegative_int (sa_result_buffer_limit bad_start) ''result_buffer_limit'' = Inr 0"
    "notice_check (sa_on_notice bad_start) = Inr None" "encode_parameters (lib sample_host) (codec_registry open_world) PNone = Inr []"
    by (simp_all add: bad_start_def nonnegative_int_def notice_check_def encode_parameters_def)
  moreover have "request_start sample_host 20 (lit ''SELECT'') [] 0 0 (sa_script bad_start) (kernel open_world) = (Inr 40, kernel open_world)"
    by (simp add: sample_host_def)
  moreover obtain e where "normalize_timeout (lib sample_host) (sa_timeout bad_start) = Inl e"
    by (simp add: bad_start_def normalize_timeout_def py_float_def)
  ultimately show ?thesis using invalid_timeout_leaks_gate [of open_world 2] by blast
qed

end
