(* ===== verification/Request_Laws.thy ===== *)
theory Request_Laws
  imports Session_Laws
begin

text \<open>
  Requests: what a blocking step returns, what a deadline does, and how a request and its COPY
  stream are closed.
\<close>

section \<open>Running a request\<close>

lemma native_Val: "f (kernel w) = (Inr a, k) \<Longrightarrow> native c f w = (Val a, w\<lparr>kernel := k, calls := calls w @ [c]\<rparr>)"
  by (simp add: native_def lift_def)

lemma translating_Val: "m w = (Val a, w') \<Longrightarrow> translating m w = (Val a, w')"
  by (simp add: translating_def run_catch_Val)

lemma Request_close_plain:
  assumes "\<not> r_closed (requests w r)" "r_copy (requests w r) = None" "0 < recursion_limit H"
  shows "Request_close H r w = retire_request H r w"
  using assms unfolding Request_close_def by (cases "recursion_limit H") (auto simp: bind_gets)

lemma retire_run:
  assumes "r_handle (requests w r) = Some h" "request_close H h (kernel w) = (Inr (), k)"
    and "c_gate (connections w (r_connection (requests w r)))"
  shows "\<exists>w'. retire_request H r w = (Val (), w')"
  using assms
  by (simp add: retire_request_def bind_gets native_Val translating_Val run_bind_Val obj_defs bind_modify gate_release_def
      onlyif_def modify_def ret_def split: option.split)

lemma Database_ensure_open_run:
  assumes "\<not> d_closed (databases w db)" "d_handle (databases w db) = Some h"
    "d_owner_pid (databases w db) = Some (getpid H (kernel w))"
  shows "Database_ensure_open H db w = (Val h, w)"
  using assms by (simp add: Database_ensure_open_def bind_gets host_get_def run_ret)

lemma quiet_dispatch:
  assumes "db = c_database (connections w (r_connection (requests w r)))"
    and "\<not> d_closed (databases w db)" "d_handle (databases w db) = Some h"
      "d_owner_pid (databases w db) = Some (getpid H (kernel w))"
    and "instance_next_event H h 0 (kernel w) = (Inr None, k)"
  shows "dispatch_for H (Suc n) r w = (Val (), w\<lparr>kernel := k, calls := calls w @ [InstanceNextEvent h 0]\<rparr>)"
  using assms(1) Database_ensure_open_run [OF assms(2-4)] assms(5)
  by (simp add: dispatch_for_def request_database_def bind_gets Database_dispatch_events_def dispatch_loop.simps
      run_bind_Val native_Val translating_Val run_ret)

lemma on_request_run:
  "r_handle (requests w r) = Some h \<Longrightarrow> on_request r call f w = native (call h) (f h) w"
  by (simp add: on_request_def bind_gets with_handle_def)

lemma Request_remaining_None: "r_deadline (requests w r) = None \<Longrightarrow> Request_remaining H r w = (Val None, w)"
  by (simp add: Request_remaining_def bind_gets run_ret)

text \<open>One turn of the polling loop in which the server answers and no event waits.\<close>

lemma take_turn:
  assumes "\<not> r_closed (requests w r)" "r_handle (requests w r) = Some h" "r_deadline (requests w r) = None"
    and "timeout_milliseconds (lib H) (PFloat (if block then POLL_SECONDS else Fin 0)) = Inr ms" 
    and "request_next H h ms (kernel w) = (Inr (av, nr), k)" and "av \<noteq> AVAILABILITY_AGAIN \<or> \<not> block"
    and "db = c_database (connections w (r_connection (requests w r)))"
      "\<not> d_closed (databases w db)" "d_handle (databases w db) = Some g"
      "d_owner_pid (databases w db) = Some (getpid H k)"
    and "instance_next_event H g 0 k = (Inr None, k')"
  shows "Request_take H (Suc (Suc n)) r block w =
    (Val (av, nr), w\<lparr>kernel := k', calls := calls w @ [RequestNext h ms, InstanceNextEvent g 0]\<rparr>)"
proof -
  let ?w = "w\<lparr>kernel := k, calls := calls w @ [RequestNext h ms]\<rparr>"
  have "closing_on_error H r a (bind (lift (timeout_milliseconds (lib H) (PFloat (if block then POLL_SECONDS else Fin 0)))) (\<lambda>ms.
      on_request r (\<lambda>x. RequestNext x ms) (\<lambda>x. request_next H x ms))) w = (Val (av, nr), ?w)" for a
    using assms(2,4,5) by (simp add: closing_on_error_def lift_Inr on_request_run native_Val run_catch_Val)
  moreover have "closing_on_error H r a (dispatch_for H (Suc n) r) ?w = (Val (), ?w\<lparr>kernel := k', calls := calls ?w @ [InstanceNextEvent g 0]\<rparr>)" for a
    using assms(7-11) quiet_dispatch [of db ?w r g H k' n] by (simp add: closing_on_error_def run_catch_Val)
  ultimately show ?thesis using assms(1-3,6)
    by (simp add: Request_take_def Request_require_open_def run_bind_Val run_guard take_loop.simps(2)
        Request_remaining_None onlyif_def Let_def run_ret)
qed

section \<open>Blocking steps\<close>

lemma onlyif_eq_Val: "onlyif b m w = (Val u, w') \<longleftrightarrow> (if b then m w = (Val (), w') else w' = w)"
  by (auto simp: onlyif_def)

lemma take_loop_not_again:
  "take_loop H fuel r True w = (Val (availability, nr), w') \<Longrightarrow> availability \<noteq> AVAILABILITY_AGAIN"
proof (induction fuel arbitrary: w)
  case 0
  then show ?case by (simp add: take_loop.simps hang_def)
next
  case (Suc n)
  then show ?case
    by (subst (asm) take_loop.simps) (auto simp: bind_eq_Val Let_def split: prod.splits if_splits)
qed

lemma timed_out_raises:
  assumes "Request_timed_out H r w = (out, w')" and "\<forall>h. out \<noteq> Hang h"
  shows "out = Exc request_timeout"
  using assms
  by (cases out)
     (auto simp: Request_timed_out_def bind_eq_Val bind_eq_Exc catch_eq_Exc cleanup_preserving_def
       warn_preserved_cleanup_error_def emit_resource_warning_def)

section \<open>Closing\<close>

lemma retire_request_Val:
  assumes "retire_request H r w = (Val u, w')"
  shows "r_closed (requests w' r) \<and> r_handle (requests w' r) = None"
  using assms
  by (auto simp: retire_request_def bind_eq_Val obj_defs onlyif_eq_Val gate_release_def split: option.splits if_splits)

lemma Request_close_at_Val: "Request_close_at H d r w = (Val u, w') \<Longrightarrow> r_closed (requests w' r)"
  by (cases d) (auto simp: bind_eq_Val dest: retire_request_Val split: if_splits)

lemma Request_close_Val: "Request_close H r w = (Val u, w') \<Longrightarrow> r_closed (requests w' r) \<and> 0 < recursion_limit H"
  unfolding Request_close_def
  by (cases "recursion_limit H = 0") (auto dest: Request_close_at_Val simp del: Request_close_at.simps(2))

lemma Request_close_closed:
  "r_closed (requests w r) \<Longrightarrow> 0 < recursion_limit H \<Longrightarrow> Request_close H r w = (Val (), w)"
  unfolding Request_close_def by (cases "recursion_limit H") (auto simp: bind_gets)

text \<open>
  \<^verbatim>\<open>next_result\<close> waits: the blocking step never reports that a result is not available yet. An
  item is returned when the server has one ready; \<^verbatim>\<open>None\<close> is returned when it reports the end, and
  then the request is closed.
\<close>

theorem next_result_waits:
  assumes "Request_next_result H fuel r w = (Val item, w')"
  shows "\<exists>w1 av nr. Request_take H fuel r True w = (Val (av, nr), w1) \<and> av \<noteq> AVAILABILITY_AGAIN \<and>
    (item = None \<longleftrightarrow> av = AVAILABILITY_END) \<and> (item = None \<longrightarrow> r_closed (requests w' r))"
proof -
  from assms obtain av nr w1 where t: "Request_take H fuel r True w = (Val (av, nr), w1)"
    and rest: "(item = None \<longleftrightarrow> av = AVAILABILITY_END) \<and> (item = None \<longrightarrow> r_closed (requests w' r))"
    by (auto simp: Request_next_result_def bind_eq_Val dest!: Request_close_Val split: if_splits bool.splits option.splits)
  moreover have "av \<noteq> AVAILABILITY_AGAIN"
    using t take_loop_not_again by (fastforce simp: Request_take_def bind_eq_Val)
  ultimately show ?thesis by blast
qed

definition quick_host :: "nat host" where
  "quick_host = sample_host\<lparr>request_next := (\<lambda>_ _ k. (Inr (2, None), k + 1))\<rparr>"

lemma quick_host_simps [simp]:
  "lib quick_host = small_lib" "instance_next_event quick_host h ms k = (Inr None, k)"
  "request_next quick_host h ms k = (Inr (2, None), k + 1)"
  "request_close quick_host h k = (Inr (), k)" "getpid quick_host k = 100" "recursion_limit quick_host = 6"
  by (simp_all add: quick_host_def)

text \<open>A connection with one open request, 3, whose COPY stream is 4.\<close>

definition request_world :: "nat world" where
  "request_world = open_world\<lparr>next_id := 5,
     connections := (connections open_world)(2 := (connections open_world 2)\<lparr>c_gate := True, c_requests := [3]\<rparr>),
     requests := (requests open_world)(3 := \<lparr>r_connection = 2, r_handle = Some 40, r_closed = False, r_deadline = None,
        r_on_notice = None, r_copy = None, r_owns_gate = True, r_id = 5, r_waitable = 6\<rparr>),
     copies := (copies open_world)(4 := \<lparr>cp_kind = CopyIn, cp_request = 3, cp_handle = Some 30, cp_closed = False,
        cp_io_ended = False, cp_command_result = None\<rparr>)\<rparr>"

lemma request_world_simps [simp]:
  "kernel request_world = 0" "calls request_world = []"
  "requests request_world 3 = \<lparr>r_connection = 2, r_handle = Some 40, r_closed = False, r_deadline = None,
        r_on_notice = None, r_copy = None, r_owns_gate = True, r_id = 5, r_waitable = 6\<rparr>"
  "c_database (connections request_world 2) = 1" "c_gate (connections request_world 2)"
  "d_closed (databases request_world (Suc 0)) = False" "d_handle (databases request_world (Suc 0)) = Some 10"
  "d_owner_pid (databases request_world (Suc 0)) = Some 100"
  by (simp_all add: request_world_def open_world_def empty_world_def no_connection_def)

lemma poll_seconds: "POLL_SECONDS = Fin (3602879701896397 / 72057594037927936)"
  by code_simp

lemma poll_scaled: "float_of_rat (450359962737049625 / 9007199254740992) = Fin 50"
  by code_simp

lemma poll_milliseconds: "timeout_milliseconds L (PFloat POLL_SECONDS) = Inr 50"
  by (simp add: timeout_milliseconds_def normalize_timeout_def py_float_def poll_seconds poll_scaled)

lemma quick_run: "\<exists>w'. Request_next_result quick_host (Suc (Suc 0)) 3 request_world = (Val None, w')"
proof -
  let ?w = "request_world\<lparr>kernel := 1, calls := [RequestNext 40 50, InstanceNextEvent 10 0]\<rparr>"
  have "Request_take quick_host (Suc (Suc 0)) 3 True request_world = (Val (2, None), ?w)"
    using take_turn [where w = request_world and r = 3 and h = 40 and block = True and H = quick_host and ms = 50 and av = 2 and nr = None and k = 1 and db = 1 and g = 10 and k' = 1 and n = 0] by (simp add: poll_milliseconds AVAILABILITY_AGAIN_def)
  moreover obtain w' where "retire_request quick_host 3 ?w = (Val (), w')"
    using retire_run [of ?w 3 40 quick_host 1] by auto
  moreover have "Request_close quick_host 3 ?w = retire_request quick_host 3 ?w"
    by (rule Request_close_plain) simp_all
  ultimately show ?thesis by (simp add: Request_next_result_def run_bind_Val AVAILABILITY_END_def run_ret)
qed

theorem next_result_waits_witness:
  "\<exists>w'. Request_next_result quick_host (Suc (Suc 0)) 3 request_world = (Val None, w') \<and> r_closed (requests w' 3)"
proof -
  obtain w' where "Request_next_result quick_host (Suc (Suc 0)) 3 request_world = (Val None, w')"
    using quick_run by blast
  with next_result_waits [OF this] show ?thesis by blast
qed

section \<open>What native calls are made\<close>

text \<open>The calls and the warnings only grow; \<open>p\<close> and \<open>q\<close> are what was there before.\<close>

definition trace_from :: "ncall list \<Rightarrow> pystr list \<Rightarrow> 'k world \<Rightarrow> bool" where
  "trace_from p q w \<longleftrightarrow> (\<exists>cs. calls w = p @ cs) \<and> (\<exists>ms. warned w = q @ ms)"

lemma keeps_retire_trace: "keeps (trace_from p q) (retire_request H r)"
  unfolding retire_request_def gate_release_def obj_defs
  by (intro keeps_rules keeps_native keeps_modify; auto simp: trace_from_def)

interpretation trace: driver H "trace_from p q" for H :: "'k host" and p q
  by unfold_locales (auto simp: trace_from_def keeps_retire_trace)

lemma trace_start: "trace_from (calls w) (warned w) w"
  by (simp add: trace_from_def)

lemma trace_Val: "(\<And>p q. keeps (trace_from p q) m) \<Longrightarrow> m w = (Val a, w') \<Longrightarrow> trace_from (calls w) (warned w) w'"
  using keeps_Val [of "trace_from (calls w) (warned w)" m w a w'] trace_start by blast

lemma trace_Exc: "(\<And>p q. keeps (trace_from p q) m) \<Longrightarrow> m w = (Exc e, w') \<Longrightarrow> trace_from (calls w) (warned w) w'"
  using keeps_Exc [of "trace_from (calls w) (warned w)" m w e w'] trace_start by blast

section \<open>Deadlines\<close>

lemma cancel_first:
  assumes "\<not> r_closed (requests w r)" "r_handle (requests w r) = Some h"
    and "catch (seq (Request_cancel H r) (ret ())) (\<lambda>e. warn_preserved_cleanup_error a e p) w = (out, w')"
  shows "out = Val () \<and> calls w' = calls w @ [RequestCancel h] \<and> requests w' = requests w \<and> (\<exists>ms. warned w' = warned w @ ms)"
proof -
  obtain x k where f: "request_cancel H h (kernel w) = (x, k)" by (cases "request_cancel H h (kernel w)")
  have "Request_cancel H r w = translating (native (RequestCancel h) (request_cancel H h)) w"
    using assms(1,2) by (simp add: Request_cancel_def bind_gets translating_def on_request_run catch_def)
  then show ?thesis using assms(3) f
    by (cases x) (auto simp: native_def lift_def translating_def catch_def bind_def ret_def raise_translated_def raise_def
        warn_preserved_cleanup_error_def emit_resource_warning_def split: exc.splits)
qed

lemma cancel_close:
  assumes "\<not> r_closed (requests w r)" and "r_handle (requests w r) = Some h"
    and "seq (catch (seq (Request_cancel H r) (ret ())) (\<lambda>e. warn_preserved_cleanup_error a e (Some p)))
      (seq (cleanup_preserving b (Request_close H r) (Some p)) (raise p)) w = (out, w')" and "\<forall>x. out \<noteq> Hang x"
  shows "out = Exc p \<and> (\<exists>cs. calls w' = calls w @ RequestCancel h # cs) \<and>
    (r_closed (requests w' r) \<or> length (warned w) < length (warned w'))"
proof -
  obtain o2 w2 where c: "catch (seq (Request_cancel H r) (ret ())) (\<lambda>e. warn_preserved_cleanup_error a e (Some p)) w = (o2, w2)"
    by (metis surj_pair)
  from cancel_first [OF assms(1,2) c] have w2: "o2 = Val ()" "calls w2 = calls w @ [RequestCancel h]"
    "requests w2 = requests w" "\<exists>ms. warned w2 = warned w @ ms" by auto
  let ?close = "cleanup_preserving b (Request_close H r) (Some p)"
  have close: "?close w2 = (Val (), w')" and out: "out = Exc p"
    using assms(3,4) c w2(1)
    by (cases "?close w2"; cases "fst (?close w2)"; force simp: bind_def raise_def
        cleanup_preserving_def catch_def warn_preserved_cleanup_error_def emit_resource_warning_def modify_def
        split: prod.splits outcome.splits)+
  have "trace_from (calls w2) (warned w2) w'"
    using trace_Val [of ?close w2] close by (auto intro: keeps_rules)
  moreover have trace_close: "trace_from (calls w2) (warned w2) w3" if "Request_close H r w2 = (Exc e, w3)" for e w3
    using trace_Exc [of "Request_close H r" w2] that trace.keeps_close by blast
  have "r_closed (requests w' r) \<or> length (warned w2) < length (warned w')"
    using close trace_close
    by (cases "Request_close H r w2"; cases "fst (Request_close H r w2)")
       (auto simp: cleanup_preserving_def catch_def warn_preserved_cleanup_error_def emit_resource_warning_def trace_from_def
         dest!: Request_close_Val)
  ultimately show ?thesis using out w2(2,4) by (auto simp: trace_from_def)
qed

text \<open>
  C5: When the deadline of an open request has passed, a blocking step does not ask the server for a
  result. The first thing it does is to cancel the request; it raises \<^verbatim>\<open>QueryTimeoutError\<close>, no
  other exception, and either the request is closed or a warning says why it is not.
\<close>

theorem expired_deadline_cancels:
  assumes "\<not> r_closed (requests w r)" and "r_handle (requests w r) = Some h"
    and "Request_remaining H r w = (Val (Some f), w1)" and "float_le_zero f"
    and "Request_take H (Suc n) r True w = (out, w')" and "\<forall>x. out \<noteq> Hang x"
  shows "out = Exc request_timeout \<and> (\<exists>cs. calls w' = calls w @ RequestCancel h # cs) \<and>
    (r_closed (requests w' r) \<or> length (warned w) < length (warned w'))"
proof -
  have w1: "calls w1 = calls w" "requests w1 = requests w" "warned w1 = warned w"
    using assms(3) by (auto simp: Request_remaining_def bind_eq_Val now_def split: option.splits prod.splits)
  obtain o1 w3 where t: "Request_timed_out H r w1 = (o1, w3)" by (cases "Request_timed_out H r w1")
  have step: "Request_take H (Suc n) r True w = (case o1 of Hang x \<Rightarrow> (Hang x, w3) | Exc e \<Rightarrow> (Exc e, w3)
      | Val _ \<Rightarrow> Request_take H (Suc n) r True w)"
    using assms(1-4) t
    by (cases o1) (auto simp: Request_take_def Request_require_open_def take_loop.simps bind_def guard_def onlyif_def)
  then have "\<forall>x. o1 \<noteq> Hang x" using assms(5,6) by (cases o1) auto
  then have o1: "o1 = Exc request_timeout" using timed_out_raises [OF t] by blast
  then have out: "out = Exc request_timeout" "w3 = w'" using step assms(5) by auto
  have "Request_timed_out H r w1 = (Exc request_timeout, w')" using t o1 out by simp
  then show ?thesis
    using cancel_close [of w1 r h H _ request_timeout _ "Exc request_timeout" w'] assms(1,2) w1 out(1)
    unfolding Request_timed_out_def by simp
qed

definition late_world :: "nat world" where
  "late_world = request_world\<lparr>requests := (requests request_world)(3 := (requests request_world 3)\<lparr>r_deadline := Some (Fin 0)\<rparr>)\<rparr>"

lemma late_world_simps [simp]:
  "requests late_world 3 = (requests request_world 3)\<lparr>r_deadline := Some (Fin 0)\<rparr>"
  "calls late_world = []" "kernel late_world = 0" "c_gate (connections late_world 2)"
  by (simp_all add: late_world_def)

lemma late_remaining: "Request_remaining sample_host 3 late_world = (Val (Some (Fin 0)), late_world)"
  by (simp add: Request_remaining_def bind_gets now_def run_bind_Val run_ret float_of_rat_def split: prod.splits)

lemma late_timed_out: "\<exists>w'. Request_timed_out sample_host 3 late_world = (Exc request_timeout, w')"
proof -
  let ?w = "late_world\<lparr>calls := [RequestCancel 40]\<rparr>"
  have "Request_cancel sample_host 3 late_world = (Val True, ?w)"
    by (simp add: Request_cancel_def bind_gets on_request_run native_Val translating_Val)
  moreover obtain w' where "retire_request sample_host 3 ?w = (Val (), w')"
    using retire_run [of ?w 3 40 sample_host 0] by auto
  moreover have "Request_close sample_host 3 ?w = retire_request sample_host 3 ?w"
    by (rule Request_close_plain) simp_all
  ultimately show ?thesis
    by (simp add: Request_timed_out_def cleanup_preserving_def run_bind_Val run_ret run_catch_Val run_raise)
qed

theorem expired_deadline_cancels_witness:
  "\<exists>w'. Request_take sample_host (Suc 0) 3 True late_world = (Exc request_timeout, w') \<and> (\<exists>cs. calls w' = RequestCancel 40 # cs)"
proof -
  obtain w' where "Request_timed_out sample_host 3 late_world = (Exc request_timeout, w')" using late_timed_out by blast
  then have run: "Request_take sample_host (Suc 0) 3 True late_world = (Exc request_timeout, w')"
    by (simp add: Request_take_def Request_require_open_def run_bind_Val run_guard take_loop.simps(2) late_remaining
        onlyif_def run_bind_Exc)
  have "\<not> r_closed (requests late_world 3)" "r_handle (requests late_world 3) = Some 40" "float_le_zero (Fin 0)" by simp_all
  with expired_deadline_cancels [OF _ _ late_remaining _ run] run show ?thesis by auto
qed

section \<open>Closing a request and its COPY stream\<close>


lemma close_streaming: "\<exists>w'. Request_close sample_host 3 streaming_world = (Val (), w')"
proof -
  let ?q = "requests streaming_world 3"
  have "\<not> r_closed ?q" "r_copy ?q = None" "r_handle ?q = Some 40" "c_gate (connections streaming_world (r_connection ?q))"
    by (simp_all add: streaming_world_def)
  then show ?thesis using Request_close_plain [of streaming_world 3 sample_host] retire_run [of streaming_world 3 40 sample_host]
    by simp
qed


text \<open>A native close of a COPY stream that always fails.\<close>

definition copy_stuck :: "'k world \<Rightarrow> nat \<Rightarrow> nat \<Rightarrow> handle \<Rightarrow> bool" where
  "copy_stuck w r cp h \<longleftrightarrow> \<not> r_closed (requests w r) \<and> r_copy (requests w r) = Some cp \<and> r_deadline (requests w r) = None \<and>
     \<not> cp_closed (copies w cp) \<and> cp_handle (copies w cp) = Some h \<and> cp_request (copies w cp) = r"

lemma Copy_release_stuck:
  assumes "copy_stuck w r cp h" and "copy_close H h (- 1) (kernel w) = (Inl (NativeError d), k)"
  shows "Copy_release H cp w = (Exc (translated d), w\<lparr>kernel := k, calls := calls w @ [CopyClose h (- 1)]\<rparr>)"
  using assms
  by (simp add: Copy_release_def Copy_require_open_def copy_stuck_def bind_def guard_def gets_def Request_remaining_def ret_def
      float_arg_def timeout_milliseconds_def lift_Inr with_handle_def translating_def catch_def native_def lift_Inl raise_def
      raise_translated_def)

lemma close_stuck:
  assumes fails: "\<And>k. \<exists>k'. copy_close H h (- 1) k = (Inl (NativeError d), k')" and "copy_stuck w r cp h"
  shows "\<exists>w'. Request_close_at H (2 * n) r w = (Exc (if n = 0 then recursion_error else translated d), w') \<and>
    calls w' = calls w @ replicate n (CopyClose h (- 1)) \<and> length (warned w') = length (warned w) + n"
  using assms(2)
proof (induction n arbitrary: w)
  case 0
  show ?case by simp
next
  case (Suc n)
  obtain k where k: "copy_close H h (- 1) (kernel w) = (Inl (NativeError d), k)" using fails by blast
  define w1 where "w1 = w\<lparr>kernel := k, calls := calls w @ [CopyClose h (- 1)]\<rparr>"
  have rel: "Copy_release H cp w = (Exc (translated d), w1)" using Copy_release_stuck [OF Suc.prems k] by (simp add: w1_def)
  have "copy_stuck w1 r cp h" using Suc.prems by (simp add: copy_stuck_def w1_def)
  from Suc.IH [OF this] obtain e w2 where w2: "Request_close_at H (2 * n) r w1 = (Exc e, w2)"
    "calls w2 = calls w1 @ replicate n (CopyClose h (- 1))" "length (warned w2) = length (warned w1) + n" by blast
  have "\<exists>w'. Copy_close_at H (Suc (2 * n)) cp w = (Exc (translated d), w') \<and> calls w' = calls w2 \<and>
      length (warned w') = Suc (length (warned w2))"
  proof -
    have "Copy_close_at H (Suc (2 * n)) cp w =
        tryfinally (Copy_release H cp) (cleanup_preserving ''COPY request close'' (Request_close_at H (2 * n) r)) w"
      using Suc.prems by (auto simp: copy_stuck_def bind_gets)
    then show ?thesis using rel w2(1)
      by (simp add: tryfinally_def bind_def cleanup_preserving_def catch_def warn_preserved_cleanup_error_def
          emit_resource_warning_def modify_def raise_def)
  qed
  then obtain w3 where w3: "Copy_close_at H (Suc (2 * n)) cp w = (Exc (translated d), w3)" "calls w3 = calls w2"
    "length (warned w3) = Suc (length (warned w2))" by blast
  have "Request_close_at H (Suc (Suc (2 * n))) r w = (Exc (translated d), w3)"
    using Suc.prems w3(1) by (simp add: copy_stuck_def bind_gets run_bind_Exc del: Copy_close_at.simps)
  then show ?case using w2 w3 by (auto simp: w1_def)
qed

text \<open>
  C40: If the native close of a COPY stream keeps failing, closing its request does not stop at the
  first failure: \<^verbatim>\<open>Request.close\<close> and \<^verbatim>\<open>_CopyBase.close\<close> call each other until the interpreter's limit on
  nested calls is reached, make a native attempt at every second level, emit a warning for each,
  and only then raise the error of the first attempt.
\<close>

theorem failing_copy_close_repeats:
  assumes "\<And>k. \<exists>k'. copy_close H h (- 1) k = (Inl (NativeError d), k')" and "copy_stuck w r cp h"
    and "recursion_limit H = 2 * n" and "0 < n"
  shows "\<exists>w'. Request_close H r w = (Exc (translated d), w') \<and>
    calls w' = calls w @ replicate n (CopyClose h (- 1)) \<and> length (warned w') = length (warned w) + n"
  using close_stuck [OF assms(1,2), of n] assms(3,4) by (auto simp: Request_close_def)

definition stuck_host :: "nat host" where
  "stuck_host = sample_host\<lparr>copy_close := (\<lambda>_ _ k. (Inl (NativeError (plain [])), k))\<rparr>"

definition stuck_world :: "nat world" where
  "stuck_world = request_world\<lparr>requests := (requests request_world)(3 := (requests request_world 3)\<lparr>r_copy := Some 4\<rparr>)\<rparr>"

theorem failing_copy_close_repeats_witness:
  "\<exists>w'. Request_close stuck_host 3 stuck_world = (Exc (translated (plain [])), w') \<and>
     calls w' = replicate 3 (CopyClose 30 (- 1))"
proof -
  have "copy_stuck stuck_world 3 4 30" by (simp add: copy_stuck_def stuck_world_def request_world_def)
  moreover have "recursion_limit stuck_host = 2 * 3" by (simp add: stuck_host_def sample_host_def)
  moreover have "\<exists>k'. copy_close stuck_host 30 (- 1) k = (Inl (NativeError (plain [])), k')" for k by (simp add: stuck_host_def)
  moreover have "calls stuck_world = []" by (simp add: stuck_world_def request_world_def open_world_def empty_world_def)
  ultimately show ?thesis using failing_copy_close_repeats [of stuck_host 30 "plain []" stuck_world 3 4 3] by auto
qed

end
