(* ===== verification/Async_Laws.thy ===== *)
theory Async_Laws
  imports Async_Streams Request_Laws
begin

text \<open>
  Properties of the asynchronous facades that hold whatever the other tasks do, as long as they
  do not release or take locks in the name of this task: which locks a coroutine holds when it
  ends, normally, with an exception or by cancellation at any of its suspensions; what a
  cancellation does to a request; and how errors differ from the synchronous interface.
\<close>

section \<open>Locks\<close>

text \<open>The locks a task holds, and a scheduler whose other tasks respect them.\<close>

definition locks :: "nat \<Rightarrow> 'k aworld \<Rightarrow> nat set" where
  "locks me w = {l. ac_owner (aconnections w l) = Some me}"

definition cooperative :: "'k sched \<Rightarrow> nat \<Rightarrow> bool" where
  "cooperative A me \<longleftrightarrow> (\<forall>s w. locks me (snd (A s w)) = locks me w)"

lemma locks_base [simp]: "locks me (w\<lparr>base := b\<rparr>) = locks me w"
  by (simp add: locks_def)

lemma keeps_sync: "(\<And>w b. I w \<Longrightarrow> I (w\<lparr>base := b\<rparr>)) \<Longrightarrow> keeps I (sync m)"
  by (rule keepsI) (auto simp: sync_def split: prod.splits)

lemma keeps_suspend:
  assumes "\<And>w. I w \<Longrightarrow> I (snd (A s w))"
  shows "keeps I (suspend A s)"
proof (rule keepsI)
  fix w e w' assume "I w" "suspend A s w = (Exc e, w')"
  moreover from this have "w' = snd (A s w)" by (auto simp: suspend_def split: prod.splits wake.splits)
  ultimately show "I w'" using assms by simp
next
  fix w a w' assume "I w" "suspend A s w = (Val a, w')"
  moreover from this have "w' = snd (A s w)" by (auto simp: suspend_def split: prod.splits wake.splits)
  ultimately show "I w'" using assms by simp
qed

lemma keeps_to_thread:
  assumes "\<And>w. I w \<Longrightarrow> I (snd (A OnThread w))" and "\<And>w b. I w \<Longrightarrow> I (w\<lparr>base := b\<rparr>)"
  shows "keeps I (to_thread A m)"
proof -
  have t: "to_thread A m = seq (suspend A OnThread) (bind (catch (bind (sync m) (\<lambda>x. ret (Val x))) (\<lambda>e. ret (Exc e)))
      (\<lambda>out. seq (suspend A OnThread) (\<lambda>w. (out, w))))"
    by (auto simp: to_thread_def bind_def catch_def ret_def fun_eq_iff split: prod.splits outcome.splits)
  have "keeps I (\<lambda>w. (out, w))" for out :: "(exc, 'b) outcome" by (cases out) (simp_all add: keeps_def)
  then show ?thesis unfolding t
    by (intro keeps_bind keeps_catch keeps_ret keeps_suspend assms keeps_sync)
qed

text \<open>Predicates that do not speak of the synchronous objects, and that the other tasks keep.\<close>

definition based :: "('k aworld \<Rightarrow> bool) \<Rightarrow> bool" where
  "based I \<longleftrightarrow> (\<forall>w b. I w \<longrightarrow> I (w\<lparr>base := b\<rparr>))"

definition quiet :: "'k sched \<Rightarrow> ('k aworld \<Rightarrow> bool) \<Rightarrow> bool" where
  "quiet A I \<longleftrightarrow> based I \<and> (\<forall>s w. I w \<longrightarrow> I (snd (A s w)))"

named_theorems quiet_rules \<open>coroutines that change nothing but the synchronous objects\<close>

lemma quiet_based: "quiet A I \<Longrightarrow> based I"
  by (simp add: quiet_def)

lemma keeps_based_sync [quiet_rules]: "based I \<Longrightarrow> keeps I (sync m)"
  by (rule keeps_sync) (simp add: based_def)

lemma keeps_quiet_suspend [quiet_rules]: "quiet A I \<Longrightarrow> keeps I (suspend A s)"
  by (rule keeps_suspend) (simp add: quiet_def)

lemma keeps_quiet_thread [quiet_rules]: "quiet A I \<Longrightarrow> keeps I (to_thread A m)"
  by (rule keeps_to_thread) (simp_all add: quiet_def based_def)

definition holds :: "nat \<Rightarrow> nat set \<Rightarrow> 'k aworld \<Rightarrow> bool" where
  "holds me L w \<longleftrightarrow> locks me w = L"

lemma locks_set [simp]:
  "locks me (w\<lparr>anext := n\<rparr>) = locks me w" "locks me (w\<lparr>astreams := s\<rparr>) = locks me w" "locks me (w\<lparr>acopies := c\<rparr>) = locks me w"
  "locks me (w\<lparr>ascopes := x\<rparr>) = locks me w" "locks me (w\<lparr>adatabases := d\<rparr>) = locks me w" "locks me (w\<lparr>interrupts := i\<rparr>) = locks me w"
  by (simp_all add: locks_def)

lemma keeps_holds_objects [keeps_rules]:
  "keeps (holds me L) (set_astream s f)" "keeps (holds me L) (set_acopy s g)" "keeps (holds me L) (set_ascope s h)"
  "keeps (holds me L) (set_adatabase s k)" "keeps (holds me L) (modify (\<lambda>w. w\<lparr>interrupts := z w\<rparr>))" "keeps (holds me L) aalloc"
  by (simp_all add: set_astream_def set_acopy_def set_ascope_def set_adatabase_def aalloc_def keeps_def py_simps holds_def)

lemma based_holds [quiet_rules]: "based (holds me L)"
  by (simp add: based_def holds_def)

lemma quiet_holds [quiet_rules]: "cooperative A me \<Longrightarrow> quiet A (holds me L)"
  by (simp add: quiet_def based_holds cooperative_def holds_def)

lemma keeps_holds_lock:
  assumes "ac_owner \<circ> f = ac_owner"
  shows "keeps (holds me L) (set_aconnection l f)"
  using assms by (auto simp: set_aconnection_def keeps_def py_simps holds_def locks_def fun_eq_iff)

lemma hoare_lock_acquire:
  assumes "cooperative A me"
  shows "hoare (holds me L) (lock_acquire A me l) (\<lambda>_. holds me (insert l L)) (\<lambda>_. holds me L)"
proof -
  have wait: "keeps (holds me L) (seq (set_aconnection l (\<lambda>y. y\<lparr>ac_waiters := ac_waiters y @ [me]\<rparr>))
      (tryfinally (suspend A (OnLock l)) (\<lambda>_. set_aconnection l (\<lambda>y. y\<lparr>ac_waiters := remove1 me (ac_waiters y)\<rparr>))))"
    using assms by (intro keeps_rules keeps_holds_lock quiet_rules) (auto simp: fun_eq_iff)
  have take: "hoare (holds me L) (set_aconnection l (\<lambda>y. y\<lparr>ac_owner := Some me\<rparr>)) (\<lambda>_. holds me (insert l L)) E" for E
    by (rule hoareI) (auto simp: set_aconnection_def modify_def holds_def locks_def)
  show ?thesis unfolding lock_acquire_def
    by (rule hoare_bind [where R = "\<lambda>_. holds me L"], rule hoare_bind [where R = "\<lambda>_. holds me L", OF take])
       (auto intro: keeps_hoare keeps_rules wait)
qed

lemma lock_release_run:
  "ac_owner (aconnections w l) = Some t \<Longrightarrow>
   lock_release l w = (Val (), w\<lparr>aconnections := (aconnections w)(l := (aconnections w l)\<lparr>ac_owner := None\<rparr>)\<rparr>)"
  by (simp add: lock_release_def set_aconnection_def bind_def guard_def modify_def)

lemma hoare_lock_release:
  assumes "l \<notin> L"
  shows "hoare (holds me (insert l L)) (lock_release l) (\<lambda>_. holds me L) (\<lambda>_. holds me L)"
proof -
  have "\<exists>w'. lock_release l w = (Val (), w') \<and> holds me L w'" if "holds me (insert l L) w" for w
  proof -
    have "ac_owner (aconnections w l) = Some me" using that by (auto simp: holds_def locks_def)
    then show ?thesis using that assms by (auto simp: lock_release_run holds_def locks_def split: if_splits)
  qed
  then show ?thesis by (intro hoareI) fastforce+
qed

lemma hoare_finally:
  assumes "hoare P m (\<lambda>_. R) (\<lambda>_. R)" and "\<And>e. hoare R (f e) (\<lambda>_. Q) (\<lambda>_. Q)"
  shows "hoare P (tryfinally m f) (\<lambda>_. Q) (\<lambda>_. Q)"
  by (rule hoareI) (auto simp: tryfinally_eq_Val tryfinally_eq_Exc dest: assms(1) [THEN hoare_Val] assms(1) [THEN hoare_Exc]
      assms(2) [THEN hoare_Val] assms(2) [THEN hoare_Exc])

lemma keeps_with_lock [keeps_rules]:
  assumes "cooperative A me" and "l \<notin> L" and "keeps (holds me (insert l L)) m"
  shows "keeps (holds me L) (with_lock A me l m)"
  unfolding keeps_hoare_iff with_lock_def
  by (rule hoare_bind [OF hoare_finally hoare_lock_acquire]) (use assms in \<open>auto intro: keeps_hoare hoare_lock_release\<close>)

lemma hoare_holding_lock:
  assumes "cooperative A me" and "l \<notin> L" and "keeps (holds me (insert l L)) m"
  shows "hoare (holds me L) (holding_lock A me l m) (\<lambda>_. holds me (insert l L)) (\<lambda>_. holds me L)"
  unfolding holding_lock_def
proof (rule hoare_bind [OF hoare_catch hoare_lock_acquire])
  show "hoare (holds me (insert l L)) (seq (lock_release l) (raise e)) (\<lambda>_. holds me (insert l L)) (\<lambda>_. holds me L)" for e
    by (rule hoareI) (auto simp: bind_eq_Val bind_eq_Exc raise_def
        dest: hoare_lock_release [OF assms(2), THEN hoare_Val] hoare_lock_release [OF assms(2), THEN hoare_Exc])
  show "hoare (holds me (insert l L)) m (\<lambda>_. holds me (insert l L)) (\<lambda>_. holds me (insert l L))"
    using assms(3) by (rule keeps_hoare)
qed (rule assms)

lemma quiet_async_request_timeout [quiet_rules]: "based I \<Longrightarrow> keeps I (async_request_timeout H r)"
  unfolding async_request_timeout_def by (intro keeps_rules quiet_rules)

lemma quiet_sync_connection [quiet_rules]: "keeps I (sync_connection a)"
  unfolding sync_connection_def by (intro keeps_rules)

lemma quiet_async_remaining [quiet_rules]: "based I \<Longrightarrow> keeps I (async_remaining H r)"
  unfolding async_remaining_def by (intro keeps_rules quiet_rules)

lemma quiet_wait_request [quiet_rules]: "quiet A I \<Longrightarrow> keeps I (wait_request A H r)"
  unfolding wait_request_def by (frule quiet_based, intro keeps_rules quiet_rules)

lemma quiet_await_loop [quiet_rules]: "quiet A I \<Longrightarrow> keeps I (await_loop A H fuel r)"
  by (induction fuel) (auto intro!: keeps_rules quiet_rules quiet_based [of A])

lemma quiet_await_request_result [quiet_rules]: "quiet A I \<Longrightarrow> keeps I (await_request_result A H fuel r)"
  unfolding await_request_result_def by (frule quiet_based, intro keeps_rules quiet_rules)

lemma quiet_collect_loop [quiet_rules]: "quiet A I \<Longrightarrow> keeps I (collect_loop A H fuel r)"
  by (induction fuel) (auto intro!: keeps_rules quiet_rules quiet_based [of A] split: item.split)

lemma quiet_collect_request [quiet_rules]: "quiet A I \<Longrightarrow> keeps I (collect_request A H fuel r)"
  unfolding collect_request_def by (frule quiet_based, intro keeps_rules quiet_rules)

lemma quiet_execute_locked [quiet_rules]: "quiet A I \<Longrightarrow> keeps I (execute_locked A H fuel a sql ps t)"
  unfolding execute_locked_def by (frule quiet_based, intro keeps_rules quiet_rules)

lemma quiet_begin_if_needed [quiet_rules]: "quiet A I \<Longrightarrow> keeps I (begin_if_needed A H fuel a sql t)"
  unfolding begin_if_needed_def by (frule quiet_based, intro keeps_rules quiet_rules)

lemma quiet_async_effective [quiet_rules]: "based I \<Longrightarrow> keeps I (async_effective H a t)"
  unfolding async_effective_def by (intro keeps_rules quiet_rules)

lemma quiet_async_require_open [quiet_rules]: "based I \<Longrightarrow> keeps I (async_require_open a)"
  unfolding async_require_open_def by (intro keeps_rules quiet_rules)

lemma quiet_async_scope_guard [quiet_rules]: "based I \<Longrightarrow> keeps I (async_scope_guard a m)"
  unfolding async_scope_guard_def by (intro keeps_rules quiet_rules)

lemma quiet_async_end_transaction [quiet_rules]: "quiet A I \<Longrightarrow> keeps I (async_end_transaction A H fuel a cmd)"
  unfolding async_end_transaction_def by (frule quiet_based, intro keeps_rules quiet_rules)

named_theorems lock_rules \<open>coroutines that leave the locks of their task as they were\<close>

text \<open>The operations that take the lock of their connection and give it back.\<close>

lemma lock_execute [lock_rules]:
  "cooperative A me \<Longrightarrow> a \<notin> L \<Longrightarrow> keeps (holds me L) (AsyncConnection_execute A H fuel me a sql ps t)"
  unfolding AsyncConnection_execute_def by (intro keeps_rules lock_rules quiet_rules)

lemma lock_execute_script [lock_rules]:
  "cooperative A me \<Longrightarrow> a \<notin> L \<Longrightarrow> keeps (holds me L) (AsyncConnection_execute_script A H fuel me a sql t)"
  unfolding AsyncConnection_execute_script_def by (intro keeps_rules lock_rules quiet_rules)

lemma lock_prepare [lock_rules]:
  "cooperative A me \<Longrightarrow> a \<notin> L \<Longrightarrow> keeps (holds me L) (AsyncConnection_prepare A H me a sql oids)"
  unfolding AsyncConnection_prepare_def by (intro keeps_rules lock_rules quiet_rules)

lemma lock_commit [lock_rules]: "cooperative A me \<Longrightarrow> a \<notin> L \<Longrightarrow> keeps (holds me L) (AsyncConnection_commit A H fuel me a)"
  unfolding AsyncConnection_commit_def by (intro keeps_rules lock_rules quiet_rules)

lemma lock_rollback [lock_rules]: "cooperative A me \<Longrightarrow> a \<notin> L \<Longrightarrow> keeps (holds me L) (AsyncConnection_rollback A H fuel me a)"
  unfolding AsyncConnection_rollback_def by (intro keeps_rules lock_rules quiet_rules)

lemma lock_close [lock_rules]: "cooperative A me \<Longrightarrow> a \<notin> L \<Longrightarrow> keeps (holds me L) (AsyncConnection_close A H me a t)"
  unfolding AsyncConnection_close_def by (intro keeps_rules lock_rules quiet_rules)

lemma lock_aexit [lock_rules]: "cooperative A me \<Longrightarrow> a \<notin> L \<Longrightarrow> keeps (holds me L) (AsyncConnection_aexit A H fuel me a e)"
  unfolding AsyncConnection_aexit_def by (cases e) (auto intro!: keeps_rules lock_rules quiet_rules)

lemma lock_enter_scope [lock_rules]: "cooperative A me \<Longrightarrow> a \<notin> L \<Longrightarrow> keeps (holds me L) (async_enter_scope A H fuel me a)"
  unfolding async_enter_scope_def by (intro keeps_rules lock_rules quiet_rules)

lemma lock_exit_scope [lock_rules]: "cooperative A me \<Longrightarrow> a \<notin> L \<Longrightarrow> keeps (holds me L) (async_exit_scope A H fuel me a c e)"
  unfolding async_exit_scope_def by (intro keeps_rules lock_rules quiet_rules)

lemma lock_statement_execute [lock_rules]:
  "cooperative A me \<Longrightarrow> fst p \<notin> L \<Longrightarrow> keeps (holds me L) (AsyncPreparedStatement_execute A H fuel me p ps t n)"
  unfolding AsyncPreparedStatement_execute_def by (intro keeps_rules lock_rules quiet_rules)

lemma lock_statement_close [lock_rules]:
  "cooperative A me \<Longrightarrow> fst p \<notin> L \<Longrightarrow> keeps (holds me L) (AsyncPreparedStatement_close A H me p)"
  unfolding AsyncPreparedStatement_close_def by (intro keeps_rules lock_rules quiet_rules)

text \<open>
  Sample schedulers (nothing happens meanwhile; every suspension is cancelled; every wait times
  out), and a world with one asynchronous connection, 5, over connection 2.
\<close>

definition alone :: "nat sched" where
  "alone s w = (Woken, w)"

definition cancelling :: "nat sched" where
  "cancelling s w = (TaskCancelled, w)"

definition late :: "nat sched" where
  "late s w = (case s of OnFd d t \<Rightarrow> (TimedOut, w) | _ \<Rightarrow> (Woken, w))"

definition sample_aworld :: "nat world \<Rightarrow> nat aworld" where
  "sample_aworld b = \<lparr>base = b, anext = 6,
     aconnections = (\<lambda>_. \<lparr>ac_connection = 2, ac_owner = None, ac_waiters = []\<rparr>),
     astreams = (\<lambda>_. \<lparr>as_request = 3, as_columns = [], as_command_status = None, as_rowcount = - 1, as_rows = [],
        as_rows_seen = 0, as_release = None, as_closed = True\<rparr>),
     acopies = (\<lambda>_. \<lparr>ay_copy = 4, ay_release = None, ay_closed = False\<rparr>),
     ascopes = (\<lambda>_. \<lparr>ax_connection = 5, ax_entered = True, ax_used = True\<rparr>),
     adatabases = (\<lambda>_. \<lparr>ad_database = 1, ad_owns = False, ad_closing = False\<rparr>), interrupts = []\<rparr>"

lemma sample_cooperative: "cooperative alone me" "cooperative cancelling me" "cooperative late me"
  by (auto simp: cooperative_def alone_def cancelling_def late_def split: suspension.split)

lemma sample_locks: "locks me (sample_aworld b) = {}"
  by (simp add: locks_def sample_aworld_def)



lemma sync_bind: "bind (sync m) (\<lambda>x. sync (f x)) = sync (bind m f)"
  and sync_catch: "catch (sync m) (\<lambda>e. sync (h e)) = sync (catch m h)"
  and sync_ret: "sync (ret x) = ret x" and sync_raise: "sync (raise e) = raise e"
  by (auto simp: sync_def bind_def catch_def ret_def raise_def fun_eq_iff split: prod.splits outcome.splits)

lemma sync_eq: "sync m w = (out, w') \<longleftrightarrow> (\<exists>b. m (base w) = (out, b) \<and> w' = w\<lparr>base := b\<rparr>)"
  by (auto simp: sync_def split: prod.splits)

lemma sync_seq_raise: "seq (sync m) (raise e) = sync (seq m (raise e))"
  using sync_bind [of m "\<lambda>_. raise e"] by (simp add: sync_raise)

lemma sync_seq_ret: "seq (sync m) (ret x) = sync (seq m (ret x))"
  using sync_bind [of m "\<lambda>_. ret x"] by (simp add: sync_ret)

lemma async_request_timeout_sync: "async_request_timeout H r = sync (Request_timed_out H r)"
  by (simp only: async_request_timeout_def Request_timed_out_def sync_seq_ret sync_catch sync_seq_raise sync_bind)

text \<open>
  C36: When the task that waits for a result is cancelled, the cancellation reaches the server: the
  native request is cancelled before anything else, the request is closed or a warning says
  why it is not, and \<^verbatim>\<open>CancelledError\<close> goes on to the caller.
\<close>

theorem cancellation_reaches_server:
  assumes "await_loop A H fuel r w = (Exc CancelledErr, w1)"
    and "\<not> r_closed (requests (base w1) r)" and "r_handle (requests (base w1) r) = Some h"
    and "await_request_result A H fuel r w = (out, w')" and "\<forall>x. out \<noteq> Hang x"
  shows "out = Exc CancelledErr \<and> (\<exists>cs. calls (base w') = calls (base w1) @ RequestCancel h # cs) \<and>
    (r_closed (requests (base w') r) \<or> length (warned (base w1)) < length (warned (base w')))"
proof -
  have "await_request_result A H fuel r w = sync (seq (catch (seq (Request_cancel H r) (ret ()))
      (\<lambda>e. warn_preserved_cleanup_error ''canceled request cancellation'' e (Some CancelledErr)))
    (seq (cleanup_preserving ''canceled request close'' (Request_close H r) (Some CancelledErr)) (raise CancelledErr))) w1"
    unfolding await_request_result_def run_catch_Exc [of "await_loop A H fuel r", OF assms(1)]
    by (simp only: sync_seq_ret sync_catch sync_seq_raise sync_bind if_True simp_thms)
  with assms(4) obtain b where "seq (catch (seq (Request_cancel H r) (ret ()))
      (\<lambda>e. warn_preserved_cleanup_error ''canceled request cancellation'' e (Some CancelledErr)))
    (seq (cleanup_preserving ''canceled request close'' (Request_close H r) (Some CancelledErr)) (raise CancelledErr)) (base w1) = (out, b)"
    "w' = w1\<lparr>base := b\<rparr>" by (auto simp: sync_eq)
  with cancel_close [OF assms(2,3) this(1) assms(5)] show ?thesis by simp
qed

text \<open>A server that has no result yet.\<close>

definition waiting_host :: "nat host" where
  "waiting_host = sample_host\<lparr>request_next := (\<lambda>_ _ k. (Inr (1, None), k + 1))\<rparr>"

lemma waiting_host_simps [simp]:
  "lib waiting_host = small_lib" "instance_next_event waiting_host h ms k = (Inr None, k)"
  "request_next waiting_host h ms k = (Inr (1, None), k + 1)" "request_progress waiting_host h k = (Inr 0, k)"
  "request_close waiting_host h k = (Inr (), k)" "getpid waiting_host k = 100" "recursion_limit waiting_host = 6"
  "request_cancel waiting_host h k = (Inr True, k)"
  by (simp_all add: waiting_host_def) (simp_all add: sample_host_def)

lemma no_wait: "timeout_milliseconds L (PFloat (Fin 0)) = Inr 0"
  by (simp add: timeout_milliseconds_def normalize_timeout_def py_float_def float_of_rat_def)

definition waited_world :: "nat world" where
  "waited_world = request_world\<lparr>kernel := 1,
     calls := [RequestNext 40 0, InstanceNextEvent 10 0, RequestProgress 40, InstanceNextEvent 10 0]\<rparr>"

lemma sync_sample: "m b = (out, b') \<Longrightarrow> sync m (sample_aworld b) = (out, sample_aworld b')"
  by (simp add: sync_def sample_aworld_def)

lemma cancelled_wait:
  "await_loop cancelling waiting_host (Suc (Suc (Suc 0))) 3 (sample_aworld request_world) =
     (Exc CancelledErr, sample_aworld waited_world)"
proof -
  let ?w = "request_world\<lparr>kernel := 1, calls := [RequestNext 40 0, InstanceNextEvent 10 0]\<rparr>"
  have "Request_take waiting_host (Suc (Suc 0)) 3 False request_world = (Val (1, None), ?w)"
    using take_turn [where w = request_world and r = 3 and h = 40 and block = False and H = waiting_host and ms = 0 and av = 1
      and nr = None and k = 1 and db = 1 and g = 10 and k' = 1 and n = 0] by (simp add: no_wait)
  then have t: "Request_try_next waiting_host (Suc (Suc 0)) 3 request_world = (Val (1, None), ?w)"
    by (simp add: Request_try_next_def run_bind_Val AVAILABILITY_READY_def AVAILABILITY_END_def onlyif_def run_ret)
  have p: "Request_progress waiting_host (Suc (Suc 0)) 3 ?w = (Val 0, waited_world)"
    using quiet_dispatch [of 1 "?w\<lparr>calls := calls ?w @ [RequestProgress 40]\<rparr>" 3 10 waiting_host 1 "Suc 0"]
    by (simp add: Request_progress_def Request_require_open_def run_bind_Val run_guard translating_Val on_request_run native_Val
        run_ret waited_world_def)
  have d: "r_deadline (requests waited_world 3) = None" by (simp add: waited_world_def)
  have "wait_request cancelling waiting_host 3 (sample_aworld waited_world) = (Exc CancelledErr, sample_aworld waited_world)"
    using sync_sample [of "Request_remaining waiting_host 3" waited_world] Request_remaining_None [OF d, of waiting_host]
    by (simp add: wait_request_def bind_gets async_remaining_def run_bind_Val onlyif_def suspend_def cancelling_def run_ret)
  then show ?thesis using sync_sample [of "Request_try_next waiting_host (Suc (Suc 0)) 3", OF t] sync_sample [of "Request_progress waiting_host (Suc (Suc 0)) 3", OF p]
    by (simp add: run_bind_Val run_bind_Exc run_catch_Exc run_raise AVAILABILITY_READY_def AVAILABILITY_END_def)
qed

lemma cancelled_close:
  "\<exists>w'. await_request_result cancelling waiting_host (Suc (Suc (Suc 0))) 3 (sample_aworld request_world) = (Exc CancelledErr, w')"
proof -
  let ?b = "waited_world\<lparr>calls := calls waited_world @ [RequestCancel 40]\<rparr>"
  have "Request_cancel waiting_host 3 waited_world = (Val True, ?b)"
    by (simp add: Request_cancel_def bind_gets on_request_run native_Val translating_Val waited_world_def)
  moreover obtain b' where "retire_request waiting_host 3 ?b = (Val (), b')"
    using retire_run [of ?b 3 40 waiting_host 1] by (auto simp: waited_world_def)
  moreover have "Request_close waiting_host 3 ?b = retire_request waiting_host 3 ?b"
    by (rule Request_close_plain) (simp_all add: waited_world_def)
  ultimately show ?thesis
    unfolding await_request_result_def
      run_catch_Exc [of "await_loop cancelling waiting_host (Suc (Suc (Suc 0))) 3", OF cancelled_wait]
    by (simp add: sync_def sample_aworld_def bind_def catch_def ret_def cleanup_preserving_def raise_def)
qed

theorem cancellation_reaches_server_witness:
  "\<exists>w' cs. await_request_result cancelling waiting_host (Suc (Suc (Suc 0))) 3 (sample_aworld request_world) = (Exc CancelledErr, w') \<and>
     calls (base w') = calls waited_world @ RequestCancel 40 # cs"
proof -
  obtain w' where run: "await_request_result cancelling waiting_host (Suc (Suc (Suc 0))) 3 (sample_aworld request_world) = (Exc CancelledErr, w')"
    using cancelled_close by blast
  have "\<not> r_closed (requests (base (sample_aworld waited_world)) 3)" "r_handle (requests (base (sample_aworld waited_world)) 3) = Some 40"
    by (simp_all add: sample_aworld_def waited_world_def)
  from cancellation_reaches_server [OF cancelled_wait this run] run show ?thesis by (auto simp: sample_aworld_def)
qed

section \<open>Row streams keep the lock\<close>

lemma astream_init_run:
  "AsyncRowStream_init r l w = (Val (anext w), w\<lparr>anext := anext w + 1, astreams := (astreams w)(anext w :=
     \<lparr>as_request = r, as_columns = [], as_command_status = None, as_rowcount = - 1, as_rows = [], as_rows_seen = 0,
      as_release = Some l, as_closed = False\<rparr>)\<rparr>)"
  by (simp add: AsyncRowStream_init_def aalloc_def set_astream_def bind_def modify_def ret_def)

lemma holding_lock_Val:
  "holding_lock A me l m w = (Val x, w') \<longleftrightarrow> (\<exists>w1. lock_acquire A me l w = (Val (), w1) \<and> m w1 = (Val x, w'))"
  by (auto simp: holding_lock_def bind_eq_Val catch_eq_Val)

lemma lock_astream_init [lock_rules]: "keeps (holds me L) (AsyncRowStream_init r l)"
  unfolding AsyncRowStream_init_def by (intro keeps_rules)

lemma hoare_stream:
  assumes "cooperative A me" and "a \<notin> L"
  shows "hoare (holds me L) (AsyncConnection_stream A H fuel me a sql ps g) (\<lambda>_. holds me (insert a L)) (\<lambda>_. holds me L)"
  unfolding AsyncConnection_stream_def
proof (rule hoare_bind [where R = "\<lambda>_. holds me L"], rule hoare_bind [where R = "\<lambda>_. holds me L"])
  show "hoare (holds me L) (lift x) (\<lambda>_. holds me L) (\<lambda>_. holds me L)" for x :: "int res" by (intro keeps_hoare keeps_rules)
  show "hoare (holds me L) (async_effective H a t) (\<lambda>_. holds me L) (\<lambda>_. holds me L)" for t by (intro keeps_hoare lock_rules quiet_rules)
qed (intro hoare_holding_lock keeps_rules lock_rules quiet_rules assms)

text \<open>
  An asynchronous row stream keeps the lock of its connection while it is open. Starting one either
  raises and leaves the task's locks as they were, or returns an open stream that will release the
  lock, which the task now holds.
\<close>

theorem async_stream_keeps_lock:
  assumes "cooperative A me" and "a \<notin> locks me w"
    and "AsyncConnection_stream A H fuel me a sql ps g w = (out, w')" and "\<forall>h. out \<noteq> Hang h"
  shows "(\<exists>e. out = Exc e) \<and> locks me w' = locks me w \<or>
    (\<exists>s. out = Val s \<and> locks me w' = insert a (locks me w) \<and> as_release (astreams w' s) = Some a \<and> \<not> as_closed (astreams w' s))"
proof (cases out)
  case (Val s)
  have "holds me (insert a (locks me w)) w'"
    by (rule hoare_Val [OF hoare_stream [OF assms(1,2)] _ assms(3) [unfolded Val]]) (simp add: holds_def)
  moreover obtain r w1 where "AsyncRowStream_init r a w1 = (Val s, w')"
    using assms(3) Val by (auto simp: AsyncConnection_stream_def bind_eq_Val holding_lock_Val)
  ultimately show ?thesis using Val by (auto simp: holds_def astream_init_run)
next
  case (Exc e)
  have "holds me (locks me w) w'"
    by (rule hoare_Exc [OF hoare_stream [OF assms(1,2)] _ assms(3) [unfolded Exc]]) (simp add: holds_def)
  then show ?thesis using Exc by (simp add: holds_def)
qed (use assms in auto)

definition sample_stream :: stream_args where
  "sample_stream = \<lparr>sg_chunk_rows = PInt 10, sg_timeout = PNone, sg_result_buffer_limit = PInt 0, sg_on_notice = None\<rparr>"

theorem async_stream_keeps_lock_witness:
  "\<exists>w'. AsyncConnection_stream alone sample_host 0 7 5 (lit ''SELECT'') PNone sample_stream (sample_aworld connected_world) = (Val 6, w') \<and>
     locks 7 w' = {5} \<and> as_release (astreams w' 6) = Some 5"
proof -
  obtain w' where run:
    "AsyncConnection_stream alone sample_host 0 7 5 (lit ''SELECT'') PNone sample_stream (sample_aworld connected_world) = (Val 6, w')"
    by (simp add: AsyncConnection_stream_def sample_stream_def positive_int_def lift_Inr async_effective_def sync_connection_def
        effective_timeout_def holding_lock_def lock_acquire_def async_require_open_def Connection_require_open_def begin_if_needed_def
        Request_start_def encoded_parameters_def encode_parameters_def nonnegative_int_def notice_check_def gated_start_def
        gate_acquire_def Request_init_def normalize_timeout_def timeout_arg_def with_handle_def native_def alloc_def obj_defs
        AsyncRowStream_init_def aalloc_def set_astream_def set_aconnection_def sync_def bind_def gets_def guard_def ret_def modify_def
        catch_def sample_aworld_def connected_world_def created_world_def empty_world_def no_connection_def no_database_def
        sample_host_def)
  from async_stream_keeps_lock [OF sample_cooperative(1) _ run] run show ?thesis by (simp add: sample_locks)
qed

lemma locks_owner: "a \<in> locks me w \<longleftrightarrow> ac_owner (aconnections w a) = Some me"
  by (simp add: locks_def)

text \<open>
  Closing an open row stream whose request closes releases the lock of its connection, for good: closing it
  again changes nothing.
\<close>

theorem closing_stream_releases_lock:
  assumes "\<not> as_closed (astreams w s)" and "as_release (astreams w s) = Some a" and "a \<in> locks me w"
    and "AsyncRowStream_aclose H s w = (Val u, w')"
  shows "locks me w' = locks me w - {a} \<and> r_closed (requests (base w') (as_request (astreams w s))) \<and>
    AsyncRowStream_aclose H s w' = (Val (), w')"
proof -
  obtain b where b: "Request_close H (as_request (astreams w s)) (base w) = (Val (), b)"
    and w': "w' = w\<lparr>base := b, astreams := (astreams w)(s := (astreams w s)\<lparr>as_closed := True, as_release := None\<rparr>),
      aconnections := (aconnections w)(a := (aconnections w a)\<lparr>ac_owner := None\<rparr>)\<rparr>"
    using assms by (auto simp: AsyncRowStream_aclose_def astream_finish_close_def bind_gets bind_eq_Val sync_eq
        set_astream_def modify_eq locks_owner lock_release_run)
  have "r_closed (requests b (as_request (astreams w s)))" using Request_close_Val [OF b] by blast
  then show ?thesis using assms(3) unfolding w'
    by (auto simp: locks_def AsyncRowStream_aclose_def bind_gets ret_def split: if_splits)
qed

definition streaming_aworld :: "nat aworld" where
  "streaming_aworld = (sample_aworld streaming_world)\<lparr>
     aconnections := (\<lambda>_. \<lparr>ac_connection = 2, ac_owner = Some 7, ac_waiters = []\<rparr>),
     astreams := (\<lambda>_. \<lparr>as_request = 3, as_columns = [], as_command_status = None, as_rowcount = - 1,
       as_rows = [[PInt 1], [PInt 2]], as_rows_seen = 2, as_release = Some 5, as_closed = False\<rparr>)\<rparr>"

theorem closing_stream_releases_lock_witness:
  "\<exists>w'. AsyncRowStream_aclose sample_host 6 streaming_aworld = (Val (), w') \<and> 5 \<notin> locks 7 w'"
proof -
  have w: "\<not> as_closed (astreams streaming_aworld 6)" "as_release (astreams streaming_aworld 6) = Some 5" "5 \<in> locks 7 streaming_aworld"
    by (simp_all add: streaming_aworld_def locks_def)
  obtain b where "Request_close sample_host 3 streaming_world = (Val (), b)" using close_streaming by blast
  then obtain w' where run: "AsyncRowStream_aclose sample_host 6 streaming_aworld = (Val (), w')"
    by (simp add: AsyncRowStream_aclose_def astream_finish_close_def bind_gets run_bind_Val sync_def set_astream_def bind_modify
        lock_release_def set_aconnection_def modify_def run_guard streaming_aworld_def sample_aworld_def)
  from closing_stream_releases_lock [OF w run] run show ?thesis by auto
qed

section \<open>Rows\<close>

text \<open>The rows handed out and the rows still buffered are the old buffer and the new rows, in order.\<close>

abbreviation rows_flow :: "arow_stream \<Rightarrow> row list \<Rightarrow> arow_stream \<Rightarrow> bool" where
  "rows_flow x out y \<equiv> row_flow (as_rows x) (as_rows_seen x) out (as_rows y) (as_rows_seen y)"

lemma rows_flow_account: "rows_flow x [] (astream_account r x)"
  by (simp add: row_flow_def astream_account_def Let_def)

lemma quiet_astream: "(\<And>t w. astreams (snd (A t w)) s = astreams w s) \<Longrightarrow> quiet A (\<lambda>w. astreams w s = x)"
  by (simp add: quiet_def based_def)

lemma await_astream:
  assumes "\<And>t w. astreams (snd (A t w)) s = astreams w s" and "await_request_result A H n r w = (Val i, w')"
  shows "astreams w' s = astreams w s"
  by (rule keeps_frame_Val [OF quiet_await_request_result assms(2)]) (rule quiet_astream [OF assms(1)])

lemma aclose_rows:
  assumes "AsyncRowStream_aclose H s w = (Val u, w')"
  shows "as_closed (astreams w' s) \<and> as_rows (astreams w' s) = as_rows (astreams w s) \<and>
    as_rows_seen (astreams w' s) = as_rows_seen (astreams w s)"
proof (cases "as_closed (astreams w s)")
  case True
  then show ?thesis using assms by (auto simp: AsyncRowStream_aclose_def bind_gets ret_eq)
next
  case False
  then obtain b where b: "astream_finish_close s (w\<lparr>base := b\<rparr>) = (Val (), w')"
    using assms by (auto simp: AsyncRowStream_aclose_def bind_gets bind_eq_Val sync_eq)
  let ?w = "w\<lparr>base := b, astreams := (astreams w)(s := (astreams w s)\<lparr>as_closed := True, as_release := None\<rparr>)\<rparr>"
  have "(case as_release (astreams w s) of None \<Rightarrow> ret () | Some l \<Rightarrow> lock_release l) ?w = (Val (), w')"
    using b False by (simp add: astream_finish_close_def bind_gets set_astream_def bind_modify)
  then have "astreams w' = astreams ?w"
    by (cases "as_release (astreams w s)")
       (auto simp: ret_eq lock_release_def bind_eq_Val guard_def set_aconnection_def modify_def split: if_splits)
  then show ?thesis by simp
qed

lemma fetch_flow:
  assumes quiet: "\<And>t w. astreams (snd (A t w)) s = astreams w s"
  shows "afetch_loop A H fuel s w = (Val row, w') \<Longrightarrow>
    rows_flow (astreams w s) (case row of None \<Rightarrow> [] | Some x \<Rightarrow> [x]) (astreams w' s) \<and>
    (row = None \<longrightarrow> as_closed (astreams w' s) \<and> as_rows (astreams w' s) = [])"
proof (induction fuel arbitrary: w)
  case 0
  then show ?case
    by (subst (asm) afetch_loop.simps)
       (auto simp: bind_gets bind_eq_Val set_astream_def modify_eq ret_eq hang_def row_flow_def split: list.splits if_splits)
next
  case (Suc n)
  show ?case
  proof (cases "as_rows (astreams w s) \<noteq> [] \<or> as_closed (astreams w s)")
    case True
    then show ?thesis using Suc.prems
      by (subst (asm) afetch_loop.simps)
         (auto simp: bind_gets bind_eq_Val set_astream_def modify_eq ret_eq row_flow_def split: list.splits if_splits)
  next
    case False
    with Suc.prems obtain i w1 where i: "await_request_result A H n (as_request (astreams w s)) w = (Val i, w1)"
      and rest: "(case i of None \<Rightarrow> seq (AsyncRowStream_aclose H s) (ret None)
         | Some (CopyItem cp) \<Rightarrow> seq (sync (Copy_close H cp)) (raise (programming_error ''row stream received a COPY result''))
         | Some (ResultItem y) \<Rightarrow> seq (set_astream s (astream_account y)) (afetch_loop A H n s)) w1 = (Val row, w')"
      by (subst (asm) afetch_loop.simps) (auto simp: bind_gets bind_eq_Val)
    have w1: "astreams w1 s = astreams w s" by (rule await_astream [OF quiet i])
    show ?thesis
    proof (cases i)
      case None
      then show ?thesis using rest w1 False
        by (auto simp: bind_eq_Val ret_eq row_flow_def dest!: aclose_rows)
    next
      case (Some it)
      then obtain y where y: "it = ResultItem y"
        using rest by (cases it) (auto simp: bind_eq_Val raise_eq)
      let ?w = "w1\<lparr>astreams := (astreams w1)(s := astream_account y (astreams w1 s))\<rparr>"
      have "afetch_loop A H n s ?w = (Val row, w')"
        using rest Some y by (simp add: set_astream_def bind_modify)
      note ih = Suc.IH [OF this]
      have "rows_flow (astreams w s) [] (astreams ?w s)" using rows_flow_account [of "astreams w s" y] w1 by simp
      from row_flow_trans [OF this ih [THEN conjunct1]] ih show ?thesis by simp
    qed
  qed
qed

lemma fetchone_Val: "AsyncRowStream_fetchone A H fuel s w = (Val row, w') \<longleftrightarrow> afetch_loop A H fuel s w = (Val row, w')"
  by (auto simp: AsyncRowStream_fetchone_def catch_eq_Val bind_eq_Val raise_eq)

lemma fetchmany_flow:
  assumes quiet: "\<And>t w. astreams (snd (A t w)) s = astreams w s"
  shows "afetchmany_loop A H fuel s k w = (Val xs, w') \<Longrightarrow>
    rows_flow (astreams w s) xs (astreams w' s) \<and> length xs \<le> k \<and>
    (length xs < k \<longrightarrow> as_closed (astreams w' s) \<and> as_rows (astreams w' s) = [])"
proof (induction k arbitrary: w xs)
  case 0
  then show ?case by (simp add: ret_eq row_flow_refl)
next
  case (Suc k)
  then obtain row w1 where row: "afetch_loop A H fuel s w = (Val row, w1)"
    and rest: "(case row of None \<Rightarrow> ret [] | Some x \<Rightarrow> bind (afetchmany_loop A H fuel s k) (\<lambda>xs. ret (x # xs))) w1 = (Val xs, w')"
    by (auto simp: bind_eq_Val fetchone_Val)
  note f = fetch_flow [OF quiet row]
  show ?case
  proof (cases row)
    case None
    then show ?thesis using rest f by (auto simp: ret_eq)
  next
    case (Some x)
    then obtain ys where ys: "afetchmany_loop A H fuel s k w1 = (Val ys, w')" "xs = x # ys"
      using rest by (auto simp: bind_eq_Val ret_eq)
    note ih = Suc.IH [OF ys(1)]
    have "rows_flow (astreams w s) [x] (astreams w1 s)" using f Some by simp
    from row_flow_trans [OF this ih [THEN conjunct1]] ih ys(2) show ?thesis by simp
  qed
qed

text \<open>
  Asynchronous fetching neither loses, repeats nor reorders rows: what \<^verbatim>\<open>fetchmany\<close> returns, followed by
  what is still buffered, is what was buffered followed by the rows that arrived, and the stream has
  counted exactly those. At most the requested number is returned, and fewer only when the
  stream has ended and its buffer is empty.
\<close>

theorem async_fetchmany_rows:
  assumes "\<And>t w. astreams (snd (A t w)) s = astreams w s"
    and "AsyncRowStream_fetchmany A H fuel s n w = (Val xs, w')"
  shows "\<exists>k new. nonnegative_int n ''size'' = Inr k \<and> length xs \<le> nat k \<and>
    xs @ as_rows (astreams w' s) = as_rows (astreams w s) @ new \<and>
    as_rows_seen (astreams w' s) = as_rows_seen (astreams w s) + int (length new) \<and>
    (length xs < nat k \<longrightarrow> as_closed (astreams w' s) \<and> as_rows (astreams w' s) = [])"
  using assms(2) fetchmany_flow [OF assms(1)]
  by (fastforce simp: AsyncRowStream_fetchmany_def bind_eq_Val lift_eq_Val row_flow_def)

theorem async_fetchmany_rows_witness:
  "\<exists>w'. AsyncRowStream_fetchmany alone sample_host 0 6 (PInt 1) streaming_aworld = (Val [[PInt 1]], w') \<and>
     (\<exists>new. [[PInt 1]] @ as_rows (astreams w' 6) = [[PInt 1], [PInt 2]] @ new)"
proof -
  obtain w' where run: "AsyncRowStream_fetchmany alone sample_host 0 6 (PInt 1) streaming_aworld = (Val [[PInt 1]], w')"
    by (simp add: AsyncRowStream_fetchmany_def nonnegative_int_def lift_Inr AsyncRowStream_fetchone_def afetch_loop.simps
        streaming_aworld_def set_astream_def bind_def gets_def modify_def ret_def catch_def)
  have "as_rows (astreams streaming_aworld 6) = [[PInt 1], [PInt 2]]" by (simp add: streaming_aworld_def)
  with async_fetchmany_rows [OF _ run] run show ?thesis by (fastforce simp: alone_def)
qed

section \<open>Transaction scopes\<close>

lemma with_lock_free:
  assumes "ac_owner (aconnections w l) = None" "ac_waiters (aconnections w l) = []"
  shows "with_lock A me l m w = tryfinally m (\<lambda>_. lock_release l)
    (w\<lparr>aconnections := (aconnections w)(l := (aconnections w l)\<lparr>ac_owner := Some me\<rparr>)\<rparr>)"
proof -
  have "lock_acquire A me l w = (Val (), w\<lparr>aconnections := (aconnections w)(l := (aconnections w l)\<lparr>ac_owner := Some me\<rparr>)\<rparr>)"
    using assms by (simp add: lock_acquire_def bind_gets set_aconnection_def modify_def)
  then show ?thesis by (simp add: with_lock_def run_bind_Val)
qed

text \<open>
  C37: The asynchronous scope does not protect the exception of its body the way the synchronous one does. If
  the connection has become unusable when a body that raised is left, \<^verbatim>\<open>__aexit__\<close> raises
  the error of the connection in place of the body's, whereas \<^verbatim>\<open>__exit__\<close> of the synchronous
  scope returns, so that the body's exception goes on.
\<close>

theorem async_scope_replaces_exception:
  assumes "ax_entered (ascopes w t)" and "ax_connection (ascopes w t) = a" and "ac_connection (aconnections w a) = c"
    and "ac_owner (aconnections w a) = None" and "ac_waiters (aconnections w a) = []" and "unusable (base w) c"
    and "sc_entered (scopes (base w) t')" and "sc_connection (scopes (base w) t') = c"
  shows "(\<exists>w'. AsyncTransactionContext_aexit A H fuel me t (Some e) w = (Exc (unusable_error (base w) c), w')) \<and>
    (\<exists>b. TransactionContext_exit H t' (Some e) (base w) = (Val (), b))"
proof
  have "async_require_open a w1 = (Exc (unusable_error (base w) c), w1)" if "base w1 = base w" "ac_connection (aconnections w1 a) = c" for w1
    using that assms(6) by (simp add: async_require_open_def sync_connection_def bind_gets sync_def require_open_run)
  then have "\<exists>w1. async_exit_scope A H fuel me a commit p w = (Exc (unusable_error (base w) c), w1)" for commit p
    using assms(3-5)
    by (simp add: async_exit_scope_def tryfinally_def with_lock_free bind_def lock_release_run sync_connection_def gets_def
        sync_def Connection_release_transaction_scope_def set_connection_def modify_def raise_def)
  then obtain w1 where "async_exit_scope A H fuel me a False (Some e) w = (Exc (unusable_error (base w) c), w1)" by blast
  then show "\<exists>w'. AsyncTransactionContext_aexit A H fuel me t (Some e) w = (Exc (unusable_error (base w) c), w')"
    using assms(1,2) by (simp add: AsyncTransactionContext_aexit_def bind_gets run_finally_Exc set_ascope_def bind_modify run_raise)
  show "\<exists>b. TransactionContext_exit H t' (Some e) (base w) = (Val (), b)"
  proof -
    have "Connection_complete_transaction_scope H c False (base w) = (Exc (unusable_error (base w) c), base w)"
      using assms(6) by (simp add: Connection_complete_transaction_scope_def require_open_first)
    then show ?thesis using assms(7,8)
      by (simp add: TransactionContext_exit_def bind_gets run_finally_Val run_catch_Exc warn_preserved_cleanup_error_def
          emit_resource_warning_def Connection_release_transaction_scope_def set_connection_def set_scope_def run_modify bind_modify
          run_bind_Val run_ret)
  qed
qed

definition broken_world :: "nat world" where
  "broken_world = open_world\<lparr>connections := (connections open_world)(2 := (connections open_world 2)\<lparr>c_closed := True, c_scope_active := True\<rparr>),
     scopes := (\<lambda>_. \<lparr>sc_connection = 2, sc_entered = True, sc_used = True\<rparr>)\<rparr>"

theorem async_scope_replaces_exception_witness:
  "(\<exists>w'. AsyncTransactionContext_aexit alone sample_host 0 7 8 (Some StopIter) (sample_aworld broken_world) =
      (Exc (unusable_error broken_world 2), w')) \<and>
   (\<exists>b. TransactionContext_exit sample_host 8 (Some StopIter) broken_world = (Val (), b))"
  using async_scope_replaces_exception [of "sample_aworld broken_world" 8 5 2 8 alone sample_host 0 7 StopIter]
  by (simp add: sample_aworld_def broken_world_def unusable_def)

section \<open>Timeouts of COPY\<close>


text \<open>A server that accepts no COPY data, and a request that has five seconds left.\<close>

definition stalled_host :: "nat host" where
  "stalled_host = sample_host\<lparr>copy_write := (\<lambda>_ _ k. (Inr (0, 1), k))\<rparr>"

lemma stalled_host_simps [simp]:
  "lib stalled_host = small_lib" "instance_next_event stalled_host h ms k = (Inr None, k)" "copy_write stalled_host h bs k = (Inr (0, 1), k)"
  "request_progress stalled_host h k = (Inr 0, k)" "request_close stalled_host h k = (Inr (), k)" "getpid stalled_host k = 100"
  "recursion_limit stalled_host = 6" "copy_close stalled_host h ms k = (Inr (), k)" "monotonic stalled_host k = (0, k)"
  by (simp_all add: stalled_host_def) (simp_all add: sample_host_def)

definition stalled_world :: "nat world" where
  "stalled_world = request_world\<lparr>requests := (requests request_world)(3 := (requests request_world 3)\<lparr>r_deadline := Some (Fin 5)\<rparr>)\<rparr>"

lemma stalled_world_simps [simp]:
  "kernel stalled_world = 0" "calls stalled_world = []" "requests stalled_world 3 = (requests request_world 3)\<lparr>r_deadline := Some (Fin 5)\<rparr>"
  "copies stalled_world 4 = \<lparr>cp_kind = CopyIn, cp_request = 3, cp_handle = Some 30, cp_closed = False, cp_io_ended = False,
     cp_command_result = None\<rparr>" "c_database (connections stalled_world 2) = 1" "c_gate (connections stalled_world 2)"
  "d_closed (databases stalled_world (Suc 0)) = False" "d_handle (databases stalled_world (Suc 0)) = Some 10"
  "d_owner_pid (databases stalled_world (Suc 0)) = Some 100"
  by (simp_all add: stalled_world_def) (simp add: request_world_def)

lemma stalled_kernel [simp]: "stalled_world\<lparr>kernel := 0, calls := cs\<rparr> = stalled_world\<lparr>calls := cs\<rparr>"
  by (simp add: stalled_world_def request_world_def open_world_def empty_world_def)

lemma five_seconds: "float_of_rat 5 = Fin 5" "float_of_rat 5000 = Fin 5000"
proof -
  have "rat_exponent (of_int 5) = 2" "rat_exponent (of_int 5000) = 12"
    by (simp_all add: rat_exponent_def Let_def compute_bitlen power_int_def)
  then show "float_of_rat 5 = Fin 5" "float_of_rat 5000 = Fin 5000"
    using float_small_int [of 5] float_small_int [of 5000] by simp_all
qed

lemma five_milliseconds: "timeout_milliseconds L (PFloat (Fin 5)) = Inr 5000"
  by (simp add: timeout_milliseconds_def normalize_timeout_def py_float_def five_seconds)

lemma five_remaining:
  "r_deadline (requests w 3) = Some (Fin 5) \<Longrightarrow> Request_remaining stalled_host 3 w = (Val (Some (Fin 5)), w)"
  by (simp add: Request_remaining_def bind_gets now_def run_bind_Val run_ret five_seconds)

lemma stalled_wait:
  "acopy_wait late stalled_host (Suc 0) 8 (sample_aworld (stalled_world\<lparr>calls := [c]\<rparr>)) =
     (Exc TimeoutErr, sample_aworld (stalled_world\<lparr>calls := [c, RequestProgress 40, InstanceNextEvent 10 0]\<rparr>))"
proof -
  let ?w = "stalled_world\<lparr>calls := [c, RequestProgress 40, InstanceNextEvent 10 0]\<rparr>"
  have p: "Request_progress stalled_host (Suc 0) 3 (stalled_world\<lparr>calls := [c]\<rparr>) = (Val 0, ?w)"
    using quiet_dispatch [of 1 "stalled_world\<lparr>calls := [c, RequestProgress 40]\<rparr>" 3 10 stalled_host 0 0]
    by (simp add: Request_progress_def Request_require_open_def run_bind_Val run_guard translating_Val on_request_run native_Val run_ret)
  have "Request_remaining stalled_host 3 ?w = (Val (Some (Fin 5)), ?w)" by (rule five_remaining) simp
  then have "wait_request late stalled_host 3 (sample_aworld ?w) = (Exc TimeoutErr, sample_aworld ?w)"
    using sync_sample [of "Request_remaining stalled_host 3" ?w]
    by (simp add: wait_request_def bind_gets async_remaining_def run_bind_Val onlyif_def suspend_def late_def run_ret)
  then show ?thesis using sync_sample [of "Request_progress stalled_host (Suc 0) 3", OF p]
    by (simp add: acopy_wait_def bind_gets run_bind_Val) (simp add: sample_aworld_def run_bind_Val)
qed

lemma stalled_close: "\<exists>b. Copy_close stalled_host 4 (stalled_world\<lparr>calls := cs\<rparr>) = (Val (), b)"
proof -
  let ?w = "stalled_world\<lparr>calls := cs\<rparr>"
  let ?v = "?w\<lparr>calls := cs @ [CopyClose 30 5000], copies := (copies ?w)(4 := (copies ?w 4)\<lparr>cp_handle := None, cp_closed := True\<rparr>)\<rparr>"
  have "Request_remaining stalled_host 3 ?w = (Val (Some (Fin 5)), ?w)" by (rule five_remaining) simp
  then have r: "Copy_release stalled_host 4 ?w = (Val (), ?v)"
    by (simp add: Copy_release_def Copy_require_open_def run_bind_Val run_guard run_gets float_arg_def lift_Inr five_milliseconds
        with_handle_def native_Val translating_Val set_copy_def modify_def bind_gets)
  obtain b where b: "retire_request stalled_host 3 ?v = (Val (), b)" using retire_run [of ?v 3 40 stalled_host 0] by auto
  have "Request_close_at stalled_host (Suc n) 3 ?v = retire_request stalled_host 3 ?v" for n by (simp add: bind_gets)
  then have "Copy_close_at stalled_host (Suc (Suc n)) 4 ?w = (Val (), b)" for n
    using r b by (simp del: Request_close_at.simps add: bind_gets run_finally_Val cleanup_preserving_def run_catch_Val run_bind_Val run_ret)
  from this [of 4] show ?thesis by (simp del: Copy_close_at.simps add: Copy_close_def)
qed


section \<open>Management operations\<close>

lemma Operation_close_Val: "Operation_close H p w = (Val u, w') \<Longrightarrow> o_closed (operations w' p)"
  by (auto simp: Operation_close_def bind_gets bind_eq_Val ret_eq set_operation_def set_database_def modify_eq split: if_splits)

lemma wait_operation_loop_Val:
  "wait_operation_loop A H fuel p d w = (Val x, w') \<Longrightarrow>
   \<exists>w1 w2. sync (Operation_progress H p) w1 = (Val OpCompleted, w2) \<and> sync (Operation_snapshot H p) w2 = (Val x, w')"
proof (induction fuel arbitrary: w)
  case 0
  then show ?case by (simp add: hang_def)
next
  case (Suc n)
  then obtain st sn w1 w2 where p: "sync (Operation_progress H p) w = (Val st, w1)" "sync (Operation_snapshot H p) w1 = (Val sn, w2)"
    by (auto simp: bind_eq_Val)
  show ?case
  proof (cases "st = OpCompleted")
    case True
    then show ?thesis using Suc.prems p by (auto simp: run_bind_Val ret_eq)
  next
    case False
    then show ?thesis using Suc.prems p Suc.IH by (auto simp: run_bind_Val bind_eq_Val raise_eq split: if_splits)
  qed
qed

text \<open>
  \<^verbatim>\<open>wait_operation\<close> returns only the snapshot of an operation that has just reported to be completed, and an
  operation whose wait returned is closed.
\<close>

theorem wait_operation_completed:
  assumes "wait_operation A H fuel p timeout w = (Val x, w')"
  shows "o_closed (operations (base w') p) \<and>
    (\<exists>w1 w2 w3. sync (Operation_progress H p) w1 = (Val OpCompleted, w2) \<and> sync (Operation_snapshot H p) w2 = (Val x, w3) \<and>
      sync (Operation_close H p) w3 = (Val (), w'))"
proof -
  obtain d w0 w3 where "catch (wait_operation_loop A H fuel p d) (\<lambda>e.
          if e = CancelledErr
          then seq (catch (sync (Operation_cancel H p))
                 (\<lambda>c. sync (warn_preserved_cleanup_error ''canceled operation cancellation'' c (Some e))))
               (raise e)
          else raise e) w0 = (Val x, w3)" and c: "sync (Operation_close H p) w3 = (Val (), w')"
    using assms by (auto simp: wait_operation_def bind_eq_Val tryfinally_eq_Val cleanup_None)
  then have "wait_operation_loop A H fuel p d w0 = (Val x, w3)"
    by (auto simp: catch_eq_Val bind_eq_Val raise_eq split: if_splits)
  moreover have "o_closed (operations (base w') p)" using c by (auto simp: sync_eq dest!: Operation_close_Val)
  ultimately show ?thesis using wait_operation_loop_Val c by blast
qed

definition operation_world :: "nat world" where
  "operation_world = open_world\<lparr>operations := (\<lambda>_. \<lparr>o_database = 1, o_handle = Some 60, o_closed = False, o_waitable = 7\<rparr>)\<rparr>"

theorem wait_operation_completed_witness:
  "\<exists>x w'. wait_operation alone sample_host (Suc 0) 9 PNone (sample_aworld operation_world) = (Val x, w') \<and>
     o_closed (operations (base w') 9)"
proof -
  obtain x w' where run: "wait_operation alone sample_host (Suc 0) 9 PNone (sample_aworld operation_world) = (Val x, w')"
    by (simp add: wait_operation_def Operation_progress_def Operation_snapshot_def Operation_require_open_def on_operation_def
        with_handle_def translating_def native_def operation_state_of_def operation_kind_of_def operation_phase_of_def progress_from_native_def progress_native_def
        Operation_close_def cleanup_preserving_def obj_defs sync_def bind_def gets_def guard_def ret_def modify_def catch_def
        tryfinally_def lift_def sample_aworld_def operation_world_def open_world_def empty_world_def no_connection_def
        no_database_def sample_host_def)
  with wait_operation_completed [OF run] show ?thesis by blast
qed

end
