(* ===== verification/Fd_Hub.thy ===== *)
theory Fd_Hub
  imports Pg_Errors "HOL-Library.AList"
begin

text \<open>
  The class \<^verbatim>\<open>_FDHub\<close> and the functions \<^verbatim>\<open>_hub\<close>, \<^verbatim>\<open>_discard_hub\<close> and \<^verbatim>\<open>_interrupt_hub\<close> of \<^verbatim>\<open>_async.py\<close>:
  every coroutine that waits for a descriptor shares one reader of the event loop. The state
  is what one loop sees: the table of hubs, the hub objects, the futures, the readers of the
  loop and the frames of the coroutines that are suspended in \<^verbatim>\<open>_FDHub.wait\<close>. A coroutine runs
  undisturbed between two suspensions, so the code of \<^verbatim>\<open>wait\<close> is two steps, up to its
  \<^verbatim>\<open>await\<close> and from there on. The steps of any number of coroutines and of the loop interleave.
\<close>

section \<open>State\<close>

datatype future = Pending | Done | Cancelled

record hub =
  hub_descriptor :: int
  hub_waiters :: "nat set"
  hub_registered :: bool

text \<open>
  \<open>loop_hubs\<close> is \<^verbatim>\<open>_LOOP_HUBS.get(loop)\<close>, a dict from descriptors to hubs; \<open>readers\<close> are the callbacks
  given to \<^verbatim>\<open>loop.add_reader\<close>; \<open>frames\<close> has the hub of the coroutine that awaits a future.
\<close>

record fdloop =
  loop_hubs :: "(int \<times> nat) list option"
  hub_objects :: "nat \<Rightarrow> hub"
  next_hub :: nat
  futures :: "nat \<Rightarrow> future"
  next_future :: nat
  readers :: "int \<Rightarrow> nat option"
  frames :: "nat \<Rightarrow> nat option"
  readers_supported :: bool

definition table :: "fdloop \<Rightarrow> int \<Rightarrow> nat option" where
  "table s = (case loop_hubs s of None \<Rightarrow> (\<lambda>_. None) | Some t \<Rightarrow> map_of t)"

definition set_hub :: "nat \<Rightarrow> (hub \<Rightarrow> hub) \<Rightarrow> fdloop \<Rightarrow> fdloop" where
  "set_hub h f s = s\<lparr>hub_objects := (hub_objects s)(h := f (hub_objects s h))\<rparr>"

definition finish_futures :: "nat set \<Rightarrow> fdloop \<Rightarrow> fdloop" where
  "finish_futures F s = s\<lparr>futures := (\<lambda>f. if f \<in> F \<and> futures s f = Pending then Done else futures s f)\<rparr>"

section \<open>Operations\<close>

definition hub_wake :: "nat \<Rightarrow> fdloop \<Rightarrow> fdloop" where
  "hub_wake h s =
     (let x = hub_objects s h; waiters = hub_waiters x;
          s1 = set_hub h (\<lambda>x. x\<lparr>hub_waiters := {}\<rparr>) s;
          s2 = (if hub_registered x
                then set_hub h (\<lambda>x. x\<lparr>hub_registered := False\<rparr>) (s1\<lparr>readers := (readers s1)(hub_descriptor x := None)\<rparr>)
                else s1)
      in finish_futures waiters s2)"

definition hub_ready :: "nat \<Rightarrow> fdloop \<Rightarrow> fdloop" where
  "hub_ready h = hub_wake h"

definition hub_interrupt :: "nat \<Rightarrow> fdloop \<Rightarrow> fdloop" where
  "hub_interrupt h = hub_wake h"

definition discard_hub :: "int \<Rightarrow> nat \<Rightarrow> fdloop \<Rightarrow> fdloop" where
  "discard_hub d h s =
     (case loop_hubs s of
        None \<Rightarrow> s
      | Some t \<Rightarrow>
          if map_of t d \<noteq> Some h \<or> hub_waiters (hub_objects s h) \<noteq> {} \<or> hub_registered (hub_objects s h) then s
          else let t' = AList.delete d t in s\<lparr>loop_hubs := (if t' = [] then None else Some t')\<rparr>)"

definition hub_for :: "int \<Rightarrow> fdloop \<Rightarrow> nat \<times> fdloop" where
  "hub_for d s =
     (let t = (case loop_hubs s of None \<Rightarrow> [] | Some t \<Rightarrow> t) in
      case map_of t d of
        Some h \<Rightarrow> (h, s)
      | None \<Rightarrow>
          (let h = next_hub s in
           (h, s\<lparr>loop_hubs := Some (t @ [(d, h)]), next_hub := h + 1,
                 hub_objects := (hub_objects s)(h := \<lparr>hub_descriptor = d, hub_waiters = {}, hub_registered = False\<rparr>)\<rparr>)))"

text \<open>\<^verbatim>\<open>wait\<close> up to the suspension: the future that is awaited, or the error of a loop without readers.\<close>

definition wait_begin :: "nat \<Rightarrow> fdloop \<Rightarrow> nat res \<times> fdloop" where
  "wait_begin h s =
     (let f = next_future s; d = hub_descriptor (hub_objects s h);
          s1 = set_hub h (\<lambda>x. x\<lparr>hub_waiters := insert f (hub_waiters x)\<rparr>)
                 (s\<lparr>next_future := f + 1, futures := (futures s)(f := Pending)\<rparr>)
      in if \<not> hub_registered (hub_objects s h) \<and> \<not> readers_supported s
         then (Inl (interface_error ''the active asyncio loop does not support POSIX fd readers''),
               discard_hub d h (set_hub h (\<lambda>x. x\<lparr>hub_waiters := hub_waiters x - {f}\<rparr>) s1))
         else (Inr f,
               (if hub_registered (hub_objects s h) then s1
                else set_hub h (\<lambda>x. x\<lparr>hub_registered := True\<rparr>) (s1\<lparr>readers := (readers s1)(d := Some h)\<rparr>))
               \<lparr>frames := (frames s)(f := Some h)\<rparr>))"

text \<open>The \<^verbatim>\<open>finally\<close> block of \<^verbatim>\<open>wait\<close>, run when the awaited future is done or cancelled.\<close>

definition wait_end :: "nat \<Rightarrow> nat \<Rightarrow> fdloop \<Rightarrow> fdloop" where
  "wait_end f h s =
     (let d = hub_descriptor (hub_objects s h);
          s1 = set_hub h (\<lambda>x. x\<lparr>hub_waiters := hub_waiters x - {f}\<rparr>) (s\<lparr>frames := (frames s)(f := None)\<rparr>);
          x = hub_objects s1 h;
          s2 = (if hub_waiters x = {} \<and> hub_registered x
                then set_hub h (\<lambda>x. x\<lparr>hub_registered := False\<rparr>) (s1\<lparr>readers := (readers s1)(d := None)\<rparr>)
                else s1)
      in discard_hub d h s2)"

definition interrupt_hub :: "int \<Rightarrow> fdloop \<Rightarrow> fdloop" where
  "interrupt_hub d s =
     (case table s d of
        None \<Rightarrow> s
      | Some h \<Rightarrow> discard_hub d h (hub_interrupt h s))"

section \<open>Interleaved steps\<close>

text \<open>
  \<open>Begin d\<close>: a coroutine runs \<^verbatim>\<open>_hub(d).wait(...)\<close> up to its suspension. \<open>Lookup d\<close>: it evaluates \<^verbatim>\<open>_hub(d)\<close>
  and the evaluation of the timeout argument raises. \<open>Readable d\<close>: the loop finds the descriptor
  ready. \<open>Abandon f\<close>: a timeout or a cancellation of the task cancels the future. \<open>Resume f\<close>: the
  coroutine that awaits \<open>f\<close> goes on. \<open>Interrupt d\<close>: the database is being closed.
\<close>

datatype hub_event = Begin int | Lookup int | Readable int | Abandon nat | Resume nat | Interrupt int

inductive hub_step :: "fdloop \<Rightarrow> hub_event \<Rightarrow> fdloop \<Rightarrow> bool" where
  begin_wait: "hub_for d s = (h, s1) \<Longrightarrow> wait_begin h s1 = (r, s2) \<Longrightarrow> hub_step s (Begin d) s2"
| lookup: "hub_for d s = (h, s1) \<Longrightarrow> hub_step s (Lookup d) s1"
| readable: "readers s d = Some h \<Longrightarrow> hub_step s (Readable d) (hub_ready h s)"
| abandon: "frames s f \<noteq> None \<Longrightarrow> futures s f = Pending \<Longrightarrow> hub_step s (Abandon f) (s\<lparr>futures := (futures s)(f := Cancelled)\<rparr>)"
| resume: "frames s f = Some h \<Longrightarrow> futures s f \<noteq> Pending \<Longrightarrow> hub_step s (Resume f) (wait_end f h s)"
| interrupt: "hub_step s (Interrupt d) (interrupt_hub d s)"

inductive_cases hub_step_cases: "hub_step s e s'"

definition fresh_loop :: "bool \<Rightarrow> fdloop" where
  "fresh_loop b = \<lparr>loop_hubs = None, hub_objects = (\<lambda>_. \<lparr>hub_descriptor = 0, hub_waiters = {}, hub_registered = False\<rparr>),
     next_hub = 0, futures = (\<lambda>_. Pending), next_future = 0, readers = (\<lambda>_. None), frames = (\<lambda>_. None), readers_supported = b\<rparr>"

inductive hub_reachable :: "(hub_event \<Rightarrow> bool) \<Rightarrow> fdloop \<Rightarrow> bool" for A where
  hub_start: "hub_reachable A (fresh_loop b)"
| hub_next: "hub_reachable A s \<Longrightarrow> hub_step s e s' \<Longrightarrow> A e \<Longrightarrow> hub_reachable A s'"

section \<open>Invariant\<close>

definition hub_inv :: "fdloop \<Rightarrow> bool" where
  "hub_inv s \<longleftrightarrow>
     (\<forall>h. hub_registered (hub_objects s h) \<longleftrightarrow> hub_waiters (hub_objects s h) \<noteq> {}) \<and>
     (\<forall>h. hub_registered (hub_objects s h) \<longrightarrow> table s (hub_descriptor (hub_objects s h)) = Some h) \<and>
     (\<forall>d h. table s d = Some h \<longrightarrow> hub_descriptor (hub_objects s h) = d \<and> h < next_hub s) \<and>
     (\<forall>d h. readers s d = Some h \<longleftrightarrow> hub_registered (hub_objects s h) \<and> hub_descriptor (hub_objects s h) = d) \<and>
     (\<forall>f h. f \<in> hub_waiters (hub_objects s h) \<longrightarrow> frames s f = Some h) \<and>
     (\<forall>f h. frames s f = Some h \<longrightarrow> futures s f = Pending \<longrightarrow> f \<in> hub_waiters (hub_objects s h)) \<and>
     (\<forall>f h. frames s f = Some h \<longrightarrow> f < next_future s \<and> h < next_hub s) \<and>
     loop_hubs s \<noteq> Some []"

lemmas hub_ops = hub_wake_def hub_ready_def hub_interrupt_def discard_hub_def wait_begin_def wait_end_def interrupt_hub_def
  set_hub_def finish_futures_def Let_def

lemma delete_empty: "AList.delete d t = [] \<Longrightarrow> x \<noteq> d \<Longrightarrow> map_of t x = None"
  by (metis delete_conv' fun_upd_apply map_of_eq_None_iff map_of.simps(1))

lemma table_discard:
  "table (discard_hub d h s) =
     (if table s d = Some h \<and> hub_waiters (hub_objects s h) = {} \<and> \<not> hub_registered (hub_objects s h)
      then (table s)(d := None) else table s)"
  by (auto simp: discard_hub_def table_def Let_def delete_conv' fun_eq_iff delete_empty split: option.splits)

lemma discard_simps [simp]:
  "hub_objects (discard_hub d h s) = hub_objects s" "futures (discard_hub d h s) = futures s"
  "readers (discard_hub d h s) = readers s" "frames (discard_hub d h s) = frames s"
  "next_hub (discard_hub d h s) = next_hub s" "next_future (discard_hub d h s) = next_future s"
  by (simp_all add: discard_hub_def Let_def split: option.split)

lemma discard_not_empty: "loop_hubs s \<noteq> Some [] \<Longrightarrow> loop_hubs (discard_hub d h s) \<noteq> Some []"
  by (auto simp: discard_hub_def Let_def split: option.split)

lemma table_update [simp]:
  "table (s\<lparr>futures := a\<rparr>) = table s" "table (s\<lparr>next_future := b\<rparr>) = table s"
  "table (s\<lparr>readers := c\<rparr>) = table s" "table (s\<lparr>frames := e\<rparr>) = table s" "table (s\<lparr>hub_objects := g\<rparr>) = table s"
  by (simp_all add: table_def)

lemma hub_invI:
  assumes "\<And>h. hub_registered (hub_objects s h) \<longleftrightarrow> hub_waiters (hub_objects s h) \<noteq> {}"
    and "\<And>h. hub_registered (hub_objects s h) \<Longrightarrow> table s (hub_descriptor (hub_objects s h)) = Some h"
    and "\<And>d h. table s d = Some h \<Longrightarrow> hub_descriptor (hub_objects s h) = d \<and> h < next_hub s"
    and "\<And>d h. readers s d = Some h \<longleftrightarrow> hub_registered (hub_objects s h) \<and> hub_descriptor (hub_objects s h) = d"
    and "\<And>f h. f \<in> hub_waiters (hub_objects s h) \<Longrightarrow> frames s f = Some h"
    and "\<And>f h. frames s f = Some h \<Longrightarrow> futures s f = Pending \<Longrightarrow> f \<in> hub_waiters (hub_objects s h)"
    and "\<And>f h. frames s f = Some h \<Longrightarrow> f < next_future s \<and> h < next_hub s"
    and "loop_hubs s \<noteq> Some []"
  shows "hub_inv s"
  using assms unfolding hub_inv_def by blast

lemma hub_invD:
  assumes "hub_inv s"
  shows reg: "hub_registered (hub_objects s h) \<longleftrightarrow> hub_waiters (hub_objects s h) \<noteq> {}"
    and tab: "hub_registered (hub_objects s h) \<Longrightarrow> table s (hub_descriptor (hub_objects s h)) = Some h"
    and desc: "table s d = Some h \<Longrightarrow> hub_descriptor (hub_objects s h) = d" "table s d = Some h \<Longrightarrow> h < next_hub s"
    and rdr: "readers s d = Some h \<longleftrightarrow> hub_registered (hub_objects s h) \<and> hub_descriptor (hub_objects s h) = d"
    and waiting: "f \<in> hub_waiters (hub_objects s h) \<Longrightarrow> frames s f = Some h"
    and pending: "frames s f = Some h \<Longrightarrow> futures s f = Pending \<Longrightarrow> f \<in> hub_waiters (hub_objects s h)"
    and framed: "frames s f = Some h \<Longrightarrow> f < next_future s" "frames s f = Some h \<Longrightarrow> h < next_hub s"
    and nonempty: "loop_hubs s \<noteq> Some []"
  using assms unfolding hub_inv_def by blast+

lemma inv_shrink:
  assumes "hub_inv s" and "hub_objects s' = hub_objects s" "readers s' = readers s" "frames s' = frames s"
      "next_hub s' = next_hub s" "next_future s \<le> next_future s'"
    and "\<And>f h. frames s f = Some h \<Longrightarrow> futures s' f = Pending \<Longrightarrow> futures s f = Pending"
    and "\<And>h. hub_registered (hub_objects s h) \<Longrightarrow> table s (hub_descriptor (hub_objects s h)) = Some h \<Longrightarrow>
           table s' (hub_descriptor (hub_objects s h)) = Some h"
    and "\<And>d h. table s' d = Some h \<Longrightarrow> table s d = Some h" and "loop_hubs s' \<noteq> Some []"
  shows "hub_inv s'"
proof (rule hub_invI, unfold assms(2-5))
  note inv = hub_invD [OF assms(1)]
  show "hub_registered (hub_objects s x) \<longleftrightarrow> hub_waiters (hub_objects s x) \<noteq> {}" for x by (rule inv)
  show "table s' (hub_descriptor (hub_objects s x)) = Some x" if "hub_registered (hub_objects s x)" for x
    using that inv(2) assms(8) by blast
  show "hub_descriptor (hub_objects s x) = d \<and> x < next_hub s" if "table s' d = Some x" for d x
    using that inv(3,4) assms(9) by blast
  show "readers s d = Some x \<longleftrightarrow> hub_registered (hub_objects s x) \<and> hub_descriptor (hub_objects s x) = d" for d x by (rule inv)
  show "frames s f = Some x" if "f \<in> hub_waiters (hub_objects s x)" for f x using that by (rule inv)
  show "f \<in> hub_waiters (hub_objects s x)" if "frames s f = Some x" "futures s' f = Pending" for f x
    using that(1) assms(7) [OF that] by (rule inv)
  show "f < next_future s' \<and> x < next_hub s" if "frames s f = Some x" for f x
    using that inv(8,9) [of f x] assms(6) by auto
  show "loop_hubs s' \<noteq> Some []" by (rule assms(10))
qed

lemma inv_discard: "hub_inv s \<Longrightarrow> hub_inv (discard_hub d h s)"
  by (rule inv_shrink) (auto simp: table_discard discard_not_empty hub_invD(10) split: if_splits)

lemma inv_wake:
  assumes "hub_inv s"
  shows "hub_inv (hub_wake h s)"
proof (rule hub_invI)
  note inv = hub_invD [OF assms]
  note def = hub_wake_def set_hub_def finish_futures_def Let_def
  let ?s = "hub_wake h s"
  show "hub_registered (hub_objects ?s x) \<longleftrightarrow> hub_waiters (hub_objects ?s x) \<noteq> {}" for x
    using inv(1) [of x] inv(1) [of h] by (simp add: def)
  show "table ?s (hub_descriptor (hub_objects ?s x)) = Some x" if "hub_registered (hub_objects ?s x)" for x
    using that inv(2) [of x] by (auto simp: def split: if_splits)
  show "hub_descriptor (hub_objects ?s x) = d \<and> x < next_hub ?s" if "table ?s d = Some x" for d x
    using that inv(3,4) [of d x] by (auto simp: def split: if_splits)
  show "readers ?s d = Some x \<longleftrightarrow> hub_registered (hub_objects ?s x) \<and> hub_descriptor (hub_objects ?s x) = d" for d x
    using inv(2) [of x] inv(2) [of h] inv(5) [of d x] by (auto simp: def split: if_splits)
  show "frames ?s f = Some x" if "f \<in> hub_waiters (hub_objects ?s x)" for f x
    using that inv(6) [of f x] by (auto simp: def split: if_splits)
  show "f \<in> hub_waiters (hub_objects ?s x)" if "frames ?s f = Some x" "futures ?s f = Pending" for f x
    using that inv(7) [of f x] by (auto simp: def split: if_splits)
  show "f < next_future ?s \<and> x < next_hub ?s" if "frames ?s f = Some x" for f x
    using that inv(8,9) [of f x] by (auto simp: def split: if_splits)
  show "loop_hubs ?s \<noteq> Some []" using inv(10) by (auto simp: def)
qed

text \<open>What \<^verbatim>\<open>wait\<close> does before it discards the hub.\<close>

definition leave_hub :: "nat \<Rightarrow> nat \<Rightarrow> fdloop \<Rightarrow> fdloop" where
  "leave_hub f h s =
     (let s1 = set_hub h (\<lambda>x. x\<lparr>hub_waiters := hub_waiters x - {f}\<rparr>) (s\<lparr>frames := (frames s)(f := None)\<rparr>)
      in if hub_waiters (hub_objects s h) - {f} = {} \<and> hub_registered (hub_objects s h)
         then set_hub h (\<lambda>x. x\<lparr>hub_registered := False\<rparr>) (s1\<lparr>readers := (readers s1)(hub_descriptor (hub_objects s h) := None)\<rparr>)
         else s1)"

lemma wait_end_leave: "wait_end f h s = discard_hub (hub_descriptor (hub_objects s h)) h (leave_hub f h s)"
  by (simp add: wait_end_def leave_hub_def set_hub_def Let_def)

lemma inv_leave:
  assumes "hub_inv s" and f: "frames s f = Some h"
  shows "hub_inv (leave_hub f h s)"
proof (rule hub_invI)
  note inv = hub_invD [OF assms(1)]
  note def = leave_hub_def set_hub_def Let_def
  let ?s = "leave_hub f h s"
  show "hub_registered (hub_objects ?s x) \<longleftrightarrow> hub_waiters (hub_objects ?s x) \<noteq> {}" for x
    using inv(1) [of x] inv(1) [of h] by (auto simp: def)
  show "table ?s (hub_descriptor (hub_objects ?s x)) = Some x" if "hub_registered (hub_objects ?s x)" for x
    using that inv(2) [of x] by (auto simp: def split: if_splits)
  show "hub_descriptor (hub_objects ?s x) = d \<and> x < next_hub ?s" if "table ?s d = Some x" for d x
    using that inv(3,4) [of d x] by (auto simp: def split: if_splits)
  show "readers ?s d = Some x \<longleftrightarrow> hub_registered (hub_objects ?s x) \<and> hub_descriptor (hub_objects ?s x) = d" for d x
    using inv(2) [of x] inv(2) [of h] inv(5) [of d x] by (auto simp: def split: if_splits)
  show "frames ?s g = Some x" if "g \<in> hub_waiters (hub_objects ?s x)" for g x
    using that inv(6) [of g x] f by (auto simp: def split: if_splits)
  show "g \<in> hub_waiters (hub_objects ?s x)" if "frames ?s g = Some x" "futures ?s g = Pending" for g x
    using that inv(7) [of g x] by (auto simp: def split: if_splits)
  show "g < next_future ?s \<and> x < next_hub ?s" if "frames ?s g = Some x" for g x
    using that inv(8,9) [of g x] by (auto simp: def split: if_splits)
  show "loop_hubs ?s \<noteq> Some []" using inv(10) by (auto simp: def)
qed

lemma inv_abandon: "hub_inv s \<Longrightarrow> hub_inv (s\<lparr>futures := (futures s)(f := Cancelled)\<rparr>)"
  by (rule inv_shrink) (auto simp: hub_invD(10) split: if_splits)

lemma hub_for_table:
  assumes "hub_inv s" and "hub_for d s = (h, s')"
  shows "table s' d = Some h \<and> hub_inv s' \<and> (table s d = Some h \<and> s' = s \<or> table s d = None \<and> h = next_hub s \<and>
     (\<forall>x. frames s x \<noteq> Some h) \<and> hub_waiters (hub_objects s' h) = {} \<and> table s' = (table s)(d \<mapsto> h) \<and>
     (\<forall>x. x \<noteq> h \<longrightarrow> hub_objects s' x = hub_objects s x) \<and> frames s' = frames s \<and> futures s' = futures s)"
proof (cases "table s d")
  case (Some x)
  then show ?thesis using assms by (auto simp: hub_for_def table_def split: option.splits)
next
  case None
  note inv = hub_invD [OF assms(1)]
  let ?x = "next_hub s"
  have s': "h = ?x" "table s' = (table s)(d \<mapsto> ?x)"
    "hub_objects s' = (hub_objects s)(?x := \<lparr>hub_descriptor = d, hub_waiters = {}, hub_registered = False\<rparr>)"
    "readers s' = readers s" "frames s' = frames s" "futures s' = futures s" "next_future s' = next_future s"
    "next_hub s' = Suc ?x" "loop_hubs s' \<noteq> Some []"
    using assms(2) None by (auto simp: hub_for_def table_def Let_def map_add_def fun_eq_iff split: option.splits)
  have fresh: "\<not> hub_registered (hub_objects s ?x)" "hub_waiters (hub_objects s ?x) = {}" "frames s f \<noteq> Some ?x" for f
    using inv(1,2) [of ?x] inv(4) [of _ ?x] inv(9) [of f ?x] by auto
  have "hub_inv s'"
  proof (rule hub_invI, unfold s'(3-8))
    let ?o = "(hub_objects s)(?x := \<lparr>hub_descriptor = d, hub_waiters = {}, hub_registered = False\<rparr>)"
    show "hub_registered (?o x) \<longleftrightarrow> hub_waiters (?o x) \<noteq> {}" for x using inv(1) [of x] by simp
    show "table s' (hub_descriptor (?o x)) = Some x" if "hub_registered (?o x)" for x
      using that inv(2) [of x] None by (auto simp: s'(2) split: if_splits)
    show "hub_descriptor (?o x) = e \<and> x < Suc ?x" if "table s' e = Some x" for e x
      using that inv(3,4) [of e x] by (auto simp: s'(2) split: if_splits)
    show "readers s e = Some x \<longleftrightarrow> hub_registered (?o x) \<and> hub_descriptor (?o x) = e" for e x
      using inv(5) [of e x] fresh by auto
    show "frames s f = Some x" if "f \<in> hub_waiters (?o x)" for f x using that inv(6) [of f x] by (auto split: if_splits)
    show "f \<in> hub_waiters (?o x)" if "frames s f = Some x" "futures s f = Pending" for f x
      using that inv(7) [of f x] fresh by auto
    show "f < next_future s \<and> x < Suc ?x" if "frames s f = Some x" for f x using that inv(8,9) [of f x] by auto
    show "loop_hubs s' \<noteq> Some []" by (rule s')
  qed
  then show ?thesis using s' None fresh by simp
qed

lemma inv_future:
  "hub_inv s \<Longrightarrow> hub_inv (s\<lparr>next_future := Suc (next_future s), futures := (futures s)(next_future s := Pending)\<rparr>)"
  by (rule inv_shrink) (auto simp: hub_invD(10) dest: hub_invD(8) split: if_splits)

lemma inv_begin:
  assumes "hub_inv s" and t: "table s (hub_descriptor (hub_objects s h)) = Some h"
  shows "hub_inv (snd (wait_begin h s))"
proof (cases "\<not> hub_registered (hub_objects s h) \<and> \<not> readers_supported s")
  case True
  note inv = hub_invD [OF assms(1)]
  have "next_future s \<notin> hub_waiters (hub_objects s h)" using inv(6,8) by blast
  then have "snd (wait_begin h s) = discard_hub (hub_descriptor (hub_objects s h)) h
      (s\<lparr>next_future := Suc (next_future s), futures := (futures s)(next_future s := Pending)\<rparr>)"
    using True by (simp add: wait_begin_def set_hub_def Let_def)
  moreover have "hub_inv (s\<lparr>next_future := Suc (next_future s), futures := (futures s)(next_future s := Pending)\<rparr>)"
    by (rule inv_future) (rule assms)
  ultimately show ?thesis by (simp add: inv_discard)
next
  case False
  note inv = hub_invD [OF assms(1)]
  note def = wait_begin_def set_hub_def Let_def
  let ?s = "snd (wait_begin h s)"
  have new: "frames s (next_future s) = None" using inv(8) [of "next_future s"] by (cases "frames s (next_future s)") auto
  show ?thesis
  proof (rule hub_invI)
    show "hub_registered (hub_objects ?s x) \<longleftrightarrow> hub_waiters (hub_objects ?s x) \<noteq> {}" for x
      using inv(1) [of x] False by (auto simp: def)
    show "table ?s (hub_descriptor (hub_objects ?s x)) = Some x" if "hub_registered (hub_objects ?s x)" for x
      using that inv(2) [of x] t False by (auto simp: def split: if_splits)
    show "hub_descriptor (hub_objects ?s x) = d \<and> x < next_hub ?s" if "table ?s d = Some x" for d x
      using that inv(3,4) [of d x] False by (auto simp: def split: if_splits)
    show "readers ?s d = Some x \<longleftrightarrow> hub_registered (hub_objects ?s x) \<and> hub_descriptor (hub_objects ?s x) = d" for d x
      using inv(2) [of x] t inv(5) [of d x] False by (auto simp: def split: if_splits)
    show "frames ?s g = Some x" if "g \<in> hub_waiters (hub_objects ?s x)" for g x
      using that inv(6) [of g x] new False by (auto simp: def split: if_splits)
    show "g \<in> hub_waiters (hub_objects ?s x)" if "frames ?s g = Some x" "futures ?s g = Pending" for g x
      using that inv(7) [of g x] False by (auto simp: def split: if_splits)
    show "g < next_future ?s \<and> x < next_hub ?s" if "frames ?s g = Some x" for g x
      using that inv(8,9) [of g x] inv(4) [OF t] False by (auto simp: def split: if_splits)
    show "loop_hubs ?s \<noteq> Some []" using inv(10) False by (auto simp: def)
  qed
qed

lemma hub_step_inv: "hub_step s e s' \<Longrightarrow> hub_inv s \<Longrightarrow> hub_inv s'"
proof (induction rule: hub_step.induct)
  case (begin_wait d s h s1 r s2)
  have "table s1 d = Some h" "hub_inv s1" using hub_for_table [OF begin_wait.prems begin_wait.hyps(1)] by auto
  moreover from this have "hub_descriptor (hub_objects s1 h) = d" by (rule hub_invD(3) [rotated])
  ultimately show ?case using inv_begin [of s1 h] begin_wait.hyps(2) by simp
next
  case (lookup d s h s1)
  then show ?case using hub_for_table by blast
next
  case (interrupt s d)
  then show ?case by (auto simp: interrupt_hub_def hub_interrupt_def inv_discard inv_wake split: option.split)
qed (simp_all add: hub_ready_def inv_wake inv_abandon wait_end_leave inv_discard inv_leave)

lemma hub_reachable_inv: "hub_reachable A s \<Longrightarrow> hub_inv s"
proof (induction rule: hub_reachable.induct)
  case (hub_start b)
  show ?case by (rule hub_invI) (simp_all add: fresh_loop_def table_def)
qed (rule hub_step_inv)

section \<open>Refinement of a set of waits\<close>

text \<open>
  What the hubs implement: a set of waits, each for one descriptor. A wait that begins joins the
  set; a descriptor that becomes readable, or is interrupted, ends every wait for it and no
  other; a timeout or a cancellation ends one wait.
\<close>

definition pending_waits :: "fdloop \<Rightarrow> (nat \<times> int) set" where
  "pending_waits s = {(f, d). \<exists>h. frames s f = Some h \<and> futures s f = Pending \<and> hub_descriptor (hub_objects s h) = d}"

fun wait_spec :: "bool \<Rightarrow> (nat \<times> int) set \<Rightarrow> hub_event \<Rightarrow> (nat \<times> int) set \<Rightarrow> bool" where
  "wait_spec ok W (Begin d) W' \<longleftrightarrow> (\<not> ok \<and> W' = W) \<or> (\<exists>f. f \<notin> fst ` W \<and> W' = insert (f, d) W)"
| "wait_spec ok W (Lookup d) W' \<longleftrightarrow> W' = W"
| "wait_spec ok W (Readable d) W' \<longleftrightarrow> W' = {x \<in> W. snd x \<noteq> d}"
| "wait_spec ok W (Abandon f) W' \<longleftrightarrow> W' = {x \<in> W. fst x \<noteq> f}"
| "wait_spec ok W (Resume f) W' \<longleftrightarrow> W' = W"
| "wait_spec ok W (Interrupt d) W' \<longleftrightarrow> W' = {x \<in> W. snd x \<noteq> d}"

lemma pending_discard [simp]: "pending_waits (discard_hub d h s) = pending_waits s"
  by (simp add: pending_waits_def)

lemma pending_leave: "futures s f \<noteq> Pending \<Longrightarrow> pending_waits (leave_hub f h s) = pending_waits s"
  by (auto simp: pending_waits_def leave_hub_def set_hub_def Let_def split: if_splits)

text \<open>All pending waits for the descriptor of a hub in the table are waits of that hub.\<close>

lemma pending_hub:
  assumes "hub_inv s" "frames s f = Some x" "futures s f = Pending" "table s (hub_descriptor (hub_objects s x)) = Some h"
  shows "x = h \<and> f \<in> hub_waiters (hub_objects s h)"
  using hub_invD(1,2,7) [OF assms(1)] assms(2-4) by (metis empty_iff option.inject)

lemma pending_wake:
  assumes "hub_inv s" "table s d = Some h"
  shows "pending_waits (hub_wake h s) = {x \<in> pending_waits s. snd x \<noteq> d}"
proof -
  note def = hub_wake_def set_hub_def finish_futures_def Let_def
  have frame: "frames (hub_wake h s) = frames s" "hub_descriptor (hub_objects (hub_wake h s) x) = hub_descriptor (hub_objects s x)" for x
    by (simp_all add: def)
  have "futures (hub_wake h s) f = Pending \<longleftrightarrow> futures s f = Pending \<and> f \<notin> hub_waiters (hub_objects s h)" for f
    by (auto simp: def)
  moreover have "frames s f = Some x \<Longrightarrow> futures s f = Pending \<Longrightarrow>
      f \<in> hub_waiters (hub_objects s h) \<longleftrightarrow> hub_descriptor (hub_objects s x) = d" for f x
    using pending_hub [OF assms(1), of f x h] hub_invD(3,6) [OF assms(1)] assms(2) by fastforce
  ultimately show ?thesis unfolding pending_waits_def frame by auto
qed

lemma pending_hub_for:
  assumes "hub_inv s" "hub_for d s = (h, s')"
  shows "pending_waits s' = pending_waits s"
proof -
  have "frames s' = frames s" "futures s' = futures s" using assms(2) by (auto simp: hub_for_def Let_def split: option.splits)
  moreover have "hub_objects s' x = hub_objects s x" if "frames s f = Some x" for f x
    using hub_for_table [OF assms] that by metis
  ultimately show ?thesis unfolding pending_waits_def by auto
qed

lemma pending_begin:
  assumes "hub_inv s" "hub_for d s = (h, s1)" "wait_begin h s1 = (r, s2)"
  shows "wait_spec (readers_supported s) (pending_waits s) (Begin d) (pending_waits s2)"
proof -
  note h = hub_for_table [OF assms(1,2)]
  then have d: "hub_descriptor (hub_objects s1 h) = d" and inv: "hub_inv s1" using hub_invD(3) by blast+
  have s1: "pending_waits s1 = pending_waits s" by (rule pending_hub_for [OF assms(1,2)])
  have sup: "readers_supported s1 = readers_supported s"
    using assms(2) by (auto simp: hub_for_def Let_def split: option.splits)
  have new: "frames s1 (next_future s1) = None"
    using hub_invD(8) [OF inv, of "next_future s1"] by (cases "frames s1 (next_future s1)") auto
  then have "next_future s1 \<notin> fst ` pending_waits s1" unfolding pending_waits_def by force
  moreover have "pending_waits s2 = (if \<not> hub_registered (hub_objects s1 h) \<and> \<not> readers_supported s1 then pending_waits s1
      else insert (next_future s1, d) (pending_waits s1))"
    using assms(3) d new by (auto simp: wait_begin_def set_hub_def Let_def pending_waits_def split: if_splits)
  ultimately show ?thesis using s1 sup by (auto split: if_splits)
qed

text \<open>
  C33: The shared hubs implement a set of waits. In any interleaving of coroutines, descriptor
  events, timeouts, cancellations and interrupts, each step of the hubs is a step of the set: no
  wait is lost when another one ends, and a descriptor that becomes readable wakes all the waits
  for it and no others.
\<close>

theorem hub_refines_waits:
  assumes "hub_reachable A s" and "hub_step s e s'"
  shows "wait_spec (readers_supported s) (pending_waits s) e (pending_waits s')"
  using assms(2) hub_reachable_inv [OF assms(1)]
proof (induction rule: hub_step.induct)
  case (begin_wait d s h s1 r s2)
  then show ?case using pending_begin by blast
next
  case (lookup d s h s1)
  then show ?case using pending_hub_for by simp
next
  case (readable s d h)
  then have "table s d = Some h" using hub_invD(5) [of s d h] hub_invD(2) [of s h] by auto
  then show ?case using readable pending_wake by (simp add: hub_ready_def)
next
  case (abandon s f)
  then show ?case by (auto simp: pending_waits_def split: if_splits)
next
  case (resume s f h)
  then show ?case by (simp add: wait_end_leave pending_leave)
next
  case (interrupt s d)
  show ?case
  proof (cases "table s d")
    case None
    then have "snd x \<noteq> d" if "x \<in> pending_waits s" for x
      using that hub_invD(1,2,7) [OF interrupt] by (fastforce simp: pending_waits_def)
    then show ?thesis using None by (auto simp: interrupt_hub_def)
  next
    case (Some h)
    then show ?thesis using pending_wake [OF interrupt Some] by (simp add: interrupt_hub_def hub_interrupt_def)
  qed
qed

definition one_wait :: fdloop where
  "one_wait = snd (wait_begin 0 (snd (hub_for 7 (fresh_loop True))))"

lemma one_wait_step: "hub_step (fresh_loop True) (Begin 7) one_wait"
  by (rule begin_wait [of 7 "fresh_loop True" 0 "snd (hub_for 7 (fresh_loop True))" "Inr 0"])
    (simp_all add: one_wait_def hub_for_def fresh_loop_def wait_begin_def set_hub_def Let_def)

lemma one_wait_reachable: "A (Begin 7) \<Longrightarrow> hub_reachable A one_wait"
  using one_wait_step by (blast intro: hub_reachable.intros)

lemma one_wait_fields [simp]:
  "readers one_wait 7 = Some 0" "frames one_wait 0 = Some 0" "futures one_wait 0 = Pending"
  "pending_waits one_wait = {(0, 7)}" "readers_supported one_wait"
  by (auto simp: one_wait_def hub_for_def fresh_loop_def wait_begin_def set_hub_def Let_def pending_waits_def split: if_splits)

theorem hub_refines_waits_witness:
  "hub_step one_wait (Readable 7) (hub_ready 0 one_wait) \<and> pending_waits one_wait = {(0, 7)} \<and>
   pending_waits (hub_ready 0 one_wait) = {}"
proof -
  have step: "hub_step one_wait (Readable 7) (hub_ready 0 one_wait)" by (rule readable) simp
  with hub_refines_waits [OF one_wait_reachable [of "\<lambda>_. True"] step] show ?thesis by simp
qed

text \<open>
  C34: While a coroutine waits for a descriptor, the event loop has a reader for that descriptor,
  exactly one, and the loop keeps no reader for which nobody waits: so readiness always reaches
  the coroutine, which is then marked to run.
\<close>

theorem waiting_has_reader:
  assumes "hub_reachable A s"
  shows "(\<forall>(f, d) \<in> pending_waits s. \<exists>s'. hub_step s (Readable d) s' \<and> futures s' f = Done) \<and>
    (\<forall>d. readers s d \<noteq> None \<longrightarrow> (\<exists>f h. frames s f = Some h \<and> hub_descriptor (hub_objects s h) = d))"
proof -
  note inv = hub_invD [OF hub_reachable_inv [OF assms]]
  have "\<exists>s'. hub_step s (Readable d) s' \<and> futures s' f = Done" if "(f, d) \<in> pending_waits s" for f d
  proof -
    from that obtain h where h: "frames s f = Some h" "futures s f = Pending" "hub_descriptor (hub_objects s h) = d"
      by (auto simp: pending_waits_def)
    then have "f \<in> hub_waiters (hub_objects s h)" using inv(7) by blast
    moreover from this have "readers s d = Some h" using inv(1,5) h by blast
    ultimately show ?thesis using h hub_step.readable [of s d h]
      by (auto simp: hub_ready_def hub_wake_def finish_futures_def set_hub_def Let_def)
  qed
  moreover have "\<exists>f h. frames s f = Some h \<and> hub_descriptor (hub_objects s h) = d" if "readers s d \<noteq> None" for d
    using that inv(1,5,6) by blast
  ultimately show ?thesis by blast
qed

theorem waiting_has_reader_witness:
  "\<exists>s'. hub_step one_wait (Readable 7) s' \<and> futures s' 0 = Done"
  using waiting_has_reader [OF one_wait_reachable [of "\<lambda>_. True"]] by simp

section \<open>Nothing is left behind\<close>

definition in_use :: "fdloop \<Rightarrow> bool" where
  "in_use s \<longleftrightarrow> (\<forall>d h. table s d = Some h \<longrightarrow> (\<exists>f. frames s f = Some h))"

lemma in_use_step:
  assumes "hub_step s e s'" and "hub_inv s" and "in_use s" and "\<forall>d. e \<noteq> Lookup d"
  shows "in_use s'"
  using assms
proof (induction rule: hub_step.induct)
  case (begin_wait d s h s1 r s2)
  note h = hub_for_table [OF begin_wait.prems(1) begin_wait.hyps(1)]
  then have d: "hub_descriptor (hub_objects s1 h) = d" and inv: "hub_inv s1" using hub_invD(3) by blast+
  have s1: "x = h \<or> (\<exists>f. frames s1 f = Some x)" if "table s1 e = Some x" for e x
    using that h begin_wait.prems(2) unfolding in_use_def by (metis fun_upd_apply option.inject)
  have new: "frames s1 (next_future s1) = None"
    using hub_invD(8) [OF inv, of "next_future s1"] by (cases "frames s1 (next_future s1)") auto
  show ?case
  proof (cases "\<not> hub_registered (hub_objects s1 h) \<and> \<not> readers_supported s1")
    case True
    have "hub_waiters (hub_objects s1 h) = {}" using True hub_invD(1) [OF inv] by blast
    then have "table s2 = (table s1)(d := None)" "frames s2 = frames s1"
      using begin_wait.hyps(2) h d True by (auto simp: wait_begin_def set_hub_def Let_def table_discard)
    then show ?thesis using s1 hub_invD(3) [OF inv] d unfolding in_use_def by (metis fun_upd_apply option.distinct(1))
  next
    case False
    then have "frames s2 = (frames s1)(next_future s1 := Some h)" "table s2 = table s1"
      using begin_wait.hyps(2) by (auto simp: wait_begin_def set_hub_def Let_def split: if_splits)
    then show ?thesis using s1 new unfolding in_use_def by (metis fun_upd_apply option.distinct(1))
  qed
next
  case (readable s d h)
  then show ?case by (simp add: in_use_def hub_ready_def hub_wake_def set_hub_def finish_futures_def Let_def)
next
  case (resume s f h)
  let ?s = "leave_hub f h s"
  have t: "table ?s = table s" "frames ?s = (frames s)(f := None)" by (simp_all add: leave_hub_def set_hub_def Let_def)
  have "hub_inv ?s" using resume inv_leave by blast
  note inv = hub_invD [OF this]
  have d: "hub_descriptor (hub_objects ?s h) = hub_descriptor (hub_objects s h)" by (simp add: leave_hub_def set_hub_def Let_def)
  show ?case unfolding in_use_def
  proof (intro allI impI)
    fix e x assume x: "table (wait_end f h s) e = Some x"
    then have tx: "table s e = Some x" by (auto simp: wait_end_leave table_discard t split: if_splits)
    then obtain g where g: "frames s g = Some x" using resume.prems(2) by (auto simp: in_use_def)
    show "\<exists>g. frames (wait_end f h s) g = Some x"
    proof (cases "g = f")
      case False
      then show ?thesis using g by (auto simp: wait_end_leave t)
    next
      case True
      then have "x = h" using g resume.hyps by simp
      then have "hub_waiters (hub_objects ?s h) \<noteq> {}"
        using x tx inv(1) [of h] hub_invD(3) [OF resume.prems(1) tx] by (auto simp: wait_end_leave table_discard t split: if_splits)
      then show ?thesis using inv(6) \<open>x = h\<close> by (auto simp: wait_end_leave)
    qed
  qed
next
  case (interrupt s d)
  then show ?case
    by (auto simp: in_use_def interrupt_hub_def hub_interrupt_def table_discard hub_wake_def set_hub_def finish_futures_def Let_def
        split: option.splits if_splits)
qed (simp_all add: in_use_def)

lemma reachable_in_use: "hub_reachable (\<lambda>e. \<forall>d. e \<noteq> Lookup d) s \<Longrightarrow> in_use s"
proof (induction rule: hub_reachable.induct)
  case (hub_start b)
  show ?case by (simp add: in_use_def fresh_loop_def table_def)
next
  case (hub_next s e s')
  then show ?case using in_use_step hub_reachable_inv by blast
qed

text \<open>
  When every wait has ended, normally or by a timeout, a cancellation or an interrupt, nothing is
  left behind: the loop has no readers and \<^verbatim>\<open>_LOOP_HUBS\<close> has no entry for it, provided that no
  evaluation of a timeout argument raised after \<^verbatim>\<open>_hub\<close> had created a hub.
\<close>

theorem hubs_released:
  assumes "hub_reachable (\<lambda>e. \<forall>d. e \<noteq> Lookup d) s" and "\<forall>f. frames s f = None"
  shows "loop_hubs s = None \<and> readers s = (\<lambda>_. None)"
proof -
  note inv = hub_invD [OF hub_reachable_inv [OF assms(1)]]
  have "table s d = None" for d
    using reachable_in_use [OF assms(1)] assms(2) unfolding in_use_def by (cases "table s d") fastforce+
  then have "loop_hubs s = None"
    using inv(10) by (cases "loop_hubs s") (auto simp: table_def neq_Nil_conv split: if_splits, metis option.distinct(1))
  moreover have "readers s d = None" for d using inv(1,5,6) assms(2) by (metis all_not_in_conv not_None_eq option.distinct(1))
  ultimately show ?thesis by auto
qed

text \<open>A wait whose task is cancelled, and that has run its \<^verbatim>\<open>finally\<close> block.\<close>

definition ended_wait :: fdloop where
  "ended_wait = wait_end 0 0 (one_wait\<lparr>futures := (futures one_wait)(0 := Cancelled)\<rparr>)"

theorem hubs_released_witness:
  "hub_reachable (\<lambda>e. \<forall>d. e \<noteq> Lookup d) ended_wait \<and> loop_hubs ended_wait = None \<and> readers ended_wait = (\<lambda>_. None)"
proof -
  let ?s = "one_wait\<lparr>futures := (futures one_wait)(0 := Cancelled)\<rparr>"
  have "hub_step one_wait (Abandon 0) ?s" by (rule abandon) simp_all
  moreover have "hub_step ?s (Resume 0) ended_wait" unfolding ended_wait_def by (rule resume) simp_all
  ultimately have r: "hub_reachable (\<lambda>e. \<forall>d. e \<noteq> Lookup d) ended_wait"
    using one_wait_reachable [of "\<lambda>e. \<forall>d. e \<noteq> Lookup d"] by (blast intro: hub_next)
  have "frames ended_wait f = None" for f
    by (auto simp: ended_wait_def one_wait_def wait_end_leave leave_hub_def hub_for_def fresh_loop_def wait_begin_def set_hub_def Let_def)
  with hubs_released [OF r] r show ?thesis by blast
qed

text \<open>An evaluation of the timeout that raises leaves the new hub in the table.\<close>

lemma lookup_leaves_hub:
  "hub_step (fresh_loop b) (Lookup d) (snd (hub_for d (fresh_loop b))) \<and>
   loop_hubs (snd (hub_for d (fresh_loop b))) = Some [(d, 0)]"
  by (auto simp: hub_for_def fresh_loop_def intro: lookup)

end
