(* ===== verification/Stream_Laws.thy ===== *)
theory Stream_Laws
  imports Request_Laws
begin

text \<open>
  Row streams and COPY input: the rows a stream hands out are the rows that arrived, in order, and
  a write ends with all its bytes taken by the native writer.
\<close>

section \<open>Row streams\<close>

text \<open>Driving a request touches no stream.\<close>

lemma keeps_retire_streams: "keeps (\<lambda>w. streams w = v) (retire_request H r)"
  unfolding retire_request_def gate_release_def obj_defs
  by (intro keeps_rules keeps_native keeps_modify; simp)

interpretation streams_kept: driver H "\<lambda>w. streams w = v" for H :: "'k host" and v
  by unfold_locales (auto simp: keeps_retire_streams)

lemma next_result_streams: "Request_next_result H n r w = (Val i, w') \<Longrightarrow> streams w' = streams w"
  by (rule keeps_frame_Val [where f = streams]) (rule streams_kept.keeps_next)

abbreviation stream_flow :: "stream \<Rightarrow> row list \<Rightarrow> stream \<Rightarrow> bool" where
  "stream_flow x out y \<equiv> row_flow (s_rows x) (s_rows_seen x) out (s_rows y) (s_rows_seen y)"

lemma account_rows [simp]:
  "s_rows (stream_account x s) = s_rows s" "s_rows_seen (stream_account x s) = s_rows_seen s + int (length (res_rows x))"
  by (simp_all add: stream_account_def Let_def)

lemma chunk_loop_Val:
  "chunk_loop H fuel s w = (Val c, w') \<Longrightarrow>
   s_rows (streams w' s) = s_rows (streams w s) \<and>
   s_rows_seen (streams w' s) = s_rows_seen (streams w s) + (case c of None \<Rightarrow> 0 | Some x \<Rightarrow> int (length (res_rows x))) \<and>
   (c = None \<longrightarrow> s_closed (streams w' s))"
proof (induction fuel arbitrary: w)
  case 0
  then show ?case by (simp add: hang_def)
next
  case (Suc n)
  obtain i w1 where i: "Request_next_result H n (s_request (streams w s)) w = (Val i, w1)"
    and rest: "(case i of
         None \<Rightarrow> seq (set_stream s (\<lambda>y. y\<lparr>s_closed := True\<rparr>)) (ret None)
       | Some (CopyItem cp) \<Rightarrow> seq (Copy_close H cp) (raise (programming_error ''row stream received a COPY result''))
       | Some (ResultItem x) \<Rightarrow> seq (set_stream s (stream_account x))
           (if res_kind x = RESULT_TUPLES_CHUNK \<or> res_rows x \<noteq> [] then ret (Some x) else chunk_loop H n s)) w1 = (Val c, w')"
    using Suc.prems by (auto simp: bind_gets bind_eq_Val)
  note w1 = next_result_streams [OF i]
  show ?case
  proof (cases i)
    case None
    then show ?thesis using rest w1 by (auto simp: bind_eq_Val set_stream_def)
  next
    case (Some it)
    then obtain x where x: "it = ResultItem x" using rest by (cases it) (auto simp: bind_eq_Val)
    let ?w = "w1\<lparr>streams := (streams w1)(s := stream_account x (streams w1 s))\<rparr>"
    have r: "(if res_kind x = RESULT_TUPLES_CHUNK \<or> res_rows x \<noteq> [] then ret (Some x) else chunk_loop H n s) ?w = (Val c, w')"
      using rest Some x by (simp add: set_stream_def bind_modify)
    show ?thesis
    proof (cases "res_kind x = RESULT_TUPLES_CHUNK \<or> res_rows x \<noteq> []")
      case True
      then have "c = Some x" "w' = ?w" using r by (auto simp: ret_eq)
      then show ?thesis using w1 by simp
    next
      case False
      then have "chunk_loop H n s ?w = (Val c, w')" using r by simp
      from Suc.IH [OF this] False w1 show ?thesis by simp
    qed
  qed
qed

lemma next_chunk_Val:
  assumes "RowStream_next_chunk H fuel s w = (Val c, w')"
  shows "s_rows (streams w' s) = s_rows (streams w s) \<and>
   s_rows_seen (streams w' s) = s_rows_seen (streams w s) + (case c of None \<Rightarrow> 0 | Some x \<Rightarrow> int (length (res_rows x))) \<and>
   (c = None \<longrightarrow> s_chunks (streams w' s) = ChunksDone)"
proof (cases "s_chunks (streams w s) = ChunksDone")
  case True
  then show ?thesis using assms by (auto simp: RowStream_next_chunk_def bind_gets)
next
  case False
  then obtain w1 where "chunk_loop H fuel s w = (Val c, w1)"
    and "w' = w1\<lparr>streams := (streams w1)(s := (streams w1 s)\<lparr>s_chunks := (if c = None then ChunksDone else ChunksSuspended)\<rparr>)\<rparr>"
    using assms
    by (auto simp: RowStream_next_chunk_def bind_gets bind_eq_Val catch_eq_Val set_stream_def raise_eq split: if_splits)
  from chunk_loop_Val [OF this(1)] this(2) show ?thesis by auto
qed

lemma fetchone_flow:
  "RowStream_fetchone H fuel s w = (Val row, w') \<Longrightarrow>
    stream_flow (streams w s) (case row of None \<Rightarrow> [] | Some x \<Rightarrow> [x]) (streams w' s) \<and>
    (row = None \<longrightarrow> s_chunks (streams w' s) = ChunksDone \<and> s_rows (streams w' s) = [])"
proof (induction fuel arbitrary: w)
  case 0
  then show ?case
    by (subst (asm) RowStream_fetchone.simps)
       (auto simp: bind_gets bind_eq_Val set_stream_def hang_def row_flow_def split: list.splits)
next
  case (Suc n)
  show ?case
  proof (cases "s_rows (streams w s)")
    case (Cons row rest)
    then show ?thesis using Suc.prems
      by (subst (asm) RowStream_fetchone.simps) (auto simp: bind_gets bind_eq_Val set_stream_def row_flow_def)
  next
    case Nil
    with Suc.prems obtain c w1 where c: "RowStream_next_chunk H n s w = (Val c, w1)"
      and rest: "(case c of None \<Rightarrow> ret None
        | Some x \<Rightarrow> seq (set_stream s (\<lambda>y. y\<lparr>s_rows := res_rows x\<rparr>)) (RowStream_fetchone H n s)) w1 = (Val row, w')"
      by (subst (asm) RowStream_fetchone.simps) (auto simp: bind_gets bind_eq_Val)
    note w1 = next_chunk_Val [OF c]
    show ?thesis
    proof (cases c)
      case None
      then show ?thesis using rest w1 Nil by (auto simp: row_flow_def)
    next
      case (Some x)
      let ?w = "w1\<lparr>streams := (streams w1)(s := (streams w1 s)\<lparr>s_rows := res_rows x\<rparr>)\<rparr>"
      have "RowStream_fetchone H n s ?w = (Val row, w')" using rest Some by (simp add: set_stream_def bind_modify)
      note ih = Suc.IH [OF this]
      have "stream_flow (streams w s) [] (streams ?w s)" using w1 Some Nil by (simp add: row_flow_def)
      from row_flow_trans [OF this ih [THEN conjunct1]] ih show ?thesis by simp
    qed
  qed
qed

lemma fetchmany_loop_flow:
  "fetchmany_loop H fuel s k w = (Val xs, w') \<Longrightarrow>
    stream_flow (streams w s) xs (streams w' s) \<and> length xs \<le> k \<and>
    (length xs < k \<longrightarrow> s_chunks (streams w' s) = ChunksDone \<and> s_rows (streams w' s) = [])"
proof (induction k arbitrary: w xs)
  case 0
  then show ?case by (simp add: ret_eq row_flow_refl)
next
  case (Suc k)
  then obtain row w1 where row: "RowStream_fetchone H fuel s w = (Val row, w1)"
    and rest: "(case row of None \<Rightarrow> ret [] | Some x \<Rightarrow> bind (fetchmany_loop H fuel s k) (\<lambda>xs. ret (x # xs))) w1 = (Val xs, w')"
    by (auto simp: bind_eq_Val)
  note f = fetchone_flow [OF row]
  show ?case
  proof (cases row)
    case None
    then show ?thesis using rest f by (auto simp: ret_eq)
  next
    case (Some x)
    then obtain ys where ys: "fetchmany_loop H fuel s k w1 = (Val ys, w')" "xs = x # ys"
      using rest by (auto simp: bind_eq_Val ret_eq)
    note ih = Suc.IH [OF ys(1)]
    have "stream_flow (streams w s) [x] (streams w1 s)" using f Some by simp
    from row_flow_trans [OF this ih [THEN conjunct1]] ih ys(2) show ?thesis by simp
  qed
qed


definition buffered_world :: "nat world" where
  "buffered_world = open_world\<lparr>streams := (\<lambda>_. \<lparr>s_request = 3, s_columns = [], s_command_status = None, s_rowcount = - 1,
     s_rows = [[PInt 1], [PInt 2]], s_chunks = ChunksSuspended, s_rows_seen = 2, s_closed = False\<rparr>)\<rparr>"


section \<open>COPY input\<close>

lemma on_copy_Val:
  "cp_handle (copies w cp) = Some h \<Longrightarrow> f h (kernel w) = (Inr a, k) \<Longrightarrow>
   on_copy cp call f w = (Val a, w\<lparr>kernel := k, calls := calls w @ [call h]\<rparr>)"
  by (simp add: on_copy_def bind_gets with_handle_def native_Val translating_Val)

lemma write_loop_completes:
  assumes "\<And>v k. v \<noteq> [] \<Longrightarrow> \<exists>c k'. copy_write H h v k = (Inr (c, IO_PROGRESS), k') \<and> 0 < c \<and> c \<le> int (length v)"
  shows "length view \<le> fuel \<Longrightarrow> cp_handle (copies w cp) = Some h \<Longrightarrow>
    \<exists>w' cs. write_loop H fuel cp view offset w = (Val (offset + int (length view)), w') \<and> copies w' = copies w \<and>
      calls w' = calls w @ cs \<and> length cs \<le> length view"
proof (induction fuel arbitrary: view offset w)
  case 0
  then show ?case by (subst write_loop.simps) (simp add: ret_def)
next
  case (Suc n)
  show ?case
  proof (cases "view = []")
    case True
    then show ?thesis by (subst write_loop.simps) (simp add: ret_def)
  next
    case False
    obtain c k where c: "copy_write H h view (kernel w) = (Inr (c, IO_PROGRESS), k)" "0 < c" "c \<le> int (length view)"
      using assms [OF False] by blast
    let ?w = "w\<lparr>kernel := k, calls := calls w @ [CopyWrite h view]\<rparr>"
    have "on_copy cp (\<lambda>h. CopyWrite h view) (\<lambda>h. copy_write H h view) w = (Val (c, IO_PROGRESS), ?w)"
      using on_copy_Val [of w cp h "\<lambda>h. copy_write H h view", OF Suc.prems(2)] c(1) by simp
    then have run: "write_loop H (Suc n) cp view offset w = write_loop H n cp (drop (nat c) view) (offset + c) ?w"
      using False c(2,3) by (subst write_loop.simps) (auto simp: run_bind_Val IO_PROGRESS_def IO_AGAIN_def)
    have le: "length (drop (nat c) view) \<le> n" using Suc.prems(1) c(2) by simp
    obtain w' cs where "write_loop H n cp (drop (nat c) view) (offset + c) ?w = (Val (offset + c + int (length (drop (nat c) view))), w')"
      "copies w' = copies ?w" "calls w' = calls ?w @ cs" "length cs \<le> length (drop (nat c) view)"
      using Suc.IH [OF le, of ?w "offset + c"] Suc.prems(2) by auto
    then show ?thesis using run c(2,3) le by (auto simp: of_nat_diff)
  qed
qed

text \<open>
  C10: A COPY write ends. If the native writer takes at least one byte of what it is offered each time, the
  write returns the number of bytes given, after at most as many native calls as there are bytes.
\<close>

theorem copy_write_completes:
  assumes "\<And>v k. v \<noteq> [] \<Longrightarrow> \<exists>c k'. copy_write H h v k = (Inr (c, IO_PROGRESS), k') \<and> 0 < c \<and> c \<le> int (length v)"
    and "\<not> cp_closed (copies w cp)" and "cp_handle (copies w cp) = Some h" and "length bytes \<le> fuel"
  shows "\<exists>w' cs. CopyIn_write H fuel cp bytes w = (Val (int (length bytes)), w') \<and> calls w' = calls w @ cs \<and>
    length cs \<le> length bytes"
proof -
  have "CopyIn_write H fuel cp bytes w = write_loop H fuel cp bytes 0 w"
    using assms(2,3) by (simp add: CopyIn_write_def Copy_require_open_def run_bind_Val run_guard)
  then show ?thesis using write_loop_completes [OF assms(1), of bytes fuel w cp 0] assms(3,4) by auto
qed

theorem copy_write_completes_witness:
  "\<exists>w'. CopyIn_write sample_host 3 4 [7, 8, 9] request_world = (Val 3, w') \<and> length (calls w') \<le> 3"
proof -
  have w: "\<exists>c k'. copy_write sample_host 30 v k = (Inr (c, IO_PROGRESS), k') \<and> 0 < c \<and> c \<le> int (length v)" if "v \<noteq> []" for v k
    using that by (simp add: sample_host_def IO_PROGRESS_def)
  have c: "\<not> cp_closed (copies request_world 4)" "cp_handle (copies request_world 4) = Some 30"
    by (simp_all add: request_world_def)
  from copy_write_completes [OF w c, of "[7, 8, 9]" 3] show ?thesis by (auto simp: eval_nat_numeral)
qed

end
