(* ===== verification/Database_Laws.thy ===== *)
theory Database_Laws
  imports Request_Laws
begin

text \<open>
  The database object and the registry of implicit instances: draining the event queue, sharing an
  instance between connections, and giving up a lease.
\<close>

section \<open>Events\<close>

text \<open>
  What the event queue of the native module does: \<open>queue\<close> reads the waiting events off the state of
  the host, an event is taken from its front, and neither the handlers nor the time spent in
  them put new ones in. Every event is of a known kind.
\<close>

definition queue_contract :: "'k host \<Rightarrow> handle \<Rightarrow> ('k \<Rightarrow> native_event list) \<Rightarrow> bool" where
  "queue_contract H h queue \<longleftrightarrow>
     (\<forall>k. case queue k of
        [] \<Rightarrow> (\<exists>k'. instance_next_event H h 0 k = (Inr None, k') \<and> queue k' = [] \<and> getpid H k' = getpid H k)
      | e # es \<Rightarrow> (\<exists>k'. instance_next_event H h 0 k = (Inr (Some e), k') \<and> queue k' = es \<and> getpid H k' = getpid H k) \<and>
          (\<exists>x. event_from_native e = Inr x)) \<and>
     (\<forall>f e k. \<exists>k'. call_handler H f e k = (Inr (), k') \<and> queue k' = queue k \<and> getpid H k' = getpid H k)"

lemma handlers_run:
  assumes "\<forall>f e k. \<exists>k'. call_handler H f e k = (Inr (), k') \<and> queue k' = queue k \<and> getpid H k' = getpid H k"
  shows "\<exists>k. for_each hs (\<lambda>f. host_call (call_handler H f e)) w = (Val (), w\<lparr>kernel := k\<rparr>) \<and> queue k = queue (kernel w) \<and>
    getpid H k = getpid H (kernel w)"
proof (induction hs arbitrary: w)
  case Nil
  show ?case by (intro exI [of _ "kernel w"]) (simp add: ret_def)
next
  case (Cons f hs)
  obtain k where k: "call_handler H f e (kernel w) = (Inr (), k)" "queue k = queue (kernel w)" "getpid H k = getpid H (kernel w)"
    using assms by blast
  then have "host_call (call_handler H f e) w = (Val (), w\<lparr>kernel := k\<rparr>)" by (simp add: host_call_def lift_def)
  with Cons [of "w\<lparr>kernel := k\<rparr>"] k(2,3) show ?case by (auto simp: run_bind_Val)
qed

text \<open>The events nobody receives, in the order of the queue.\<close>

definition unclaimed :: "database \<Rightarrow> native_event list \<Rightarrow> event list" where
  "unclaimed d es = filter (\<lambda>x. event_receivers d x = []) (map (\<lambda>e. projr (event_from_native e)) es)"

lemma receivers_backlog [simp]: "event_receivers (d\<lparr>d_event_backlog := b\<rparr>) x = event_receivers d x"
  by (simp add: event_receivers_def)

lemma unclaimed_backlog [simp]: "unclaimed (d\<lparr>d_event_backlog := b\<rparr>) es = unclaimed d es"
  by (simp add: unclaimed_def)

lemma dispatch_loop_drains:
  assumes contract: "queue_contract H h queue"
  shows "length (queue (kernel w)) < fuel \<Longrightarrow> \<not> d_closed (databases w db) \<Longrightarrow> d_handle (databases w db) = Some h \<Longrightarrow>
    d_owner_pid (databases w db) = Some (getpid H (kernel w)) \<Longrightarrow>
    \<exists>w'. dispatch_loop H fuel db None n w = (Val (n + int (length (queue (kernel w)))), w') \<and> queue (kernel w') = [] \<and>
      databases w' = (databases w)(db := (databases w db)\<lparr>d_event_backlog :=
        d_event_backlog (databases w db) @ unclaimed (databases w db) (queue (kernel w))\<rparr>)"
proof (induction fuel arbitrary: w n)
  case 0
  then show ?case by simp
next
  case (Suc m)
  note open_run = Database_ensure_open_run [OF Suc.prems(2-4)]
  note next_event = contract [unfolded queue_contract_def, THEN conjunct1, rule_format]
  note handlers = contract [unfolded queue_contract_def, THEN conjunct2]
  show ?case
  proof (cases "queue (kernel w)")
    case Nil
    obtain k where k: "instance_next_event H h 0 (kernel w) = (Inr None, k)" "queue k = []"
      using next_event [of "kernel w"] Nil by auto
    then have "dispatch_loop H (Suc m) db None n w = (Val n, w\<lparr>kernel := k, calls := calls w @ [InstanceNextEvent h 0]\<rparr>)"
      using open_run by (simp add: dispatch_loop.simps [of _ "Suc m"] run_bind_Val native_Val translating_Val run_ret)
    then show ?thesis using k Nil by (simp add: unclaimed_def)
  next
    case (Cons e es)
    obtain k x where k: "instance_next_event H h 0 (kernel w) = (Inr (Some e), k)" "queue k = es" "getpid H k = getpid H (kernel w)"
      and x: "event_from_native e = Inr x"
      using next_event [of "kernel w"] Cons by auto
    let ?w = "w\<lparr>kernel := k, calls := calls w @ [InstanceNextEvent h 0]\<rparr>"
    let ?hs = "event_receivers (databases w db) x"
    have step: "dispatch_loop H (Suc m) db None n w = (if ?hs = []
        then seq (set_database db (\<lambda>x'. x'\<lparr>d_event_backlog := d_event_backlog x' @ [x]\<rparr>)) (dispatch_loop H m db None (n + 1))
        else seq (for_each ?hs (\<lambda>f. host_call (call_handler H f x))) (dispatch_loop H m db None (n + 1))) ?w"
      using open_run k(1) x
      by (simp add: dispatch_loop.simps [of _ "Suc m"] run_bind_Val native_Val translating_Val lift_Inr bind_gets)
    have un: "unclaimed d (e # es) = (if event_receivers d x = [] then [x] else []) @ unclaimed d es" for d
      using x by (simp add: unclaimed_def)
    show ?thesis
    proof (cases "?hs = []")
      case True
      let ?v = "?w\<lparr>databases := (databases w)(db := (databases w db)\<lparr>d_event_backlog := d_event_backlog (databases w db) @ [x]\<rparr>)\<rparr>"
      have "dispatch_loop H (Suc m) db None n w = dispatch_loop H m db None (n + 1) ?v"
        using step True by (simp add: set_database_def bind_modify)
      with Suc.IH [of ?v "n + 1"] Suc.prems k Cons True show ?thesis by (simp add: un add.assoc cong: if_cong)
    next
      case False
      obtain k' where k': "for_each ?hs (\<lambda>f. host_call (call_handler H f x)) ?w = (Val (), ?w\<lparr>kernel := k'\<rparr>)"
        "queue k' = es" "getpid H k' = getpid H (kernel w)"
        using handlers_run [OF handlers, of ?hs x ?w] k(2,3) by auto
      have "dispatch_loop H (Suc m) db None n w = dispatch_loop H m db None (n + 1) (?w\<lparr>kernel := k'\<rparr>)"
        using step False k'(1) by (simp add: run_bind_Val)
      with Suc.IH [of "?w\<lparr>kernel := k'\<rparr>" "n + 1"] Suc.prems k' Cons False show ?thesis by (simp add: un add.assoc)
    qed
  qed
qed


text \<open>A host whose state is the number of notices that wait.\<close>

definition noisy_host :: "nat host" where
  "noisy_host = sample_host\<lparr>instance_next_event := (\<lambda>_ _ k. if k = 0 then (Inr None, 0) else (Inr (Some notice_native), k - 1)),
     call_handler := (\<lambda>_ _ k. (Inr (), k))\<rparr>"


section \<open>The registry of implicit instances\<close>

text \<open>
  A second connection to the cluster of a live implicit instance shares it. With the same options it gets
  the same entry with one more lease and no native call is made; asking to create a new cluster is
  refused with \<^verbatim>\<open>OperationalError\<close>, and different options with \<^verbatim>\<open>InterfaceError\<close>, and then nothing changes.
\<close>

theorem acquire_shares_instance:
  assumes "ia_path a \<noteq> []" and "key = (getpid H (kernel w), realpath H (ia_path a) (kernel w))"
    and "registry w key = Some e" and "\<not> e_closing (entries w e)" and "\<not> d_closed (databases w (e_database (entries w e)))"
    and "implicit_configuration H (ia_settings a) (ia_worker_count a) (ia_resource_root a) (ia_executable_path a) w = (Val cf, w)"
  shows "acquire_implicit_database H a w =
    (if ia_mode a = CREATE_NEW then (Exc (already_exists (snd key)), w)
     else if cf \<noteq> e_configuration (entries w e)
       then (Exc (options_conflict (snd key) (configuration_conflicts (e_configuration (entries w e)) cf)), w)
     else (Val e, w\<lparr>entries := (entries w)(e := (entries w e)\<lparr>e_leases := e_leases (entries w e) + 1\<rparr>)\<rparr>))"
proof -
  have conf: "configuration_conflicts (e_configuration (entries w e)) cf = [] \<longleftrightarrow> cf = e_configuration (entries w e)"
    by (cases cf; cases "e_configuration (entries w e)") (auto simp: configuration_conflicts_def)
  show ?thesis
    using assms conf
    by (simp add: acquire_implicit_database_def canonical_cluster_path_def host_get_def bind_gets run_bind_Val onlyif_def Let_def
        set_entry_def bind_modify run_ret run_raise)
qed

text \<open>Entry 5 is a live instance at \<^verbatim>\<open>/d\<close> with one lease, over database 1.\<close>

definition sample_configuration :: configuration where
  "sample_configuration = \<lparr>cf_settings = [], cf_worker_count = 1, cf_resource_root = None, cf_executable_path = None\<rparr>"

definition shared_world :: "int \<Rightarrow> nat world" where
  "shared_world n = open_world\<lparr>next_id := 6,
     entries := (\<lambda>_. \<lparr>e_key = (100, lit ''/d''), e_database = 1, e_configuration = sample_configuration, e_leases = n, e_closing = False\<rparr>),
     registry := (\<lambda>_. None)((100, lit ''/d'') := Some 5)\<rparr>"

definition sample_acquire :: implicit_args where
  "sample_acquire = \<lparr>ia_path = lit ''/d'', ia_mode = OPEN_OR_CREATE, ia_settings = [], ia_worker_count = 1, ia_timeout = None,
     ia_resource_root = None, ia_executable_path = None\<rparr>"

theorem acquire_shares_instance_witness:
  "acquire_implicit_database sample_host sample_acquire (shared_world 1) =
     (Val 5, (shared_world 1)\<lparr>entries := (entries (shared_world 1))(5 := (entries (shared_world 1) 5)\<lparr>e_leases := 2\<rparr>)\<rparr>)"
proof -
  have "implicit_configuration sample_host [] 1 None None (shared_world 1) = (Val sample_configuration, shared_world 1)"
    by (simp add: implicit_configuration_def canonical_optional_path_def run_ret run_bind_Val sample_configuration_def)
  moreover have "realpath sample_host p k = p" for p k by (simp add: sample_host_def)
  ultimately show ?thesis
    using acquire_shares_instance [of sample_acquire "(100, lit ''/d'')" sample_host "shared_world 1" 5 sample_configuration]
    by (simp add: sample_acquire_def shared_world_def lit_def open_world_def)
qed

text \<open>
  C7: Giving up a lease of an implicit instance: while other leases remain only the count
  changes. The last one closes the database; if that succeeds the registry forgets the entry,
  unless the path belongs to a newer entry by then, and if it fails the error is raised, the
  entry stays registered and can be acquired again.
\<close>

theorem release_lease_outcome:
  assumes "0 < e_leases (entries w e)"
    and "release_at H (Suc n) e timeout w = (out, w')" and "\<forall>h. out \<noteq> Hang h"
  shows "if 1 < e_leases (entries w e)
    then out = Val () \<and> w' = w\<lparr>entries := (entries w)(e := (entries w e)\<lparr>e_leases := e_leases (entries w e) - 1\<rparr>)\<rparr>
    else (\<exists>result w1. Database_close_at H n (e_database (entries w e)) (lit ''fast'') timeout
        (w\<lparr>entries := (entries w)(e := (entries w e)\<lparr>e_leases := 0, e_closing := True\<rparr>)\<rparr>) = (result, w1) \<and>
      out = result \<and> \<not> e_closing (entries w' e) \<and>
      registry w' = (if result = Val () \<and> registry w1 (e_key (entries w e)) = Some e
        then (registry w1)(e_key (entries w e) := None) else registry w1))"
proof (cases "1 < e_leases (entries w e)")
  case True
  then show ?thesis using assms(2)
    by (auto simp: run_bind_Val run_guard set_entry_def bind_modify bind_gets run_ret)
next
  case False
  then have one: "e_leases (entries w e) = 1" using assms(1) by simp
  let ?w = "w\<lparr>entries := (entries w)(e := (entries w e)\<lparr>e_leases := 0, e_closing := True\<rparr>)\<rparr>"
  obtain result w1 where c: "Database_close_at H n (e_database (entries w e)) (lit ''fast'') timeout ?w = (result, w1)"
    by (metis surj_pair)
  have "\<not> e_closing (entries w' e) \<and> out = result \<and>
      registry w' = (if result = Val () \<and> registry w1 (e_key (entries w e)) = Some e
        then (registry w1)(e_key (entries w e) := None) else registry w1)"
    using assms(2,3) one c
    by (cases result) (auto simp: run_bind_Val run_guard set_entry_def bind_modify bind_gets run_ret attempt_def catch_def bind_def
        ret_def onlyif_def set_registry_def modify_def gets_def raise_def guard_def split: if_splits)
  then show ?thesis using False c by auto
qed

theorem release_lease_outcome_witness:
  "\<forall>n. \<exists>w'. release_at sample_host (Suc n) 5 PNone (shared_world 2) = (Val (), w') \<and> e_leases (entries w' 5) = 1 \<and>
     registry w' = registry (shared_world 2)"
proof
  fix n
  have l: "e_leases (entries (shared_world 2) 5) = 2" by (simp add: shared_world_def)
  obtain w' where run: "release_at sample_host (Suc n) 5 PNone (shared_world 2) = (Val (), w')"
    using l by (simp add: run_bind_Val run_guard set_entry_def bind_modify bind_gets run_ret)
  from release_lease_outcome [OF _ run] run l
  show "\<exists>w'. release_at sample_host (Suc n) 5 PNone (shared_world 2) = (Val (), w') \<and> e_leases (entries w' 5) = 1 \<and>
     registry w' = registry (shared_world 2)" by simp
qed

end
