(* ===== verification/Build_Json.thy ===== *)
theory Build_Json
  imports Utf8 Py_Values "HOL-Library.AList" "HOL-Library.List_Lexorder" "HOL-Library.Multiset" "HOL-Library.Product_Lexorder"
begin

text \<open>
  What the build tools of \<^verbatim>\<open>buildsys/\<close> share. Their inputs and outputs are JSON documents, read with \<^verbatim>\<open>json.loads\<close>:
  a \<open>json\<close> value is what that returns, an object being a Python \<^verbatim>\<open>dict\<close> with string keys in
  insertion order. The functions below are the operations of the language the tools apply to
  them: \<^verbatim>\<open>get\<close>, subscription, truth, equality, \<^verbatim>\<open>int\<close> and \<^verbatim>\<open>str\<close>, membership in a set of strings.
\<close>

named_theorems build_defs \<open>accessors of JSON documents\<close>

lemma lit_inject [simp]: "lit a = lit b \<longleftrightarrow> a = b"
  by (simp add: lit_def inj_map_eq_map inj_of_char)

section \<open>Documents\<close>

datatype json =
    JNull
  | JBool bool
  | JInt int
  | JFloat pyfloat
  | JStr pystr
  | JArr "json list"
  | JObj "(pystr \<times> json) list"

type_synonym obj = "(pystr \<times> json) list"

text \<open>
  The exceptions. \<open>Refused m args\<close> is a \<^verbatim>\<open>ValueError\<close> (or the tool's own subclass of it) with the message
  template \<open>m\<close>, each \<^verbatim>\<open>{}\<close> of it standing for the printed form of an argument. \<open>OtherError\<close> is an
  exception of the operating system.
\<close>

datatype build_error =
    Refused string "json list"
  | BadValue
  | KeyError pystr
  | TypeError
  | AttributeError
  | OverflowError
  | ZeroDivisionError
  | OtherError pystr

type_synonym 'a bres = "build_error + 'a"

definition jget_or :: "obj \<Rightarrow> string \<Rightarrow> json \<Rightarrow> json" where
  "jget_or d k v = (case map_of d (lit k) of None \<Rightarrow> v | Some x \<Rightarrow> x)"

definition jget :: "obj \<Rightarrow> string \<Rightarrow> json" where
  "jget d k = jget_or d k JNull"

definition jitem :: "obj \<Rightarrow> string \<Rightarrow> json bres" where
  "jitem d k = (case map_of d (lit k) of None \<Rightarrow> Inl (KeyError (lit k)) | Some x \<Rightarrow> Inr x)"

text \<open>Subscription and \<^verbatim>\<open>get\<close> of a value that may be no object.\<close>

fun jsub :: "json \<Rightarrow> string \<Rightarrow> json bres" where
  "jsub (JObj d) k = jitem d k"
| "jsub _ k = Inl TypeError"

fun jobj :: "json \<Rightarrow> obj bres" where
  "jobj (JObj d) = Inr d"
| "jobj _ = Inl AttributeError"

text \<open>\<^verbatim>\<open>d[k] = v\<close>: a new key is added at the end.\<close>

abbreviation dict_set :: "('k \<times> 'v) list \<Rightarrow> 'k \<Rightarrow> 'v \<Rightarrow> ('k \<times> 'v) list" where
  "dict_set d k v \<equiv> AList.update k v d"

fun jtrue :: "json \<Rightarrow> bool" where
  "jtrue JNull = False"
| "jtrue (JBool b) = b"
| "jtrue (JInt i) = (i \<noteq> 0)"
| "jtrue (JFloat f) = (f \<noteq> Fin 0 \<and> f \<noteq> NegZero)"
| "jtrue (JStr s) = (s \<noteq> [])"
| "jtrue (JArr xs) = (xs \<noteq> [])"
| "jtrue (JObj d) = (d \<noteq> [])"

text \<open>The number a value compares as: \<^verbatim>\<open>True == 1 == 1.0\<close>.\<close>

fun jnumber :: "json \<Rightarrow> pyfloat option" where
  "jnumber (JBool b) = Some (Fin (of_bool b))"
| "jnumber (JInt i) = Some (Fin (of_int i))"
| "jnumber (JFloat NegZero) = Some (Fin 0)"
| "jnumber (JFloat f) = Some f"
| "jnumber _ = None"

fun jeq :: "json \<Rightarrow> json \<Rightarrow> bool" where
  "jeq JNull y = (y = JNull)"
| "jeq (JStr s) y = (y = JStr s)"
| "jeq (JArr xs) y = (case y of JArr ys \<Rightarrow> list_all2 jeq xs ys | _ \<Rightarrow> False)"
| "jeq (JObj d) y = (case y of
      JObj e \<Rightarrow> length d = length e \<and> list_all (\<lambda>p. case map_of e (fst p) of None \<Rightarrow> False | Some w \<Rightarrow> jeq (snd p) w) d
    | _ \<Rightarrow> False)"
| "jeq x y = (jnumber x \<noteq> None \<and> jnumber x \<noteq> Some NaN \<and> jnumber x = jnumber y)"

text \<open>\<^verbatim>\<open>isinstance(v, int)\<close>, which a boolean is too.\<close>

fun is_int :: "json \<Rightarrow> bool" where
  "is_int (JInt i) = True"
| "is_int (JBool b) = True"
| "is_int _ = False"

fun int_of :: "json \<Rightarrow> int" where
  "int_of (JInt i) = i"
| "int_of (JBool b) = of_bool b"
| "int_of _ = 0"

text \<open>A non-empty string.\<close>

fun is_name :: "json \<Rightarrow> bool" where
  "is_name (JStr s) = (s \<noteq> [])"
| "is_name _ = False"

text \<open>\<^verbatim>\<open>v in strings\<close> for a set or dict of strings: a list or an object is not hashable.\<close>

fun str_in :: "json \<Rightarrow> pystr set \<Rightarrow> bool bres" where
  "str_in (JStr s) A = Inr (s \<in> A)"
| "str_in (JArr _) A = Inl TypeError"
| "str_in (JObj _) A = Inl TypeError"
| "str_in _ A = Inr False"

section \<open>The environment\<close>

text \<open>
  What is outside of the tools: the Unicode database, SHA-256 in hexadecimal, and the printed form
  of the values that are no strings.
\<close>

record build_env =
  b_uni :: unidb
  sha256 :: "pybytes \<Rightarrow> pystr"
  print_json :: "json \<Rightarrow> pystr"

definition jstr :: "build_env \<Rightarrow> json \<Rightarrow> pystr" where
  "jstr E v = (case v of JStr s \<Rightarrow> s | _ \<Rightarrow> print_json E v)"

definition truncate :: "rat \<Rightarrow> int" where
  "truncate q = (if 0 \<le> q then \<lfloor>q\<rfloor> else \<lceil>q\<rceil>)"

text \<open>\<^verbatim>\<open>int(v)\<close>: the decimal digits of other scripts count as such.\<close>

fun jint :: "build_env \<Rightarrow> json \<Rightarrow> int bres" where
  "jint E (JInt i) = Inr i"
| "jint E (JBool b) = Inr (of_bool b)"
| "jint E (JFloat f) = (case f of
      Fin q \<Rightarrow> Inr (truncate q) | NegZero \<Rightarrow> Inr 0 | NaN \<Rightarrow> Inl BadValue | _ \<Rightarrow> Inl OverflowError)"
| "jint E (JStr s) = (case py_int (isspace (b_uni E)) 10 (map (\<lambda>c. case decimal (b_uni E) c of None \<Rightarrow> c | Some n \<Rightarrow> 48 + n) s) of
      None \<Rightarrow> Inl BadValue | Some i \<Rightarrow> Inr i)"
| "jint E _ = Inl TypeError"

definition utf8 :: "pystr \<Rightarrow> pybytes bres" where
  "utf8 s = (case utf8_encode s of Inl _ \<Rightarrow> Inl BadValue | Inr b \<Rightarrow> Inr b)"

text \<open>\<^verbatim>\<open>b[i:j]\<close> of bytes or text.\<close>

definition py_slice :: "'a list \<Rightarrow> int \<Rightarrow> int \<Rightarrow> 'a list" where
  "py_slice b i j =
     (let n = int (length b);
          lo = nat (max 0 (min n (if i < 0 then i + n else i)));
          hi = nat (max 0 (min n (if j < 0 then j + n else j)))
      in drop lo (take hi b))"

text \<open>
  \<^verbatim>\<open>sorted(xs, key=...)\<close>: strings compare with strings, numbers with numbers, and anything else does not compare. Python's order
  has no place for NaN, which is put last here, and lists as keys are not considered.
\<close>

fun number_order :: "pyfloat \<Rightarrow> int \<times> rat" where
  "number_order NegInf = (- 1, 0)"
| "number_order (Fin q) = (0, q)"
| "number_order NegZero = (0, 0)"
| "number_order PosInf = (1, 0)"
| "number_order NaN = (2, 0)"

fun str_of :: "json \<Rightarrow> pystr option" where
  "str_of (JStr s) = Some s"
| "str_of _ = None"

definition sorted_by :: "('a \<Rightarrow> json) \<Rightarrow> 'a list \<Rightarrow> 'a list bres" where
  "sorted_by key xs =
     (if length xs \<le> 1 then Inr xs
      else if list_all (\<lambda>x. str_of (key x) \<noteq> None) xs then Inr (sort_key (\<lambda>x. the (str_of (key x))) xs)
      else if list_all (\<lambda>x. jnumber (key x) \<noteq> None) xs then Inr (sort_key (\<lambda>x. number_order (the (jnumber (key x)))) xs)
      else Inl TypeError)"

lemmas [build_defs] = jget_def jget_or_def jitem_def jstr_def

section \<open>Loops\<close>

text \<open>A loop over a list with a state, which an exception ends.\<close>

fun each :: "('a \<Rightarrow> 's \<Rightarrow> 'e + 's) \<Rightarrow> 'a list \<Rightarrow> 's \<Rightarrow> 'e + 's" where
  "each f [] s = Inr s"
| "each f (x # xs) s = rbind (f x s) (each f xs)"

fun collect :: "('a \<Rightarrow> 'e + 'b) \<Rightarrow> 'a list \<Rightarrow> 'e + 'b list" where
  "collect f [] = Inr []"
| "collect f (x # xs) = rbind (f x) (\<lambda>y. rbind (collect f xs) (\<lambda>ys. Inr (y # ys)))"

lemma each_append: "each f (xs @ ys) s = rbind (each f xs s) (each f ys)"
  by (induction xs arbitrary: s) (auto simp: rbind_def split: sum.splits)

lemma each_invariant:
  assumes "\<And>x s s'. x \<in> set xs \<Longrightarrow> P s \<Longrightarrow> f x s = Inr s' \<Longrightarrow> P s'" and "P s" and "each f xs s = Inr s'"
  shows "P s'"
  using assms
proof (induction xs arbitrary: s)
  case (Cons x xs)
  then obtain t where "f x s = Inr t" "each f xs t = Inr s'" by (auto simp: rbind_eq_Inr)
  with Cons show ?case by (metis list.set_intros)
qed simp

lemma collect_all2: "collect f xs = Inr ys \<Longrightarrow> list_all2 (\<lambda>x y. f x = Inr y) xs ys"
  by (induction xs arbitrary: ys) (auto simp: rbind_eq_Inr)

lemma collect_source: "collect f xs = Inr ys \<Longrightarrow> y \<in> set ys \<Longrightarrow> \<exists>x\<in>set xs. f x = Inr y"
  by (induction xs arbitrary: ys) (auto simp: rbind_eq_Inr)

lemma collect_member: "collect f xs = Inr ys \<Longrightarrow> x \<in> set xs \<Longrightarrow> \<exists>y\<in>set ys. f x = Inr y"
  by (induction xs arbitrary: ys) (auto simp: rbind_eq_Inr)

lemma sorted_by_single [simp]: "sorted_by key [x] = Inr [x]"
  by (simp add: sorted_by_def)

lemma set_sorted_by: "sorted_by key xs = Inr ys \<Longrightarrow> mset ys = mset xs"
  by (auto simp: sorted_by_def split: if_splits)

lemma utf8_ascii: "\<forall>c\<in>set s. c < 128 \<Longrightarrow> utf8 s = Inr s"
  by (simp add: utf8_def utf8_encode_ascii)

text \<open>Text that is ASCII throughout.\<close>

definition is_ascii :: "pystr \<Rightarrow> bool" where
  "is_ascii s \<longleftrightarrow> (\<forall>c\<in>set s. c < 128)"

lemma is_ascii_simps [simp]: "is_ascii []" "is_ascii (c # s) \<longleftrightarrow> c < 128 \<and> is_ascii s" "is_ascii (s @ t) \<longleftrightarrow> is_ascii s \<and> is_ascii t"
  "is_ascii (concat ss) \<longleftrightarrow> (\<forall>s\<in>set ss. is_ascii s)"
  by (auto simp: is_ascii_def)

lemma is_ascii_digits [simp]: "is_ascii (digits_of n)" "is_ascii (str_int i)"
  using digits_of_ascii by (auto simp: is_ascii_def str_int_def ascii_digit_def dest!: digits_of_ascii)

lemma is_ascii_lit: "list_all (\<lambda>c. \<not> digit7 c) s \<Longrightarrow> is_ascii (lit s)"
proof -
  have "of_char c < (128::nat)" if "\<not> digit7 c" for c using that by (cases c) (auto simp: of_char_Char)
  then show "list_all (\<lambda>c. \<not> digit7 c) s \<Longrightarrow> is_ascii (lit s)" by (auto simp: is_ascii_def lit_def list_all_iff)
qed

lemma is_ascii_join: "is_ascii sep \<Longrightarrow> \<forall>p\<in>set ps. is_ascii p \<Longrightarrow> is_ascii (join sep ps)"
  by (induction sep ps rule: join.induct) auto

lemma utf8_is_ascii: "is_ascii s \<Longrightarrow> utf8 s = Inr s"
  by (simp add: is_ascii_def utf8_ascii)

end
