(* ===== verification/Replacements.thy ===== *)
theory Replacements
  imports Build_Json
begin

text \<open>
  Source replacement plans: \<^verbatim>\<open>buildsys/apply_replacements.py\<close>, which rewrites a file of the PostgreSQL tree as a plan
  says, and \<^verbatim>\<open>buildsys/merge_replacement_plans.py\<close>, which combines independently generated plans.
\<close>

section \<open>Applying a plan to a file\<close>

text \<open>The values \<^verbatim>\<open>for item in v\<close> runs through.\<close>

fun iterate :: "json \<Rightarrow> json list bres" where
  "iterate (JArr xs) = Inr xs"
| "iterate (JStr s) = Inr (map (\<lambda>c. JStr [c]) s)"
| "iterate (JObj d) = Inr (map (\<lambda>p. JStr (fst p)) d)"
| "iterate _ = Inl TypeError"

text \<open>\<^verbatim>\<open>(int(item["offset"]), int(item["length"]))\<close>\<close>

definition location :: "build_env \<Rightarrow> json \<Rightarrow> (int \<times> int) bres" where
  "location E item =
     rbind (jsub item ''offset'') (\<lambda>a. rbind (jint E a) (\<lambda>offset.
     rbind (jsub item ''length'') (\<lambda>b. rbind (jint E b) (\<lambda>n. Inr (offset, n)))))"

definition located :: "build_env \<Rightarrow> json list \<Rightarrow> ((int \<times> int) \<times> json) list bres" where
  "located E = collect (\<lambda>item. rbind (location E item) (\<lambda>k. Inr (k, item)))"

text \<open>A message that names the file of the entry.\<close>

definition refuse_entry :: "obj \<Rightarrow> string \<Rightarrow> json list \<Rightarrow> 'a bres" where
  "refuse_entry entry m args = rbind (jitem entry ''path'') (\<lambda>path. Inl (Refused m (path # args)))"

text \<open>\<^verbatim>\<open>str(item[k]).encode("utf-8")\<close>\<close>

definition encoded_field :: "build_env \<Rightarrow> json \<Rightarrow> string \<Rightarrow> pybytes bres" where
  "encoded_field E item k = rbind (jsub item k) (\<lambda>v. utf8 (jstr E v))"

definition bytes_json :: "pybytes \<Rightarrow> json" where
  "bytes_json b = JArr (map (\<lambda>x. JInt (int x)) b)"

fun apply_loop ::
  "build_env \<Rightarrow> pybytes \<Rightarrow> obj \<Rightarrow> ((int \<times> int) \<times> json) list \<Rightarrow> int \<Rightarrow> pybytes \<Rightarrow> pybytes bres" where
  "apply_loop E source entry [] previous_start result = Inr result"
| "apply_loop E source entry (((start, n), replacement) # rest) previous_start result =
     (let stop = start + n in
      if start < 0 \<or> int (length source) < stop
      then refuse_entry entry ''replacement outside file bounds: {}:{}+{}'' [JInt start, JInt n]
      else if previous_start < stop then refuse_entry entry ''overlapping replacements in {} near byte {}'' [JInt start]
      else rbind (encoded_field E replacement ''original'') (\<lambda>original.
        if py_slice source start stop \<noteq> original
        then refuse_entry entry ''replacement spelling mismatch in {} at byte {}: expected {}, got {}''
          [JInt start, bytes_json original, bytes_json (py_slice source start stop)]
        else rbind (encoded_field E replacement ''replacement'') (\<lambda>new.
          apply_loop E source entry rest start
            (py_slice result 0 start @ new @ py_slice result stop (int (length result))))))"

definition apply_bytes :: "build_env \<Rightarrow> pybytes \<Rightarrow> obj \<Rightarrow> (pybytes \<times> nat) bres" where
  "apply_bytes E source entry =
     rbind (jitem entry ''sha256'') (\<lambda>expected.
     if sha256 E source \<noteq> jstr E expected then refuse_entry entry ''source hash mismatch for {}: expected {}, got {}'' [JStr (jstr E expected), JStr (sha256 E source)]
     else rbind (jitem entry ''replacements'') (\<lambda>raw.
       rbind (iterate raw) (\<lambda>items.
       rbind (located E items) (\<lambda>keyed.
       let replacements = rev (sort_key fst (rev keyed))
       in rbind (apply_loop E source entry replacements (int (length source) + 1) source) (\<lambda>result.
         Inr (result, length replacements))))))"

section \<open>Files of a tree\<close>

text \<open>
  \<open>resolve\<close> is the operating system's: where a path below the root of the tree really is, \<open>None\<close> when that
  is outside of the tree. \<^verbatim>\<open>PurePosixPath\<close> drops empty components and \<^verbatim>\<open>.\<close>.
\<close>

definition path_parts :: "pystr \<Rightarrow> pystr list" where
  "path_parts s = filter (\<lambda>p. p \<noteq> [] \<and> p \<noteq> lit ''.'') (foldr (\<lambda>c ps. if c = 47 then [] # ps else (c # hd ps) # tl ps) s [[]])"

definition safe_target :: "(pystr list \<Rightarrow> pystr list option) \<Rightarrow> pystr \<Rightarrow> pystr list bres" where
  "safe_target resolve relative =
     (if take 1 relative = [47] \<or> lit ''..'' \<in> set (path_parts relative)
      then Inl (Refused ''unsafe plan path: {}'' [JStr relative])
      else case resolve (path_parts relative) of
        None \<Rightarrow> Inl (Refused ''plan path escapes generated tree: {}'' [JStr relative])
      | Some target \<Rightarrow> Inr target)"

type_synonym tree = "pystr list \<Rightarrow> pybytes option"

definition apply_file :: "build_env \<Rightarrow> pystr list \<Rightarrow> obj \<Rightarrow> tree \<Rightarrow> (nat \<times> tree) bres" where
  "apply_file E target entry t =
     (case t target of
        None \<Rightarrow> Inl (OtherError (lit ''FileNotFoundError''))
      | Some source \<Rightarrow> rbind (apply_bytes E source entry) (\<lambda>(result, n). Inr (n, t(target \<mapsto> result))))"

section \<open>Applying a plan to a tree\<close>

definition apply_entry :: "build_env \<Rightarrow> (pystr list \<Rightarrow> pystr list option) \<Rightarrow> json \<Rightarrow> tree \<Rightarrow> (nat \<times> tree) bres" where
  "apply_entry E resolve entry t =
     rbind (jsub entry ''path'') (\<lambda>path.
     rbind (safe_target resolve (jstr E path)) (\<lambda>target.
     if t target = None then Inl (Refused ''planned source does not exist: {}'' [path])
     else case entry of JObj d \<Rightarrow> apply_file E target d t | _ \<Rightarrow> Inl TypeError))"

text \<open>The files of the plan one after the other. An error ends the loop; the files before it have been rewritten.\<close>

fun apply_entries ::
  "build_env \<Rightarrow> (pystr list \<Rightarrow> pystr list option) \<Rightarrow> json list \<Rightarrow> nat \<Rightarrow> tree \<Rightarrow> nat bres \<times> tree" where
  "apply_entries E resolve [] k t = (Inr k, t)"
| "apply_entries E resolve (entry # rest) k t =
     (case apply_entry E resolve entry t of
        Inl e \<Rightarrow> (Inl e, t)
      | Inr (n, t') \<Rightarrow> apply_entries E resolve rest (k + n) t')"

definition plan_files :: "json \<Rightarrow> json list bres" where
  "plan_files plan =
     rbind (jobj plan) (\<lambda>d.
     if \<not> jeq (jget d ''schema_version'') (JInt 1) \<or> jget d ''mode'' \<noteq> JStr (lit ''plan'')
     then Inl (Refused ''unsupported replacement plan'' [])
     else rbind (jitem d ''files'') (\<lambda>files.
       rbind (iterate files) (\<lambda>items.
       rbind (collect (\<lambda>item. rbind (jsub item ''path'') (\<lambda>path. Inr (path, item))) items) (\<lambda>keyed.
       rbind (sorted_by fst keyed) (\<lambda>ks. Inr (map snd ks))))))"

definition apply_plan :: "build_env \<Rightarrow> (pystr list \<Rightarrow> pystr list option) \<Rightarrow> json \<Rightarrow> tree \<Rightarrow> nat bres \<times> tree" where
  "apply_plan E resolve plan t =
     (case plan_files plan of
        Inl e \<Rightarrow> (Inl e, t)
      | Inr entries \<Rightarrow> apply_entries E resolve entries 0 t)"

section \<open>Merging plans\<close>

text \<open>A plan that was read: the name of its file, the bytes, the document they parse to.\<close>

record plan_input =
  pi_name :: pystr
  pi_data :: pybytes
  pi_document :: json

definition load_plan :: "plan_input \<Rightarrow> (obj \<times> json list) bres" where
  "load_plan p =
     (case pi_document p of
        JObj d \<Rightarrow> (case jget d ''files'' of
          JArr files \<Rightarrow>
            if jeq (jget d ''schema_version'') (JInt 1) \<and> jget d ''mode'' = JStr (lit ''plan'') then Inr (d, files)
            else Inl (Refused ''{}: unsupported replacement plan'' [JStr (pi_name p)])
        | _ \<Rightarrow> Inl (Refused ''{}: unsupported replacement plan'' [JStr (pi_name p)]))
      | _ \<Rightarrow> Inl (Refused ''{}: unsupported replacement plan'' [JStr (pi_name p)]))"

text \<open>What has been gathered of a file: its digest and the replacements of all plans.\<close>

type_synonym gathered = "(pystr \<times> (pystr \<times> json list)) list"

definition gather_entry :: "plan_input \<Rightarrow> json \<Rightarrow> gathered \<Rightarrow> gathered bres" where
  "gather_entry p entry by_path =
     (case entry of
        JObj d \<Rightarrow> (case (jget d ''path'', jget d ''sha256'', jget d ''replacements'') of
          (JStr logical, JStr digest, JArr replacements) \<Rightarrow>
            (let (known, rs) = (case map_of by_path logical of None \<Rightarrow> (digest, []) | Some t \<Rightarrow> t)
             in if known \<noteq> digest then Inl (Refused ''source digest disagreement for {}'' [JStr logical])
                else Inr (dict_set by_path logical (known, rs @ replacements)))
        | _ \<Rightarrow> Inl (Refused ''{}: invalid file entry'' [JStr (pi_name p)]))
      | _ \<Rightarrow> Inl (Refused ''{}: file entry must be an object'' [JStr (pi_name p)]))"

definition component_json :: "build_env \<Rightarrow> plan_input \<Rightarrow> obj \<Rightarrow> json list \<Rightarrow> json" where
  "component_json E p d files =
     JObj [(lit ''path'', JStr (pi_name p)), (lit ''kind'', jget_or d ''kind'' (JStr (lit ''postgamma.ast-plan''))),
       (lit ''sha256'', JStr (sha256 E (pi_data p))), (lit ''file_count'', JInt (int (length files)))]"

definition gather_plan :: "build_env \<Rightarrow> plan_input \<Rightarrow> json list \<times> gathered \<Rightarrow> (json list \<times> gathered) bres" where
  "gather_plan E p = (\<lambda>(components, by_path).
     rbind (load_plan p) (\<lambda>(d, files).
     rbind (each (gather_entry p) files by_path) (\<lambda>by_path'.
     Inr (components @ [component_json E p d files], by_path'))))"

type_synonym uniques = "((int \<times> int) \<times> json) list"

definition unique_step :: "build_env \<Rightarrow> pystr \<Rightarrow> json \<Rightarrow> uniques \<Rightarrow> uniques bres" where
  "unique_step E logical replacement unique =
     (case replacement of
        JObj _ \<Rightarrow>
          (case location E replacement of
             Inl OverflowError \<Rightarrow> Inl OverflowError
           | Inl _ \<Rightarrow> Inl (Refused ''{}: invalid replacement location'' [JStr logical])
           | Inr key \<Rightarrow>
              (case map_of unique key of
                 Some previous \<Rightarrow> if jeq previous replacement then Inr (dict_set unique key replacement)
                   else Inl (Refused ''conflicting replacements in {} at {}+{}'' [JStr logical, JInt (fst key), JInt (snd key)])
               | None \<Rightarrow> Inr (dict_set unique key replacement)))
      | _ \<Rightarrow> Inl (Refused ''{}: replacement must be an object'' [JStr logical]))"

fun rule_id :: "build_env \<Rightarrow> json \<Rightarrow> pystr" where
  "rule_id E (JObj d) = jstr E (jget_or d ''rule_id'' (JStr []))"
| "rule_id E _ = []"

fun check_order :: "pystr \<Rightarrow> uniques \<Rightarrow> int \<Rightarrow> int \<Rightarrow> unit bres" where
  "check_order logical [] previous_end previous_start = Inr ()"
| "check_order logical (((start, n), _) # rest) previous_end previous_start =
     (if start < previous_end \<or> start = previous_start
      then Inl (Refused ''overlapping replacements in {} near byte {}'' [JStr logical, JInt start])
      else check_order logical rest (max previous_end (start + n)) start)"

definition merge_file :: "build_env \<Rightarrow> pystr \<times> pystr \<times> json list \<Rightarrow> (pystr \<times> pystr \<times> json list) bres" where
  "merge_file E = (\<lambda>(logical, digest, gathered).
     rbind (each (unique_step E logical) gathered []) (\<lambda>unique.
     let replacements = sort_key (\<lambda>(k, r). (k, rule_id E r)) unique
     in rbind (check_order logical replacements (- 1) (- 1)) (\<lambda>_.
       Inr (logical, digest, map snd replacements))))"

definition file_json :: "pystr \<times> pystr \<times> json list \<Rightarrow> obj" where
  "file_json = (\<lambda>(logical, digest, replacements).
     [(lit ''path'', JStr logical), (lit ''sha256'', JStr digest), (lit ''replacements'', JArr replacements)])"

definition merge :: "build_env \<Rightarrow> plan_input list \<Rightarrow> obj bres" where
  "merge E inputs =
     (if length inputs < 2 then Inl (Refused ''at least two input plans are required'' [])
      else rbind (each (gather_plan E) inputs ([], [])) (\<lambda>(components, by_path).
        rbind (collect (merge_file E) (sort_key fst by_path)) (\<lambda>files.
        Inr [(lit ''schema_version'', JInt 1), (lit ''mode'', JStr (lit ''plan'')), (lit ''kind'', JStr (lit ''postgamma.combined-plan'')),
          (lit ''source_root'', JStr (lit ''.'')), (lit ''components'', JArr components),
          (lit ''files'', JArr (map (\<lambda>f. JObj (file_json f)) files)),
          (lit ''summary'', JObj [(lit ''component_count'', JInt (int (length components))),
             (lit ''file_count'', JInt (int (length files))),
             (lit ''replacement_count'', JInt (int (sum_list (map (\<lambda>(_, _, rs). length rs) files))))])])))"

end
