(* ===== verification/State_Policy.thy ===== *)
theory State_Policy
  imports Build_Json
begin

text \<open>
  The ownership policy of PostgreSQL's global state: \<^verbatim>\<open>buildsys/state_policy.py\<close> and
  \<^verbatim>\<open>buildsys/check_backend_state_policy.py\<close>. A scan of the sources gives a catalog of mutable global variables (the candidates) and
  of their uses; a reviewed policy decides for each who owns it. The check requires the two to
  agree and computes which static initializers embed the address of another variable. Where a message lists several kinds of
  problems, the error has a list for each of them; the text of the message leaves the empty ones out.
\<close>

section \<open>Catalogs and policies\<close>

type_synonym table = "(pystr \<times> obj) list"

definition CATALOG_KIND :: pystr where "CATALOG_KIND = lit ''postgamma.backend-mutable-state-catalog''"
definition POLICY_KIND :: pystr where "POLICY_KIND = lit ''postgamma.backend-state-ownership''"
definition REVIEW_RULES_KIND :: pystr where "REVIEW_RULES_KIND = lit ''postgamma.backend-state-review-rules''"
definition GUC_INVENTORY_MODE :: pystr where "GUC_INVENTORY_MODE = lit ''scan''"
definition OWNERS :: "pystr list" where
  "OWNERS = [lit ''immutable'', lit ''instance'', lit ''managed_guc'', lit ''role'', lit ''session'']"
definition VIRTUAL_OWNERS :: "pystr list" where
  "VIRTUAL_OWNERS = [lit ''instance'', lit ''role'', lit ''session'']"
definition AVAILABILITIES :: "pystr list" where
  "AVAILABILITIES = [lit ''required'', lit ''conditional'']"

text \<open>\<^verbatim>\<open>v in names\<close> for a tuple of strings.\<close>

fun among :: "json \<Rightarrow> pystr list \<Rightarrow> bool" where
  "among (JStr s) names = (s \<in> set names)"
| "among _ names = False"

definition names_json :: "pystr list \<Rightarrow> json" where
  "names_json xs = JArr (map JStr xs)"

definition is_document :: "obj \<Rightarrow> pystr \<Rightarrow> bool" where
  "is_document d kind \<longleftrightarrow> jeq (jget d ''schema_version'') (JInt 1) \<and> jget d ''kind'' = JStr kind"

definition reject_unknown :: "obj \<Rightarrow> string list \<Rightarrow> json \<Rightarrow> unit bres" where
  "reject_unknown d allowed label =
     (let unknown = sort (filter (\<lambda>k. k \<notin> set (map lit allowed)) (map fst d))
      in if unknown \<noteq> [] then Inl (Refused ''{} has unknown field(s): {}'' [label, names_json unknown]) else Inr ())"

fun index_candidates :: "nat \<Rightarrow> json list \<Rightarrow> table \<Rightarrow> table bres" where
  "index_candidates i [] result = Inr result"
| "index_candidates i (candidate # rest) result =
     (case candidate of
        JObj c \<Rightarrow>
          (case jget c ''id'' of
             JStr identifier \<Rightarrow>
               if identifier = [] then Inl (Refused ''catalog: candidates[{}] has invalid id'' [JInt (int i)])
               else if \<not> is_name (jget c ''usr'') then Inl (Refused ''catalog: {} has invalid USR'' [JStr identifier])
               else if identifier \<in> fst ` set result then Inl (Refused ''catalog: duplicate candidate {}'' [JStr identifier])
               else index_candidates (i + 1) rest (dict_set result identifier c)
           | _ \<Rightarrow> Inl (Refused ''catalog: candidates[{}] has invalid id'' [JInt (int i)]))
      | _ \<Rightarrow> Inl (Refused ''catalog: candidates[{}] must be an object'' [JInt (int i)]))"

definition catalog_candidates :: "obj \<Rightarrow> table bres" where
  "catalog_candidates document =
     (if \<not> is_document document CATALOG_KIND
      then Inl (Refused ''catalog: expected schema_version 1 and kind {}'' [JStr CATALOG_KIND])
      else case (jget document ''candidates'', jget document ''uses'') of
        (JArr raw, JArr uses) \<Rightarrow>
          rbind (index_candidates 0 raw []) (\<lambda>result.
          case jget_or document ''summary'' (JObj []) of
            JObj s \<Rightarrow> if jeq (jget s ''candidate_count'') (JInt (int (length result))) then Inr result
              else Inl (Refused ''catalog: candidate_count does not match candidates'' [])
          | _ \<Rightarrow> Inl (Refused ''catalog: candidate_count does not match candidates'' []))
      | _ \<Rightarrow> Inl (Refused ''catalog: candidates and uses must be arrays'' []))"

text \<open>A decision, checked and with its availability filled in.\<close>

definition parse_decision :: "pystr list \<Rightarrow> nat \<Rightarrow> obj \<Rightarrow> table \<Rightarrow> (pystr \<times> obj) bres" where
  "parse_decision owners i d result =
     (let label = JArr [JStr (lit ''policy: decisions''), JInt (int i)];
          owner = jget d ''owner'';
          rationale = jget d ''rationale'';
          availability = jget_or d ''availability'' (JStr (lit ''required''));
          condition = jget d ''condition''
      in rbind (reject_unknown d [''id'', ''owner'', ''rationale'', ''availability'', ''condition''] label) (\<lambda>_.
      case jget d ''id'' of
        JStr identifier \<Rightarrow>
          if identifier = [] then Inl (Refused ''{} has invalid id'' [label])
          else if \<not> among owner owners then Inl (Refused ''policy: {} has invalid owner {}'' [JStr identifier, owner])
          else if \<not> is_name rationale then Inl (Refused ''policy: {} requires a non-empty rationale'' [JStr identifier])
          else if \<not> among availability AVAILABILITIES
            then Inl (Refused ''policy: {} has invalid availability {}'' [JStr identifier, availability])
          else if availability = JStr (lit ''conditional'') \<and> \<not> is_name condition
            then Inl (Refused ''policy: {} requires a condition when availability is conditional'' [JStr identifier])
          else if availability = JStr (lit ''required'') \<and> condition \<noteq> JNull
            then Inl (Refused ''policy: {} has a condition but is not conditional'' [JStr identifier])
          else if identifier \<in> fst ` set result then Inl (Refused ''policy: duplicate decision {}'' [JStr identifier])
          else Inr (identifier, dict_set d (lit ''availability'') availability)
      | _ \<Rightarrow> Inl (Refused ''{} has invalid id'' [label])))"

fun index_decisions :: "pystr list \<Rightarrow> nat \<Rightarrow> json list \<Rightarrow> table \<Rightarrow> table bres" where
  "index_decisions owners i [] result = Inr result"
| "index_decisions owners i (decision # rest) result =
     (case decision of
        JObj d \<Rightarrow> rbind (parse_decision owners i d result) (\<lambda>(identifier, parsed).
          index_decisions owners (i + 1) rest (dict_set result identifier parsed))
      | _ \<Rightarrow> Inl (Refused ''policy: decisions[{}] must be an object'' [JInt (int i)]))"

definition policy_decisions_of :: "pystr \<Rightarrow> pystr list \<Rightarrow> obj \<Rightarrow> table bres" where
  "policy_decisions_of policy_kind owners document =
     rbind (reject_unknown document [''schema_version'', ''kind'', ''policy'', ''decisions''] (JStr (lit ''policy''))) (\<lambda>_.
     if \<not> is_document document policy_kind then Inl (Refused ''policy: expected schema_version 1 and kind {}'' [JStr policy_kind])
     else case jget document ''decisions'' of
       JArr raw \<Rightarrow> index_decisions owners 0 raw []
     | _ \<Rightarrow> Inl (Refused ''policy: decisions must be an array'' []))"

definition policy_decisions :: "obj \<Rightarrow> table bres" where
  "policy_decisions document = policy_decisions_of POLICY_KIND OWNERS document"

text \<open>The owner and the availability a parsed decision has.\<close>

definition decision_field :: "table \<Rightarrow> pystr \<Rightarrow> string \<Rightarrow> json bres" where
  "decision_field decisions identifier k =
     (case map_of decisions identifier of None \<Rightarrow> Inl (KeyError identifier) | Some d \<Rightarrow> jitem d k)"

definition keys :: "('k \<times> 'v) list \<Rightarrow> 'k list" where
  "keys = map fst"

definition without :: "pystr list \<Rightarrow> pystr list \<Rightarrow> pystr list" where
  "without xs ys = filter (\<lambda>x. x \<notin> set ys) xs"

definition align_exact_candidates :: "table \<Rightarrow> table \<Rightarrow> pystr list bres" where
  "align_exact_candidates candidates decisions =
     (let conditional = (\<lambda>i. decision_field decisions i ''availability'' = Inr (JStr (lit ''conditional'')));
          rest = without (keys decisions) (keys candidates);
          missing = sort (without (keys candidates) (keys decisions));
          stale = sort (filter (\<lambda>i. \<not> conditional i) rest);
          dormant = sort (filter conditional rest)
      in if missing \<noteq> [] \<or> stale \<noteq> []
         then Inl (Refused ''missing ownership decision(s): {}; stale ownership decision(s): {}'' [names_json missing, names_json stale])
         else Inr dormant)"

section \<open>Review rules\<close>

definition parse_rule :: "nat \<Rightarrow> obj \<Rightarrow> table \<Rightarrow> pystr bres" where
  "parse_rule i rule result =
     (let label = JInt (int i);
          unknown = sort (filter (\<lambda>k. k \<notin> set (map lit [''id'', ''owner'', ''rationale'', ''availability'', ''condition''])) (map fst rule));
          owner = jget rule ''owner''; rationale = jget rule ''rationale'';
          availability = jget rule ''availability''; condition = jget rule ''condition''
      in if unknown \<noteq> [] then Inl (Refused ''review rules: rules[{}] has unknown field(s): {}'' [label, names_json unknown])
      else case jget rule ''id'' of
        JStr identifier \<Rightarrow>
          if identifier = [] then Inl (Refused ''review rules: rules[{}] has invalid id'' [label])
          else if identifier \<in> fst ` set result then Inl (Refused ''review rules: duplicate rule {}'' [JStr identifier])
          else if owner \<noteq> JNull \<and> (\<not> among owner OWNERS \<or> owner = JStr (lit ''managed_guc''))
            then Inl (Refused ''review rules: {} has invalid explicit owner {}'' [JStr identifier, owner])
          else if owner \<noteq> JNull \<and> \<not> is_name rationale
            then Inl (Refused ''review rules: {} requires a rationale for explicit owner'' [JStr identifier])
          else if owner = JNull \<and> rationale \<noteq> JNull
            then Inl (Refused ''review rules: {} has a rationale without an explicit owner'' [JStr identifier])
          else if availability \<noteq> JNull \<and> availability \<noteq> JStr (lit ''conditional'')
            then Inl (Refused ''review rules: {} may only declare conditional availability'' [JStr identifier])
          else if availability \<noteq> JNull \<and> \<not> is_name condition
            then Inl (Refused ''review rules: {} requires a non-empty condition'' [JStr identifier])
          else if availability = JNull \<and> condition \<noteq> JNull
            then Inl (Refused ''review rules: {} has a condition without conditional availability'' [JStr identifier])
          else if owner = JNull \<and> availability = JNull
            then Inl (Refused ''review rules: {} does not define an ownership or availability exception'' [JStr identifier])
          else Inr identifier
      | _ \<Rightarrow> Inl (Refused ''review rules: rules[{}] has invalid id'' [label]))"

fun index_rules :: "nat \<Rightarrow> json list \<Rightarrow> table \<Rightarrow> table bres" where
  "index_rules i [] result = Inr result"
| "index_rules i (rule # rest) result =
     (case rule of
        JObj d \<Rightarrow> rbind (parse_rule i d result) (\<lambda>identifier. index_rules (i + 1) rest (dict_set result identifier d))
      | _ \<Rightarrow> Inl (Refused ''review rules: rules[{}] must be an object'' [JInt (int i)]))"

definition review_rules :: "obj \<Rightarrow> (obj \<times> table) bres" where
  "review_rules document =
     (if \<not> is_document document REVIEW_RULES_KIND
      then Inl (Refused ''review rules: expected schema_version 1 and kind {}'' [JStr REVIEW_RULES_KIND])
      else case jget document ''default_decision'' of
        JObj dflt \<Rightarrow>
          if jget dflt ''owner'' \<noteq> JStr (lit ''role'') \<or> \<not> is_name (jget dflt ''rationale'')
          then Inl (Refused ''review rules: default_decision must define a role owner and non-empty rationale'' [])
          else (case jget document ''rules'' of
              JArr raw \<Rightarrow> rbind (index_rules 0 raw []) (\<lambda>rules. Inr (dflt, rules))
            | _ \<Rightarrow> Inl (Refused ''review rules: rules must be an array'' []))
      | _ \<Rightarrow> Inl (Refused ''review rules: default_decision must be an object'' []))"

definition has_field :: "table \<Rightarrow> pystr \<Rightarrow> string \<Rightarrow> bool" where
  "has_field t identifier k \<longleftrightarrow> (case map_of t identifier of None \<Rightarrow> False | Some d \<Rightarrow> lit k \<in> fst ` set d)"

text \<open>The fields in which a decision differs from its rule.\<close>

definition rule_problems :: "table \<Rightarrow> pystr \<times> obj \<Rightarrow> json list" where
  "rule_problems decisions = (\<lambda>(identifier, rule).
     map (\<lambda>k. JArr [JStr identifier, JStr (lit k)])
       (filter (\<lambda>k. lit k \<in> fst ` set rule \<and>
           \<not> jeq (case map_of decisions identifier of None \<Rightarrow> JNull | Some d \<Rightarrow> jget d k) (jget rule k))
         [''owner'', ''rationale'', ''availability'', ''condition'']))"

definition validate_review_rule_alignment :: "obj \<Rightarrow> obj \<Rightarrow> obj bres" where
  "validate_review_rule_alignment policy rules_document =
     rbind (policy_decisions policy) (\<lambda>decisions.
     rbind (review_rules rules_document) (\<lambda>(_, rules).
     let stale = sort (without (keys rules) (keys decisions));
         problems = concat (map (rule_problems decisions) (sort_key fst rules));
         missing_owner = sort (filter (\<lambda>i. decision_field decisions i ''owner'' \<notin> {Inr (JStr (lit ''role'')), Inr (JStr (lit ''managed_guc''))}
           \<and> \<not> has_field rules i ''owner'') (keys decisions));
         missing_availability = sort (filter (\<lambda>i. decision_field decisions i ''availability'' = Inr (JStr (lit ''conditional''))
           \<and> \<not> has_field rules i ''availability'') (keys decisions))
     in if stale \<noteq> [] then Inl (Refused ''review rules: stale rule(s): {}'' [names_json stale])
        else if problems \<noteq> [] \<or> missing_owner \<noteq> [] \<or> missing_availability \<noteq> []
        then Inl (Refused ''review rules: {}; non-default ownership missing review rule: {}; conditional availability missing review rule: {}''
          [JArr problems, names_json missing_owner, names_json missing_availability])
        else Inr [(lit ''rule_count'', JInt (int (length rules))),
          (lit ''explicit_owner_rule_count'', JInt (int (length (filter (\<lambda>(_, r). lit ''owner'' \<in> fst ` set r) rules)))),
          (lit ''conditional_rule_count'', JInt (int (length (filter (\<lambda>(_, r). lit ''availability'' \<in> fst ` set r) rules))))]))"

section \<open>The alignment of catalog and policy\<close>

definition guc_usr :: "json \<Rightarrow> pystr list" where
  "guc_usr declaration =
     (case declaration of
        JObj d \<Rightarrow> (case (jget d ''usr'', jget d ''symbol_id'') of
          (JStr usr, JStr symbol) \<Rightarrow>
            if jget d ''definition'' = JBool True \<and> usr \<noteq> [] \<and> startswith_at symbol (lit ''pg.guc.'') 0 then [usr] else []
        | _ \<Rightarrow> [])
      | _ \<Rightarrow> [])"

definition guc_definition_usrs :: "obj \<Rightarrow> pystr list bres" where
  "guc_definition_usrs document =
     (if \<not> (jeq (jget document ''schema_version'') (JInt 1) \<and> jget document ''mode'' = JStr GUC_INVENTORY_MODE)
      then Inl (Refused ''GUC inventory: expected schema_version 1 scan output'' [])
      else case jget document ''declarations'' of
        JArr raw \<Rightarrow>
          (let result = concat (map guc_usr raw)
           in if result = [] then Inl (Refused ''GUC inventory: no built-in definitions found'' []) else Inr result)
      | _ \<Rightarrow> Inl (Refused ''GUC inventory: declarations must be an array'' []))"

definition has_usr :: "pystr list \<Rightarrow> obj \<Rightarrow> bool" where
  "has_usr usrs c \<longleftrightarrow> among (jget c ''usr'') usrs"

definition is_virtual :: "table \<Rightarrow> pystr \<Rightarrow> bool" where
  "is_virtual decisions identifier \<longleftrightarrow>
     (case decision_field decisions identifier ''owner'' of Inr owner \<Rightarrow> among owner VIRTUAL_OWNERS | Inl _ \<Rightarrow> False)"

text \<open>A virtual variable is copied bytewise, so its type must be complete and trivially copyable.\<close>

definition check_virtual :: "table \<Rightarrow> pystr \<times> obj \<Rightarrow> unit bres" where
  "check_virtual decisions = (\<lambda>(identifier, candidate).
     if \<not> is_virtual decisions identifier then Inr ()
     else if \<not> jtrue (jget candidate ''complete_type'') \<or> \<not> jtrue (jget candidate ''trivially_copyable'')
       then Inl (Refused ''{}: virtual state requires a complete, trivially-copyable type'' [JStr identifier])
     else if \<not> is_int (jget candidate ''size'') \<or> int_of (jget candidate ''size'') \<le> 0
       then Inl (Refused ''{}: invalid virtual-state size'' [JStr identifier])
     else if \<not> is_int (jget candidate ''alignment'') \<or> int_of (jget candidate ''alignment'') \<le> 0
       then Inl (Refused ''{}: invalid virtual-state alignment'' [JStr identifier])
     else Inr ())"

definition relocation_of :: "table \<Rightarrow> nat \<times> json \<Rightarrow> (pystr \<times> pystr) list \<Rightarrow> (pystr \<times> pystr) list bres" where
  "relocation_of decisions = (\<lambda>(i, use) relocations.
     case use of
       JObj u \<Rightarrow>
         rbind (str_in (jget u ''id'') (fst ` set decisions)) (\<lambda>known.
         case jget u ''id'' of
           JStr target \<Rightarrow>
             if \<not> known \<or> \<not> is_virtual decisions target \<or> \<not> jtrue (jget u ''in_static_initializer'') then Inr relocations
             else rbind (str_in (jget u ''static_initializer_owner_id'') (fst ` set decisions)) (\<lambda>known_owner.
               case jget u ''static_initializer_owner_id'' of
                 JStr owner_id \<Rightarrow>
                   if \<not> known_owner
                   then Inl (Refused ''{}: address is embedded in non-virtual static initializer {}'' [JStr target, JStr owner_id])
                   else if decision_field decisions owner_id ''owner'' \<noteq> decision_field decisions target ''owner''
                   then Inl (Refused ''{}: static initializer owner {} has incompatible owner'' [JStr target, JStr owner_id])
                   else Inr (relocations @ [(owner_id, target)])
               | v \<Rightarrow> Inl (Refused ''{}: address is embedded in non-virtual static initializer {}'' [JStr target, v]))
         | _ \<Rightarrow> Inr relocations)
     | _ \<Rightarrow> Inl (Refused ''catalog: uses[{}] must be an object'' [JInt (int i)]))"

definition enumerated :: "'a list \<Rightarrow> (nat \<times> 'a) list" where
  "enumerated xs = zip [0..<length xs] xs"

fun array_of :: "json \<Rightarrow> json list" where
  "array_of (JArr xs) = xs"
| "array_of _ = []"

definition owner_count :: "table \<Rightarrow> pystr list \<Rightarrow> pystr \<Rightarrow> int" where
  "owner_count decisions ids owner = int (length (filter (\<lambda>i. decision_field decisions i ''owner'' = Inr (JStr owner)) ids))"

definition counts_json :: "(pystr \<Rightarrow> int) \<Rightarrow> json" where
  "counts_json f = JObj (map (\<lambda>owner. (owner, JInt (f owner))) OWNERS)"

definition relocation_json :: "pystr \<times> pystr \<Rightarrow> json" where
  "relocation_json = (\<lambda>(owner, target). JObj [(lit ''owner_id'', JStr owner), (lit ''target_id'', JStr target)])"

definition validate_alignment :: "obj \<Rightarrow> obj \<Rightarrow> obj \<Rightarrow> obj option \<Rightarrow> obj bres" where
  "validate_alignment catalog policy guc_inventory rules_document =
     rbind (catalog_candidates catalog) (\<lambda>candidates.
     rbind (policy_decisions policy) (\<lambda>decisions.
     rbind (align_exact_candidates candidates decisions) (\<lambda>dormant.
     rbind (guc_definition_usrs guc_inventory) (\<lambda>usrs.
     let managed = keys (filter (\<lambda>(i, c). has_usr usrs c) candidates);
         policy_managed = filter (\<lambda>i. i \<in> set (keys candidates) \<and> decision_field decisions i ''owner'' = Inr (JStr (lit ''managed_guc'')))
           (keys decisions)
     in if set managed \<noteq> set policy_managed
        then Inl (Refused ''GUC-backed candidates not marked managed_guc: {}; non-GUC candidates marked managed_guc: {}''
          [names_json (sort (without managed policy_managed)), names_json (sort (without policy_managed managed))])
        else rbind (each (\<lambda>c _. check_virtual decisions c) (sort_key fst candidates) ()) (\<lambda>_.
        rbind (each (relocation_of decisions) (enumerated (array_of (jget_or catalog ''uses'' (JArr [])))) []) (\<lambda>relocations.
        rbind (case rules_document of
            None \<Rightarrow> Inr []
          | Some r \<Rightarrow> rbind (validate_review_rule_alignment policy r) (\<lambda>x. Inr [(lit ''review_rules'', JObj x)])) (\<lambda>review.
        let count = owner_count decisions (keys candidates)
        in Inr ([(lit ''schema_version'', JInt 1), (lit ''kind'', JStr (lit ''postgamma.backend-state-ownership-alignment'')),
          (lit ''candidate_count'', JInt (int (length candidates))),
          (lit ''ownership_counts'', counts_json count),
          (lit ''policy_ownership_counts'', counts_json (owner_count decisions (keys decisions))),
          (lit ''transformed_candidate_count'', JInt (sum_list (map count VIRTUAL_OWNERS))),
          (lit ''guc_managed_candidate_count'', JInt (int (length managed))),
          (lit ''relocations'', JArr (map relocation_json (sort (remdups relocations)))),
          (lit ''skipped_constant_initializer_use_count'', JInt 0),
          (lit ''missing'', JArr []), (lit ''stale'', JArr []),
          (lit ''dormant_conditional_count'', JInt (int (length dormant))),
          (lit ''dormant_conditional_decisions'', names_json dormant)] @ review))))))))"

end
