(* ===== verification/State_Layout.thy ===== *)
theory State_Layout
  imports State_Policy
begin

text \<open>
  The layout of virtual state: \<^verbatim>\<open>buildsys/generate_backend_state_runtime.py\<close>. Every candidate that an instance, a role or a
  session owns gets a slot: an offset in the block of bytes its owner allocates.
\<close>

record slot =
  sl_identifier :: pystr
  sl_name :: json
  sl_canonical_type :: json
  sl_owner :: pystr
  sl_enum :: pystr
  sl_index :: nat
  sl_local_index :: nat
  sl_offset :: int
  sl_size :: int
  sl_alignment :: int
  sl_copy_template :: bool
  sl_relocations :: "pystr list"

definition align_up :: "int \<Rightarrow> int \<Rightarrow> int bres" where
  "align_up v a = (if a = 0 then Inl ZeroDivisionError else Inr ((v + a - 1) div a * a))"

text \<open>The first 16 hexadecimal digits of the digest of the identifier.\<close>

definition short_digest :: "build_env \<Rightarrow> pystr \<Rightarrow> pystr bres" where
  "short_digest E identifier = rbind (utf8 identifier) (\<lambda>b. Inr (take 16 (sha256 E b)))"

definition enum_name :: "build_env \<Rightarrow> pystr \<Rightarrow> pystr bres" where
  "enum_name E identifier = rbind (short_digest E identifier) (\<lambda>d. Inr (lit ''POSTGAMMA_BACKEND_STATE_SLOT_'' @ upper (b_uni E) d))"

definition relocation_bridge_name :: "build_env \<Rightarrow> pystr \<Rightarrow> pystr bres" where
  "relocation_bridge_name E identifier = rbind (short_digest E identifier) (\<lambda>d. Inr (lit ''postgamma_backend_state_relocated_'' @ d))"

text \<open>The candidates with a virtual owner, in the order of their identifiers.\<close>

definition virtual_entry :: "table \<Rightarrow> pystr \<times> obj \<Rightarrow> (pystr \<times> obj \<times> pystr) list bres" where
  "virtual_entry decisions = (\<lambda>(identifier, candidate).
     rbind (decision_field decisions identifier ''owner'') (\<lambda>owner.
     Inr (case owner of
        JStr s \<Rightarrow> (if s \<in> set VIRTUAL_OWNERS then [(identifier, candidate, s)] else [])
      | _ \<Rightarrow> [])))"

definition virtual_candidates :: "table \<Rightarrow> table \<Rightarrow> (pystr \<times> obj \<times> pystr) list bres" where
  "virtual_candidates candidates decisions =
     rbind (collect (virtual_entry decisions) (sort_key fst candidates)) (\<lambda>xs. Inr (concat xs))"

record layout =
  ly_offsets :: "pystr \<Rightarrow> int"
  ly_counts :: "pystr \<Rightarrow> nat"
  ly_slots :: "slot list"

definition place_slot :: "build_env \<Rightarrow> pystr \<times> obj \<times> pystr \<Rightarrow> layout \<Rightarrow> layout bres" where
  "place_slot E = (\<lambda>(identifier, candidate, owner) ly.
     rbind (enum_name E identifier) (\<lambda>slot_enum.
     if slot_enum \<in> sl_enum ` set (ly_slots ly) then Inl (Refused ''generated slot collision for {}'' [JStr identifier])
     else rbind (jitem candidate ''alignment'') (\<lambda>a.
     rbind (jint E a) (\<lambda>item_alignment.
     rbind (align_up (ly_offsets ly owner) item_alignment) (\<lambda>offset.
     rbind (jitem candidate ''name'') (\<lambda>name.
     rbind (jitem candidate ''canonical_type'') (\<lambda>canonical_type.
     rbind (jitem candidate ''size'') (\<lambda>s.
     rbind (jint E s) (\<lambda>size.
     rbind (jitem candidate ''has_initializer'') (\<lambda>init.
     Inr \<lparr>ly_offsets = (ly_offsets ly)(owner := offset + size),
          ly_counts = (ly_counts ly)(owner := ly_counts ly owner + 1),
          ly_slots = ly_slots ly @ [\<lparr>sl_identifier = identifier, sl_name = name, sl_canonical_type = canonical_type, sl_owner = owner,
            sl_enum = slot_enum, sl_index = length (ly_slots ly), sl_local_index = ly_counts ly owner, sl_offset = offset,
            sl_size = size, sl_alignment = item_alignment, sl_copy_template = jtrue init, sl_relocations = []\<rparr>]\<rparr>))))))))))"

definition add_relocation :: "json \<Rightarrow> slot list \<Rightarrow> slot list bres" where
  "add_relocation entry slots =
     (case entry of
        JObj d \<Rightarrow>
          rbind (str_in (jget d ''owner_id'') (sl_identifier ` set slots)) (\<lambda>known_owner.
          rbind (if known_owner then str_in (jget d ''target_id'') (sl_identifier ` set slots) else Inr False) (\<lambda>known_target.
          case (jget d ''owner_id'', jget d ''target_id'') of
            (JStr owner, JStr target) \<Rightarrow>
              if \<not> known_owner \<or> \<not> known_target
              then Inl (Refused ''alignment report: unknown relocation {} -> {}'' [JStr owner, JStr target])
              else Inr (map (\<lambda>s. if sl_identifier s = owner then s\<lparr>sl_relocations := sl_relocations s @ [target]\<rparr> else s) slots)
          | (a, b) \<Rightarrow> Inl (Refused ''alignment report: unknown relocation {} -> {}'' [a, b])))
      | _ \<Rightarrow> Inl (Refused ''alignment report: invalid relocation'' []))"

definition block_size :: "int \<Rightarrow> int" where
  "block_size n = (if n = 0 then 0 else (n + 8 - 1) div 8 * 8)"

definition compile_slots :: "build_env \<Rightarrow> obj \<Rightarrow> obj \<Rightarrow> obj \<Rightarrow> (slot list \<times> (pystr \<Rightarrow> int) \<times> (pystr \<Rightarrow> nat)) bres" where
  "compile_slots E catalog policy alignment =
     rbind (catalog_candidates catalog) (\<lambda>candidates.
     rbind (policy_decisions policy) (\<lambda>decisions.
     rbind (virtual_candidates candidates decisions) (\<lambda>virtual.
     rbind (each (place_slot E) virtual \<lparr>ly_offsets = (\<lambda>_. 0), ly_counts = (\<lambda>_. 0), ly_slots = []\<rparr>) (\<lambda>ly.
     case jget alignment ''relocations'' of
       JArr raw \<Rightarrow> rbind (each add_relocation raw (ly_slots ly)) (\<lambda>slots.
         Inr (map (\<lambda>s. s\<lparr>sl_relocations := sort (sl_relocations s)\<rparr>) slots, (\<lambda>owner. block_size (ly_offsets ly owner)), ly_counts ly))
     | _ \<Rightarrow> Inl (Refused ''alignment report: relocations must be an array'' [])))))"

section \<open>Generated files\<close>

text \<open>\<^verbatim>\<open>json.dumps\<close> of a string, everything but printable ASCII escaped.\<close>

definition hex4 :: "nat \<Rightarrow> pystr" where
  "hex4 n = [92, 117] @ map (\<lambda>k. hex_digit (n div 16 ^ k mod 16)) [3, 2, 1, 0]"

definition json_char :: "cp \<Rightarrow> pystr" where
  "json_char c =
     (if c = 34 \<or> c = 92 then [92, c]
      else if c = 10 then [92, 110] else if c = 13 then [92, 114] else if c = 9 then [92, 116] else if c = 8 then [92, 98] else if c = 12 then [92, 102]
      else if 32 \<le> c \<and> c < 127 then [c]
      else if c < 65536 then hex4 c
      else hex4 (55296 + (c - 65536) div 1024 mod 1024) @ hex4 (56320 + (c - 65536) mod 1024))"

definition json_string :: "pystr \<Rightarrow> pystr" where
  "json_string s = [34] @ concat (map json_char s) @ [34]"

text \<open>\<^verbatim>\<open>json.dumps(v, sort_keys=True, separators=(",", ":"))\<close>; the environment prints a finite float.\<close>

fun json_dumps_compact :: "build_env \<Rightarrow> json \<Rightarrow> pystr" where
  "json_dumps_compact E JNull = lit ''null''"
| "json_dumps_compact E (JBool b) = lit (if b then ''true'' else ''false'')"
| "json_dumps_compact E (JInt i) = str_int i"
| "json_dumps_compact E (JFloat f) = (case f of
      NaN \<Rightarrow> lit ''NaN'' | PosInf \<Rightarrow> lit ''Infinity'' | NegInf \<Rightarrow> lit ''-Infinity'' | _ \<Rightarrow> print_json E (JFloat f))"
| "json_dumps_compact E (JStr s) = json_string s"
| "json_dumps_compact E (JArr vs) = [91] @ join [44] (map (json_dumps_compact E) vs) @ [93]"
| "json_dumps_compact E (JObj d) =
     [123] @ join [44] (map (\<lambda>(k, t). json_string k @ [58] @ t) (sort_key fst (map (\<lambda>(k, v). (k, json_dumps_compact E v)) d))) @ [125]"

text \<open>\<^verbatim>\<open>asdict(slot)\<close>\<close>

definition slot_dict :: "slot \<Rightarrow> json" where
  "slot_dict s = JObj [(lit ''identifier'', JStr (sl_identifier s)), (lit ''name'', sl_name s), (lit ''canonical_type'', sl_canonical_type s),
     (lit ''owner'', JStr (sl_owner s)), (lit ''enum_name'', JStr (sl_enum s)), (lit ''index'', JInt (int (sl_index s))),
     (lit ''local_index'', JInt (int (sl_local_index s))), (lit ''offset'', JInt (sl_offset s)), (lit ''size'', JInt (sl_size s)),
     (lit ''alignment'', JInt (sl_alignment s)), (lit ''copy_template'', JBool (sl_copy_template s)),
     (lit ''relocations'', JArr (map JStr (sl_relocations s)))]"

definition c_identifier :: "pystr \<Rightarrow> bool" where
  "c_identifier s \<longleftrightarrow> s \<noteq> [] \<and> list_all (\<lambda>c. ascii_alpha c \<or> ascii_digit c \<or> c = 95) s \<and> \<not> ascii_digit (hd s)"

definition bridge_declaration :: "build_env \<Rightarrow> slot \<Rightarrow> pystr list bres" where
  "bridge_declaration E s =
     (if sl_relocations s = [] then Inr []
      else rbind (relocation_bridge_name E (sl_identifier s)) (\<lambda>f. Inr [lit ''void *'' @ f @ lit ''(void);'']))"

definition external_accessor :: "build_env \<Rightarrow> slot \<Rightarrow> pystr list bres" where
  "external_accessor E s =
     (case sl_name s of
        JStr name \<Rightarrow>
          if \<not> c_identifier name then Inl (Refused ''cannot emit an external-state accessor for {}'' [JStr name])
          else rbind (if sl_relocations s = [] then Inr (lit ''POSTGAMMA_BACKEND_STATE_VALUE('' @ sl_enum s @ lit '', '' @ name @ lit '')'')
              else rbind (relocation_bridge_name E (sl_identifier s)) (\<lambda>f.
                Inr (lit ''POSTGAMMA_BACKEND_STATE_RELOCATED_SLOT_VALUE('' @ sl_enum s @ lit '', '' @ name @ lit '', '' @ f @ lit '')''))) (\<lambda>accessor.
            Inr [lit ''#define POSTGAMMA_BACKEND_STATE_GLOBAL_'' @ name @ [32, 92], 9 # accessor])
      | _ \<Rightarrow> Inl TypeError)"

definition emit_layout_header :: "build_env \<Rightarrow> slot list \<Rightarrow> (pystr \<Rightarrow> int) \<Rightarrow> (pystr \<Rightarrow> nat) \<Rightarrow> pystr bres" where
  "emit_layout_header E slots sizes counts =
     rbind (utf8 (json_dumps_compact E (JArr (map slot_dict slots)))) (\<lambda>layout.
     rbind (collect (bridge_declaration E) slots) (\<lambda>bridges.
     let external_slots = filter (\<lambda>s. sl_identifier s = lit ''external:'' @ jstr E (sl_name s)) slots
     in rbind (collect (external_accessor E) external_slots) (\<lambda>accessors.
     Inr (join [10]
       ([lit ''/* Generated PostgreSQL-dependent backend-state layout facts. */'', lit ''#ifndef POSTGAMMA_BACKEND_STATE_LAYOUT_H'',
         lit ''#define POSTGAMMA_BACKEND_STATE_LAYOUT_H'',
         lit ''#define POSTGAMMA_BACKEND_STATE_LAYOUT_ID '' @ [34] @ sha256 E layout @ [34], [], lit ''typedef enum PostgammaBackendStateSlot'', [123]] @
        map (\<lambda>s. 9 # sl_enum s @ lit '' = '' @ digits_of (sl_index s) @ lit '','') slots @
        [9 # lit ''POSTGAMMA_BACKEND_STATE_SLOT_COUNT = '' @ digits_of (length slots), lit ''} PostgammaBackendStateSlot;'', []] @
        concat (map (\<lambda>(macro, owner).
            [lit ''#define POSTGAMMA_BACKEND_'' @ lit macro @ lit ''_STATE_BYTES '' @ str_int (sizes (lit owner)),
             lit ''#define POSTGAMMA_BACKEND_'' @ lit macro @ lit ''_STATE_SLOTS '' @ digits_of (counts (lit owner))])
          [(''INSTANCE'', ''instance''), (''ROLE'', ''role''), (''SESSION'', ''session'')]) @ [[]] @
        concat bridges @ (if concat bridges = [] then [] else [[]]) @ concat accessors @
        (if external_slots = [] then []
         else [lit ''#define POSTGAMMA_BACKEND_STATE_GLOBAL_EXPAND(name) '' @ [92], 9 # lit ''POSTGAMMA_BACKEND_STATE_GLOBAL_##name'',
           lit ''#define POSTGAMMA_BACKEND_STATE_GLOBAL(name) '' @ [92], 9 # lit ''POSTGAMMA_BACKEND_STATE_GLOBAL_EXPAND(name)'', []]) @
        [lit ''#endif /* POSTGAMMA_BACKEND_STATE_LAYOUT_H */'', []])))))"

definition owner_enum :: "pystr \<Rightarrow> pystr bres" where
  "owner_enum owner =
     (case map_of [(lit ''instance'', lit ''POSTGAMMA_BACKEND_STATE_OWNER_INSTANCE''), (lit ''role'', lit ''POSTGAMMA_BACKEND_STATE_OWNER_ROLE''),
         (lit ''session'', lit ''POSTGAMMA_BACKEND_STATE_OWNER_SESSION'')] owner of
        None \<Rightarrow> Inl (KeyError owner) | Some e \<Rightarrow> Inr e)"

definition descriptor_row :: "slot \<Rightarrow> pystr bres" where
  "descriptor_row s =
     rbind (owner_enum (sl_owner s)) (\<lambda>owner.
     Inr ([9, 123] @ join (lit '', '') [json_string (sl_identifier s), owner, digits_of (sl_local_index s), str_int (sl_offset s), str_int (sl_size s),
       str_int (sl_alignment s), lit (if sl_copy_template s then ''true'' else ''false''), lit (if sl_relocations s \<noteq> [] then ''true'' else ''false'')] @ lit ''},''))"

definition emit_descriptor_initializers :: "slot list \<Rightarrow> pystr bres" where
  "emit_descriptor_initializers slots =
     rbind (collect descriptor_row slots) (\<lambda>rows.
     Inr (join [10] ([lit ''/* Generated PostgreSQL-dependent backend-state descriptor data. */''] @ rows @ [[]])))"

section \<open>The report\<close>

definition slot_report :: "slot \<Rightarrow> json" where
  "slot_report s = JObj [(lit ''id'', JStr (sl_identifier s)), (lit ''name'', sl_name s), (lit ''canonical_type'', sl_canonical_type s),
     (lit ''owner'', JStr (sl_owner s)), (lit ''enum'', JStr (sl_enum s)), (lit ''offset'', JInt (sl_offset s)), (lit ''size'', JInt (sl_size s)),
     (lit ''alignment'', JInt (sl_alignment s)), (lit ''copy_template'', JBool (sl_copy_template s)),
     (lit ''relocations'', JArr (map JStr (sl_relocations s)))]"

definition owners_json :: "(pystr \<Rightarrow> int) \<Rightarrow> json" where
  "owners_json f = JObj (map (\<lambda>owner. (owner, JInt (f owner))) VIRTUAL_OWNERS)"

text \<open>
  What the tool writes: the three generated headers, by their paths, and the report on the slots. The alignment report it is given must be the one of
  its other inputs.
\<close>

definition generate_runtime :: "build_env \<Rightarrow> obj \<Rightarrow> obj \<Rightarrow> obj \<Rightarrow> obj \<Rightarrow> obj \<Rightarrow> pystr \<Rightarrow> ((pystr \<times> pystr) list \<times> obj) bres" where
  "generate_runtime E catalog policy rules guc_inventory alignment api_header =
     rbind (validate_alignment catalog policy guc_inventory (Some rules)) (\<lambda>expected_alignment.
     if \<not> jeq (JObj alignment) (JObj expected_alignment)
     then Inl (Refused ''alignment report is stale; rerun backend-state-policy-check'' [])
     else rbind (compile_slots E catalog policy alignment) (\<lambda>(slots, sizes, counts).
       rbind (emit_layout_header E slots sizes counts) (\<lambda>layout_header.
       rbind (emit_descriptor_initializers slots) (\<lambda>descriptors.
       let outputs = [(lit ''include/postgamma/backend_state_descriptors.inc'', descriptors),
             (lit ''include/postgamma/backend_state_layout.h'', layout_header), (lit ''include/postgamma/backend_state_runtime.h'', api_header)]
       in rbind (collect (\<lambda>(relative, content). rbind (utf8 content) (\<lambda>b. Inr (relative, JStr (sha256 E b)))) outputs) (\<lambda>digests.
         Inr (outputs, [(lit ''schema_version'', JInt 1), (lit ''kind'', JStr (lit ''postgamma.backend-state-runtime'')), (lit ''outputs'', JObj digests),
           (lit ''slot_count'', JInt (int (length slots))), (lit ''owner_bytes'', owners_json sizes), (lit ''owner_slots'', owners_json (\<lambda>w. int (counts w))),
           (lit ''slots'', JArr (map slot_report slots))]))))))"

end
