(* ===== verification/State_Plan.thy ===== *)
theory State_Plan
  imports Replacements State_Layout
begin

text \<open>
  The compilation of the state policy into source replacements: \<^verbatim>\<open>buildsys/generate_backend_state_plan.py\<close>. Every use of a virtual
  variable is replaced by an access through its slot, and behind the definition of a variable whose initializer holds the
  address of another one a bridge function is inserted.
\<close>

section \<open>Places in a source file\<close>

definition safe_source :: "(pystr list \<Rightarrow> pystr list option) \<Rightarrow> tree \<Rightarrow> pystr \<Rightarrow> pybytes bres" where
  "safe_source resolve t relative =
     (if take 1 relative = [47] \<or> lit ''..'' \<in> set (path_parts relative)
      then Inl (Refused ''unsafe catalog path: {}'' [JStr relative])
      else case resolve (path_parts relative) of
        None \<Rightarrow> Inl (Refused ''catalog path escapes source root: {}'' [JStr relative])
      | Some path \<Rightarrow> (case t path of
          None \<Rightarrow> Inl (Refused ''catalog source does not exist: {}'' [JStr relative])
        | Some source \<Rightarrow> Inr source))"

definition line_starts :: "pybytes \<Rightarrow> nat list" where
  "line_starts source = 0 # map Suc (filter (\<lambda>i. source ! i = 10) [0..<length source])"

definition byte_offset_for_line_column :: "pybytes \<Rightarrow> int \<Rightarrow> int \<Rightarrow> int bres" where
  "byte_offset_for_line_column source line column =
     (if line < 1 \<or> column < 1 then Inl (Refused ''invalid source location {}:{}'' [JInt line, JInt column])
      else if int (length (line_starts source)) < line then Inl (Refused ''line {} is outside source'' [JInt line])
      else Inr (int (line_starts source ! nat (line - 1)) + column - 1))"

text \<open>The state of the scanner that looks for the semicolon of a declaration.\<close>

record scan =
  parentheses :: int
  brackets :: int
  braces :: int
  quote :: "nat option"
  escaped :: bool
  line_comment :: bool
  block_comment :: bool

definition scan_start :: scan where
  "scan_start = \<lparr>parentheses = 0, brackets = 0, braces = 0, quote = None, escaped = False, line_comment = False, block_comment = False\<rparr>"

definition scan_code :: "nat \<Rightarrow> scan \<Rightarrow> scan" where
  "scan_code c s =
     (if c = 34 \<or> c = 39 then s\<lparr>quote := Some c\<rparr>
      else if c = 40 then s\<lparr>parentheses := parentheses s + 1\<rparr>
      else if c = 41 then s\<lparr>parentheses := parentheses s - 1\<rparr>
      else if c = 91 then s\<lparr>brackets := brackets s + 1\<rparr>
      else if c = 93 then s\<lparr>brackets := brackets s - 1\<rparr>
      else if c = 123 then s\<lparr>braces := braces s + 1\<rparr>
      else if c = 125 then s\<lparr>braces := braces s - 1\<rparr>
      else s)"

definition scan_quoted :: "nat \<Rightarrow> nat \<Rightarrow> scan \<Rightarrow> scan" where
  "scan_quoted q c s =
     (if escaped s then s\<lparr>escaped := False\<rparr>
      else if c = 92 then s\<lparr>escaped := True\<rparr>
      else if c = q then s\<lparr>quote := None\<rparr> else s)"

fun terminator_loop :: "pybytes \<Rightarrow> int \<Rightarrow> scan \<Rightarrow> int bres" where
  "terminator_loop [] index s = Inl (Refused ''cannot locate declaration terminator'' [])"
| "terminator_loop (c # rest) index s =
     (let following = (if rest = [] then - 1 else int (hd rest)) in
      if line_comment s then terminator_loop rest (index + 1) (if c = 10 then s\<lparr>line_comment := False\<rparr> else s)
      else if block_comment s then
        (if c = 42 \<and> following = 47 then terminator_loop (drop 1 rest) (index + 2) (s\<lparr>block_comment := False\<rparr>)
         else terminator_loop rest (index + 1) s)
      else (case quote s of
          Some q \<Rightarrow> terminator_loop rest (index + 1) (scan_quoted q c s)
        | None \<Rightarrow>
            if c = 47 \<and> following = 47 then terminator_loop (drop 1 rest) (index + 2) (s\<lparr>line_comment := True\<rparr>)
            else if c = 47 \<and> following = 42 then terminator_loop (drop 1 rest) (index + 2) (s\<lparr>block_comment := True\<rparr>)
            else if c = 59 \<and> parentheses s = 0 \<and> brackets s = 0 \<and> braces s = 0 then Inr (index + 1)
            else (let s' = scan_code c s in
              if parentheses s' < 0 \<or> brackets s' < 0 \<or> braces s' < 0
              then Inl (Refused ''cannot locate declaration terminator'' [])
              else terminator_loop rest (index + 1) s')))"

definition declaration_terminator :: "pybytes \<Rightarrow> int \<Rightarrow> int bres" where
  "declaration_terminator source start = terminator_loop (drop (nat start) source) start scan_start"

section \<open>The runtime description\<close>

definition RUNTIME_KIND :: pystr where "RUNTIME_KIND = lit ''postgamma.backend-state-runtime''"

fun hashable :: "json \<Rightarrow> bool" where
  "hashable (JArr _) = False"
| "hashable (JObj _) = False"
| "hashable _ = True"

definition runtime_step :: "json \<Rightarrow> (json \<times> json) list \<Rightarrow> (json \<times> json) list bres" where
  "runtime_step entry result =
     rbind (jsub entry ''id'') (\<lambda>key. if hashable key then Inr (dict_set result key entry) else Inl TypeError)"

definition virtual_ids :: "table \<Rightarrow> table \<Rightarrow> pystr list bres" where
  "virtual_ids candidates decisions =
     rbind (collect (\<lambda>(i, _). rbind (decision_field decisions i ''owner'') (\<lambda>owner. Inr (i, among owner VIRTUAL_OWNERS))) candidates)
       (\<lambda>xs. Inr (keys (filter snd xs)))"

text \<open>\<^verbatim>\<open>runtime_by_id[identifier]\<close>\<close>

definition runtime_slot :: "(json \<times> json) list \<Rightarrow> json \<Rightarrow> json bres" where
  "runtime_slot runtime key =
     (if \<not> hashable key then Inl TypeError
      else case map_of runtime key of None \<Rightarrow> Inl (KeyError (case key of JStr s \<Rightarrow> s | _ \<Rightarrow> [])) | Some e \<Rightarrow> Inr e)"

definition runtime_slots :: "obj \<Rightarrow> (json \<times> json) list bres" where
  "runtime_slots runtime =
     (if \<not> is_document runtime RUNTIME_KIND then Inl (Refused ''runtime: expected schema_version 1 and kind {}'' [JStr RUNTIME_KIND])
      else case jget runtime ''slots'' of
        JArr raw \<Rightarrow> each runtime_step raw []
      | _ \<Rightarrow> Inl (Refused ''runtime: slots must be an array'' []))"

text \<open>The text of the bridge behind a definition whose initializer refers to other variables.\<close>

definition bridge_target :: "build_env \<Rightarrow> json \<Rightarrow> pystr bres" where
  "bridge_target E target =
     rbind (jsub target ''enum'') (\<lambda>enum.
     rbind (jsub target ''name'') (\<lambda>name.
     Inr ([9, 9, 123] @ jstr E enum @ lit '', &('' @ jstr E name @ lit '')},'')))"

definition relocation_bridge :: "build_env \<Rightarrow> obj \<Rightarrow> json \<Rightarrow> (json \<times> json) list \<Rightarrow> pystr bres" where
  "relocation_bridge E owner owner_runtime runtime =
     rbind (jitem owner ''id'') (\<lambda>identifier.
     rbind (case identifier of JStr s \<Rightarrow> relocation_bridge_name E s | _ \<Rightarrow> Inl AttributeError) (\<lambda>function.
     rbind (jsub owner_runtime ''relocations'') (\<lambda>relocations.
     rbind (iterate relocations) (\<lambda>keys.
     rbind (collect (runtime_slot runtime) keys) (\<lambda>slots.
     rbind (collect (bridge_target E) slots) (\<lambda>targets.
     rbind (jsub owner_runtime ''enum'') (\<lambda>enum.
     rbind (jitem owner ''name'') (\<lambda>name.
     Inr (join [10] ([[], [], lit ''#ifndef FRONTEND'', lit ''void *'', function @ lit ''(void)'', [123],
         9 # lit ''static const PostgammaBackendStateTemplate targets[] ='', [9, 123]] @ targets @
       [[9, 125, 59], [], 9 # lit ''return postgamma_backend_state_address_relocated_cached('',
         [9, 9] @ jstr E enum @ lit '', &('' @ jstr E name @ lit ''), targets,'',
         [9, 9] @ lit ''sizeof(targets) / sizeof(targets[0]));'', [125], lit ''#endif /* FRONTEND */'']))))))))))"

section \<open>Uses\<close>

text \<open>A use of a virtual variable in the kind of source the plan is for.\<close>

record use_site =
  us_id :: pystr
  us_path :: pystr
  us_offset :: json
  us_length :: json
  us_static :: bool
  us_use :: obj

definition us_place :: "use_site \<Rightarrow> pystr \<times> int \<times> int" where
  "us_place u = (us_path u, int_of (us_offset u), int_of (us_length u))"

definition parse_use :: "pystr list \<Rightarrow> pystr \<Rightarrow> nat \<times> json \<Rightarrow> use_site list bres" where
  "parse_use ids source_kind = (\<lambda>(i, use).
     case use of
       JObj u \<Rightarrow>
         rbind (str_in (jget u ''id'') (set ids)) (\<lambda>virtual.
         case jget u ''id'' of
           JStr identifier \<Rightarrow>
             if \<not> virtual \<or> jget_or u ''source_kind'' (JStr (lit ''source'')) \<noteq> JStr source_kind then Inr []
             else (case jget u ''path'' of
                 JStr path \<Rightarrow>
                   if is_int (jget u ''offset'') \<and> is_int (jget u ''length'')
                   then Inr [\<lparr>us_id = identifier, us_path = path, us_offset = jget u ''offset'', us_length = jget u ''length'',
                     us_static = jtrue (jget u ''in_static_initializer''), us_use = u\<rparr>]
                   else Inl (Refused ''catalog: uses[{}] has invalid source location'' [JInt (int i)])
               | _ \<Rightarrow> Inl (Refused ''catalog: uses[{}] has invalid source location'' [JInt (int i)]))
         | _ \<Rightarrow> Inr [])
     | _ \<Rightarrow> Inl (Refused ''catalog: uses[{}] must be an object'' [JInt (int i)]))"

text \<open>The places classified both as static initializer and as runtime use.\<close>

definition ambiguous_places :: "use_site list \<Rightarrow> (pystr \<times> int \<times> int) list" where
  "ambiguous_places us = sort (remdups (filter (\<lambda>p. p \<in> set (map us_place (filter (\<lambda>u. \<not> us_static u) us))) (map us_place (filter us_static us))))"

section \<open>Replacements\<close>

record change =
  ch_offset :: json
  ch_length :: json
  ch_original :: json
  ch_replacement :: pystr
  ch_kind :: string
  ch_rule :: pystr
  ch_use_kind :: json
  ch_line :: json
  ch_column :: json

definition change_json :: "change \<Rightarrow> json" where
  "change_json c = JObj [(lit ''offset'', ch_offset c), (lit ''length'', ch_length c), (lit ''original'', ch_original c),
     (lit ''replacement'', JStr (ch_replacement c)), (lit ''kind'', JStr (lit (ch_kind c))), (lit ''rule_id'', JStr (ch_rule c)),
     (lit ''use_kind'', ch_use_kind c), (lit ''line'', ch_line c), (lit ''column'', ch_column c)]"

type_synonym changes = "((int \<times> int) \<times> change) list"

record compile_state =
  cs_files :: "(pystr \<times> changes) list"
  cs_kinds :: "(json \<times> nat) list"
  cs_skipped :: nat

definition changes_of :: "compile_state \<Rightarrow> pystr \<Rightarrow> changes" where
  "changes_of st path = (case map_of (cs_files st) path of None \<Rightarrow> [] | Some cs \<Rightarrow> cs)"

definition set_change :: "pystr \<Rightarrow> int \<times> int \<Rightarrow> change \<Rightarrow> compile_state \<Rightarrow> compile_state" where
  "set_change path key c st = st\<lparr>cs_files := dict_set (cs_files st) path (dict_set (changes_of st path) key c)\<rparr>"

definition table_item :: "table \<Rightarrow> pystr \<Rightarrow> obj bres" where
  "table_item t identifier = (case map_of t identifier of None \<Rightarrow> Inl (KeyError identifier) | Some d \<Rightarrow> Inr d)"

text \<open>The access through the slot that replaces a use.\<close>

definition access_text :: "build_env \<Rightarrow> pystr \<Rightarrow> json \<Rightarrow> json \<Rightarrow> pystr bres" where
  "access_text E identifier slot name =
     rbind (jsub slot ''relocations'') (\<lambda>relocations.
     rbind (jsub slot ''enum'') (\<lambda>enum.
     if jtrue relocations
     then rbind (relocation_bridge_name E identifier) (\<lambda>bridge.
       Inr (lit ''POSTGAMMA_BACKEND_STATE_RELOCATED_SLOT_VALUE('' @ jstr E enum @ lit '', '' @ jstr E name @ lit '', '' @ bridge @ lit '')''))
     else Inr (lit ''POSTGAMMA_BACKEND_STATE_VALUE('' @ jstr E enum @ lit '', '' @ jstr E name @ lit '')'')))"

definition recorded_use_kind :: "obj \<Rightarrow> json" where
  "recorded_use_kind u = (if jget u ''macro_kind'' = JStr (lit ''body'') then JStr (lit ''macro_body'') else jget_or u ''use_kind'' (JStr (lit ''read'')))"

definition count_kind :: "json \<Rightarrow> (json \<times> nat) list \<Rightarrow> (json \<times> nat) list bres" where
  "count_kind k ks = (if hashable k then Inr (dict_set ks k (case map_of ks k of None \<Rightarrow> 1 | Some n \<Rightarrow> n + 1)) else Inl TypeError)"

definition add_use :: "build_env \<Rightarrow> table \<Rightarrow> (json \<times> json) list \<Rightarrow> use_site \<Rightarrow> compile_state \<Rightarrow> compile_state bres" where
  "add_use E candidates runtime us st =
     (if us_static us then Inr (st\<lparr>cs_skipped := cs_skipped st + 1\<rparr>)
      else rbind (table_item candidates (us_id us)) (\<lambda>candidate.
        rbind (runtime_slot runtime (JStr (us_id us))) (\<lambda>slot.
        rbind (jitem candidate ''name'') (\<lambda>name.
        rbind (access_text E (us_id us) slot name) (\<lambda>text.
        let key = (int_of (us_offset us), int_of (us_length us));
            kind = recorded_use_kind (us_use us);
            new = \<lparr>ch_offset = us_offset us, ch_length = us_length us, ch_original = name, ch_replacement = text, ch_kind = ''backend_state'',
              ch_rule = us_id us, ch_use_kind = kind, ch_line = jget_or (us_use us) ''line'' (JInt 0), ch_column = jget_or (us_use us) ''column'' (JInt 0)\<rparr>
        in case map_of (changes_of st (us_path us)) key of
          Some existing \<Rightarrow>
            if \<not> jeq (ch_original existing) name \<or> ch_replacement existing \<noteq> text \<or> ch_rule existing \<noteq> us_id us
            then Inl (Refused ''inconsistent semantic binding at {}:{}+{}: {} versus {}''
              [JStr (us_path us), us_offset us, us_length us, JStr (ch_rule existing), JStr (us_id us)])
            else if jeq (ch_use_kind existing) kind then Inr st
            else Inr (set_change (us_path us) key (existing\<lparr>ch_use_kind := JStr (lit ''mixed'')\<rparr>) st)
        | None \<Rightarrow> rbind (count_kind kind (cs_kinds st)) (\<lambda>kinds.
            Inr ((set_change (us_path us) key new st)\<lparr>cs_kinds := kinds\<rparr>)))))))"

definition bridge_here :: "table \<Rightarrow> (json \<times> json) list \<Rightarrow> pystr \<Rightarrow> pystr \<Rightarrow> obj option bres" where
  "bridge_here candidates runtime source_kind identifier =
     rbind (runtime_slot runtime (JStr identifier)) (\<lambda>slot.
     rbind (jsub slot ''relocations'') (\<lambda>relocations.
     if \<not> jtrue relocations then Inr None
     else rbind (table_item candidates identifier) (\<lambda>candidate.
       Inr (if jget_or candidate ''definition_source_kind'' (JStr (lit ''source'')) \<noteq> JStr source_kind then None else Some candidate))))"

fun as_text :: "build_error \<Rightarrow> json \<Rightarrow> pystr bres" where
  "as_text e (JStr s) = Inr s"
| "as_text e _ = Inl e"

definition add_bridge ::
  "build_env \<Rightarrow> (pystr list \<Rightarrow> pystr list option) \<Rightarrow> tree \<Rightarrow> table \<Rightarrow> (json \<times> json) list \<Rightarrow> pystr \<Rightarrow> pystr \<Rightarrow> compile_state \<Rightarrow> compile_state bres" where
  "add_bridge E resolve t candidates runtime source_kind identifier st =
     rbind (bridge_here candidates runtime source_kind identifier) (\<lambda>here. case here of None \<Rightarrow> Inr st | Some candidate \<Rightarrow>
     rbind (jitem candidate ''definition_path'') (\<lambda>p.
     rbind (as_text TypeError p) (\<lambda>path.
     rbind (safe_source resolve t path) (\<lambda>source.
     rbind (jitem candidate ''line'') (\<lambda>line. rbind (jint E line) (\<lambda>l.
     rbind (jitem candidate ''column'') (\<lambda>column. rbind (jint E column) (\<lambda>c.
     rbind (byte_offset_for_line_column source l c) (\<lambda>name_offset.
     rbind (jitem candidate ''name'') (\<lambda>n.
     rbind (as_text AttributeError n) (\<lambda>text.
     rbind (utf8 text) (\<lambda>name.
     if py_slice source name_offset (name_offset + int (length name)) \<noteq> name
     then Inl (Refused ''definition spelling changed for {} at {}:{}:{}'' [JStr identifier, JStr path, line, column])
     else rbind (declaration_terminator source (name_offset + int (length name))) (\<lambda>insertion_offset.
     rbind (runtime_slot runtime (JStr identifier)) (\<lambda>slot.
     rbind (relocation_bridge E candidate slot runtime) (\<lambda>bridge.
     if (insertion_offset, 0) \<in> fst ` set (changes_of st path)
     then Inl (Refused ''relocation bridge insertion collision at {}:{}'' [JStr path, JInt insertion_offset])
     else Inr (set_change path (insertion_offset, 0)
       \<lparr>ch_offset = JInt insertion_offset, ch_length = JInt 0, ch_original = JStr [], ch_replacement = bridge,
         ch_kind = ''backend_relocation_bridge'', ch_rule = identifier, ch_use_kind = JStr (lit ''injection''), ch_line = line, ch_column = column\<rparr>
       st))))))))))))))))"

text \<open>The check of the replacements of one file, in ascending order.\<close>

fun check_changes :: "pystr \<Rightarrow> pybytes \<Rightarrow> changes \<Rightarrow> int \<Rightarrow> unit bres" where
  "check_changes path source [] previous_end = Inr ()"
| "check_changes path source (((start, n), c) # rest) previous_end =
     (if start < previous_end then Inl (Refused ''overlapping backend replacements in {} near {}'' [JStr path, JInt start])
      else rbind (as_text AttributeError (ch_original c)) (\<lambda>text.
        rbind (utf8 text) (\<lambda>expected.
        if py_slice source start (start + n) \<noteq> expected
        then Inl (Refused ''source spelling mismatch in {} at {}: expected {}, found {}''
          [JStr path, JInt start, bytes_json expected, bytes_json (py_slice source start (start + n))])
        else check_changes path source rest (start + n))))"

definition compile_file ::
  "build_env \<Rightarrow> (pystr list \<Rightarrow> pystr list option) \<Rightarrow> tree \<Rightarrow> pystr \<times> changes \<Rightarrow> (pystr \<times> pystr \<times> json list) bres" where
  "compile_file E resolve t = (\<lambda>(path, cs).
     rbind (safe_source resolve t path) (\<lambda>source.
     let sorted = sort_key (\<lambda>(k, c). (k, ch_rule c)) cs
     in rbind (check_changes path source sorted (- 1)) (\<lambda>_.
       Inr (path, sha256 E source, map (\<lambda>(_, c). change_json c) sorted))))"

section \<open>The plan\<close>

text \<open>
  The compiled plan: its kind, the entries of its files and the figures of its summary.
\<close>

record compiled_plan =
  cp_kind :: pystr
  cp_files :: "(pystr \<times> pystr \<times> json list) list"
  cp_virtual :: nat
  cp_replacements :: nat
  cp_skipped :: nat
  cp_bridges :: nat
  cp_by_kind :: "(json \<times> nat) list"

definition compile_plan ::
  "build_env \<Rightarrow> (pystr list \<Rightarrow> pystr list option) \<Rightarrow> tree \<Rightarrow> obj \<Rightarrow> obj \<Rightarrow> obj \<Rightarrow> pystr \<Rightarrow> compiled_plan bres" where
  "compile_plan E resolve t catalog policy runtime source_kind =
     rbind (catalog_candidates catalog) (\<lambda>candidates.
     rbind (policy_decisions policy) (\<lambda>decisions.
     rbind (runtime_slots runtime) (\<lambda>slots.
     rbind (virtual_ids candidates decisions) (\<lambda>ids.
     if fst ` set slots \<noteq> JStr ` set ids then Inl (Refused ''runtime slot inventory does not match virtual ownership policy'' [])
     else rbind (collect (parse_use ids source_kind) (enumerated (array_of (jget_or catalog ''uses'' (JArr []))))) (\<lambda>uss.
     let us = concat uss; ambiguous = ambiguous_places us
     in if ambiguous \<noteq> []
        then Inl (Refused ''source token is classified as both static-initializer and runtime use: {}:{}:{}+{}''
          [JStr source_kind, JStr (fst (hd ambiguous)), JInt (fst (snd (hd ambiguous))), JInt (snd (snd (hd ambiguous)))])
        else rbind (each (add_use E candidates slots) us \<lparr>cs_files = [], cs_kinds = [], cs_skipped = 0\<rparr>) (\<lambda>st1.
        rbind (each (add_bridge E resolve t candidates slots source_kind) (sort ids) st1) (\<lambda>st.
        rbind (collect (compile_file E resolve t) (sort_key fst (cs_files st))) (\<lambda>files.
        rbind (collect (bridge_here candidates slots source_kind) ids) (\<lambda>bridges.
        rbind (sorted_by fst (cs_kinds st)) (\<lambda>by_kind.
        Inr \<lparr>cp_kind = lit (if source_kind = lit ''source'' then ''postgamma.backend-state-plan'' else ''postgamma.backend-generated-state-plan''),
          cp_files = files, cp_virtual = length ids, cp_replacements = sum_list (map (\<lambda>(_, _, rs). length rs) files),
          cp_skipped = cs_skipped st, cp_bridges = length (filter (\<lambda>b. b \<noteq> None) bridges), cp_by_kind = by_kind\<rparr>))))))))))"

end
