(* ===== verification/Replacement_Laws.thy ===== *)
theory Replacement_Laws
  imports Replacements
begin

text \<open>
  What the replacement tools guarantee: a plan is applied exactly when its edits are disjoint, inside the file and
  spelled as the plan says, the result is the simultaneous substitution of the edits in the source, and a merged plan
  never fails on an overlap.
\<close>

section \<open>Simultaneous substitution\<close>

text \<open>An edit: where it starts, how long the old text is, the old and the new text.\<close>

record edit =
  ed_start :: int
  ed_length :: int
  ed_original :: pybytes
  ed_new :: pybytes

abbreviation ed_stop :: "edit \<Rightarrow> int" where
  "ed_stop e \<equiv> ed_start e + ed_length e"

abbreviation ed_key :: "edit \<Rightarrow> int \<times> int" where
  "ed_key e \<equiv> (ed_start e, ed_length e)"

text \<open>The source from a position on, with the edits (in ascending order) carried out.\<close>

fun substitute :: "pybytes \<Rightarrow> int \<Rightarrow> edit list \<Rightarrow> pybytes" where
  "substitute source p [] = drop (nat p) source"
| "substitute source p (e # es) = py_slice source p (ed_start e) @ ed_new e @ substitute source (ed_stop e) es"

text \<open>An edit fits the source: it lies inside and its old text is what the source has there.\<close>

definition fits :: "pybytes \<Rightarrow> edit \<Rightarrow> bool" where
  "fits source e \<longleftrightarrow> 0 \<le> ed_start e \<and> 0 \<le> ed_length e \<and> ed_stop e \<le> int (length source) \<and>
     py_slice source (ed_start e) (ed_stop e) = ed_original e"

text \<open>No edit starts before the one before it ends.\<close>

abbreviation apart :: "edit list \<Rightarrow> bool" where
  "apart \<equiv> sorted_wrt (\<lambda>a b. ed_stop a \<le> ed_start b)"

lemma py_slice_inside: "0 \<le> i \<Longrightarrow> i \<le> j \<Longrightarrow> j \<le> int (length b) \<Longrightarrow> py_slice b i j = drop (nat i) (take (nat j) b)"
  by (simp add: py_slice_def Let_def)

lemma py_slice_start: "0 \<le> j \<Longrightarrow> j \<le> int (length b) \<Longrightarrow> py_slice b 0 j = take (nat j) b"
  by (simp add: py_slice_inside)

lemma py_slice_rest: "0 \<le> i \<Longrightarrow> i \<le> int (length b) \<Longrightarrow> py_slice b i (int (length b)) = drop (nat i) b"
  by (simp add: py_slice_inside)

lemma drop_split: "i \<le> j \<Longrightarrow> drop i c = drop i (take j c) @ drop j c"
proof -
  assume "i \<le> j"
  have "drop i c = drop i (take j c @ drop j c)" by simp
  also have "\<dots> = drop i (take j c) @ drop j c" using \<open>i \<le> j\<close> by (cases "j \<le> length c") (simp_all only: drop_append, simp_all)
  finally show ?thesis .
qed

lemma py_slice_split:
  assumes "0 \<le> i" and "i \<le> j" and "j \<le> k" and "k \<le> int (length b)"
  shows "py_slice b i k = py_slice b i j @ py_slice b j k"
proof -
  have "take (nat j) (take (nat k) b) = take (nat j) b" using assms by (simp add: min_def nat_le_eq_zle)
  with drop_split [of "nat i" "nat j" "take (nat k) b"] assms show ?thesis by (simp add: py_slice_inside)
qed

text \<open>The text before the first edit is left alone.\<close>

lemma substitute_prefix:
  assumes "\<And>e. e \<in> set es \<Longrightarrow> fits source e \<and> p \<le> ed_start e" and "0 \<le> q" and "q \<le> p" and "p \<le> int (length source)"
  shows "substitute source q es = py_slice source q p @ substitute source p es"
proof (cases es)
  case Nil
  then show ?thesis using assms(2-4) drop_split [of "nat q" "nat p" source] by (simp add: py_slice_inside)
next
  case (Cons e es')
  then have "fits source e" "p \<le> ed_start e" using assms(1) by auto
  then have "py_slice source q (ed_start e) = py_slice source q p @ py_slice source p (ed_start e)"
    using assms(2-4) by (intro py_slice_split) (auto simp: fits_def)
  then show ?thesis using Cons by simp
qed

text \<open>
  Carrying out one more edit, in front of those already done, on the text they were carried out in.
\<close>

lemma substitute_step:
  assumes es: "\<And>x. x \<in> set es \<Longrightarrow> fits source x \<and> ed_stop e \<le> ed_start x" and e: "fits source e"
  shows "py_slice (substitute source 0 es) 0 (ed_start e) @ ed_new e @
      py_slice (substitute source 0 es) (ed_stop e) (int (length (substitute source 0 es))) = substitute source 0 (e # es)"
proof -
  let ?s = "nat (ed_start e)" and ?t = "nat (ed_stop e)"
  from e have b: "0 \<le> ed_start e" "ed_start e \<le> ed_stop e" "ed_stop e \<le> int (length source)" by (simp_all add: fits_def)
  have r: "substitute source 0 es = take ?t source @ substitute source (ed_stop e) es"
    using substitute_prefix [of es source "ed_stop e" 0] es b by (simp add: py_slice_start)
  have len: "ed_stop e \<le> int (length (substitute source 0 es))" using r b by simp
  have n: "?s \<le> ?t" "?t \<le> length source" using b by auto
  have "py_slice (substitute source 0 es) 0 (ed_start e) = take ?s source"
    using b len n by (simp add: py_slice_start) (simp add: r)
  moreover have "py_slice (substitute source 0 es) (ed_stop e) (int (length (substitute source 0 es))) = substitute source (ed_stop e) es"
    using b len by (subst py_slice_rest) (simp_all add: r)
  ultimately show ?thesis using b by (simp add: py_slice_start)
qed

section \<open>Applying a plan\<close>

text \<open>A replacement of a plan says the edit \<open>e\<close>.\<close>

definition says :: "build_env \<Rightarrow> json \<Rightarrow> edit \<Rightarrow> bool" where
  "says E item e \<longleftrightarrow> location E item = Inr (ed_key e) \<and> encoded_field E item ''original'' = Inr (ed_original e) \<and>
     encoded_field E item ''replacement'' = Inr (ed_new e)"

lemma located_says:
  assumes "list_all2 (says E) items es"
  shows "located E items = Inr (zip (map ed_key es) items)"
  using assms unfolding located_def by (induction rule: list_all2_induct) (simp_all add: says_def)

lemma refuse_entry_Inr [simp]: "refuse_entry entry m args \<noteq> Inr x"
  by (auto simp: refuse_entry_def rbind_eq_Inr)

text \<open>The loop runs through the edits from the last to the first.\<close>

lemma apply_loop_substitutes:
  assumes "list_all2 (says E) items es" and "\<forall>e\<in>set es. 0 \<le> ed_length e"
    and "\<And>x. x \<in> set done \<Longrightarrow> fits source x \<and> p \<le> ed_start x"
  shows "apply_loop E source entry (rev (zip (map ed_key es) items)) p (substitute source 0 done) = Inr out \<longleftrightarrow>
    (\<forall>e\<in>set es. fits source e \<and> ed_stop e \<le> p) \<and> apart es \<and> out = substitute source 0 (es @ done)"
  using assms
proof (induction es arbitrary: items "done" p rule: rev_induct)
  case Nil
  then show ?case by auto
next
  case (snoc e es)
  then obtain items' item where items: "items = items' @ [item]" "list_all2 (says E) items' es" "says E item e"
    by (auto simp: list_all2_append2 list_all2_Cons2)
  then have len: "length items' = length es" by (simp add: list_all2_lengthD)
  have rev: "rev (zip (map ed_key (es @ [e])) items) = (ed_key e, item) # rev (zip (map ed_key es) items')"
    using items(1) len by simp
  show ?case
  proof (cases "fits source e \<and> ed_stop e \<le> p")
    case True
    have le: "ed_stop x \<le> p" if "ed_stop x \<le> ed_start e" for x using that True by (simp add: fits_def)
    have all: "fits source x \<and> ed_stop e \<le> ed_start x" if "x \<in> set done" for x using snoc.prems(3) [OF that] True by auto
    have "apply_loop E source entry (rev (zip (map ed_key (es @ [e])) items)) p (substitute source 0 done) =
        apply_loop E source entry (rev (zip (map ed_key es) items')) (ed_start e) (substitute source 0 (e # done))"
      using True items(3) substitute_step [OF all] unfolding rev by (simp add: says_def fits_def Let_def)
    moreover have "fits source x \<and> ed_start e \<le> ed_start x" if "x \<in> set (e # done)" for x
      using that True all [of x] by (auto simp: fits_def)
    ultimately show ?thesis
      using snoc.IH [of items' "e # done" "ed_start e"] items(2) snoc.prems(2) True
      by (auto simp: sorted_wrt_append simp del: substitute.simps intro: le)
  next
    case False
    then have "apply_loop E source entry (rev (zip (map ed_key (es @ [e])) items)) p (substitute source 0 done) \<noteq> Inr out"
      using items(3) snoc.prems(2) unfolding rev by (auto simp: says_def fits_def Let_def)
    then show ?thesis using False by auto
  qed
qed

lemma map_insort_key: "map g (insort_key (\<lambda>x. k (g x)) x xs) = insort_key k (g x) (map g xs)"
  by (induction xs) simp_all

lemma map_sort_key: "map g (sort_key (\<lambda>x. k (g x)) xs) = sort_key k (map g xs)"
  by (induction xs) (simp_all add: map_insort_key)

lemma zip_fst_snd: "map (\<lambda>z. (f (fst z), snd z)) zs = zip (map f (map fst zs)) (map snd zs)"
  by (induction zs) simp_all

lemma sort_says:
  assumes "list_all2 (says E) items es"
  shows "\<exists>items'. sort_key fst (rev (zip (map ed_key es) items)) = zip (map ed_key (sort_key ed_key (rev es))) items' \<and>
    list_all2 (says E) items' (sort_key ed_key (rev es))"
proof -
  let ?zs = "sort_key (\<lambda>z. ed_key (fst z)) (rev (zip es items))"
  have len: "length items = length es" using assms by (simp add: list_all2_lengthD)
  have fst: "map fst ?zs = sort_key ed_key (rev es)"
    by (simp add: map_sort_key [of fst ed_key] rev_map [symmetric] len)
  have "zip (map ed_key es) items = map (\<lambda>z. (ed_key (fst z), snd z)) (zip es items)" by (simp add: zip_map1 case_prod_unfold)
  then have "sort_key fst (rev (zip (map ed_key es) items)) = sort_key fst (map (\<lambda>z. (ed_key (fst z), snd z)) (rev (zip es items)))"
    by (simp add: rev_map)
  also have "\<dots> = map (\<lambda>z. (ed_key (fst z), snd z)) ?zs"
    using map_sort_key [of "\<lambda>z. (ed_key (fst z), snd z)" fst "rev (zip es items)"] by simp
  also have "\<dots> = zip (map ed_key (map fst ?zs)) (map snd ?zs)" by (rule zip_fst_snd)
  finally have sorted: "sort_key fst (rev (zip (map ed_key es) items)) = zip (map ed_key (sort_key ed_key (rev es))) (map snd ?zs)"
    by (simp only: fst)
  have "list_all (\<lambda>z. says E (snd z) (fst z)) (zip es items)"
    using assms by (auto simp: list_all2_conv_all_nth list_all_length)
  then have "list_all2 (says E) (map snd ?zs) (map fst ?zs)"
    by (auto simp: list_all2_map1 list_all2_map2 list_all2_same list_all_iff)
  with sorted fst show ?thesis by auto
qed

lemma apply_bytes_iff:
  assumes "jitem entry ''sha256'' = Inr d" and "jitem entry ''replacements'' = Inr (JArr items)"
    and "list_all2 (says E) items es" and "\<forall>e\<in>set es. 0 \<le> ed_length e"
  shows "apply_bytes E source entry = Inr (out, n) \<longleftrightarrow>
    jstr E d = sha256 E source \<and> (\<forall>e\<in>set es. fits source e) \<and> apart (sort_key ed_key (rev es)) \<and>
    out = substitute source 0 (sort_key ed_key (rev es)) \<and> n = length es"
proof -
  obtain items' where items': "sort_key fst (rev (zip (map ed_key es) items)) = zip (map ed_key (sort_key ed_key (rev es))) items'"
    "list_all2 (says E) items' (sort_key ed_key (rev es))"
    using sort_says [OF assms(3)] by blast
  then have len: "length items' = length es" by (simp add: list_all2_lengthD)
  have s0: "substitute source 0 [] = source" by simp
  have fit: "ed_stop e \<le> int (length source) + 1" if "fits source e" for e using that by (simp add: fits_def)
  have loop: "apply_loop E source entry (rev (zip (map ed_key (sort_key ed_key (rev es))) items')) (int (length source) + 1) source = Inr out \<longleftrightarrow>
      (\<forall>e\<in>set es. fits source e) \<and> apart (sort_key ed_key (rev es)) \<and> out = substitute source 0 (sort_key ed_key (rev es))"
    using apply_loop_substitutes [OF items'(2), of "[]" source "int (length source) + 1" entry out] assms(4) fit by (auto simp: s0)
  show ?thesis
    using assms(1,2) located_says [OF assms(3)] items'(1) loop len
    by (auto simp: apply_bytes_def Let_def rbind_eq_Inr list_all2_lengthD [OF assms(3)])
qed

text \<open>
  C11: A file is rewritten exactly when its digest is the planned one, every edit lies inside the file and is spelled as the
  plan says, and no two edits overlap; the result is then the source with all the edits carried out at once, whatever the
  order in which the plan lists them.
\<close>

theorem apply_bytes_substitutes:
  assumes "jitem entry ''sha256'' = Inr d" and "jitem entry ''replacements'' = Inr (JArr items)"
    and "list_all2 (says E) items es" and "\<forall>e\<in>set es. 0 \<le> ed_length e"
  shows "apply_bytes E source entry = Inr (out, n) \<longleftrightarrow>
    jstr E d = sha256 E source \<and> (\<forall>e\<in>set es. fits source e) \<and> apart (sort_key ed_key (rev es)) \<and>
    out = substitute source 0 (sort_key ed_key (rev es)) \<and> n = length es"
  using assms by (rule apply_bytes_iff)

section \<open>Merging plans\<close>

text \<open>The paths, digests and replacements an input lists, in order.\<close>

fun entry_parts :: "json \<Rightarrow> (pystr \<times> pystr \<times> json list) list" where
  "entry_parts (JObj d) = (case (jget d ''path'', jget d ''sha256'', jget d ''replacements'') of
      (JStr logical, JStr digest, JArr replacements) \<Rightarrow> [(logical, digest, replacements)] | _ \<Rightarrow> [])"
| "entry_parts _ = []"

definition plan_entries :: "plan_input \<Rightarrow> (pystr \<times> pystr \<times> json list) list" where
  "plan_entries p = (case load_plan p of Inr (_, files) \<Rightarrow> concat (map entry_parts files) | Inl _ \<Rightarrow> [])"

text \<open>All replacements for a path.\<close>

definition planned :: "(pystr \<times> pystr \<times> json list) list \<Rightarrow> pystr \<Rightarrow> json list" where
  "planned ts path = concat (map (\<lambda>t. snd (snd t)) (filter (\<lambda>t. fst t = path) ts))"

lemma planned_append [simp]: "planned (ts @ us) path = planned ts path @ planned us path"
  by (simp add: planned_def)

lemma planned_single [simp]: "planned [(path, digest, rs)] q = (if q = path then rs else [])"
  by (simp add: planned_def)

lemma planned_fresh: "path \<notin> fst ` set ts \<Longrightarrow> planned ts path = []"
  by (induction ts) (auto simp: planned_def)

text \<open>What has been gathered is what was listed.\<close>

definition gathers :: "(pystr \<times> pystr \<times> json list) list \<Rightarrow> gathered \<Rightarrow> bool" where
  "gathers ts g \<longleftrightarrow> distinct (map fst g) \<and> fst ` set g = fst ` set ts \<and>
     (\<forall>path digest rs. map_of g path = Some (digest, rs) \<longrightarrow> rs = planned ts path \<and> (\<forall>t\<in>set ts. fst t = path \<longrightarrow> fst (snd t) = digest))"

lemma gather_entry_Inr:
  assumes "gather_entry p entry g = Inr g'"
  obtains path digest rs where "entry_parts entry = [(path, digest, rs)]"
    and "map_of g path = None \<or> (\<exists>old. map_of g path = Some (digest, old))"
    and "g' = dict_set g path (digest, (case map_of g path of None \<Rightarrow> [] | Some t \<Rightarrow> snd t) @ rs)"
  using assms by (cases entry) (auto simp: gather_entry_def Let_def split: json.splits option.splits if_splits prod.splits)

lemma gathers_entry:
  assumes "gather_entry p entry g = Inr g'" and "gathers ts g"
  shows "gathers (ts @ entry_parts entry) g'"
proof -
  obtain path digest rs where parts: "entry_parts entry = [(path, digest, rs)]"
    and same: "map_of g path = None \<or> (\<exists>old. map_of g path = Some (digest, old))"
    and g': "g' = dict_set g path (digest, (case map_of g path of None \<Rightarrow> [] | Some t \<Rightarrow> snd t) @ rs)"
    by (rule gather_entry_Inr [OF assms(1)])
  have none: "planned ts path = []" "path \<notin> fst ` set ts" if "map_of g path = None"
    using that assms(2) by (simp_all add: gathers_def map_of_eq_None_iff planned_fresh)
  show ?thesis
    unfolding gathers_def
  proof (intro conjI allI impI)
    show "distinct (map fst g')" using assms(2) by (simp add: g' gathers_def distinct_update)
    show "fst ` set g' = fst ` set (ts @ entry_parts entry)" using assms(2) by (simp add: g' parts gathers_def dom_update)
    fix q d xs
    assume q: "map_of g' q = Some (d, xs)"
    have "xs = planned (ts @ entry_parts entry) q \<and> (\<forall>t\<in>set (ts @ entry_parts entry). fst t = q \<longrightarrow> fst (snd t) = d)"
    proof (cases "q = path")
      case True
      show ?thesis
      proof (cases "map_of g path")
        case None
        then show ?thesis using True q none [OF None] by (auto simp: g' parts update_conv' image_iff)
      next
        case (Some t)
        then obtain old where "map_of g path = Some (digest, old)" using same by auto
        then show ?thesis using True q assms(2) by (auto simp: g' parts update_conv' gathers_def)
      qed
    next
      case False
      then have "map_of g q = Some (d, xs)" using q by (simp add: g' update_conv')
      then show ?thesis using False assms(2) by (simp add: parts gathers_def)
    qed
    then show "xs = planned (ts @ entry_parts entry) q" "\<forall>t\<in>set (ts @ entry_parts entry). fst t = q \<longrightarrow> fst (snd t) = d"
      by blast+
  qed
qed

lemma gathers_entries:
  "each (gather_entry p) files g = Inr g' \<Longrightarrow> gathers ts g \<Longrightarrow> gathers (ts @ concat (map entry_parts files)) g'"
proof (induction files arbitrary: g ts)
  case (Cons entry files)
  then obtain h where "gather_entry p entry g = Inr h" "each (gather_entry p) files h = Inr g'" by (auto simp: rbind_eq_Inr)
  with Cons.IH [of h "ts @ entry_parts entry"] gathers_entry Cons.prems(2) show ?case by simp
qed simp

lemma gather_plan_Inr:
  "gather_plan E p (cs, g) = Inr (cs', g') \<longleftrightarrow> (\<exists>d files. load_plan p = Inr (d, files) \<and>
     each (gather_entry p) files g = Inr g' \<and> cs' = cs @ [component_json E p d files])"
  by (auto simp: gather_plan_def rbind_eq_Inr)

lemma gathers_plans:
  "each (gather_plan E) inputs (cs, g) = Inr (cs', g') \<Longrightarrow> gathers ts g \<Longrightarrow> gathers (ts @ concat (map plan_entries inputs)) g'"
proof (induction inputs arbitrary: cs g ts)
  case (Cons p inputs)
  obtain d files h where "load_plan p = Inr (d, files)" "each (gather_entry p) files g = Inr h"
    "each (gather_plan E) inputs (cs @ [component_json E p d files], h) = Inr (cs', g')"
    using Cons.prems(1) by (auto simp: gather_plan_Inr rbind_eq_Inr)
  with Cons.IH [OF this(3) gathers_entries [OF this(2) Cons.prems(2)]] show ?case by (simp add: plan_entries_def)
qed simp

text \<open>The unique replacements of a file: one for every location, each at its location.\<close>

lemma unique_step_Inr:
  assumes "unique_step E logical r u = Inr u'"
  obtains k where "location E r = Inr k" and "u' = dict_set u k r"
  using assms by (auto simp: unique_step_def split: json.splits sum.splits build_error.splits option.splits if_splits)

definition uniques_of :: "build_env \<Rightarrow> json list \<Rightarrow> uniques \<Rightarrow> bool" where
  "uniques_of E rs u \<longleftrightarrow> distinct (map fst u) \<and> Inr ` fst ` set u = location E ` set rs \<and>
     (\<forall>p\<in>set u. location E (snd p) = Inr (fst p) \<and> snd p \<in> set rs)"

lemma set_update_insert: "set (AList.update k v d) \<subseteq> insert (k, v) (set d)"
  by (induction d) auto

lemma uniques_of_steps:
  "each (unique_step E logical) rs u = Inr u' \<Longrightarrow> uniques_of E ts u \<Longrightarrow> uniques_of E (ts @ rs) u'"
proof (induction rs arbitrary: u ts)
  case (Cons r rs)
  obtain v where v: "unique_step E logical r u = Inr v" "each (unique_step E logical) rs v = Inr u'"
    using Cons.prems(1) by (auto simp: rbind_eq_Inr)
  from v(1) obtain k where k: "location E r = Inr k" "v = dict_set u k r" by (rule unique_step_Inr)
  have "location E (snd p) = Inr (fst p) \<and> snd p \<in> set (ts @ [r])" if "p \<in> set v" for p
    using that set_update_insert [of k r u] k Cons.prems(2) by (auto simp: uniques_of_def)
  then have "uniques_of E (ts @ [r]) v"
    using k Cons.prems(2) by (simp add: uniques_of_def distinct_update dom_update)
  from Cons.IH [OF v(2) this] show ?case by simp
qed simp

text \<open>The order check of the merge leaves edits that are apart, at strictly increasing places.\<close>

lemma check_order_Inr:
  "check_order logical us stop start = Inr () \<Longrightarrow>
    (\<forall>u\<in>set us. stop \<le> fst (fst u)) \<and> sorted_wrt (\<lambda>u v. fst (fst u) + snd (fst u) \<le> fst (fst v)) us"
proof (induction us arbitrary: stop start)
  case (Cons u us)
  obtain a n r where u: "u = ((a, n), r)" by (cases u) auto
  have "stop \<le> a" "check_order logical us (max stop (a + n)) a = Inr ()" using Cons.prems u by (auto split: if_splits)
  with Cons.IH [OF this(2)] u show ?case by auto
qed simp

lemma merge_file_Inr:
  assumes "merge_file E (logical, digest, gathered) = Inr f"
  obtains us where "f = (logical, digest, map snd us)" and "uniques_of E gathered us" and "sorted (map fst us)"
    and "sorted_wrt (\<lambda>u v. fst (fst u) + snd (fst u) \<le> fst (fst v)) us"
proof -
  obtain u where u: "each (unique_step E logical) gathered [] = Inr u"
    and c: "check_order logical (sort_key (\<lambda>(k, r). (k, rule_id E r)) u) (- 1) (- 1) = Inr ()"
    and f: "f = (logical, digest, map snd (sort_key (\<lambda>(k, r). (k, rule_id E r)) u))"
    using assms by (auto simp: merge_file_def rbind_eq_Inr Let_def)
  let ?us = "sort_key (\<lambda>(k, r). (k, rule_id E r)) u"
  have "uniques_of E gathered u" using uniques_of_steps [OF u, of "[]"] by (simp add: uniques_of_def)
  then have uu: "uniques_of E gathered ?us"
    by (simp add: uniques_of_def distinct_map)
  have "sorted (map (\<lambda>(k, r). (k, rule_id E r)) ?us)" by simp
  then have "sorted (map fst ?us)"
    unfolding sorted_map by (rule sorted_wrt_mono_rel [rotated]) (auto simp: less_eq_prod_def)
  then show ?thesis using that f uu check_order_Inr [OF c] by blast
qed

lemma sort_key_rev_sorted:
  assumes "sorted (map k xs)" and "distinct (map k xs)"
  shows "sort_key k (rev xs) = xs"
proof -
  have "map k (sort_key k (rev xs)) = map k xs"
    using assms by (intro sorted_distinct_set_unique) (simp_all add: distinct_map)
  moreover have "inj_on k (set (sort_key k (rev xs)) \<union> set xs)" using assms(2) by (simp add: distinct_map)
  ultimately show ?thesis by (simp add: inj_on_map_eq_map)
qed

lemma jitem_file_json [simp]:
  "jitem (file_json (logical, digest, rs)) ''path'' = Inr (JStr logical)"
  "jitem (file_json (logical, digest, rs)) ''sha256'' = Inr (JStr digest)"
  "jitem (file_json (logical, digest, rs)) ''replacements'' = Inr (JArr rs)"
  by (simp_all add: jitem_def file_json_def lit_def)

lemma says_keys:
  assumes "list_all2 (says E) (map snd us) es" and "\<forall>u\<in>set us. location E (snd u) = Inr (fst u)"
  shows "map ed_key es = map fst us"
  using assms by (auto simp: list_all2_conv_all_nth says_def intro!: nth_equalityI)

lemma merge_file_applies:
  assumes "merge_file E (path, digest, xs) = Inr (path', digest', rs)" and "sha256 E source = digest'"
    and "list_all2 (says E) rs es" and "\<forall>e\<in>set es. fits source e"
  shows "apply_bytes E source (file_json (path', digest', rs)) = Inr (substitute source 0 es, length es)"
proof -
  obtain us where us: "rs = map snd us" "uniques_of E xs us" "sorted (map fst us)"
    "sorted_wrt (\<lambda>u v. fst (fst u) + snd (fst u) \<le> fst (fst v)) us"
    by (rule merge_file_Inr [OF assms(1)]) auto
  have keys: "map ed_key es = map fst us" using assms(3) us(1,2) says_keys by (auto simp: uniques_of_def)
  then have sk: "sort_key ed_key (rev es) = es"
    using us(2,3) by (intro sort_key_rev_sorted) (simp_all add: uniques_of_def)
  have "sorted_wrt (\<lambda>a b. fst a + snd a \<le> fst b) (map fst us)" using us(4) by (simp add: sorted_wrt_map)
  then have "apart es" unfolding keys [symmetric] by (simp add: sorted_wrt_map)
  moreover have "\<forall>e\<in>set es. 0 \<le> ed_length e" using assms(4) by (simp add: fits_def)
  ultimately show ?thesis
    using apply_bytes_iff [of "file_json (path', digest', rs)" "JStr digest'" rs E es source "substitute source 0 es" "length es"] assms(2-4) sk
    by (simp add: jstr_def)
qed

lemma merge_file_locations:
  assumes "merge_file E (path, digest, xs) = Inr (path', digest', rs)"
  shows "path' = path \<and> digest' = digest \<and> location E ` set rs = location E ` set xs"
proof -
  obtain us where us: "(path', digest', rs) = (path, digest, map snd us)" "uniques_of E xs us"
    by (rule merge_file_Inr [OF assms])
  have "location E ` snd ` set us = Inr ` fst ` set us" using us(2) by (force simp: uniques_of_def image_image)
  then show ?thesis using us by (simp add: uniques_of_def)
qed

text \<open>
  C12: A merged plan applies. It lists every path of the input plans once, in order, with the digest all of them give; the
  places it edits in a file are those of the input plans; and it can be carried out on every source that has the
  digest and in which each edit fits: merging leaves no overlap.
\<close>

theorem merged_plan_applies:
  assumes "merge E inputs = Inr plan"
  shows "\<exists>files. jget plan ''files'' = JArr (map (\<lambda>f. JObj (file_json f)) files) \<and>
    sorted_wrt (<) (map fst files) \<and> set (map fst files) = set (map fst (concat (map plan_entries inputs))) \<and>
    (\<forall>(path, digest, rs)\<in>set files.
       (\<forall>t\<in>set (concat (map plan_entries inputs)). fst t = path \<longrightarrow> fst (snd t) = digest) \<and>
       location E ` set rs = location E ` set (planned (concat (map plan_entries inputs)) path) \<and>
       (\<forall>source es. sha256 E source = digest \<and> list_all2 (says E) rs es \<and> (\<forall>e\<in>set es. fits source e) \<longrightarrow>
          apply_bytes E source (file_json (path, digest, rs)) = Inr (substitute source 0 es, length es)))"
    (is "\<exists>files. _ \<and> _ \<and> _ \<and> (\<forall>f\<in>set files. ?ok f)")
proof -
  let ?ts = "concat (map plan_entries inputs)"
  obtain cs g files where g: "each (gather_plan E) inputs ([], []) = Inr (cs, g)"
    and files: "collect (merge_file E) (sort_key fst g) = Inr files"
    and plan: "jget plan ''files'' = JArr (map (\<lambda>f. JObj (file_json f)) files)"
    using assms by (auto simp: merge_def rbind_eq_Inr jget_def jget_or_def lit_def split: if_splits)
  have "gathers [] []" by (simp add: gathers_def)
  from gathers_plans [OF g this] have gs: "gathers ?ts g" by simp
  have all2: "list_all2 (\<lambda>x f. merge_file E x = Inr f) (sort_key fst g) files" by (rule collect_all2 [OF files])
  have "list_all2 (\<lambda>x f. fst x = fst f) (sort_key fst g) files"
    by (rule list_all2_mono [OF all2]) (auto simp: merge_file_def rbind_eq_Inr Let_def)
  then have fst: "map fst files = map fst (sort_key fst g)" by (auto simp: list_all2_conv_all_nth intro!: nth_equalityI)
  have dist: "distinct (map fst g)" using gs by (simp add: gathers_def)
  have "sorted (map fst files)" "distinct (map fst files)" using dist by (simp_all add: fst distinct_map)
  then have sorted: "sorted_wrt (<) (map fst files)" by (simp add: strict_sorted_iff)
  have each: "(\<forall>t\<in>set ?ts. fst t = path \<longrightarrow> fst (snd t) = digest) \<and> location E ` set rs = location E ` set (planned ?ts path) \<and>
      (\<exists>xs. merge_file E (path, digest, xs) = Inr (path, digest, rs))"
    if f: "(path, digest, rs) \<in> set files" for path digest rs
  proof -
    obtain x where "x \<in> set g" "merge_file E x = Inr (path, digest, rs)"
      using collect_source [OF files f] by auto
    then obtain xs where xs: "(path, digest, xs) \<in> set g" "merge_file E (path, digest, xs) = Inr (path, digest, rs)"
      by (metis merge_file_locations prod_cases3)
    then have "map_of g path = Some (digest, xs)" using dist by simp
    then have "xs = planned ?ts path \<and> (\<forall>t\<in>set ?ts. fst t = path \<longrightarrow> fst (snd t) = digest)" using gs unfolding gathers_def by blast
    with merge_file_locations [OF xs(2)] xs(2) show ?thesis by blast
  qed
  have paths: "set (map fst files) = set (map fst ?ts)" using gs by (simp add: fst gathers_def)
  have "apply_bytes E source (file_json (path, digest, rs)) = Inr (substitute source 0 es, length es)"
    if m: "(path, digest, rs) \<in> set files" and s: "sha256 E source = digest" "list_all2 (says E) rs es" "\<forall>e\<in>set es. fits source e"
    for path digest rs source es
  proof -
    obtain xs where "merge_file E (path, digest, xs) = Inr (path, digest, rs)" using each [OF m] by blast
    then show ?thesis by (rule merge_file_applies [OF _ s])
  qed
  note applies = this
  have "?ok f" if f: "f \<in> set files" for f
  proof -
    obtain path digest rs where f': "f = (path, digest, rs)" by (cases f) auto
    then have m: "(path, digest, rs) \<in> set files" using f by simp
    have "?ok (path, digest, rs)"
      unfolding prod.case using each [OF m] applies [OF m] by (intro conjI allI impI) (simp_all only: conj_assoc, blast+)
    then show ?thesis unfolding f' .
  qed
  with plan sorted paths show ?thesis by blast
qed

section \<open>A sample plan\<close>

text \<open>A digest function, and plans that rename the two variables of a declaration.\<close>

definition sample_build :: build_env where
  "sample_build = \<lparr>b_uni = latin1, sha256 = (\<lambda>b. 48 # b), print_json = (\<lambda>_. [])\<rparr>"

definition sample_item :: "int \<Rightarrow> string \<Rightarrow> string \<Rightarrow> json" where
  "sample_item i old new = JObj [(lit ''offset'', JInt i), (lit ''length'', JInt (int (length old))),
     (lit ''original'', JStr (lit old)), (lit ''replacement'', JStr (lit new))]"

definition sample_edit :: "int \<Rightarrow> string \<Rightarrow> string \<Rightarrow> edit" where
  "sample_edit i old new = \<lparr>ed_start = i, ed_length = int (length old), ed_original = lit old, ed_new = lit new\<rparr>"

definition sample_source :: pybytes where
  "sample_source = lit ''int x, y;''"

abbreviation sample_file :: "json list \<Rightarrow> obj" where
  "sample_file items \<equiv> file_json (lit ''a.c'', 48 # sample_source, items)"

lemma says_sample:
  assumes "\<forall>c\<in>set (lit old) \<union> set (lit new). c < 128"
  shows "says sample_build (sample_item i old new) (sample_edit i old new)"
proof -
  have "utf8_encode (lit old) = Inr (lit old)" "utf8_encode (lit new) = Inr (lit new)"
    using assms by (auto intro: utf8_encode_ascii)
  then show ?thesis
    by (simp add: says_def sample_item_def sample_edit_def location_def encoded_field_def jitem_def utf8_def jstr_def)
qed

theorem apply_bytes_substitutes_witness:
  "apply_bytes sample_build sample_source (sample_file [sample_item 7 ''y'' ''b'', sample_item 4 ''x'' ''aa'']) =
     Inr (lit ''int aa, b;'', 2)"
proof -
  have s: "list_all2 (says sample_build) [sample_item 7 ''y'' ''b'', sample_item 4 ''x'' ''aa'']
      [sample_edit 7 ''y'' ''b'', sample_edit 4 ''x'' ''aa'']"
    by (simp add: says_sample lit_def)
  have l: "\<forall>e\<in>set [sample_edit 7 ''y'' ''b'', sample_edit 4 ''x'' ''aa'']. 0 \<le> ed_length e" by (simp add: sample_edit_def)
  have sort: "sort_key ed_key (rev [sample_edit 7 ''y'' ''b'', sample_edit 4 ''x'' ''aa'']) =
      [sample_edit 4 ''x'' ''aa'', sample_edit 7 ''y'' ''b'']"
    by (simp add: sample_edit_def)
  show ?thesis
    using apply_bytes_substitutes [OF _ _ s l, of "sample_file [sample_item 7 ''y'' ''b'', sample_item 4 ''x'' ''aa'']"
        "JStr (48 # sample_source)" sample_source "lit ''int aa, b;''" 2] unfolding sort
    by (simp add: sample_build_def jstr_def fits_def sample_edit_def sample_source_def py_slice_def lit_def)
qed

definition sample_plan :: "string \<Rightarrow> json list \<Rightarrow> plan_input" where
  "sample_plan name items = \<lparr>pi_name = lit name, pi_data = [], pi_document = JObj [(lit ''schema_version'', JInt 1),
     (lit ''mode'', JStr (lit ''plan'')), (lit ''files'', JArr [JObj (sample_file items)])]\<rparr>"

theorem merged_plan_applies_witness:
  "\<exists>plan. merge sample_build [sample_plan ''p'' [sample_item 7 ''y'' ''b''], sample_plan ''q'' [sample_item 4 ''x'' ''aa'']] = Inr plan \<and>
     (\<exists>entry. jget plan ''files'' = JArr [JObj entry] \<and>
       apply_bytes sample_build sample_source entry = Inr (lit ''int aa, b;'', 2))"
proof -
  let ?inputs = "[sample_plan ''p'' [sample_item 7 ''y'' ''b''], sample_plan ''q'' [sample_item 4 ''x'' ''aa'']]"
  have merge: "\<exists>plan. merge sample_build ?inputs = Inr plan \<and>
      jget plan ''files'' = JArr [JObj (sample_file [sample_item 4 ''x'' ''aa'', sample_item 7 ''y'' ''b''])]"
    by (simp add: merge_def gather_plan_def load_plan_def sample_plan_def gather_entry_def file_json_def jget_def jget_or_def lit_def
      merge_file_def unique_step_def sample_item_def location_def jitem_def)
  then obtain plan where p: "merge sample_build ?inputs = Inr plan"
    "jget plan ''files'' = JArr [JObj (sample_file [sample_item 4 ''x'' ''aa'', sample_item 7 ''y'' ''b''])]" by blast
  let ?es = "[sample_edit 4 ''x'' ''aa'', sample_edit 7 ''y'' ''b'']"
  have inj: "file_json f = file_json g \<longleftrightarrow> f = g" for f g by (cases f; cases g) (simp add: file_json_def)
  from merged_plan_applies [OF p(1)]
  have main: "sha256 sample_build source = 48 # sample_source \<and>
     list_all2 (says sample_build) [sample_item 4 ''x'' ''aa'', sample_item 7 ''y'' ''b''] es \<and> (\<forall>e\<in>set es. fits source e) \<longrightarrow>
     apply_bytes sample_build source (sample_file [sample_item 4 ''x'' ''aa'', sample_item 7 ''y'' ''b'']) =
       Inr (substitute source 0 es, length es)" for source es
    unfolding p(2) by (elim exE conjE) (simp add: Cons_eq_map_conv inj)
  have "list_all2 (says sample_build) [sample_item 4 ''x'' ''aa'', sample_item 7 ''y'' ''b''] ?es" by (simp add: says_sample lit_def)
  moreover have "\<forall>e\<in>set ?es. fits sample_source e" "substitute sample_source 0 ?es = lit ''int aa, b;''"
    by (simp_all add: fits_def sample_edit_def sample_source_def py_slice_def lit_def)
  moreover have "sha256 sample_build sample_source = 48 # sample_source" "length ?es = 2" by (simp_all add: sample_build_def)
  ultimately have "apply_bytes sample_build sample_source (sample_file [sample_item 4 ''x'' ''aa'', sample_item 7 ''y'' ''b'']) = Inr (lit ''int aa, b;'', 2)"
    using main [of sample_source ?es] by (simp del: list_all2_Cons)
  with p show ?thesis by blast
qed

section \<open>Plans on a tree\<close>

definition entry_target :: "build_env \<Rightarrow> (pystr list \<Rightarrow> pystr list option) \<Rightarrow> json \<Rightarrow> pystr list bres" where
  "entry_target E resolve entry = rbind (jsub entry ''path'') (\<lambda>path. safe_target resolve (jstr E path))"

text \<open>What it means that the entry has been carried out between two states of the tree.\<close>

definition carried_out :: "build_env \<Rightarrow> (pystr list \<Rightarrow> pystr list option) \<Rightarrow> tree \<Rightarrow> tree \<Rightarrow> json \<Rightarrow> bool" where
  "carried_out E resolve t t' entry \<longleftrightarrow>
     (\<exists>target d source result n. entry = JObj d \<and> entry_target E resolve entry = Inr target \<and> t target = Some source \<and>
        apply_bytes E source d = Inr (result, n) \<and> t' target = Some result)"

lemma apply_entry_Inr:
  assumes "apply_entry E resolve entry t = Inr (n, t')"
  shows "\<exists>target result. entry_target E resolve entry = Inr target \<and> t' = t(target \<mapsto> result) \<and> carried_out E resolve t t' entry"
proof -
  from assms obtain path target where p: "jsub entry ''path'' = Inr path" "safe_target resolve (jstr E path) = Inr target"
    and a: "(if t target = None then Inl (Refused ''planned source does not exist: {}'' [path])
       else case entry of JObj d \<Rightarrow> apply_file E target d t | _ \<Rightarrow> Inl TypeError) = Inr (n, t')"
    by (auto simp: apply_entry_def rbind_eq_Inr)
  then obtain d where d: "entry = JObj d" "apply_file E target d t = Inr (n, t')" by (auto split: if_splits json.splits)
  then obtain source result where r: "t target = Some source" "apply_bytes E source d = Inr (result, n)" "t' = t(target \<mapsto> result)"
    by (auto simp: apply_file_def rbind_eq_Inr split: option.splits)
  have "entry_target E resolve entry = Inr target" using p by (simp add: entry_target_def)
  then show ?thesis using d r by (auto simp: carried_out_def)
qed

lemma apply_entries_outcome:
  assumes "apply_entries E resolve entries k t = (r, t')" and "distinct (map (entry_target E resolve) entries)"
  shows "\<exists>m. (m < length entries \<longleftrightarrow> isl r) \<and> (\<forall>e\<in>set (take m entries). carried_out E resolve t t' e) \<and>
    (\<forall>p. Inr p \<notin> entry_target E resolve ` set (take m entries) \<longrightarrow> t' p = t p)"
  using assms
proof (induction entries arbitrary: k t)
  case Nil
  then show ?case by auto
next
  case (Cons e es)
  show ?case
  proof (cases "apply_entry E resolve e t")
    case (Inl x)
    then show ?thesis using Cons.prems by (intro exI [of _ 0]) auto
  next
    case (Inr y)
    obtain n t1 where y: "y = (n, t1)" by (cases y)
    obtain target result where 1: "entry_target E resolve e = Inr target" "t1 = t(target \<mapsto> result)" "carried_out E resolve t t1 e"
      using apply_entry_Inr Inr y by blast
    obtain m where m: "m < length es \<longleftrightarrow> isl r" "\<forall>e\<in>set (take m es). carried_out E resolve t1 t' e"
      "\<And>p. Inr p \<notin> entry_target E resolve ` set (take m es) \<Longrightarrow> t' p = t1 p"
      using Cons.IH [of "k + n" t1] Cons.prems Inr y by auto
    have other: "entry_target E resolve e' \<noteq> Inr target" if "e' \<in> set es" for e' using Cons.prems(2) that 1(1) by force
    have "Inr target \<notin> entry_target E resolve ` set (take m es)" using other by (metis imageE in_set_takeD)
    then have kept: "t' target = t1 target" by (rule m(3))
    have first: "carried_out E resolve t t' e" using 1 kept by (auto simp: carried_out_def)
    have "carried_out E resolve t t' e'" if e': "e' \<in> set (take m es)" for e'
      using m(2) [rule_format, OF e'] other [OF in_set_takeD [OF e']] 1(2) by (auto simp: carried_out_def split: if_splits)
    moreover have "t' p = t p" if "Inr p \<noteq> Inr target \<and> Inr p \<notin> entry_target E resolve ` set (take m es)" for p
      using m(3) [of p] that 1(2) by auto
    ultimately show ?thesis using first m(1) 1(1) by (intro exI [of _ "Suc m"]) auto
  qed
qed


definition sample_files :: tree where
  "sample_files = [[lit ''a.c''] \<mapsto> sample_source]"

definition whole_plan :: json where
  "whole_plan = JObj [(lit ''schema_version'', JInt 1), (lit ''mode'', JStr (lit ''plan'')),
     (lit ''files'', JArr [JObj (file_json (lit ''b.c'', [], [])), JObj (sample_file [sample_item 4 ''x'' ''aa''])])]"

lemma whole_plan_files:
  "plan_files whole_plan = Inr [JObj (sample_file [sample_item 4 ''x'' ''aa'']), JObj (file_json (lit ''b.c'', [], []))]"
  by (simp add: plan_files_def whole_plan_def jget_def jget_or_def jitem_def file_json_def sorted_by_def lit_def)

lemma sample_applied: "apply_bytes sample_build sample_source (sample_file [sample_item 4 ''x'' ''aa'']) = Inr (lit ''int aa, y;'', 1)"
proof -
  have "list_all2 (says sample_build) [sample_item 4 ''x'' ''aa''] [sample_edit 4 ''x'' ''aa'']" by (simp add: says_sample lit_def)
  from apply_bytes_iff [OF _ _ this, of "sample_file [sample_item 4 ''x'' ''aa'']" "JStr (48 # sample_source)" sample_source "lit ''int aa, y;''" 1]
  show ?thesis by (simp add: sample_build_def jstr_def fits_def sample_edit_def sample_source_def py_slice_def lit_def)
qed


end
