(* ===== verification/State_Laws.thy ===== *)
theory State_Laws
  imports State_Layout
begin

text \<open>
  What the layout of virtual state guarantees when it is compiled from a catalog and a policy that passed the alignment
  check.
\<close>

section \<open>Slots do not overlap\<close>

lemma align_up_Inr:
  assumes "align_up v a = Inr x" and "0 < a"
  shows "v \<le> x" and "a dvd x"
proof -
  have x: "x = (v + a - 1) div a * a" using assms by (simp add: align_up_def)
  have "(v + a - 1) div a * a = v + a - 1 - (v + a - 1) mod a" by (simp add: minus_mod_eq_div_mult)
  moreover have "(v + a - 1) mod a < a" using assms(2) by simp
  ultimately show "v \<le> x" using x by simp
  show "a dvd x" using x by simp
qed

lemma block_size_bounds: "0 \<le> n \<Longrightarrow> n \<le> block_size n" "8 dvd block_size n"
  by (auto simp: block_size_def)

lemma jint_of_int: "is_int v \<Longrightarrow> jint E v = Inr (int_of v)"
  by (cases v) simp_all

lemma jitem_jget: "jitem d k = Inr v \<Longrightarrow> jget d k = v"
  by (auto simp: jitem_def jget_def jget_or_def split: option.splits)

text \<open>
  Slots that fit blocks of the sizes \<open>bytes\<close>: every one lies inside the block of its owner at a multiple of its
  alignment, and behind the earlier slots of that owner.
\<close>

definition laid_out :: "(pystr \<Rightarrow> int) \<Rightarrow> slot list \<Rightarrow> bool" where
  "laid_out bytes slots \<longleftrightarrow>
     (\<forall>s\<in>set slots. 0 \<le> sl_offset s \<and> 0 < sl_size s \<and> sl_alignment s dvd sl_offset s \<and> sl_offset s + sl_size s \<le> bytes (sl_owner s)) \<and>
     sorted_wrt (\<lambda>s t. sl_owner s = sl_owner t \<longrightarrow> sl_offset s + sl_size s \<le> sl_offset t) slots \<and>
     map sl_index slots = [0..<length slots] \<and> distinct (map sl_enum slots)"

lemma laid_out_mono:
  assumes "laid_out f slots" and "\<And>x. f x \<le> g x"
  shows "laid_out g slots"
  using assms(1) order_trans [OF _ assms(2)] by (simp add: laid_out_def)

lemma laid_out_relocations:
  assumes "\<And>s. h s = s\<lparr>sl_relocations := r s\<rparr>"
  shows "laid_out f (map h slots) = laid_out f slots"
  by (simp add: laid_out_def sorted_wrt_map o_def assms)

lemma laid_out_add:
  assumes "add_relocation entry slots = Inr slots'" and "laid_out f slots"
  shows "laid_out f slots'"
proof -
  obtain d where d: "entry = JObj d" using assms(1) by (cases entry) (simp_all add: add_relocation_def)
  obtain owner target where s:
    "slots' = map (\<lambda>s. if sl_identifier s = owner then s\<lparr>sl_relocations := sl_relocations s @ [target]\<rparr> else s) slots"
    using assms(1) d
    by (cases "jget d ''owner_id''"; cases "jget d ''target_id''") (auto simp: add_relocation_def rbind_eq_Inr split: if_splits)
  have h: "(if sl_identifier s = owner then s\<lparr>sl_relocations := sl_relocations s @ [target]\<rparr> else s) =
      s\<lparr>sl_relocations := (if sl_identifier s = owner then sl_relocations s @ [target] else sl_relocations s)\<rparr>" for s by simp
  show ?thesis using assms(2) unfolding s laid_out_relocations [OF h] .
qed

lemma laid_out_snoc:
  assumes "laid_out f slots" and "0 \<le> f (sl_owner s)" and "f (sl_owner s) \<le> sl_offset s" and "0 < sl_size s" and "sl_alignment s dvd sl_offset s"
    and "sl_index s = length slots" and "sl_enum s \<notin> sl_enum ` set slots"
  shows "laid_out (f(sl_owner s := sl_offset s + sl_size s)) (slots @ [s])"
proof -
  have old: "sl_offset t + sl_size t \<le> f (sl_owner t)" if "t \<in> set slots" for t using that assms(1) by (simp add: laid_out_def)
  have "sl_offset t + sl_size t \<le> sl_offset s" if "t \<in> set slots" "sl_owner t = sl_owner s" for t
    using old [OF that(1)] that(2) assms(3) by simp
  moreover from this have "sl_offset t + sl_size t \<le> (f(sl_owner s := sl_offset s + sl_size s)) (sl_owner t)" if "t \<in> set slots" for t
    using old [OF that] assms(4) that by (cases "sl_owner t = sl_owner s") force+
  ultimately show ?thesis
    using assms by (simp add: laid_out_def sorted_wrt_append)
qed

text \<open>Room for another slot behind those that are placed.\<close>

definition placed :: "layout \<Rightarrow> bool" where
  "placed ly \<longleftrightarrow> laid_out (ly_offsets ly) (ly_slots ly) \<and> (\<forall>owner. 0 \<le> ly_offsets ly owner)"

lemma place_slot_Inr:
  assumes "place_slot E (identifier, candidate, owner) ly = Inr ly'"
  obtains a n offset s where "jint E (jget candidate ''alignment'') = Inr a" and "jint E (jget candidate ''size'') = Inr n"
    and "align_up (ly_offsets ly owner) a = Inr offset"
    and "sl_enum s \<notin> sl_enum ` set (ly_slots ly)" and "sl_owner s = owner" and "sl_offset s = offset" and "sl_size s = n"
    and "sl_alignment s = a" and "sl_index s = length (ly_slots ly)" and "sl_identifier s = identifier"
    and "ly' = \<lparr>ly_offsets = (ly_offsets ly)(owner := offset + n), ly_counts = (ly_counts ly)(owner := ly_counts ly owner + 1),
      ly_slots = ly_slots ly @ [s]\<rparr>"
proof -
  obtain slot_enum al a offset name ct si n init where r: "slot_enum \<notin> sl_enum ` set (ly_slots ly)" "jitem candidate ''alignment'' = Inr al"
    "jint E al = Inr a" "align_up (ly_offsets ly owner) a = Inr offset" "jitem candidate ''size'' = Inr si" "jint E si = Inr n"
    and ly': "ly' = \<lparr>ly_offsets = (ly_offsets ly)(owner := offset + n), ly_counts = (ly_counts ly)(owner := ly_counts ly owner + 1),
      ly_slots = ly_slots ly @ [\<lparr>sl_identifier = identifier, sl_name = name, sl_canonical_type = ct, sl_owner = owner,
            sl_enum = slot_enum, sl_index = length (ly_slots ly), sl_local_index = ly_counts ly owner, sl_offset = offset,
            sl_size = n, sl_alignment = a, sl_copy_template = jtrue init, sl_relocations = []\<rparr>]\<rparr>"
    using assms unfolding place_slot_def prod.case rbind_eq_Inr by (auto simp: rbind_eq_Inr split: if_splits)
  show ?thesis by (rule that [OF _ _ r(4) _ _ _ _ _ _ _ ly']) (use r jitem_jget in simp_all)
qed

lemma place_slot_placed:
  assumes "place_slot E (identifier, candidate, owner) ly = Inr ly'" and "placed ly"
    and "is_int (jget candidate ''size'')" "0 < int_of (jget candidate ''size'')"
    and "is_int (jget candidate ''alignment'')" "0 < int_of (jget candidate ''alignment'')"
  shows "placed ly'"
proof -
  from assms(1) obtain offset s where offset: "align_up (ly_offsets ly owner) (int_of (jget candidate ''alignment'')) = Inr offset"
    and s: "sl_enum s \<notin> sl_enum ` set (ly_slots ly)" "sl_owner s = owner" "sl_offset s = offset" "sl_size s = int_of (jget candidate ''size'')"
      "sl_alignment s = int_of (jget candidate ''alignment'')" "sl_index s = length (ly_slots ly)"
    and ly': "ly_offsets ly' = (ly_offsets ly)(owner := offset + int_of (jget candidate ''size''))" "ly_slots ly' = ly_slots ly @ [s]"
    by (rule place_slot_Inr) (use assms(3,5) jint_of_int in auto)
  note up = align_up_Inr [OF offset assms(6)]
  have "laid_out (ly_offsets ly') (ly_slots ly')"
    using laid_out_snoc [of "ly_offsets ly" "ly_slots ly" s] assms(2,4) s up unfolding placed_def ly' by simp
  moreover have "0 \<le> offset + int_of (jget candidate ''size'')"
    using assms(2,4) order_trans [OF _ up(1)] by (simp add: placed_def)
  then have "0 \<le> ly_offsets ly' x" for x using assms(2) by (simp add: ly' placed_def)
  ultimately show ?thesis by (simp add: placed_def)
qed

text \<open>The alignment check has looked at the size and the alignment of every virtual variable.\<close>

lemma each_unit: "each (\<lambda>x _. f x) xs () = Inr () \<Longrightarrow> x \<in> set xs \<Longrightarrow> f x = Inr ()"
  by (induction xs) (auto simp: rbind_eq_Inr)

lemma check_virtual_Inr:
  assumes "check_virtual decisions (identifier, c) = Inr ()" and "is_virtual decisions identifier"
  shows "is_int (jget c ''size'') \<and> 0 < int_of (jget c ''size'') \<and> is_int (jget c ''alignment'') \<and> 0 < int_of (jget c ''alignment'')"
  using assms by (auto simp: check_virtual_def split: if_splits)

lemma validate_alignment_virtual:
  assumes "validate_alignment catalog policy guc_inventory rules = Inr report"
    and "catalog_candidates catalog = Inr candidates" and "policy_decisions policy = Inr decisions"
    and "(identifier, c) \<in> set candidates" and "is_virtual decisions identifier"
  shows "is_int (jget c ''size'') \<and> 0 < int_of (jget c ''size'') \<and> is_int (jget c ''alignment'') \<and> 0 < int_of (jget c ''alignment'')"
proof -
  have "each (\<lambda>c _. check_virtual decisions c) (sort_key fst candidates) () = Inr ()"
    using assms(1-3) by (auto simp: validate_alignment_def rbind_eq_Inr Let_def split: if_splits)
  from each_unit [OF this, of "(identifier, c)"] assms(4) have "check_virtual decisions (identifier, c) = Inr ()" by simp
  then show ?thesis by (rule check_virtual_Inr [OF _ assms(5)])
qed

lemma virtual_candidates_Inr:
  assumes "virtual_candidates candidates decisions = Inr vs" and "(identifier, c, owner) \<in> set vs"
  shows "(identifier, c) \<in> set candidates \<and> is_virtual decisions identifier"
proof -
  obtain xs where xs: "collect (virtual_entry decisions) (sort_key fst candidates) = Inr xs" "vs = concat xs"
    using assms(1) by (auto simp: virtual_candidates_def rbind_eq_Inr)
  then obtain ys where ys: "ys \<in> set xs" "(identifier, c, owner) \<in> set ys" using assms(2) by auto
  from collect_source [OF xs(1) ys(1)] obtain x where x: "x \<in> set candidates" "virtual_entry decisions x = Inr ys" by auto
  obtain j d where j: "x = (j, d)" by (cases x)
  obtain v where v: "decision_field decisions j ''owner'' = Inr v" using x(2) j by (auto simp: virtual_entry_def rbind_eq_Inr)
  then show ?thesis using x ys(2) j by (cases v) (auto simp: virtual_entry_def is_virtual_def split: if_splits)
qed

lemma place_slots:
  assumes "each (place_slot E) vs ly = Inr ly'" and "placed ly"
    and "\<And>identifier c owner. (identifier, c, owner) \<in> set vs \<Longrightarrow>
      is_int (jget c ''size'') \<and> 0 < int_of (jget c ''size'') \<and> is_int (jget c ''alignment'') \<and> 0 < int_of (jget c ''alignment'')"
  shows "placed ly'"
proof (rule each_invariant [where P = placed, OF _ assms(2,1)])
  fix x s s'
  assume x: "x \<in> set vs" "placed s" "place_slot E x s = Inr s'"
  obtain i c owner where "x = (i, c, owner)" by (cases x) auto
  then show "placed s'" using place_slot_placed x assms(3) by metis
qed

text \<open>
  C13: Slots do not overlap. When a catalog and a policy passed the alignment check and a layout was compiled from
  them, every slot lies inside the block of its owner at a multiple of its alignment, two slots of one
  owner share no byte, the blocks are multiples of eight bytes, and the indices and the enumeration constants of the slots are
  all different.
\<close>

theorem slots_disjoint:
  assumes "validate_alignment catalog policy guc_inventory rules = Inr report"
    and "compile_slots E catalog policy alignment = Inr (slots, bytes, counts)"
  shows "(\<forall>s\<in>set slots. 0 \<le> sl_offset s \<and> 0 < sl_size s \<and> sl_alignment s dvd sl_offset s \<and>
      sl_offset s + sl_size s \<le> bytes (sl_owner s)) \<and>
    (\<forall>i < length slots. \<forall>j < length slots. i \<noteq> j \<and> sl_owner (slots ! i) = sl_owner (slots ! j) \<longrightarrow>
      {sl_offset (slots ! i)..<sl_offset (slots ! i) + sl_size (slots ! i)} \<inter>
      {sl_offset (slots ! j)..<sl_offset (slots ! j) + sl_size (slots ! j)} = {}) \<and>
    (\<forall>owner. 8 dvd bytes owner) \<and> map sl_index slots = [0..<length slots] \<and> distinct (map sl_enum slots)"
proof -
  obtain candidates decisions vs ly raw ss where c: "catalog_candidates catalog = Inr candidates" and d: "policy_decisions policy = Inr decisions"
    and vs: "virtual_candidates candidates decisions = Inr vs"
    and ly: "each (place_slot E) vs \<lparr>ly_offsets = (\<lambda>_. 0), ly_counts = (\<lambda>_. 0), ly_slots = []\<rparr> = Inr ly"
    and ss: "each add_relocation raw (ly_slots ly) = Inr ss"
    and slots: "slots = map (\<lambda>s. s\<lparr>sl_relocations := sort (sl_relocations s)\<rparr>) ss" "bytes = (\<lambda>owner. block_size (ly_offsets ly owner))"
    using assms(2) by (cases "jget alignment ''relocations''") (auto simp: compile_slots_def rbind_eq_Inr)
  have "placed \<lparr>ly_offsets = (\<lambda>_. 0), ly_counts = (\<lambda>_. 0), ly_slots = []\<rparr>" by (simp add: placed_def laid_out_def)
  from place_slots [OF ly this] have p: "placed ly"
    using virtual_candidates_Inr [OF vs] validate_alignment_virtual [OF assms(1) c d] by blast
  have "laid_out (ly_offsets ly) ss"
    using each_invariant [where P = "laid_out (ly_offsets ly)", OF laid_out_add _ ss] p by (simp add: placed_def)
  then have "laid_out (ly_offsets ly) slots" unfolding slots(1) laid_out_relocations [OF refl] .
  then have l: "laid_out bytes slots"
    by (rule laid_out_mono) (use p in \<open>simp add: slots(2) placed_def block_size_bounds\<close>)
  have apart: "sl_offset (slots ! i) + sl_size (slots ! i) \<le> sl_offset (slots ! j)"
    if "i < j" "j < length slots" "sl_owner (slots ! i) = sl_owner (slots ! j)" for i j
    using l that by (auto simp: laid_out_def sorted_wrt_iff_nth_less)
  have "{sl_offset (slots ! i)..<sl_offset (slots ! i) + sl_size (slots ! i)} \<inter>
      {sl_offset (slots ! j)..<sl_offset (slots ! j) + sl_size (slots ! j)} = {}"
    if "i < length slots" "j < length slots" "i \<noteq> j \<and> sl_owner (slots ! i) = sl_owner (slots ! j)" for i j
    using apart [of i j] apart [of j i] that by (cases "i < j") auto
  with l show ?thesis using slots(2) block_size_bounds(2) by (simp add: laid_out_def)
qed

section \<open>A sample catalog\<close>

definition sample_candidate :: "string \<Rightarrow> int \<Rightarrow> json" where
  "sample_candidate name n = JObj [(lit ''id'', JStr (lit name)), (lit ''usr'', JStr (lit (''usr:'' @ name))), (lit ''name'', JStr (lit name)),
     (lit ''canonical_type'', JStr (lit ''T'')), (lit ''size'', JInt n), (lit ''alignment'', JInt n), (lit ''has_initializer'', JBool False),
     (lit ''complete_type'', JBool True), (lit ''trivially_copyable'', JBool True)]"

definition sample_catalog :: obj where
  "sample_catalog = [(lit ''schema_version'', JInt 1), (lit ''kind'', JStr CATALOG_KIND),
     (lit ''candidates'', JArr [sample_candidate ''a'' 4, sample_candidate ''b'' 8]), (lit ''uses'', JArr []),
     (lit ''summary'', JObj [(lit ''candidate_count'', JInt 2)])]"

definition sample_decision :: "string \<Rightarrow> json" where
  "sample_decision name = JObj [(lit ''id'', JStr (lit name)), (lit ''owner'', JStr (lit ''session'')), (lit ''rationale'', JStr (lit ''r''))]"

definition sample_policy :: obj where
  "sample_policy = [(lit ''schema_version'', JInt 1), (lit ''kind'', JStr POLICY_KIND),
     (lit ''decisions'', JArr [sample_decision ''a'', sample_decision ''b''])]"

definition sample_inventory :: obj where
  "sample_inventory = [(lit ''schema_version'', JInt 1), (lit ''mode'', JStr GUC_INVENTORY_MODE),
     (lit ''declarations'', JArr [JObj [(lit ''definition'', JBool True), (lit ''usr'', JStr (lit ''g'')), (lit ''symbol_id'', JStr (lit ''pg.guc.g''))]])]"

definition sample_env :: build_env where
  "sample_env = \<lparr>b_uni = latin1, sha256 = (\<lambda>b. b), print_json = (\<lambda>_. [])\<rparr>"

lemmas sample_defs = sample_catalog_def sample_policy_def sample_inventory_def sample_candidate_def sample_decision_def
  jget_def jget_or_def jitem_def is_document_def

abbreviation sample_row :: "json \<Rightarrow> obj" where
  "sample_row j \<equiv> (case j of JObj d \<Rightarrow> d)"

lemma sample_candidates:
  "catalog_candidates sample_catalog = Inr [(lit ''a'', sample_row (sample_candidate ''a'' 4)), (lit ''b'', sample_row (sample_candidate ''b'' 8))]"
  by (simp add: catalog_candidates_def sample_defs lit_def)

lemma sample_decisions:
  "policy_decisions sample_policy = Inr (map (\<lambda>n. (lit n, [(lit ''id'', JStr (lit n)), (lit ''owner'', JStr (lit ''session'')),
     (lit ''rationale'', JStr (lit ''r'')), (lit ''availability'', JStr (lit ''required''))])) [''a'', ''b''])"
  by (simp add: policy_decisions_def policy_decisions_of_def parse_decision_def reject_unknown_def sample_defs lit_def OWNERS_def AVAILABILITIES_def)

lemma sample_usrs: "guc_definition_usrs sample_inventory = Inr [lit ''g'']"
  by (simp add: guc_definition_usrs_def guc_usr_def sample_defs startswith_at_def lit_def)

lemma sample_order: "lit ''a'' \<le> lit ''b''" "\<not> lit ''b'' \<le> lit ''a''"
  by (simp_all add: lit_def)

lemma sample_sorted: "sort_key fst [(lit ''a'', x), (lit ''b'', y)] = [(lit ''a'', x), (lit ''b'', y)]"
  by (simp add: sample_order)

lemmas sample_fields = sample_candidate_def jget_def jget_or_def jitem_def decision_field_def VIRTUAL_OWNERS_def

lemma sample_aligned: "\<exists>report. validate_alignment sample_catalog sample_policy sample_inventory None = Inr report"
proof -
  have e: "align_exact_candidates [(lit ''a'', x), (lit ''b'', y)] [(lit ''a'', u), (lit ''b'', v)] = Inr []" for x y u v
    by (simp add: align_exact_candidates_def keys_def without_def)
  have u: "jget_or sample_catalog ''uses'' (JArr []) = JArr []" by (simp add: sample_catalog_def jget_or_def)
  show ?thesis
    unfolding validate_alignment_def sample_candidates sample_decisions sample_usrs u rbind_simps Let_def
    by (simp add: e has_usr_def keys_def check_virtual_def is_virtual_def enumerated_def sample_fields sample_sorted del: sort_key_simps)
qed

lemma sample_layout:
  "\<exists>slots bytes counts. compile_slots sample_env sample_catalog sample_policy [(lit ''relocations'', JArr [])] = Inr (slots, bytes, counts) \<and>
     map sl_offset slots = [0, 8] \<and> map sl_owner slots = [lit ''session'', lit ''session'']"
proof -
  have u: "utf8_encode (lit ''a'') = Inr (lit ''a'')" "utf8_encode (lit ''b'') = Inr (lit ''b'')"
    by (intro utf8_encode_ascii; simp add: lit_def)+
  have n: "enum_name sample_env (lit ''a'') = Inr (lit ''POSTGAMMA_BACKEND_STATE_SLOT_'' @ upper latin1 (lit ''a''))"
    "enum_name sample_env (lit ''b'') = Inr (lit ''POSTGAMMA_BACKEND_STATE_SLOT_'' @ upper latin1 (lit ''b''))"
    using u by (simp_all add: enum_name_def short_digest_def sample_env_def utf8_def) (simp_all add: lit_def)
  have "upper latin1 (lit ''a'') \<noteq> upper latin1 (lit ''b'')" by (simp add: upper_def latin1_def lit_def ascii_upper_def)
  then show ?thesis
    by (simp add: compile_slots_def sample_candidates sample_decisions virtual_candidates_def virtual_entry_def
     place_slot_def n align_up_def sample_fields sample_sorted del: sort_key_simps)
qed

theorem slots_disjoint_witness:
  "\<exists>slots bytes counts. compile_slots sample_env sample_catalog sample_policy [(lit ''relocations'', JArr [])] = Inr (slots, bytes, counts) \<and>
     map sl_offset slots = [0, 8] \<and> 8 dvd bytes (lit ''session'') \<and> 0 < bytes (lit ''session'')"
proof -
  obtain slots bytes counts where c: "compile_slots sample_env sample_catalog sample_policy [(lit ''relocations'', JArr [])] = Inr (slots, bytes, counts)"
    "map sl_offset slots = [0, 8]" "map sl_owner slots = [lit ''session'', lit ''session'']" using sample_layout by metis
  obtain report where r: "validate_alignment sample_catalog sample_policy sample_inventory None = Inr report" using sample_aligned by blast
  from slots_disjoint [OF r c(1)] c(3) have "8 dvd bytes (lit ''session'')" "0 < bytes (lit ''session'')" by (auto simp: map_eq_Cons_conv)
  with c show ?thesis by metis
qed

end
