(* ===== verification/Plan_Laws.thy ===== *)
theory Plan_Laws
  imports State_Plan Replacement_Laws State_Laws
begin

text \<open>
  What a compiled state plan guarantees: it can be carried out on the sources it was compiled from, and it replaces every
  runtime use of a virtual variable.
\<close>

section \<open>The changes that are collected\<close>

text \<open>Every change is filed under the place it says.\<close>

definition filed :: "changes \<Rightarrow> bool" where
  "filed cs \<longleftrightarrow> distinct (map fst cs) \<and>
     (\<forall>p\<in>set cs. is_int (ch_offset (snd p)) \<and> is_int (ch_length (snd p)) \<and> fst p = (int_of (ch_offset (snd p)), int_of (ch_length (snd p))))"

definition all_filed :: "compile_state \<Rightarrow> bool" where
  "all_filed st \<longleftrightarrow> distinct (map fst (cs_files st)) \<and> (\<forall>f\<in>set (cs_files st). filed (snd f))"

definition has_change :: "pystr \<Rightarrow> int \<times> int \<Rightarrow> pystr \<Rightarrow> compile_state \<Rightarrow> bool" where
  "has_change path key rule st \<longleftrightarrow> (\<exists>c. map_of (changes_of st path) key = Some c \<and> ch_rule c = rule)"

lemma changes_of_set_change [simp]:
  "changes_of (set_change path key c st) p = (if p = path then dict_set (changes_of st path) key c else changes_of st p)"
  by (simp add: changes_of_def set_change_def update_conv')

lemma changes_of_kinds [simp]: "changes_of (st\<lparr>cs_kinds := k\<rparr>) p = changes_of st p" "changes_of (st\<lparr>cs_skipped := n\<rparr>) p = changes_of st p"
  by (simp_all add: changes_of_def)

lemma filed_changes_of: "all_filed st \<Longrightarrow> filed (changes_of st path)"
proof (cases "map_of (cs_files st) path")
  case None
  then show ?thesis by (simp add: changes_of_def filed_def)
next
  case (Some cs)
  moreover assume "all_filed st"
  ultimately show ?thesis using map_of_SomeD [OF Some] by (auto simp: all_filed_def changes_of_def)
qed

lemma filed_set:
  assumes "filed cs" and "is_int (ch_offset c)" and "is_int (ch_length c)" and "key = (int_of (ch_offset c), int_of (ch_length c))"
  shows "filed (dict_set cs key c)"
  using assms set_update_insert [of key c cs] unfolding filed_def by (auto simp: distinct_update)

lemma all_filed_set:
  assumes "all_filed st" and "is_int (ch_offset c)" and "is_int (ch_length c)" and "key = (int_of (ch_offset c), int_of (ch_length c))"
  shows "all_filed (set_change path key c st)"
proof -
  have "filed (dict_set (changes_of st path) key c)" using filed_set [OF filed_changes_of [OF assms(1)] assms(2-4)] .
  then show ?thesis
    using assms(1) set_update_insert [of path "dict_set (changes_of st path) key c" "cs_files st"]
    by (auto simp: all_filed_def set_change_def distinct_update)
qed

lemma has_change_set:
  "has_change p k rule st \<Longrightarrow> p = path \<and> k = key \<longrightarrow> ch_rule c = rule \<Longrightarrow> has_change p k rule (set_change path key c st)"
  by (auto simp: has_change_def update_conv')

text \<open>One use: the state it leaves.\<close>

lemma add_use_cases:
  assumes "add_use E candidates runtime us st = Inr st'"
  obtains "us_static us" and "st' = st\<lparr>cs_skipped := cs_skipped st + 1\<rparr>"
  | existing where "\<not> us_static us" and "map_of (changes_of st (us_path us)) (int_of (us_offset us), int_of (us_length us)) = Some existing"
      and "ch_rule existing = us_id us" and "st' = st"
  | existing where "\<not> us_static us" and "map_of (changes_of st (us_path us)) (int_of (us_offset us), int_of (us_length us)) = Some existing"
      and "ch_rule existing = us_id us"
      and "st' = set_change (us_path us) (int_of (us_offset us), int_of (us_length us)) (existing\<lparr>ch_use_kind := JStr (lit ''mixed'')\<rparr>) st"
  | new kinds where "\<not> us_static us" and "map_of (changes_of st (us_path us)) (int_of (us_offset us), int_of (us_length us)) = None"
      and "ch_rule new = us_id us" and "ch_offset new = us_offset us" and "ch_length new = us_length us"
      and "st' = (set_change (us_path us) (int_of (us_offset us), int_of (us_length us)) new st)\<lparr>cs_kinds := kinds\<rparr>"
proof (cases "us_static us")
  case True
  then show ?thesis using that(1) assms by (simp add: add_use_def)
next
  case False
  show ?thesis
  proof (cases "map_of (changes_of st (us_path us)) (int_of (us_offset us), int_of (us_length us))")
    case None
    obtain name new_text kinds where "st' = (set_change (us_path us) (int_of (us_offset us), int_of (us_length us))
        \<lparr>ch_offset = us_offset us, ch_length = us_length us, ch_original = name, ch_replacement = new_text, ch_kind = ''backend_state'',
          ch_rule = us_id us, ch_use_kind = recorded_use_kind (us_use us), ch_line = jget_or (us_use us) ''line'' (JInt 0),
          ch_column = jget_or (us_use us) ''column'' (JInt 0)\<rparr> st)\<lparr>cs_kinds := kinds\<rparr>"
      using None False assms by (auto simp: add_use_def Let_def rbind_eq_Inr)
    from that(4) [OF False None _ _ _ this] show ?thesis by simp
  next
    case (Some existing)
    then show ?thesis using False assms that(2,3) by (auto simp: add_use_def Let_def rbind_eq_Inr split: if_splits)
  qed
qed

lemma add_use_filed:
  assumes "add_use E candidates runtime us st = Inr st'" and "all_filed st" and "is_int (us_offset us)" and "is_int (us_length us)"
  shows "all_filed st'"
  using assms(1)
proof (cases rule: add_use_cases)
  case 1
  then show ?thesis using assms(2) by (simp add: all_filed_def)
next
  case (3 existing)
  have "((int_of (us_offset us), int_of (us_length us)), existing) \<in> set (changes_of st (us_path us))" using 3(2) by (rule map_of_SomeD)
  with filed_changes_of [OF assms(2)] have "is_int (ch_offset existing) \<and> is_int (ch_length existing) \<and>
      (int_of (us_offset us), int_of (us_length us)) = (int_of (ch_offset existing), int_of (ch_length existing))"
    by (force simp: filed_def)
  then show ?thesis unfolding 3(4) by (intro all_filed_set [OF assms(2)]) simp_all
next
  case (4 new kinds)
  have "all_filed (set_change (us_path us) (int_of (us_offset us), int_of (us_length us)) new st)"
    using 4 assms(3,4) by (intro all_filed_set [OF assms(2)]) simp_all
  then show ?thesis unfolding 4(6) by (simp add: all_filed_def)
qed (use assms(2) in simp)

lemma has_change_simps [simp]: "has_change p k rule (st\<lparr>cs_kinds := x\<rparr>) = has_change p k rule st"
  "has_change p k rule (st\<lparr>cs_skipped := n\<rparr>) = has_change p k rule st"
  by (simp_all add: has_change_def)

lemma add_use_keeps:
  assumes "add_use E candidates runtime us st = Inr st'" and "has_change path key rule st"
  shows "has_change path key rule st'"
  using assms(1)
proof (cases rule: add_use_cases)
  case (3 existing)
  then show ?thesis using assms(2) by (auto simp: has_change_def update_conv')
next
  case (4 new kinds)
  then show ?thesis using assms(2) by (auto simp: has_change_def update_conv')
qed (use assms(2) in simp_all)

lemma add_use_adds:
  assumes "add_use E candidates runtime us st = Inr st'" and "\<not> us_static us"
  shows "has_change (us_path us) (int_of (us_offset us), int_of (us_length us)) (us_id us) st'"
  using assms(1) by (cases rule: add_use_cases) (use assms(2) in \<open>auto simp: has_change_def update_conv'\<close>)

text \<open>A bridge is a change at a place that has none.\<close>

lemma add_bridge_cases:
  assumes "add_bridge E resolve t candidates runtime source_kind i st = Inr st'"
  obtains "st' = st"
  | path k c where "k \<notin> fst ` set (changes_of st path)" and "is_int (ch_offset c)" and "is_int (ch_length c)"
      and "k = (int_of (ch_offset c), int_of (ch_length c))" and "st' = set_change path k c st"
proof -
  obtain here where here: "bridge_here candidates runtime source_kind i = Inr here"
    using assms by (auto simp: add_bridge_def rbind_eq_Inr)
  show ?thesis
  proof (cases here)
    case None
    then show ?thesis using assms here that(1) by (simp add: add_bridge_def)
  next
    case (Some candidate)
    obtain path insertion bridge line column where "(insertion, 0) \<notin> fst ` set (changes_of st path)"
      and "st' = set_change path (insertion, 0) \<lparr>ch_offset = JInt insertion, ch_length = JInt 0, ch_original = JStr [], ch_replacement = bridge,
         ch_kind = ''backend_relocation_bridge'', ch_rule = i, ch_use_kind = JStr (lit ''injection''), ch_line = line, ch_column = column\<rparr> st"
      using assms here Some unfolding add_bridge_def by (auto simp: rbind_eq_Inr split: if_splits)
    then show ?thesis by (intro that(2)) simp_all
  qed
qed

lemma add_bridge_filed:
  assumes "add_bridge E resolve t candidates runtime source_kind i st = Inr st'" and "all_filed st"
  shows "all_filed st'"
  using assms(1) by (cases rule: add_bridge_cases) (use assms(2) all_filed_set in auto)

lemma add_bridge_keeps:
  assumes "add_bridge E resolve t candidates runtime source_kind i st = Inr st'" and "has_change path key rule st"
  shows "has_change path key rule st'"
  using assms(1)
proof (cases rule: add_bridge_cases)
  case (2 path' k c)
  have "\<not> (path = path' \<and> key = k)" using assms(2) 2(1) by (auto simp: has_change_def dest!: map_of_SomeD intro: rev_image_eqI)
  then show ?thesis using has_change_set [OF assms(2)] 2(5) by blast
qed (use assms(2) in simp)

lemma each_keeps:
  assumes "each f xs s = Inr s'" and "P s" and "\<And>x s s'. f x s = Inr s' \<Longrightarrow> P s \<Longrightarrow> P s'"
  shows "P s'"
  by (rule each_invariant [where P = P, OF _ assms(2,1)]) (rule assms(3))

lemma each_adds:
  assumes "each f xs s = Inr s'" and "x \<in> set xs" and "\<And>s s'. f x s = Inr s' \<Longrightarrow> P s'" and "\<And>y s s'. f y s = Inr s' \<Longrightarrow> P s \<Longrightarrow> P s'"
  shows "P s'"
  using assms(1,2)
proof (induction xs arbitrary: s)
  case (Cons y xs)
  then obtain t where t: "f y s = Inr t" "each f xs t = Inr s'" by (auto simp: rbind_eq_Inr)
  show ?case
  proof (cases "x = y")
    case True
    then show ?thesis using each_keeps [of f xs t s' P] t assms(3,4) by blast
  next
    case False
    then show ?thesis using Cons t by auto
  qed
qed simp

section \<open>The entry of a file\<close>

lemma change_json_fields [simp]:
  "jsub (change_json c) ''offset'' = Inr (ch_offset c)" "jsub (change_json c) ''length'' = Inr (ch_length c)"
  "jsub (change_json c) ''original'' = Inr (ch_original c)" "jsub (change_json c) ''replacement'' = Inr (JStr (ch_replacement c))"
  "jsub (change_json c) ''rule_id'' = Inr (JStr (ch_rule c))"
  by (simp_all add: change_json_def jitem_def)

lemma location_change: "filed cs \<Longrightarrow> p \<in> set cs \<Longrightarrow> location E (change_json (snd p)) = Inr (fst p)"
  by (auto simp: filed_def location_def jint_of_int)

lemma check_changes_Inr:
  "check_changes path source cs previous = Inr () \<Longrightarrow> \<forall>p\<in>set cs. 0 \<le> snd (fst p) \<Longrightarrow>
    (\<forall>p\<in>set cs. previous \<le> fst (fst p)) \<and> sorted_wrt (\<lambda>p q. fst (fst p) + snd (fst p) \<le> fst (fst q)) cs"
proof (induction cs arbitrary: previous)
  case (Cons p cs)
  obtain start n c where p: "p = ((start, n), c)" by (cases p) auto
  have "previous \<le> start" "check_changes path source cs (start + n) = Inr ()" using Cons.prems(1) p by (auto simp: rbind_eq_Inr split: if_splits)
  with Cons.IH [OF this(2)] Cons.prems(2) p show ?case by force
qed simp

lemma check_changes_spelling:
  "check_changes path source cs previous = Inr () \<Longrightarrow> p \<in> set cs \<Longrightarrow>
    \<exists>s. ch_original (snd p) = JStr s \<and> utf8 s = Inr (py_slice source (fst (fst p)) (fst (fst p) + snd (fst p)))"
proof (induction cs arbitrary: previous)
  case (Cons q cs)
  obtain start n c where q: "q = ((start, n), c)" by (cases q) auto
  then have "\<exists>s. ch_original c = JStr s \<and> utf8 s = Inr (py_slice source start (start + n))" "check_changes path source cs (start + n) = Inr ()"
    using Cons.prems(1) by (cases "ch_original c"; auto simp: rbind_eq_Inr split: if_splits)+
  with Cons q show ?case by auto
qed simp

lemma compile_file_Inr:
  assumes "compile_file E resolve t (path, cs) = Inr (path', digest, rs)" and "filed cs"
  obtains source us where "safe_source resolve t path = Inr source" and "path' = path" and "digest = sha256 E source"
    and "rs = map (\<lambda>p. change_json (snd p)) us" and "set us = set cs" and "filed us" and "sorted (map fst us)"
    and "check_changes path source us (- 1) = Inr ()"
proof -
  let ?us = "sort_key (\<lambda>(k, c). (k, ch_rule c)) cs"
  have "sorted (map (\<lambda>(k, c). (k, ch_rule c)) ?us)" by simp
  then have "sorted (map fst ?us)"
    unfolding sorted_map by (rule sorted_wrt_mono_rel [rotated]) (auto simp: less_eq_prod_def)
  moreover have "filed ?us" using assms(2) by (simp add: filed_def distinct_map)
  ultimately show ?thesis
    using assms(1) that [of _ ?us] by (auto simp: compile_file_def rbind_eq_Inr Let_def case_prod_unfold)
qed

text \<open>The entry of a file says edits that are apart and spelled as the source has them.\<close>

lemma compile_file_applies:
  assumes "compile_file E resolve t (path, cs) = Inr (path', digest, rs)" and "filed cs" and "list_all2 (says E) rs es"
  shows "path' = path \<and> (\<exists>source. safe_source resolve t path = Inr source \<and> digest = sha256 E source \<and>
    ((\<forall>e\<in>set es. 0 \<le> ed_start e \<and> 0 \<le> ed_length e \<and> ed_stop e \<le> int (length source)) \<longrightarrow>
      apply_bytes E source (file_json (path, digest, rs)) = Inr (substitute source 0 es, length es)))"
proof -
  obtain source us where us: "safe_source resolve t path = Inr source" "path' = path" "digest = sha256 E source"
    "rs = map (\<lambda>p. change_json (snd p)) us" "filed us" "sorted (map fst us)" "check_changes path source us (- 1) = Inr ()"
    by (rule compile_file_Inr [OF assms(1,2)])
  have all2: "list_all2 (\<lambda>p e. says E (change_json (snd p)) e) us es" using assms(3) us(4) by (simp add: list_all2_map1)
  have at: "list_all2 (\<lambda>p e. fst p = ed_key e) us es"
    by (rule list.rel_mono_strong [OF all2]) (use us(5) location_change [of us] in \<open>fastforce simp: says_def\<close>)
  then have keys: "map ed_key es = map fst us" by (auto simp: list_all2_conv_all_nth intro!: nth_equalityI)
  have sort: "sort_key ed_key (rev es) = es" using us(5,6) keys by (intro sort_key_rev_sorted) (simp_all add: filed_def)
  have "apply_bytes E source (file_json (path, digest, rs)) = Inr (substitute source 0 es, length es)"
    if inside: "\<forall>e\<in>set es. 0 \<le> ed_start e \<and> 0 \<le> ed_length e \<and> ed_stop e \<le> int (length source)"
  proof -
    have "\<forall>k\<in>set (map ed_key es). 0 \<le> snd k" using inside by simp
    then have "sorted_wrt (\<lambda>a b. fst a + snd a \<le> fst b) (map fst us)"
      unfolding keys using check_changes_Inr [OF us(7)] by (simp add: sorted_wrt_map)
    then have "apart es" unfolding keys [symmetric] by (simp add: sorted_wrt_map)
    moreover have "fits source e" if e: "e \<in> set es" for e
    proof -
      obtain n where n: "n < length es" "e = es ! n" using e by (auto simp: in_set_conv_nth)
      have p: "says E (change_json (snd (us ! n))) e" "fst (us ! n) = ed_key e" "us ! n \<in> set us"
        using all2 at n by (auto simp: list_all2_conv_all_nth)
      obtain s where "ch_original (snd (us ! n)) = JStr s" "utf8 s = Inr (py_slice source (ed_start e) (ed_stop e))"
        using check_changes_spelling [OF us(7) p(3)] p(2) by auto
      then show ?thesis using p(1) inside e by (simp add: fits_def says_def encoded_field_def jstr_def)
    qed
    ultimately show ?thesis
      using apply_bytes_iff [of "file_json (path, digest, rs)" "JStr digest" rs E es source "substitute source 0 es" "length es"] assms(3) sort inside us(3)
      by (simp add: jstr_def)
  qed
  then show ?thesis using us(1-3) by blast
qed

section \<open>The plan\<close>

lemma parse_use_Inr:
  assumes "parse_use ids source_kind (i, use) = Inr us" and "u \<in> set us"
  shows "is_int (us_offset u) \<and> is_int (us_length u)"
proof -
  obtain d where d: "use = JObj d" using assms(1) by (cases use) (simp_all add: parse_use_def)
  then show ?thesis
    using assms by (cases "jget d ''id''"; cases "jget d ''path''") (auto simp: parse_use_def rbind_eq_Inr split: if_splits)
qed

lemma parse_use_found:
  assumes "parse_use ids source_kind (i, JObj u) = Inr us" and "jget u ''id'' = JStr v" and "v \<in> set ids"
    and "jget_or u ''source_kind'' (JStr (lit ''source'')) = JStr source_kind"
  shows "\<exists>path. jget u ''path'' = JStr path \<and> us = [\<lparr>us_id = v, us_path = path, us_offset = jget u ''offset'', us_length = jget u ''length'',
    us_static = jtrue (jget u ''in_static_initializer''), us_use = u\<rparr>]"
  using assms by (cases "jget u ''path''") (auto simp: parse_use_def split: if_splits)

lemma compile_plan_Inr:
  assumes "compile_plan E resolve t catalog policy runtime source_kind = Inr cp"
  obtains candidates decisions slots ids uss st1 st where "catalog_candidates catalog = Inr candidates" and "policy_decisions policy = Inr decisions"
    and "virtual_ids candidates decisions = Inr ids"
    and "collect (parse_use ids source_kind) (enumerated (array_of (jget_or catalog ''uses'' (JArr [])))) = Inr uss"
    and "ambiguous_places (concat uss) = []"
    and "each (add_use E candidates slots) (concat uss) \<lparr>cs_files = [], cs_kinds = [], cs_skipped = 0\<rparr> = Inr st1"
    and "each (add_bridge E resolve t candidates slots source_kind) (sort ids) st1 = Inr st"
    and "collect (compile_file E resolve t) (sort_key fst (cs_files st)) = Inr (cp_files cp)"
  using assms by (auto simp: compile_plan_def rbind_eq_Inr Let_def split: if_splits)

lemma compiled_filed:
  assumes "collect (parse_use ids source_kind) xs = Inr uss"
    and "each (add_use E candidates slots) (concat uss) \<lparr>cs_files = [], cs_kinds = [], cs_skipped = 0\<rparr> = Inr st1"
    and "each (add_bridge E resolve t candidates slots source_kind) ids' st1 = Inr st"
  shows "all_filed st"
proof -
  have ints: "is_int (us_offset u) \<and> is_int (us_length u)" if u: "u \<in> set (concat uss)" for u
  proof -
    obtain us where us: "us \<in> set uss" "u \<in> set us" using u by auto
    then obtain x where "parse_use ids source_kind x = Inr us" using collect_source [OF assms(1)] by blast
    then show ?thesis using parse_use_Inr us(2) by (cases x) blast
  qed
  have "all_filed \<lparr>cs_files = [], cs_kinds = [], cs_skipped = 0\<rparr>" by (simp add: all_filed_def)
  then have "all_filed st1"
    by (rule each_invariant [where P = all_filed, OF _ _ assms(2), rotated]) (use add_use_filed ints in blast)
  then show ?thesis
    by (rule each_keeps [OF assms(3)]) (rule add_bridge_filed)
qed

text \<open>
  C14: A compiled state plan can be carried out on the sources it was compiled from. Each of its entries has the digest of
  its file; and when the edits it says lie inside the file, applying the entry to that file succeeds and gives the
  source with all of them carried out: they are spelled as planned and do not overlap.
\<close>

theorem compiled_plan_applies:
  assumes "compile_plan E resolve t catalog policy runtime source_kind = Inr cp"
    and "(path, digest, rs) \<in> set (cp_files cp)" and "list_all2 (says E) rs es"
  shows "\<exists>source. safe_source resolve t path = Inr source \<and> digest = sha256 E source \<and>
    ((\<forall>e\<in>set es. 0 \<le> ed_start e \<and> 0 \<le> ed_length e \<and> ed_stop e \<le> int (length source)) \<longrightarrow>
      apply_bytes E source (file_json (path, digest, rs)) = Inr (substitute source 0 es, length es))"
proof -
  obtain candidates slots ids uss st1 st where uses: "collect (parse_use ids source_kind) (enumerated (array_of (jget_or catalog ''uses'' (JArr [])))) = Inr uss"
    and st1: "each (add_use E candidates slots) (concat uss) \<lparr>cs_files = [], cs_kinds = [], cs_skipped = 0\<rparr> = Inr st1"
    and st: "each (add_bridge E resolve t candidates slots source_kind) (sort ids) st1 = Inr st"
    and files: "collect (compile_file E resolve t) (sort_key fst (cs_files st)) = Inr (cp_files cp)"
    by (rule compile_plan_Inr [OF assms(1)])
  obtain q cs where x: "(q, cs) \<in> set (cs_files st)" "compile_file E resolve t (q, cs) = Inr (path, digest, rs)"
    using collect_source [OF files assms(2)] by auto
  have "filed cs" using compiled_filed [OF uses st1 st] x(1) by (auto simp: all_filed_def)
  from compile_file_applies [OF x(2) this assms(3)] show ?thesis by blast
qed

lemma enumerated_member: "x \<in> set xs \<Longrightarrow> \<exists>i. (i, x) \<in> set (enumerated xs)"
  by (metis enumerated_def in_set_impl_in_set_zip2 length_upt minus_nat.diff_0)

lemma virtual_ids_member:
  assumes "virtual_ids candidates decisions = Inr ids" and "v \<in> fst ` set candidates" and "is_virtual decisions v"
  shows "v \<in> set ids"
proof -
  obtain c where c: "(v, c) \<in> set candidates" using assms(2) by auto
  obtain xs where xs: "collect (\<lambda>(i, _). rbind (decision_field decisions i ''owner'') (\<lambda>owner. Inr (i, among owner VIRTUAL_OWNERS))) candidates = Inr xs"
    "ids = keys (filter snd xs)" using assms(1) by (auto simp: virtual_ids_def rbind_eq_Inr)
  from collect_member [OF xs(1) c] obtain y where "y \<in> set xs" "rbind (decision_field decisions v ''owner'') (\<lambda>owner. Inr (v, among owner VIRTUAL_OWNERS)) = Inr y"
    by auto
  with assms(3) show ?thesis by (force simp: xs(2) keys_def is_virtual_def rbind_eq_Inr)
qed

text \<open>A collected change is in the entry of its file.\<close>

lemma compiled_change:
  assumes "collect (compile_file E resolve t) (sort_key fst (cs_files st)) = Inr files" and "all_filed st" and "has_change path key rule st"
  shows "\<exists>digest rs r. (path, digest, rs) \<in> set files \<and> r \<in> set rs \<and> location E r = Inr key \<and> jsub r ''rule_id'' = Inr (JStr rule)"
proof -
  obtain c where c: "map_of (changes_of st path) key = Some c" "ch_rule c = rule" using assms(3) by (auto simp: has_change_def)
  then obtain cs where cs: "map_of (cs_files st) path = Some cs" "map_of cs key = Some c" by (auto simp: changes_of_def split: option.splits)
  have m: "(path, cs) \<in> set (cs_files st)" "(key, c) \<in> set cs" using cs by (auto dest: map_of_SomeD)
  have f: "filed cs" using m(1) assms(2) by (auto simp: all_filed_def)
  obtain y where y: "y \<in> set files" "compile_file E resolve t (path, cs) = Inr y" using collect_member [OF assms(1), of "(path, cs)"] m(1) by auto
  obtain q digest rs where q: "y = (q, digest, rs)" by (cases y) auto
  obtain us where us: "q = path" "rs = map (\<lambda>p. change_json (snd p)) us" "set us = set cs"
    by (rule compile_file_Inr [OF y(2) [unfolded q] f])
  have "location E (change_json c) = Inr key" using location_change [OF f m(2)] by simp
  then show ?thesis using y(1) q us m(2) c(2) by (intro exI [of _ digest] exI [of _ rs] exI [of _ "change_json c"]) force
qed


section \<open>A sample plan\<close>

text \<open>The sample catalog with one use of \<^verbatim>\<open>a\<close>, in \<^verbatim>\<open>f.c\<close>.\<close>

definition sample_use :: obj where
  "sample_use = [(lit ''id'', JStr (lit ''a'')), (lit ''path'', JStr (lit ''f.c'')), (lit ''offset'', JInt 0), (lit ''length'', JInt 1)]"

definition use_catalog :: obj where
  "use_catalog = [(lit ''schema_version'', JInt 1), (lit ''kind'', JStr CATALOG_KIND),
     (lit ''candidates'', JArr [sample_candidate ''a'' 4, sample_candidate ''b'' 8]), (lit ''uses'', JArr [JObj sample_use]),
     (lit ''summary'', JObj [(lit ''candidate_count'', JInt 2)])]"

definition sample_slot :: "string \<Rightarrow> json" where
  "sample_slot n = JObj [(lit ''id'', JStr (lit n)), (lit ''name'', JStr (lit n)), (lit ''enum'', JStr (lit (''SLOT_'' @ n))), (lit ''relocations'', JArr [])]"

definition sample_runtime :: obj where
  "sample_runtime = [(lit ''schema_version'', JInt 1), (lit ''kind'', JStr RUNTIME_KIND), (lit ''slots'', JArr [sample_slot ''a'', sample_slot ''b''])]"

definition sample_tree :: tree where
  "sample_tree = (\<lambda>_. None)([lit ''f.c''] \<mapsto> lit ''a = 1;'')"

definition sample_change :: change where
  "sample_change = \<lparr>ch_offset = JInt 0, ch_length = JInt 1, ch_original = JStr (lit ''a''),
     ch_replacement = lit ''POSTGAMMA_BACKEND_STATE_VALUE(SLOT_a, a)'', ch_kind = ''backend_state'', ch_rule = lit ''a'', ch_use_kind = JStr (lit ''read''),
     ch_line = JInt 0, ch_column = JInt 0\<rparr>"

lemma use_candidates:
  "catalog_candidates use_catalog = Inr [(lit ''a'', sample_row (sample_candidate ''a'' 4)), (lit ''b'', sample_row (sample_candidate ''b'' 8))]"
  by (simp add: catalog_candidates_def use_catalog_def sample_defs lit_def)

lemma sample_source: "safe_source Some sample_tree (lit ''f.c'') = Inr (lit ''a = 1;'')"
proof -
  have "path_parts (lit ''f.c'') = [lit ''f.c'']" by (simp add: path_parts_def lit_def)
  moreover have "take 1 (lit ''f.c'') \<noteq> [47]" "lit ''..'' \<noteq> lit ''f.c''" by (simp_all add: lit_def)
  ultimately show ?thesis by (simp add: safe_source_def sample_tree_def)
qed

lemma sample_compiled:
  "\<exists>cp. compile_plan sample_env Some sample_tree use_catalog sample_policy sample_runtime (lit ''source'') = Inr cp \<and>
     cp_files cp = [(lit ''f.c'', lit ''a = 1;'', [change_json sample_change])]"
proof -
  have slots: "runtime_slots sample_runtime = Inr [(JStr (lit ''a''), sample_slot ''a''), (JStr (lit ''b''), sample_slot ''b'')]"
    by (simp add: runtime_slots_def sample_runtime_def is_document_def jget_def jget_or_def runtime_step_def sample_slot_def jitem_def)
  have ids: "virtual_ids [(lit ''a'', x), (lit ''b'', y)]
      (map (\<lambda>n. (lit n, [(lit ''id'', JStr (lit n)), (lit ''owner'', JStr (lit ''session'')),
        (lit ''rationale'', JStr (lit ''r'')), (lit ''availability'', JStr (lit ''required''))])) [''a'', ''b'']) = Inr [lit ''a'', lit ''b'']" for x y
    by (simp add: virtual_ids_def keys_def sample_fields)
  have uses: "jget_or use_catalog ''uses'' (JArr []) = JArr [JObj sample_use]" by (simp add: use_catalog_def jget_or_def)
  have parse: "parse_use [lit ''a'', lit ''b''] (lit ''source'') (0, JObj sample_use) = Inr [\<lparr>us_id = lit ''a'', us_path = lit ''f.c'', us_offset = JInt 0,
      us_length = JInt 1, us_static = False, us_use = sample_use\<rparr>]"
    by (simp add: parse_use_def sample_use_def jget_def jget_or_def)
  have cand: "jitem (sample_row (sample_candidate ''a'' 4)) ''name'' = Inr (JStr (lit ''a''))" by (simp add: sample_candidate_def jitem_def)
  have access: "access_text sample_env (lit ''a'') (sample_slot ''a'') (JStr (lit ''a'')) = Inr (lit ''POSTGAMMA_BACKEND_STATE_VALUE(SLOT_a, a)'')"
    by (simp add: access_text_def sample_slot_def jitem_def jstr_def) (simp add: lit_def)
  have use: "recorded_use_kind sample_use = JStr (lit ''read'')" "jget_or sample_use ''line'' (JInt 0) = JInt 0" "jget_or sample_use ''column'' (JInt 0) = JInt 0"
    by (simp_all add: recorded_use_kind_def sample_use_def jget_def jget_or_def)
  have add: "add_use sample_env [(lit ''a'', sample_row (sample_candidate ''a'' 4)), (lit ''b'', y)] [(JStr (lit ''a''), sample_slot ''a''), z]
      \<lparr>us_id = lit ''a'', us_path = lit ''f.c'', us_offset = JInt 0, us_length = JInt 1, us_static = False, us_use = sample_use\<rparr>
      \<lparr>cs_files = [], cs_kinds = [], cs_skipped = 0\<rparr> =
      Inr \<lparr>cs_files = [(lit ''f.c'', [((0, 1), sample_change)])], cs_kinds = [(JStr (lit ''read''), 1)], cs_skipped = 0\<rparr>" for y z
    using cand by (simp add: add_use_def table_item_def runtime_slot_def access use changes_of_def count_kind_def set_change_def sample_change_def Let_def
        del: json.case)
  have none: "bridge_here c [(JStr (lit ''a''), sample_slot ''a''), (JStr (lit ''b''), sample_slot ''b'')] k i = Inr None" if "i \<in> {lit ''a'', lit ''b''}" for c k i
    using that by (auto simp: bridge_here_def runtime_slot_def sample_slot_def jitem_def)
  have bridge: "add_bridge E r t c [(JStr (lit ''a''), sample_slot ''a''), (JStr (lit ''b''), sample_slot ''b'')] k i st = Inr st" if "i \<in> {lit ''a'', lit ''b''}"
    for E r t c k i st using none [OF that] by (simp add: add_bridge_def)
  have "utf8 (lit ''a'') = Inr (lit ''a'')" by (rule utf8_ascii) (simp add: lit_def)
  moreover have "py_slice (lit ''a = 1;'') 0 1 = lit ''a''" by (simp add: py_slice_def lit_def)
  ultimately have entry: "compile_file sample_env Some sample_tree (lit ''f.c'', [((0, 1), sample_change)]) = Inr (lit ''f.c'', lit ''a = 1;'', [change_json sample_change])"
    by (simp add: compile_file_def sample_source sample_change_def sample_env_def)
  show ?thesis
    unfolding compile_plan_def use_candidates sample_decisions rbind_simps slots ids uses
    by (simp add: enumerated_def parse ambiguous_places_def us_place_def add none bridge entry sample_order Let_def)
qed

theorem compiled_plan_applies_witness:
  "\<exists>cp. compile_plan sample_env Some sample_tree use_catalog sample_policy sample_runtime (lit ''source'') = Inr cp \<and>
     apply_bytes sample_env (lit ''a = 1;'') (file_json (hd (cp_files cp))) = Inr (lit ''POSTGAMMA_BACKEND_STATE_VALUE(SLOT_a, a) = 1;'', 1)"
proof -
  obtain cp where cp: "compile_plan sample_env Some sample_tree use_catalog sample_policy sample_runtime (lit ''source'') = Inr cp"
    "cp_files cp = [(lit ''f.c'', lit ''a = 1;'', [change_json sample_change])]" using sample_compiled by blast
  let ?e = "\<lparr>ed_start = 0, ed_length = 1, ed_original = lit ''a'', ed_new = ch_replacement sample_change\<rparr>"
  have "utf8 (lit ''a'') = Inr (lit ''a'')" "utf8 (ch_replacement sample_change) = Inr (ch_replacement sample_change)"
    by (rule utf8_ascii, simp add: lit_def sample_change_def)+
  then have says: "list_all2 (says sample_env) [change_json sample_change] [?e]"
    by (simp add: says_def location_def encoded_field_def) (simp add: sample_change_def jstr_def)
  have f: "(lit ''f.c'', lit ''a = 1;'', [change_json sample_change]) \<in> set (cp_files cp)" by (simp add: cp(2))
  have "substitute (lit ''a = 1;'') 0 [?e] = lit ''POSTGAMMA_BACKEND_STATE_VALUE(SLOT_a, a) = 1;''" "1 \<le> length (lit ''a = 1;'')"
    by (simp_all add: py_slice_def sample_change_def lit_def)
  with compiled_plan_applies [OF cp(1) f says] cp show ?thesis by (auto simp: sample_source)
qed


end
