(* ===== verification/Runtime_Laws.thy ===== *)
theory Runtime_Laws
  imports State_Laws State_Plan
begin

text \<open>
  What connects the layout of virtual state with the plan compiled from it: the report on the slots passes the checks the plan begins with.
\<close>

lemma place_slots_identifiers:
  "each (place_slot E) vs ly = Inr ly' \<Longrightarrow> map sl_identifier (ly_slots ly') = map sl_identifier (ly_slots ly) @ map fst vs"
proof (induction vs arbitrary: ly)
  case (Cons v vs)
  obtain i c owner where v: "v = (i, c, owner)" by (cases v) auto
  from Cons.prems obtain ly1 where l: "place_slot E v ly = Inr ly1" "each (place_slot E) vs ly1 = Inr ly'" by (auto simp: rbind_eq_Inr)
  from l(1) [unfolded v] obtain s where "sl_identifier s = i" "ly_slots ly1 = ly_slots ly @ [s]" by (rule place_slot_Inr) simp
  then show ?case using Cons.IH [OF l(2)] v by simp
qed simp

text \<open>Relocations lead from one slot to another.\<close>

definition relocated :: "slot list \<Rightarrow> bool" where
  "relocated slots \<longleftrightarrow> (\<forall>s\<in>set slots. set (sl_relocations s) \<subseteq> sl_identifier ` set slots)"

lemma add_relocation_relocated:
  assumes "add_relocation entry slots = Inr slots'"
  shows "map sl_identifier slots' = map sl_identifier slots \<and> (relocated slots \<longrightarrow> relocated slots')"
proof -
  obtain d where d: "entry = JObj d" using assms by (cases entry) (simp_all add: add_relocation_def)
  obtain owner target where s: "slots' = map (\<lambda>s. if sl_identifier s = owner then s\<lparr>sl_relocations := sl_relocations s @ [target]\<rparr> else s) slots"
    and t: "target \<in> sl_identifier ` set slots"
    using assms d by (cases "jget d ''owner_id''"; cases "jget d ''target_id''") (auto simp: add_relocation_def rbind_eq_Inr split: if_splits)
  have ids: "map sl_identifier slots' = map sl_identifier slots" unfolding s by simp
  then have set: "sl_identifier ` set slots' = sl_identifier ` set slots" by (metis set_map)
  have "relocated slots'" if "relocated slots"
    unfolding relocated_def set using that t unfolding relocated_def s by fastforce
  with ids show ?thesis by simp
qed

lemma add_relocations_relocated:
  "each add_relocation raw slots = Inr slots' \<Longrightarrow> map sl_identifier slots' = map sl_identifier slots \<and> (relocated slots \<longrightarrow> relocated slots')"
proof (induction raw arbitrary: slots)
  case (Cons x raw)
  then obtain s1 where "add_relocation x slots = Inr s1" "each add_relocation raw s1 = Inr slots'" by (auto simp: rbind_eq_Inr)
  with Cons.IH add_relocation_relocated show ?case by metis
qed simp

lemma place_slots_fresh:
  "each (place_slot E) vs ly = Inr ly' \<Longrightarrow> \<forall>s\<in>set (ly_slots ly). sl_relocations s = [] \<Longrightarrow> \<forall>s\<in>set (ly_slots ly'). sl_relocations s = []"
proof (erule each_invariant [where P = "\<lambda>ly. \<forall>s\<in>set (ly_slots ly). sl_relocations s = []", rotated 2])
  fix x s s'
  assume "place_slot E x s = Inr s'" "\<forall>t\<in>set (ly_slots s). sl_relocations t = []"
  then show "\<forall>t\<in>set (ly_slots s'). sl_relocations t = []"
    by (cases x) (auto simp: place_slot_def rbind_eq_Inr split: if_splits)
qed

lemma compile_slots_Inr:
  assumes "compile_slots E catalog policy alignment = Inr (slots, bytes, counts)"
  obtains candidates decisions vs where "catalog_candidates catalog = Inr candidates" and "policy_decisions policy = Inr decisions"
    and "virtual_candidates candidates decisions = Inr vs" and "map sl_identifier slots = map fst vs" and "relocated slots"
proof -
  obtain candidates decisions vs ly where c: "catalog_candidates catalog = Inr candidates" "policy_decisions policy = Inr decisions"
    "virtual_candidates candidates decisions = Inr vs" and ly: "each (place_slot E) vs \<lparr>ly_offsets = (\<lambda>_. 0), ly_counts = (\<lambda>_. 0), ly_slots = []\<rparr> = Inr ly"
    and r: "(case jget alignment ''relocations'' of JArr raw \<Rightarrow> rbind (each add_relocation raw (ly_slots ly)) (\<lambda>slots.
         Inr (map (\<lambda>s. s\<lparr>sl_relocations := sort (sl_relocations s)\<rparr>) slots, (\<lambda>owner. block_size (ly_offsets ly owner)), ly_counts ly))
       | _ \<Rightarrow> Inl (Refused ''alignment report: relocations must be an array'' [])) = Inr (slots, bytes, counts)"
    using assms unfolding compile_slots_def rbind_eq_Inr by blast
  from r obtain raw ss where ss: "each add_relocation raw (ly_slots ly) = Inr ss" "slots = map (\<lambda>s. s\<lparr>sl_relocations := sort (sl_relocations s)\<rparr>) ss"
    by (cases "jget alignment ''relocations''") (auto simp: rbind_eq_Inr)
  have "relocated (ly_slots ly)" using place_slots_fresh [OF ly] by (simp add: relocated_def)
  with add_relocations_relocated [OF ss(1)] place_slots_identifiers [OF ly] have k: "map sl_identifier ss = map fst vs" "relocated ss" by auto
  have "map sl_identifier slots = map fst vs" using k(1) ss(2) by (simp add: comp_def)
  moreover have "relocated slots" using k(2) ss(2) by (auto simp: relocated_def image_image)
  ultimately show ?thesis using that c by blast
qed

lemma collect_total: "(\<And>x. x \<in> set xs \<Longrightarrow> f x = Inr (g x)) \<Longrightarrow> collect f xs = Inr (map g xs)"
  by (induction xs) simp_all

lemma virtual_identifiers:
  assumes "virtual_candidates candidates decisions = Inr vs"
  shows "\<exists>ids. virtual_ids candidates decisions = Inr ids \<and> set ids = fst ` set vs"
proof -
  let ?owner = "\<lambda>i. projr (decision_field decisions i ''owner'')"
  obtain xs where xs: "collect (virtual_entry decisions) (sort_key fst candidates) = Inr xs" "vs = concat xs"
    using assms by (auto simp: virtual_candidates_def rbind_eq_Inr)
  have entry: "\<exists>ys\<in>set xs. virtual_entry decisions (i, c) = Inr ys" if "(i, c) \<in> set candidates" for i c
    using collect_member [OF xs(1), of "(i, c)"] that by simp
  then have owner: "decision_field decisions i ''owner'' = Inr (?owner i)" if "(i, c) \<in> set candidates" for i c
    using that by (fastforce simp: virtual_entry_def rbind_eq_Inr)
  have "collect (\<lambda>(i, _). rbind (decision_field decisions i ''owner'') (\<lambda>owner. Inr (i, among owner VIRTUAL_OWNERS))) candidates =
      Inr (map (\<lambda>(i, _). (i, among (?owner i) VIRTUAL_OWNERS)) candidates)"
  proof (rule collect_total)
    fix x assume x: "x \<in> set candidates"
    obtain i c where "x = (i, c)" by (cases x)
    moreover obtain w where "decision_field decisions i ''owner'' = Inr w" using owner x calculation by blast
    ultimately show "(case x of (i, _) \<Rightarrow> rbind (decision_field decisions i ''owner'') (\<lambda>owner. Inr (i, among owner VIRTUAL_OWNERS))) =
        Inr (case x of (i, _) \<Rightarrow> (i, among (?owner i) VIRTUAL_OWNERS))" by simp
  qed
  then have ids: "virtual_ids candidates decisions = Inr (keys (filter snd (map (\<lambda>(i, _). (i, among (?owner i) VIRTUAL_OWNERS)) candidates)))"
    by (simp add: virtual_ids_def)
  have vs: "fst ` set vs = {i \<in> fst ` set candidates. is_virtual decisions i}"
  proof (intro set_eqI iffI)
    fix i assume "i \<in> fst ` set vs"
    then show "i \<in> {i \<in> fst ` set candidates. is_virtual decisions i}" using virtual_candidates_Inr [OF assms] by force
  next
    fix i assume "i \<in> {i \<in> fst ` set candidates. is_virtual decisions i}"
    then obtain c where c: "(i, c) \<in> set candidates" "is_virtual decisions i" by auto
    obtain ys where ys: "ys \<in> set xs" "virtual_entry decisions (i, c) = Inr ys" using entry [OF c(1)] by blast
    have "i \<in> fst ` set ys" using ys(2) c(2) owner [OF c(1)]
      by (cases "?owner i") (auto simp: virtual_entry_def is_virtual_def rbind_def)
    then show "i \<in> fst ` set vs" using ys(1) xs(2) by force
  qed
  have virtual: "is_virtual decisions i \<longleftrightarrow> among (?owner i) VIRTUAL_OWNERS" if c: "(i, c) \<in> set candidates" for i c
  proof -
    obtain w where "decision_field decisions i ''owner'' = Inr w" using owner [OF c] by blast
    then show ?thesis by (simp add: is_virtual_def)
  qed
  have "set (keys (filter snd (map (\<lambda>(i, _). (i, among (?owner i) VIRTUAL_OWNERS)) candidates))) = {i. \<exists>c. (i, c) \<in> set candidates \<and> among (?owner i) VIRTUAL_OWNERS}"
    by (force simp: keys_def)
  moreover have "{i. \<exists>c. (i, c) \<in> set candidates \<and> among (?owner i) VIRTUAL_OWNERS} = fst ` set vs" unfolding vs using virtual by force
  ultimately have "set (keys (filter snd (map (\<lambda>(i, _). (i, among (?owner i) VIRTUAL_OWNERS)) candidates))) = fst ` set vs" by (rule trans)
  with ids show ?thesis by (intro exI conjI)
qed

lemma subset_insert_Un: "A \<subseteq> B \<union> C \<Longrightarrow> B \<subseteq> insert x D \<Longrightarrow> A \<subseteq> D \<union> insert x C"
  by blast

lemma runtime_slots_report:
  assumes "jget report ''slots'' = JArr (map slot_report slots)" and "is_document report RUNTIME_KIND"
  shows "\<exists>rs. runtime_slots report = Inr rs \<and> fst ` set rs = JStr ` sl_identifier ` set slots \<and> snd ` set rs \<subseteq> slot_report ` set slots"
proof -
  have "\<exists>rs. each runtime_step (map slot_report ss) acc = Inr rs \<and> fst ` set rs = fst ` set acc \<union> JStr ` sl_identifier ` set ss \<and>
      snd ` set rs \<subseteq> snd ` set acc \<union> slot_report ` set ss" for ss acc
  proof (induction ss arbitrary: acc)
    case (Cons s ss)
    let ?acc = "dict_set acc (JStr (sl_identifier s)) (slot_report s)"
    have step: "runtime_step (slot_report s) acc = Inr ?acc" by (simp add: runtime_step_def slot_report_def jitem_def)
    obtain rs where rs: "each runtime_step (map slot_report ss) ?acc = Inr rs" "fst ` set rs = fst ` set ?acc \<union> JStr ` sl_identifier ` set ss"
      "snd ` set rs \<subseteq> snd ` set ?acc \<union> slot_report ` set ss" using Cons.IH [of ?acc] by (elim exE conjE)
    have "fst ` set ?acc = insert (JStr (sl_identifier s)) (fst ` set acc)" by (simp add: dom_update)
    with rs(2) have keys: "fst ` set rs = fst ` set acc \<union> JStr ` sl_identifier ` set (s # ss)" by simp
    have "snd ` set ?acc \<subseteq> insert (slot_report s) (snd ` set acc)" by (induction acc) auto
    with rs(3) have vals: "snd ` set rs \<subseteq> snd ` set acc \<union> slot_report ` set (s # ss)" unfolding list.set(2) image_insert by (rule subset_insert_Un)
    have "each runtime_step (map slot_report (s # ss)) acc = Inr rs" using step rs(1) by simp
    then show ?case using keys vals by (intro exI [of _ rs] conjI)
  qed simp
  from this [of slots "[]"] show ?thesis using assms by (simp add: runtime_slots_def)
qed


section \<open>A sample layout\<close>

lemma json_dumps_ascii:
  assumes "\<And>v. is_ascii (print_json E v)"
  shows "is_ascii (json_dumps_compact E v)"
proof -
  have "hex_digit (k mod 16) < 128" for k
  proof -
    have "k mod 16 < 16" by simp
    then have "k mod 16 < 41" by linarith
    then show ?thesis by (simp add: hex_digit_def)
  qed
  then have h: "is_ascii (hex4 n)" for n by (simp add: hex4_def)
  have "is_ascii (json_char c)" for c by (simp add: json_char_def h)
  then have str: "is_ascii (json_string s)" for s by (simp add: json_string_def)
  show ?thesis
  proof (induction v)
    case (JFloat f)
    then show ?case using assms by (cases f) (simp_all add: is_ascii_lit)
  next
    case (JObj d)
    then show ?case using str by (auto intro!: is_ascii_join)
  qed (auto simp: str is_ascii_lit intro!: is_ascii_join)
qed

definition sample_rules :: obj where
  "sample_rules = [(lit ''schema_version'', JInt 1), (lit ''kind'', JStr REVIEW_RULES_KIND),
     (lit ''default_decision'', JObj [(lit ''owner'', JStr (lit ''role'')), (lit ''rationale'', JStr (lit ''r''))]),
     (lit ''rules'', JArr [sample_decision ''a'', sample_decision ''b''])]"

definition sample_alignment :: obj where
  "sample_alignment = [(lit ''schema_version'', JInt 1), (lit ''kind'', JStr (lit ''postgamma.backend-state-ownership-alignment'')),
     (lit ''candidate_count'', JInt 2), (lit ''ownership_counts'', counts_json (\<lambda>w. if w = lit ''session'' then 2 else 0)),
     (lit ''policy_ownership_counts'', counts_json (\<lambda>w. if w = lit ''session'' then 2 else 0)),
     (lit ''transformed_candidate_count'', JInt 2), (lit ''guc_managed_candidate_count'', JInt 0), (lit ''relocations'', JArr []),
     (lit ''skipped_constant_initializer_use_count'', JInt 0), (lit ''missing'', JArr []), (lit ''stale'', JArr []),
     (lit ''dormant_conditional_count'', JInt 0), (lit ''dormant_conditional_decisions'', names_json []),
     (lit ''review_rules'', JObj [(lit ''rule_count'', JInt 2), (lit ''explicit_owner_rule_count'', JInt 2), (lit ''conditional_rule_count'', JInt 0)])]"

lemma sample_reviewed: "validate_alignment sample_catalog sample_policy sample_inventory (Some sample_rules) = Inr sample_alignment"
proof -
  have e: "align_exact_candidates [(lit ''a'', x), (lit ''b'', y)] [(lit ''a'', u), (lit ''b'', v)] = Inr []" for x y u v
    by (simp add: align_exact_candidates_def keys_def without_def)
  have u: "jget_or sample_catalog ''uses'' (JArr []) = JArr []" by (simp add: sample_catalog_def jget_or_def)
  have rules: "review_rules sample_rules = Inr ([(lit ''owner'', JStr (lit ''role'')), (lit ''rationale'', JStr (lit ''r''))],
      map (\<lambda>n. (lit n, [(lit ''id'', JStr (lit n)), (lit ''owner'', JStr (lit ''session'')), (lit ''rationale'', JStr (lit ''r''))])) [''a'', ''b''])"
    by (simp add: review_rules_def sample_rules_def parse_rule_def OWNERS_def sample_decision_def jget_def jget_or_def is_document_def Let_def) (simp add: lit_def)
  have review: "validate_review_rule_alignment sample_policy sample_rules =
      Inr [(lit ''rule_count'', JInt 2), (lit ''explicit_owner_rule_count'', JInt 2), (lit ''conditional_rule_count'', JInt 0)]"
    by (simp add: validate_review_rule_alignment_def sample_decisions rules keys_def without_def has_field_def rule_problems_def
      decision_field_def jitem_def jget_def jget_or_def sample_order)
  show ?thesis
    unfolding validate_alignment_def sample_candidates sample_decisions sample_usrs u rbind_simps Let_def review option.case
    by (simp add: e has_usr_def keys_def check_virtual_def is_virtual_def enumerated_def sample_fields sample_sorted sample_alignment_def
       owner_count_def counts_json_def OWNERS_def del: sort_key_simps) simp
qed

lemma sample_slots:
  "\<exists>slots sizes counts. compile_slots sample_env sample_catalog sample_policy sample_alignment = Inr (slots, sizes, counts) \<and>
     (\<forall>s\<in>set slots. is_ascii (sl_enum s) \<and> sl_relocations s = [] \<and> sl_owner s = lit ''session'' \<and> sl_name s \<in> {JStr (lit ''a''), JStr (lit ''b'')} \<and> sl_identifier s \<in> {lit ''a'', lit ''b''})"
proof -
  have u: "utf8 (lit ''a'') = Inr (lit ''a'')" "utf8 (lit ''b'') = Inr (lit ''b'')" by (intro utf8_is_ascii is_ascii_lit; simp)+
  have n: "enum_name sample_env (lit ''a'') = Inr (lit ''POSTGAMMA_BACKEND_STATE_SLOT_A'')" "enum_name sample_env (lit ''b'') = Inr (lit ''POSTGAMMA_BACKEND_STATE_SLOT_B'')"
    using u by (simp_all add: enum_name_def short_digest_def sample_env_def) (simp_all add: lit_def upper_def latin1_def ascii_upper_def)
  have r: "jget sample_alignment ''relocations'' = JArr []" by (simp add: sample_alignment_def jget_def jget_or_def)
  show ?thesis
    by (simp add: compile_slots_def sample_candidates sample_decisions virtual_candidates_def virtual_entry_def r
     place_slot_def n align_up_def sample_fields sample_sorted sample_alignment_def del: sort_key_simps) (simp add: is_ascii_lit)
qed

lemma sample_generated:
  "\<exists>outputs report. generate_runtime sample_env sample_catalog sample_policy sample_rules sample_inventory sample_alignment [] = Inr (outputs, report)"
proof -
  obtain slots sizes counts where c: "compile_slots sample_env sample_catalog sample_policy sample_alignment = Inr (slots, sizes, counts)"
    and s: "\<forall>s\<in>set slots. is_ascii (sl_enum s) \<and> sl_relocations s = [] \<and> sl_owner s = lit ''session'' \<and> sl_name s \<in> {JStr (lit ''a''), JStr (lit ''b'')} \<and> sl_identifier s \<in> {lit ''a'', lit ''b''}"
    using sample_slots by blast
  have j: "jeq (JObj sample_alignment) (JObj sample_alignment)"
    by (simp add: sample_alignment_def counts_json_def OWNERS_def names_json_def)
  have d: "is_ascii (json_dumps_compact sample_env v)" for v by (rule json_dumps_ascii) (simp add: sample_env_def)
  have sh: "sha256 sample_env = (\<lambda>b. b)" by (simp add: sample_env_def)
  have x: "filter (\<lambda>s. sl_identifier s = lit ''external:'' @ jstr sample_env (sl_name s)) slots = []"
    using s by (auto simp: filter_empty_conv jstr_def) (auto simp: lit_def)
  have b: "collect (bridge_declaration sample_env) slots = Inr (map (\<lambda>_. []) slots)" by (rule collect_total) (use s in \<open>simp add: bridge_declaration_def\<close>)
  have h: "\<exists>t. emit_layout_header sample_env slots sizes counts = Inr t \<and> is_ascii t"
    unfolding emit_layout_header_def Let_def x b utf8_is_ascii [OF d] rbind_simps collect.simps sh
    by (rule exI, rule conjI, rule refl, rule is_ascii_join) (use s d in \<open>simp_all add: is_ascii_lit del: json_dumps_compact.simps\<close>)
  have str: "is_ascii (json_string t)" for t using d [of "JStr t"] by simp
  have "\<exists>row. descriptor_row s = Inr row \<and> is_ascii row" if "s \<in> set slots" for s
    using s that str by (simp add: descriptor_row_def owner_enum_def is_ascii_lit is_ascii_join)
  then obtain row where row: "\<And>s. s \<in> set slots \<Longrightarrow> descriptor_row s = Inr (row s) \<and> is_ascii (row s)" by metis
  then have "collect descriptor_row slots = Inr (map row slots)" by (intro collect_total) simp
  then have "\<exists>t. emit_descriptor_initializers slots = Inr t \<and> is_ascii t"
    using row by (simp add: emit_descriptor_initializers_def is_ascii_join is_ascii_lit)
  with h c j show ?thesis by (auto simp: generate_runtime_def sample_reviewed Let_def utf8_is_ascii)
qed


end
