(* ===== verification/Release.thy ===== *)
theory Release
  imports Build_Json
begin

text \<open>
  The identity of a release: \<^verbatim>\<open>buildsys/product_version.py\<close> (the version of the product, its order, and the agreement of the
  repository's files with it) and \<^verbatim>\<open>buildsys/python_wheel_receipt.py\<close> (the receipt that binds a wheel to its build).
\<close>

section \<open>Versions\<close>

datatype phase = Alpha | Beta | Candidate

record product_version =
  v_text :: pystr
  v_major :: nat
  v_minor :: nat
  v_patch :: nat
  v_phase :: "phase option"
  v_serial :: "nat option"

definition version_state :: "product_version \<Rightarrow> string" where
  "version_state v = (case v_phase v of None \<Rightarrow> ''stable'' | Some Alpha \<Rightarrow> ''alpha'' | Some Beta \<Rightarrow> ''beta'' | Some Candidate \<Rightarrow> ''release-candidate'')"

definition prerelease :: "product_version \<Rightarrow> bool" where
  "prerelease v \<longleftrightarrow> v_phase v \<noteq> None"

definition version_tag :: "product_version \<Rightarrow> pystr" where
  "version_tag v = lit ''v'' @ v_text v"

fun phase_rank :: "phase option \<Rightarrow> nat" where
  "phase_rank (Some Alpha) = 0"
| "phase_rank (Some Beta) = 1"
| "phase_rank (Some Candidate) = 2"
| "phase_rank None = 3"

definition ordering_key :: "product_version \<Rightarrow> nat \<times> nat \<times> nat \<times> nat \<times> nat" where
  "ordering_key v = (v_major v, v_minor v, v_patch v, phase_rank (v_phase v), case v_serial v of None \<Rightarrow> 0 | Some n \<Rightarrow> n)"

text \<open>
  The pattern \<^verbatim>\<open>0|[1-9][0-9]*\<close>: the digits at the front of the text and what follows them. \<open>positive\<close> is the pattern
  \<^verbatim>\<open>[1-9][0-9]*\<close>.
\<close>

definition number_front :: "bool \<Rightarrow> pystr \<Rightarrow> (pystr \<times> pystr) option" where
  "number_front positive s =
     (let ds = takeWhile ascii_digit s
      in if ds = [] \<or> hd ds = 48 \<and> (positive \<or> ds \<noteq> [48]) then None else Some (ds, dropWhile ascii_digit s))"

fun dot :: "pystr \<Rightarrow> pystr option" where
  "dot (c # s) = (if c = 46 then Some s else None)"
| "dot [] = None"

definition phase_front :: "pystr \<Rightarrow> (phase \<times> pystr) option" where
  "phase_front s =
     (if take 1 s = lit ''a'' then Some (Alpha, drop 1 s)
      else if take 1 s = lit ''b'' then Some (Beta, drop 1 s)
      else if take 2 s = lit ''rc'' then Some (Candidate, drop 2 s) else None)"

text \<open>The optional end of the pattern: a phase and its serial number.\<close>

definition suffix_groups :: "pystr \<Rightarrow> (phase \<times> pystr) option option" where
  "suffix_groups s =
     (if s = [] then Some None
      else case phase_front s of
        None \<Rightarrow> None
      | Some (p, r) \<Rightarrow> (case number_front True r of Some (ds, []) \<Rightarrow> Some (Some (p, ds)) | _ \<Rightarrow> None))"

text \<open>The groups of \<^verbatim>\<open>VERSION_PATTERN.fullmatch\<close>.\<close>

definition version_groups :: "pystr \<Rightarrow> (pystr \<times> pystr \<times> pystr \<times> (phase \<times> pystr) option) option" where
  "version_groups s =
     (case number_front False s of None \<Rightarrow> None | Some (major, r1) \<Rightarrow>
      case dot r1 of None \<Rightarrow> None | Some s2 \<Rightarrow>
      case number_front False s2 of None \<Rightarrow> None | Some (minor, r2) \<Rightarrow>
      case dot r2 of None \<Rightarrow> None | Some s3 \<Rightarrow>
      case number_front False s3 of None \<Rightarrow> None | Some (patch, r3) \<Rightarrow>
      case suffix_groups r3 of None \<Rightarrow> None | Some e \<Rightarrow> Some (major, minor, patch, e))"

text \<open>\<^verbatim>\<open>int\<close> of matched digits, with the interpreter's limit on their number.\<close>

definition int_digits :: "pystr \<Rightarrow> nat bres" where
  "int_digits ds = (if max_str_digits < length ds then Inl BadValue else Inr (nat_of_digits 10 ds))"

definition version_error :: build_error where
  "version_error = Refused ''version must be X.Y.Z, X.Y.ZaN, X.Y.ZbN, or X.Y.ZrcN'' []"

definition parse_version :: "pystr \<Rightarrow> product_version bres" where
  "parse_version s =
     (case version_groups s of
        None \<Rightarrow> Inl version_error
      | Some (major, minor, patch, e) \<Rightarrow>
          rbind (int_digits major) (\<lambda>a. rbind (int_digits minor) (\<lambda>b. rbind (int_digits patch) (\<lambda>c.
          rbind (case e of None \<Rightarrow> Inr None | Some (_, ds) \<Rightarrow> rbind (int_digits ds) (\<lambda>n. Inr (Some n))) (\<lambda>serial.
          Inr \<lparr>v_text = s, v_major = a, v_minor = b, v_patch = c, v_phase = map_option fst e, v_serial = serial\<rparr>)))))"

text \<open>Reading text translates every line ending to a newline.\<close>

fun universal_newlines :: "pystr \<Rightarrow> pystr" where
  "universal_newlines [] = []"
| "universal_newlines (c # s) =
     (if c = 13 then 10 # universal_newlines (if take 1 s = [10] then drop 1 s else s) else c # universal_newlines s)"

definition read_version :: "pybytes \<Rightarrow> product_version bres" where
  "read_version data =
     (case ascii_decode data of
        Inl _ \<Rightarrow> Inl BadValue
      | Inr s \<Rightarrow> (let content = universal_newlines s
          in if content = [] \<or> last content \<noteq> 10 \<or> length (filter (\<lambda>c. c = 10) content) \<noteq> 1
             then Inl (Refused ''VERSION must contain one newline-terminated line'' [])
             else parse_version (butlast content)))"

section \<open>Release order\<close>

text \<open>
  \<open>tags\<close> is what \<^verbatim>\<open>git tag --list v*\<close> prints, or its error. A tag whose version does not parse is no release.
\<close>

definition remove_v :: "pystr \<Rightarrow> pystr" where
  "remove_v s = (if take 1 s = lit ''v'' then drop 1 s else s)"

definition earlier_step :: "product_version \<Rightarrow> pystr \<Rightarrow> pystr \<Rightarrow> product_version list \<Rightarrow> product_version list bres" where
  "earlier_step current tag candidate_tag earlier =
     (if candidate_tag = tag then Inr earlier
      else case parse_version (remove_v candidate_tag) of
        Inl e \<Rightarrow> if e = version_error then Inr earlier else Inl e
      | Inr candidate \<Rightarrow>
          if ordering_key current \<le> ordering_key candidate
          then Inl (Refused ''release {} is not newer than existing tag {}'' [JStr tag, JStr candidate_tag])
          else Inr (earlier @ [candidate]))"

text \<open>\<^verbatim>\<open>max(earlier, key=...)\<close>: the first of the greatest.\<close>

definition latest :: "product_version list \<Rightarrow> product_version" where
  "latest vs = foldl (\<lambda>m v. if ordering_key m < ordering_key v then v else m) (hd vs) (tl vs)"

definition previous_release_tag ::
  "bool \<Rightarrow> pystr + pystr list \<Rightarrow> product_version \<Rightarrow> pystr option \<Rightarrow> (bool \<times> pystr option) bres" where
  "previous_release_tag has_git tags current tag =
     (case tag of
        None \<Rightarrow> Inr (False, None)
      | Some tg \<Rightarrow>
          if \<not> has_git then Inr (False, None)
          else (case tags of
            Inl stderr \<Rightarrow> Inl (Refused ''cannot inspect existing release tags: {}'' [JStr stderr])
          | Inr names \<Rightarrow> rbind (each (earlier_step current tg) names []) (\<lambda>earlier.
              Inr (True, if earlier = [] then None else Some (version_tag (latest earlier))))))"

section \<open>The identity of the repository\<close>

text \<open>What is read of the repository; the baseline is the parsed JSON document.\<close>

record repository =
  rp_version :: pybytes
  rp_has_git :: bool
  rp_tags :: "pystr + pystr list"
  rp_baseline :: "obj bres"
  rp_makefile :: pystr
  rp_backend :: pystr
  rp_source :: pystr
  rp_release_note :: "pystr \<Rightarrow> bool"
  rp_navigation :: pystr

definition contains :: "pystr \<Rightarrow> pystr \<Rightarrow> bool" where
  "contains p s \<longleftrightarrow> find_from s p 0 \<noteq> None"

fun print_int :: "json \<Rightarrow> pystr" where
  "print_int (JInt i) = str_int i"
| "print_int (JBool b) = lit (if b then ''True'' else ''False'')"
| "print_int _ = []"

definition check_baseline :: "obj \<Rightarrow> product_version \<Rightarrow> (pystr \<times> json \<times> obj) bres" where
  "check_baseline baseline v =
     (case (jget baseline ''release'', jget baseline ''postgresql'') of
        (JObj release, JObj postgresql) \<Rightarrow>
          (let major = jget postgresql ''major'';
               build_id = lit ''postgamma-'' @ v_text v @ lit ''-pg'' @ print_int major
           in if \<not> is_int major \<or> int_of major \<le> 0 then Inl (Refused ''Python release baseline has no PostgreSQL major'' [])
              else if jget release ''version'' \<noteq> JStr (v_text v) then Inl (Refused ''Python release baseline differs from VERSION'' [])
              else if jget release ''state'' \<noteq> JStr (lit (version_state v))
                then Inl (Refused ''Python release state differs from the VERSION prerelease phase'' [])
              else if jget postgresql ''build_id'' \<noteq> JStr build_id then Inl (Refused ''Python release build ID differs from VERSION'' [])
              else Inr (build_id, major, postgresql))
      | _ \<Rightarrow> Inl (Refused ''Python release baseline has no release identity'' []))"

definition make_markers :: "pystr list" where
  "make_markers = [lit ''POSTGAMMA_VERSION_FILE := $(ROOT)/VERSION'',
     lit ''override POSTGAMMA_PRODUCT_VERSION := $(strip $(file <$(POSTGAMMA_VERSION_FILE)))'',
     lit ''-DPOSTGAMMA_PRODUCT_VERSION='' @ [39, 34] @ lit ''$(POSTGAMMA_PRODUCT_VERSION)'' @ [34, 39]]"

definition check_mirrors :: "repository \<Rightarrow> product_version \<Rightarrow> unit bres" where
  "check_mirrors R v =
     (if \<not> list_all (\<lambda>m. contains m (rp_makefile R)) make_markers then Inl (Refused ''Makefile is not bound to the canonical VERSION'' [])
      else if contains (lit ''POSTGAMMA_PRODUCT_VERSION ?='') (rp_makefile R)
        then Inl (Refused ''the product version must not be caller-overridable'' [])
      else if \<not> contains (lit ''VERSION_FILE = ROOT / '' @ [34] @ lit ''VERSION'' @ [34]) (rp_backend R)
        then Inl (Refused ''Python build backend is not bound to VERSION'' [])
      else if \<not> contains (lit ''return '' @ [34] @ lit ''postgamma-'' @ [34] @ lit '' POSTGAMMA_PRODUCT_VERSION '' @ [34] @ lit ''-pg'' @ [34]) (rp_source R)
          \<or> \<not> contains (lit ''POSTGAMMA_POSTGRESQL_MAJOR;'') (rp_source R)
        then Inl (Refused ''C build identity is not composed at build time'' [])
      else if \<not> rp_release_note R (lit ''docs/releases/'' @ v_text v @ lit ''.md'')
        then Inl (Refused ''current release note is missing: {}'' [JStr (lit ''docs/releases/'' @ v_text v @ lit ''.md'')])
      else if \<not> contains (lit ''- '' @ v_text v @ lit '': releases/'' @ v_text v @ lit ''.md'') (rp_navigation R)
        then Inl (Refused ''documentation navigation omits the current version'' [])
      else Inr ())"

definition repository_identity :: "repository \<Rightarrow> pystr option \<Rightarrow> obj bres" where
  "repository_identity R tag =
     rbind (read_version (rp_version R)) (\<lambda>v.
     if tag \<noteq> None \<and> tag \<noteq> Some (version_tag v)
     then Inl (Refused ''release tag {} does not match canonical tag {}'' [JStr (the tag), JStr (version_tag v)])
     else rbind (previous_release_tag (rp_has_git R) (rp_tags R) v tag) (\<lambda>(checked, previous).
       rbind (rp_baseline R) (\<lambda>baseline.
       rbind (check_baseline baseline v) (\<lambda>(build_id, major, postgresql).
       rbind (check_mirrors R v) (\<lambda>_.
       Inr [(lit ''schema_version'', JInt 1), (lit ''kind'', JStr (lit ''postgamma.product-version-evidence'')), (lit ''status'', JStr (lit ''pass'')),
         (lit ''version'', JStr (v_text v)), (lit ''tag'', JStr (version_tag v)), (lit ''state'', JStr (lit (version_state v))),
         (lit ''prerelease'', JBool (prerelease v)), (lit ''postgresql_major'', major), (lit ''c_build_id'', JStr build_id),
         (lit ''c_abi_version'', jget postgresql ''abi_version''), (lit ''canonical_source'', JStr (lit ''VERSION'')),
         (lit ''monotonic_tag_checked'', JBool checked),
         (lit ''previous_release_tag'', case previous of None \<Rightarrow> JNull | Some p \<Rightarrow> JStr p),
         (lit ''checked_release_mirrors'', JArr (map JStr [lit ''manifests/api/python-api-v1.json'',
            lit ''docs/releases/'' @ v_text v @ lit ''.md'', lit ''Makefile'', lit ''embedded-c/src/postgamma.c'', lit ''python/build_backend.py'']))])))))"

section \<open>Wheel receipts\<close>

definition FIXED_FIELDS :: obj where
  "FIXED_FIELDS = [(lit ''schema_version'', JInt 2), (lit ''kind'', JStr (lit ''postgamma.python-wheel-build'')),
     (lit ''kernel_linkage'', JStr (lit ''static'')), (lit ''bundled_kernel_library'', JBool False)]"

definition TEXT_FIELDS :: "string list" where
  "TEXT_FIELDS = [''name'', ''version'', ''filename'', ''sha256'', ''platform_policy'', ''kernel_archive_sha256'', ''python'',
     ''metadata_version'', ''requires_python'', ''project_url'']"

definition LIST_FIELDS :: "string list" where
  "LIST_FIELDS = [''tags'', ''license_files'']"

definition is_text :: "build_env \<Rightarrow> json \<Rightarrow> bool" where
  "is_text E v = (case v of JStr s \<Rightarrow> strip (isspace (b_uni E)) s \<noteq> [] | _ \<Rightarrow> False)"

fun is_digest :: "json \<Rightarrow> bool" where
  "is_digest (JStr s) = (length s = 64 \<and> list_all (\<lambda>c. ascii_digit c \<or> 97 \<le> c \<and> c \<le> 102) s)"
| "is_digest _ = False"

definition is_names :: "build_env \<Rightarrow> json \<Rightarrow> bool" where
  "is_names E v = (case v of JArr xs \<Rightarrow> xs \<noteq> [] \<and> list_all (is_text E) xs \<and> distinct xs | _ \<Rightarrow> False)"

fun is_size :: "json \<Rightarrow> bool" where
  "is_size (JInt n) = (0 < n)"
| "is_size _ = False"

definition receipt_fields :: "pystr list" where
  "receipt_fields = map fst FIXED_FIELDS @ map lit TEXT_FIELDS @ map lit LIST_FIELDS @ [lit ''size'']"

text \<open>The first of the names that fails its check.\<close>

definition check_fields :: "(string \<Rightarrow> bool) \<Rightarrow> string list \<Rightarrow> string \<Rightarrow> unit bres" where
  "check_fields ok names m =
     (case find (\<lambda>k. \<not> ok k) names of None \<Rightarrow> Inr () | Some k \<Rightarrow> Inl (Refused m [JStr (lit k)]))"

definition validate_receipt :: "build_env \<Rightarrow> json \<Rightarrow> unit bres" where
  "validate_receipt E document =
     (case document of
        JObj d \<Rightarrow>
          (let missing = sort (filter (\<lambda>k. k \<notin> fst ` set d) receipt_fields) in
           if missing \<noteq> [] then Inl (Refused ''wheel receipt is missing required field(s): {}'' [JArr (map JStr missing)])
           else rbind (case find (\<lambda>(k, v). map_of d k \<noteq> Some v) FIXED_FIELDS of
               None \<Rightarrow> Inr () | Some (k, v) \<Rightarrow> Inl (Refused ''wheel receipt {} must be {}'' [JStr k, v])) (\<lambda>_.
             rbind (check_fields (\<lambda>k. is_text E (jget d k)) TEXT_FIELDS ''wheel receipt {} must be a nonempty string'') (\<lambda>_.
             rbind (check_fields (\<lambda>k. is_digest (jget d k)) [''sha256'', ''kernel_archive_sha256''] ''wheel receipt {} must be a SHA-256 hex digest'') (\<lambda>_.
             if \<not> is_size (jget d ''size'') then Inl (Refused ''wheel receipt size must be a positive integer'' [])
             else check_fields (\<lambda>k. is_names E (jget d k)) LIST_FIELDS ''wheel receipt {} must be a nonempty list of unique strings''))))
      | _ \<Rightarrow> Inl (Refused ''wheel receipt must be a JSON object'' []))"

text \<open>\<^verbatim>\<open>d.update(e)\<close>\<close>

definition dict_merge :: "obj \<Rightarrow> obj \<Rightarrow> obj" where
  "dict_merge d e = foldl (\<lambda>d (k, v). dict_set d k v) d e"

text \<open>A wheel: its file name and contents.\<close>

record wheel =
  wh_name :: pystr
  wh_content :: pybytes

definition artifact_fields :: "build_env \<Rightarrow> wheel \<Rightarrow> obj" where
  "artifact_fields E w = [(lit ''filename'', JStr (wh_name w)), (lit ''sha256'', JStr (sha256 E (wh_content w))),
     (lit ''size'', JInt (int (length (wh_content w))))]"

record receipt_args =
  ra_name :: pystr
  ra_version :: pystr
  ra_tags :: "pystr list"
  ra_platform_policy :: pystr
  ra_kernel_archive_sha256 :: pystr
  ra_python :: pystr
  ra_metadata_version :: pystr
  ra_requires_python :: pystr
  ra_project_url :: pystr
  ra_license_files :: "pystr list"

definition build_receipt :: "build_env \<Rightarrow> wheel \<Rightarrow> receipt_args \<Rightarrow> obj bres" where
  "build_receipt E w a =
     (let document = FIXED_FIELDS @ artifact_fields E w @ [(lit ''name'', JStr (ra_name a)), (lit ''version'', JStr (ra_version a)),
        (lit ''tags'', JArr (map JStr (ra_tags a))), (lit ''platform_policy'', JStr (ra_platform_policy a)),
        (lit ''kernel_archive_sha256'', JStr (ra_kernel_archive_sha256 a)), (lit ''python'', JStr (ra_python a)),
        (lit ''metadata_version'', JStr (ra_metadata_version a)), (lit ''requires_python'', JStr (ra_requires_python a)),
        (lit ''project_url'', JStr (ra_project_url a)), (lit ''license_files'', JArr (map JStr (ra_license_files a)))]
      in rbind (validate_receipt E (JObj document)) (\<lambda>_.
        Inr (dict_set document (lit ''license_files'') (JArr (map JStr (sort (ra_license_files a)))))))"

definition receipt_for_repaired_wheel :: "build_env \<Rightarrow> json \<Rightarrow> wheel \<Rightarrow> pystr list \<Rightarrow> pystr \<Rightarrow> obj bres" where
  "receipt_for_repaired_wheel E source w tags platform_policy =
     rbind (validate_receipt E source) (\<lambda>_.
     rbind (jobj source) (\<lambda>d.
     let document = dict_set (dict_set (dict_merge d (artifact_fields E w)) (lit ''tags'') (JArr (map JStr tags)))
           (lit ''platform_policy'') (JStr platform_policy)
     in rbind (validate_receipt E (JObj document)) (\<lambda>_. Inr document)))"

definition release_license_files :: "obj \<Rightarrow> pystr list bres" where
  "release_license_files baseline =
     rbind (jitem baseline ''wheel'') (\<lambda>wheel.
     rbind (jsub wheel ''project_license'') (\<lambda>a. rbind (case a of JObj d \<Rightarrow> Inr d | _ \<Rightarrow> Inl TypeError) (\<lambda>project.
     rbind (jsub wheel ''third_party_licenses'') (\<lambda>b. rbind (case b of JObj d \<Rightarrow> Inr d | _ \<Rightarrow> Inl TypeError) (\<lambda>third_party.
     Inr (map fst (dict_merge project third_party)))))))"

definition validate_release_receipt :: "build_env \<Rightarrow> json \<Rightarrow> obj \<Rightarrow> unit bres" where
  "validate_release_receipt E document baseline =
     rbind (validate_receipt E document) (\<lambda>_.
     rbind (jobj document) (\<lambda>d.
     rbind (jitem baseline ''release'') (\<lambda>release.
     rbind (jsub release ''name'') (\<lambda>name.
     rbind (jsub release ''version'') (\<lambda>version.
     rbind (jitem baseline ''wheel'') (\<lambda>wheel.
     rbind (jsub wheel ''metadata_version'') (\<lambda>metadata_version.
     rbind (jitem baseline ''python'') (\<lambda>python.
     rbind (jsub python ''requires_python'') (\<lambda>requires_python.
     rbind (jsub wheel ''project_urls'') (\<lambda>urls.
     rbind (jsub urls ''Homepage'') (\<lambda>project_url.
     rbind (release_license_files baseline) (\<lambda>licenses.
     case find (\<lambda>(k, v). \<not> jeq (jget d k) v)
         [(''name'', name), (''version'', version), (''metadata_version'', metadata_version), (''requires_python'', requires_python),
          (''project_url'', project_url), (''license_files'', JArr (map JStr (sort licenses)))] of
       None \<Rightarrow> Inr ()
     | Some (k, _) \<Rightarrow> Inl (Refused ''wheel receipt {} differs from the release baseline'' [JStr (lit k)])))))))))))))"

end
