(* ===== verification/Wheel.thy ===== *)
theory Wheel
  imports Release
begin

text \<open>
  The wheel build backend, \<^verbatim>\<open>python/build_backend.py\<close>: the version and the tags of a wheel, the checks of the static kernel
  library, the staging of the package and its metadata, the archive with its \<^verbatim>\<open>RECORD\<close>, and the receipt. The machine it runs on is
  the argument \<open>h\<close>: the interpreter, the environment, the files on the disk, the compiler, the compression of the archive. A
  \<^verbatim>\<open>RuntimeError\<close> of the backend is \<open>Refused\<close>.
\<close>

section \<open>The machine\<close>

type_synonym path = "pystr list"

record disk_file =
  df_mode :: nat
  df_content :: pybytes

type_synonym disk = "(path \<times> disk_file) list"

text \<open>A member of an archive: \<open>mb_attr\<close> is \<^verbatim>\<open>ZipInfo.external_attr\<close>.\<close>

record member =
  mb_name :: pystr
  mb_attr :: nat
  mb_content :: pybytes

text \<open>
  \<open>h_here\<close> is the directory of \<^verbatim>\<open>build_backend.py\<close>. \<open>h_path\<close> is \<^verbatim>\<open>Path\<close>, \<open>h_expanduser\<close> and \<open>h_resolve\<close> are its methods
  (\<open>None\<close> when the path does not exist). \<open>h_compiler\<close> runs a command: its return code, output and error texts, and the file it wrote.
  \<open>h_new_mode\<close> is the mode of a new file; \<open>h_quotes_cr\<close> tells whether \<^verbatim>\<open>csv\<close> quotes a carriage return, as it does from
  Python 3.13 on.
\<close>

record host =
  h_implementation :: pystr
  h_major :: nat
  h_minor :: nat
  h_abiflags :: pystr
  h_platform :: pystr
  h_sys_version :: pystr
  h_environ :: "string \<Rightarrow> pystr option"
  h_config :: "string \<Rightarrow> pystr option"
  h_here :: path
  h_disk :: disk
  h_path :: "pystr \<Rightarrow> path"
  h_expanduser :: "path \<Rightarrow> path"
  h_resolve :: "path \<Rightarrow> path option"
  h_json :: "pystr \<Rightarrow> json option"
  h_new_mode :: nat
  h_compiler :: "pystr list \<Rightarrow> int \<times> pystr \<times> pystr \<times> disk_file option"
  h_zip :: "member list \<Rightarrow> pybytes"
  h_quotes_cr :: bool

definition ROOT :: "host \<Rightarrow> path" where
  "ROOT h = butlast (h_here h)"

definition PACKAGE_SOURCE :: "host \<Rightarrow> path" where
  "PACKAGE_SOURCE h = h_here h @ [lit ''src'', lit ''postgamma'']"

definition NAME :: pystr where "NAME = lit ''postgamma''"
definition METADATA_VERSION :: pystr where "METADATA_VERSION = lit ''2.4''"
definition REQUIRES_PYTHON :: pystr where "REQUIRES_PYTHON = lit ''>=3.10''"
definition PROJECT_URL :: pystr where "PROJECT_URL = lit ''https://postgamma.com''"

definition LICENSE_SOURCES :: "(pystr \<times> path) list" where
  "LICENSE_SOURCES =
     [(lit ''LICENSE'', [lit ''LICENSE'']), (lit ''NOTICE'', [lit ''NOTICE'']), (lit ''THIRD_PARTY_NOTICES'', [lit ''THIRD_PARTY_NOTICES'']),
      (lit ''LICENSE.postgresql'', [lit ''licenses'', lit ''LICENSE.postgresql'']), (lit ''LICENSE.pgvector'', [lit ''licenses'', lit ''LICENSE.pgvector''])]"

definition receipt_license_files :: "pystr list" where
  "receipt_license_files = sort (map fst LICENSE_SOURCES)"

text \<open>\<^verbatim>\<open>str(path)\<close> of an absolute path, \<^verbatim>\<open>path.as_posix()\<close> of a relative one.\<close>

definition path_text :: "path \<Rightarrow> pystr" where
  "path_text p = concat (map (\<lambda>c. 47 # c) p)"

definition as_posix :: "path \<Rightarrow> pystr" where
  "as_posix p = join [47] p"

definition not_found :: build_error where
  "not_found = OtherError (lit ''FileNotFoundError'')"

definition read_file :: "disk \<Rightarrow> path \<Rightarrow> disk_file bres" where
  "read_file d p = (case map_of d p of None \<Rightarrow> Inl not_found | Some f \<Rightarrow> Inr f)"

definition text_of :: "pybytes \<Rightarrow> pystr bres" where
  "text_of data = (case utf8_decode data of Inl _ \<Rightarrow> Inl BadValue | Inr s \<Rightarrow> Inr (universal_newlines s))"

text \<open>The files below a directory, by their relative paths.\<close>

definition below :: "path \<Rightarrow> disk \<Rightarrow> disk" where
  "below dir d = map (\<lambda>(p, f). (drop (length dir) p, f)) (filter (\<lambda>(p, _). take (length dir) p = dir \<and> length dir < length p) d)"

text \<open>Writing into a file that exists keeps its mode.\<close>

definition write_bytes :: "host \<Rightarrow> path \<Rightarrow> pybytes \<Rightarrow> disk \<Rightarrow> disk" where
  "write_bytes h p data d =
     dict_set d p \<lparr>df_mode = (case map_of d p of None \<Rightarrow> h_new_mode h | Some f \<Rightarrow> df_mode f), df_content = data\<rparr>"

section \<open>The version and the tags\<close>

definition distribution_version :: "pybytes \<Rightarrow> pystr bres" where
  "distribution_version data =
     (case ascii_decode data of
        Inl _ \<Rightarrow> Inl BadValue
      | Inr s \<Rightarrow> (let content = universal_newlines s
          in if content = [] \<or> last content \<noteq> 10 \<or> version_groups (butlast content) = None
             then Inl (Refused ''VERSION does not contain a supported public version'' [])
             else Inr (butlast content)))"

definition VERSION :: "host \<Rightarrow> pystr bres" where
  "VERSION h = rbind (read_file (h_disk h) (ROOT h @ [lit ''VERSION''])) (\<lambda>f. distribution_version (df_content f))"

definition DIST_INFO :: "pystr \<Rightarrow> pystr" where
  "DIST_INFO version = NAME @ lit ''-'' @ version @ lit ''.dist-info''"

definition development_status :: "pystr \<Rightarrow> string" where
  "development_status version =
     (if contains (lit ''a'') version then ''3 - Alpha''
      else if contains (lit ''b'') version \<or> contains (lit ''rc'') version \<or> take 2 version = lit ''0.'' then ''4 - Beta''
      else ''5 - Production/Stable'')"

definition platform_tag :: "host \<Rightarrow> pystr" where
  "platform_tag h = replace_cp 46 [95] (replace_cp 45 [95] (h_platform h))"

definition python_tag :: "host \<Rightarrow> (pystr \<times> pystr) bres" where
  "python_tag h =
     (if h_implementation h \<noteq> lit ''cpython'' then Inl (Refused ''PostGamma binary wheels currently require CPython'' [])
      else let tag = lit ''cp'' @ digits_of (h_major h) @ digits_of (h_minor h) in Inr (tag, tag @ h_abiflags h))"

definition wheel_tag :: "host \<Rightarrow> pystr bres" where
  "wheel_tag h = rbind (python_tag h) (\<lambda>(python, abi). Inr (python @ lit ''-'' @ abi @ lit ''-'' @ platform_tag h))"

section \<open>Metadata\<close>

definition metadata_headers :: "pystr \<Rightarrow> pystr list" where
  "metadata_headers version =
     [lit ''Metadata-Version: '' @ METADATA_VERSION, lit ''Name: '' @ NAME, lit ''Version: '' @ version,
      lit ''Summary: PostgreSQL embedded directly in a Python process'', lit ''Requires-Python: '' @ REQUIRES_PYTHON,
      lit ''Author: PostGamma contributors'', lit ''License-Expression: Apache-2.0'', lit ''Project-URL: Homepage, '' @ PROJECT_URL,
      lit ''Description-Content-Type: text/markdown'', lit ''Keywords: embedded,database,postgresql'',
      lit ''Classifier: Development Status :: '' @ lit (development_status version)] @
     map (\<lambda>c. lit ''Classifier: '' @ lit c)
       [''Intended Audience :: Developers'', ''Operating System :: POSIX :: Linux'', ''Programming Language :: Python :: 3'',
        ''Programming Language :: Python :: 3.10'', ''Programming Language :: Python :: 3.11'', ''Programming Language :: Python :: 3.12'',
        ''Programming Language :: Python :: 3.13'', ''Programming Language :: Python :: 3.14'',
        ''Programming Language :: Python :: Implementation :: CPython'', ''Programming Language :: C'',
        ''Topic :: Database :: Database Engines/Servers'', ''Typing :: Typed''] @
     map (\<lambda>(name, _). lit ''License-File: '' @ name) LICENSE_SOURCES"

definition metadata :: "host \<Rightarrow> pystr \<Rightarrow> pybytes bres" where
  "metadata h version =
     rbind (read_file (h_disk h) (h_here h @ [lit ''README.md''])) (\<lambda>f.
     rbind (text_of (df_content f)) (\<lambda>description.
     utf8 (join [10] (metadata_headers version) @ [10, 10] @ description)))"

definition wheel_metadata :: "host \<Rightarrow> pybytes bres" where
  "wheel_metadata h = rbind (wheel_tag h) (\<lambda>tag.
     utf8 (lit ''Wheel-Version: 1.0'' @ [10] @ lit ''Generator: postgamma.build_backend'' @ [10] @ lit ''Root-Is-Purelib: false'' @ [10] @
       lit ''Tag: '' @ tag @ [10, 10]))"

definition copy_license :: "host \<Rightarrow> path \<Rightarrow> pystr \<times> path \<Rightarrow> disk \<Rightarrow> disk bres" where
  "copy_license h dist_info = (\<lambda>(name, source) stage.
     rbind (read_file (h_disk h) (ROOT h @ source)) (\<lambda>f. Inr (dict_set stage (dist_info @ [lit ''licenses'', name]) f)))"

definition stage_metadata :: "host \<Rightarrow> pystr \<Rightarrow> path \<Rightarrow> disk \<Rightarrow> disk bres" where
  "stage_metadata h version dist_info stage =
     rbind (metadata h version) (\<lambda>m.
     rbind (wheel_metadata h) (\<lambda>w.
     rbind (utf8 (NAME @ [10])) (\<lambda>top.
     each (copy_license h dist_info) LICENSE_SOURCES
       (write_bytes h (dist_info @ [lit ''top_level.txt'']) top
         (write_bytes h (dist_info @ [lit ''WHEEL'']) w
           (write_bytes h (dist_info @ [lit ''METADATA'']) m stage))))))"

definition prepare_metadata_for_build_wheel :: "host \<Rightarrow> path \<Rightarrow> disk \<Rightarrow> (pystr \<times> disk) bres" where
  "prepare_metadata_for_build_wheel h directory d =
     rbind (VERSION h) (\<lambda>version.
     rbind (stage_metadata h version (directory @ [DIST_INFO version]) d) (\<lambda>d'. Inr (DIST_INFO version, d')))"

section \<open>Sources and resources\<close>

text \<open>\<^verbatim>\<open>path.suffix\<close>: the last dot of the name and what follows it, when neither of the two is missing.\<close>

definition suffix_of :: "pystr \<Rightarrow> pystr" where
  "suffix_of name =
     (let e = rev (takeWhile (\<lambda>c. c \<noteq> 46) (rev name))
      in if e = [] \<or> length name \<le> length e + 1 then [] else 46 # e)"

definition left_out :: "path \<Rightarrow> bool" where
  "left_out p \<longleftrightarrow> take 7 (last p) = lit ''_native'' \<and> suffix_of (last p) \<in> {lit ''.c'', lit ''.h''} \<or> lit ''__pycache__'' \<in> set p"

definition copy_python_sources :: "host \<Rightarrow> path \<Rightarrow> disk \<Rightarrow> disk bres" where
  "copy_python_sources h package stage =
     (if below package stage \<noteq> [] then Inl (OtherError (lit ''FileExistsError''))
      else Inr (foldl (\<lambda>st (p, f). if left_out p then st else dict_set st (package @ p) f) stage (sort_key fst (below (PACKAGE_SOURCE h) (h_disk h)))))"

definition project_path :: "host \<Rightarrow> string \<Rightarrow> path \<Rightarrow> path bres" where
  "project_path h environment_name default_path =
     (let p = (case h_environ h environment_name of
                 Some (c # cs) \<Rightarrow> h_expanduser h (h_path h (c # cs))
               | _ \<Rightarrow> default_path)
      in case h_resolve h p of
        None \<Rightarrow> Inl (Refused ''{} path does not exist: {}'' [JStr (lit environment_name), JStr (path_text p)])
      | Some q \<Rightarrow> Inr q)"

definition MARKER_TEXT :: pystr where
  "MARKER_TEXT = [123, 34] @ lit ''kernel_linkage'' @ [34] @ lit '': '' @ [34] @ lit ''static'' @ [34] @ lit '', '' @ [34] @ lit ''schema_version'' @ [34] @
     lit '': 1, '' @ [34] @ lit ''separate_library'' @ [34] @ lit '': false}'' @ [10]"

definition copy_runtime :: "host \<Rightarrow> path \<Rightarrow> disk \<Rightarrow> disk bres" where
  "copy_runtime h package stage =
     rbind (project_path h ''POSTGAMMA_RESOURCE_ROOT'' (ROOT h @ [lit ''build'', lit ''embedded-release'', lit ''resource-pack''])) (\<lambda>resource_root.
     if map_of (h_disk h) (resource_root @ [lit ''bin'', lit ''postgres'']) = None
       \<or> map_of (h_disk h) (resource_root @ [lit ''share'', lit ''postgres.bki'']) = None
     then Inl (Refused ''invalid POSTGAMMA_RESOURCE_ROOT: {}'' [JStr (path_text resource_root)])
     else let resources = package @ [lit ''_resources'']
       in if below resources stage \<noteq> [] then Inl (OtherError (lit ''FileExistsError''))
          else rbind (utf8 MARKER_TEXT) (\<lambda>m.
            Inr (write_bytes h (resources @ [lit ''lib'', lit ''postgamma-static-kernel.json'']) m
              (foldl (\<lambda>st (p, f). dict_set st (resources @ p) f) stage (below resource_root (h_disk h))))))"

section \<open>The static kernel\<close>

text \<open>
  \<^verbatim>\<open>shlex.split\<close>. The modes are those of its scanner: between words, in a word, in a quotation, after a backslash in a
  word or in a quotation.
\<close>

datatype shlex_mode = Between | InWord | Quoted nat | Escaped "nat option"

fun shlex_from :: "shlex_mode \<Rightarrow> pystr \<Rightarrow> bool \<Rightarrow> pystr \<Rightarrow> pystr list bres" where
  "shlex_from m token quoted [] = (case m of
      Between \<Rightarrow> Inr []
    | InWord \<Rightarrow> Inr [token]
    | Quoted _ \<Rightarrow> Inl (Refused ''No closing quotation'' [])
    | Escaped _ \<Rightarrow> Inl (Refused ''No escaped character'' []))"
| "shlex_from m token quoted (c # s) = (case m of
      Between \<Rightarrow>
        if c \<in> {32, 9, 13, 10} then shlex_from Between [] False s
        else if c = 92 then shlex_from (Escaped None) [] False s
        else if c \<in> {34, 39} then shlex_from (Quoted c) [] False s
        else shlex_from InWord [c] False s
    | InWord \<Rightarrow>
        if c \<in> {32, 9, 13, 10} then
          (if token \<noteq> [] \<or> quoted then rbind (shlex_from Between [] False s) (\<lambda>ts. Inr (token # ts)) else shlex_from Between [] quoted s)
        else if c \<in> {34, 39} then shlex_from (Quoted c) token quoted s
        else if c = 92 then shlex_from (Escaped None) token quoted s
        else shlex_from InWord (token @ [c]) quoted s
    | Quoted q \<Rightarrow>
        if c = q then shlex_from InWord token True s
        else if c = 92 \<and> q = 34 then shlex_from (Escaped (Some q)) token True s
        else shlex_from (Quoted q) (token @ [c]) True s
    | Escaped e \<Rightarrow> (case e of
        None \<Rightarrow> shlex_from InWord (token @ [c]) quoted s
      | Some q \<Rightarrow> shlex_from (Quoted q) (token @ (if c \<noteq> 92 \<and> c \<noteq> q then [92, c] else [c])) quoted s))"

definition shlex_split :: "pystr \<Rightarrow> pystr list bres" where
  "shlex_split = shlex_from Between [] False"

definition option_char :: "cp \<Rightarrow> bool" where
  "option_char c \<longleftrightarrow> ascii_alpha c \<or> ascii_digit c \<or> c \<in> set (lit ''_+.-'')"

definition static_link_option :: "pystr \<Rightarrow> bool" where
  "static_link_option s \<longleftrightarrow> s = lit ''-pthread'' \<or> take 2 s = lit ''-l'' \<and> drop 2 s \<noteq> [] \<and> list_all option_char (drop 2 s)"

definition kernel_receipt_ok :: "json \<Rightarrow> pystr \<Rightarrow> nat \<Rightarrow> pystr list \<Rightarrow> bool" where
  "kernel_receipt_ok receipt library_digest n options =
     (case receipt of
        JObj d \<Rightarrow> jeq (jget d ''schema_version'') (JInt 1) \<and> jget d ''kind'' = JStr (lit ''postgamma.static-library-build'') \<and>
          jget d ''status'' = JStr (lit ''pass'') \<and> jget d ''linkage'' = JStr (lit ''static'') \<and> jget d ''version'' = JStr (lit ''1.4'') \<and>
          jget d ''output_sha256'' = JStr library_digest \<and> jeq (jget d ''output_size'') (JInt (int n)) \<and>
          jeq (jget d ''public_symbol_count'') (JInt 76) \<and> jeq (jget d ''consumer_link_options'') (JArr (map JStr options)) \<and>
          jeq (jget d ''determinism'') (JObj [(lit ''build_count'', JInt 2), (lit ''identical'', JBool True)])
      | _ \<Rightarrow> False)"

definition file_required :: "host \<Rightarrow> string \<Rightarrow> path \<Rightarrow> disk_file bres" where
  "file_required h m p = (case map_of (h_disk h) p of None \<Rightarrow> Inl (Refused m [JStr (path_text p)]) | Some f \<Rightarrow> Inr f)"

definition kernel_lib :: "host \<Rightarrow> path" where
  "kernel_lib h = ROOT h @ [lit ''build'', lit ''python-product'', lit ''kernel-build'', lit ''embedded-kernel'']"

definition static_kernel :: "build_env \<Rightarrow> host \<Rightarrow> (path \<times> pystr list \<times> pystr) bres" where
  "static_kernel E h =
     rbind (project_path h ''POSTGAMMA_STATIC_LIBRARY'' (kernel_lib h @ [lit ''lib'', lit ''libpostgamma_python_abi1.a''])) (\<lambda>library.
     rbind (project_path h ''POSTGAMMA_STATIC_LINK_OPTIONS'' (kernel_lib h @ [lit ''lib'', lit ''postgamma-static-libs.txt''])) (\<lambda>options_file.
     rbind (project_path h ''POSTGAMMA_STATIC_RECEIPT'' (kernel_lib h @ [lit ''reports'', lit ''static-library-link.json''])) (\<lambda>receipt_file.
     rbind (file_required h ''POSTGAMMA_STATIC_LIBRARY is not a file: {}'' library) (\<lambda>lf.
     rbind (file_required h ''POSTGAMMA_STATIC_LINK_OPTIONS is not a file: {}'' options_file) (\<lambda>opf.
     rbind (file_required h ''POSTGAMMA_STATIC_RECEIPT is not a file: {}'' receipt_file) (\<lambda>rf.
     rbind (case rbind (text_of (df_content opf)) shlex_split of Inl _ \<Rightarrow> Inl (Refused ''invalid static link options'' []) | Inr ts \<Rightarrow> Inr ts) (\<lambda>options.
     if options = [] \<or> \<not> list_all static_link_option options then Inl (Refused ''static link options contain an unsupported argument'' [])
     else rbind (text_of (df_content rf)) (\<lambda>text.
       case h_json h text of
         None \<Rightarrow> Inl (Refused ''invalid static-library receipt'' [])
       | Some receipt \<Rightarrow>
           (let library_digest = sha256 E (df_content lf)
            in if \<not> kernel_receipt_ok receipt library_digest (length (df_content lf)) options
               then Inl (Refused ''static-library receipt does not match the kernel archive'' [])
               else Inr (library, options, library_digest))))))))))"

section \<open>The extension module\<close>

definition NATIVE_SOURCES :: "pystr list" where
  "NATIVE_SOURCES = [lit ''_native.c'', lit ''_native_requests.c'', lit ''_native_operations.c'', lit ''_native_arrow.c'']"

text \<open>\<^verbatim>\<open>a or b\<close> for texts that may be missing.\<close>

definition text_or :: "pystr option \<Rightarrow> pystr \<Rightarrow> pystr" where
  "text_or a b = (case a of Some (c # cs) \<Rightarrow> c # cs | _ \<Rightarrow> b)"

definition compile_command :: "host \<Rightarrow> pystr list \<Rightarrow> pystr list \<Rightarrow> pystr \<Rightarrow> path \<Rightarrow> pystr list \<Rightarrow> path \<Rightarrow> pystr list" where
  "compile_command h compiler flags include_python static_library link_options output =
     compiler @ map lit [''-std=c11'', ''-O2'', ''-fPIC''] @ flags @
     map lit [''-fvisibility=hidden'', ''-Wall'', ''-Wextra'', ''-Werror'', ''-Wpedantic''] @
     [lit ''-ffile-prefix-map='' @ path_text (ROOT h) @ lit ''=.'', lit ''-fmacro-prefix-map='' @ path_text (ROOT h) @ lit ''=.'',
      lit ''-pthread'', lit ''-shared'', lit ''-I'' @ include_python, lit ''-I'' @ path_text (ROOT h @ [lit ''embedded-c'', lit ''include''])] @
     map (\<lambda>s. path_text (PACKAGE_SOURCE h @ [s])) NATIVE_SOURCES @
     [path_text static_library, lit ''-Wl,--exclude-libs,ALL'', lit ''-Wl,--version-script='' @ path_text (h_here h @ [lit ''postgamma-native.map''])] @
     link_options @ [lit ''-o'', path_text output]"

text \<open>\<open>stage_dir\<close> is where the stage is on the disk.\<close>

definition compile_extension :: "build_env \<Rightarrow> host \<Rightarrow> path \<Rightarrow> path \<Rightarrow> path \<Rightarrow> pystr list \<Rightarrow> disk \<Rightarrow> disk bres" where
  "compile_extension E h stage_dir package static_library link_options stage =
     rbind (shlex_split (case h_environ h ''CFLAGS'' of None \<Rightarrow> [] | Some s \<Rightarrow> s)) (\<lambda>flags.
     let include_python = text_or (h_config h ''INCLUDEPY'') [];
         extension_suffix = text_or (h_config h ''EXT_SUFFIX'') [];
         output = package @ [lit ''_native'' @ extension_suffix];
         header = h_path h include_python @ [lit ''Python.h''];
         postgamma_header = ROOT h @ [lit ''embedded-c'', lit ''include'', lit ''postgamma'', lit ''postgamma.h'']
     in if include_python = [] \<or> extension_suffix = [] then Inl (Refused ''the active Python installation has no extension build metadata'' [])
        else if map_of (h_disk h) header = None then Inl (Refused ''Python development header is missing: {}'' [JStr (path_text header)])
        else if map_of (h_disk h) postgamma_header = None then Inl (Refused ''postgamma C header is missing: {}'' [JStr (path_text postgamma_header)])
        else rbind (shlex_split (text_or (h_environ h ''CC'') (text_or (h_config h ''CC'') (lit ''cc'')))) (\<lambda>compiler.
          case h_compiler h (compile_command h compiler flags include_python static_library link_options (stage_dir @ output)) of
            (rc, out, err, produced) \<Rightarrow>
              if rc \<noteq> 0
              then Inl (Refused ''could not compile the postgamma Python extension: {}''
                [JStr (text_or (Some (strip (isspace (b_uni E)) err)) (strip (isspace (b_uni E)) out))])
              else Inr (case produced of None \<Rightarrow> stage | Some f \<Rightarrow> dict_set stage output f)))"

section \<open>The archive\<close>

fun unhex :: "pystr \<Rightarrow> pybytes" where
  "unhex (a # b # s) = (digit_value a * 16 + digit_value b) # unhex s"
| "unhex _ = []"

definition b64_char :: "nat \<Rightarrow> cp" where
  "b64_char n = (if n < 26 then 65 + n else if n < 52 then 71 + n else if n < 62 then n - 4 else if n = 62 then 45 else 95)"

fun urlsafe_b64encode :: "pybytes \<Rightarrow> pystr" where
  "urlsafe_b64encode (a # b # c # r) =
     [b64_char (a div 4), b64_char (a mod 4 * 16 + b div 16), b64_char (b mod 16 * 4 + c div 64), b64_char (c mod 64)] @ urlsafe_b64encode r"
| "urlsafe_b64encode [a, b] = [b64_char (a div 4), b64_char (a mod 4 * 16 + b div 16), b64_char (b mod 16 * 4), 61]"
| "urlsafe_b64encode [a] = [b64_char (a div 4), b64_char (a mod 4 * 16), 61, 61]"
| "urlsafe_b64encode [] = []"

definition record_digest :: "build_env \<Rightarrow> pybytes \<Rightarrow> pystr" where
  "record_digest E content = lit ''sha256='' @ rstrip (\<lambda>c. c = 61) (urlsafe_b64encode (unhex (sha256 E content)))"

definition zip_info :: "pystr \<Rightarrow> nat \<Rightarrow> pybytes \<Rightarrow> member" where
  "zip_info name mode content = \<lparr>mb_name = name, mb_attr = (32768 + mode mod 512) * 65536, mb_content = content\<rparr>"

text \<open>\<^verbatim>\<open>csv.writer\<close>: a field is quoted when it needs to be.\<close>

definition csv_field :: "bool \<Rightarrow> pystr \<Rightarrow> pystr" where
  "csv_field quotes_cr s =
     (if list_ex (\<lambda>c. c \<in> {44, 34, 10} \<or> quotes_cr \<and> c = 13) s then [34] @ replace_cp 34 [34, 34] s @ [34] else s)"

definition csv_row :: "bool \<Rightarrow> pystr \<times> pystr \<times> pystr \<Rightarrow> pystr" where
  "csv_row quotes_cr = (\<lambda>(a, b, c). csv_field quotes_cr a @ [44] @ csv_field quotes_cr b @ [44] @ csv_field quotes_cr c @ [10])"

definition RECORD_name :: "pystr \<Rightarrow> pystr" where
  "RECORD_name version = DIST_INFO version @ lit ''/RECORD''"

definition record_row :: "build_env \<Rightarrow> member \<Rightarrow> pystr \<times> pystr \<times> pystr" where
  "record_row E m = (mb_name m, record_digest E (mb_content m), digits_of (length (mb_content m)))"

definition build_archive :: "build_env \<Rightarrow> host \<Rightarrow> pystr \<Rightarrow> disk \<Rightarrow> member list bres" where
  "build_archive E h version stage =
     (let members = map (\<lambda>(p, f). zip_info (as_posix p) (df_mode f mod 512) (df_content f))
            (filter (\<lambda>(p, _). as_posix p \<noteq> RECORD_name version) (sort_key fst stage));
          records = map (record_row E) members @ [(RECORD_name version, [], [])]
      in rbind (utf8 (concat (map (csv_row (h_quotes_cr h)) records))) (\<lambda>data.
        Inr (members @ [zip_info (RECORD_name version) 420 data])))"

section \<open>The wheel\<close>

definition stage_wheel :: "build_env \<Rightarrow> host \<Rightarrow> path \<Rightarrow> pystr \<Rightarrow> disk bres" where
  "stage_wheel E h stage_dir version =
     rbind (copy_python_sources h [NAME] []) (\<lambda>s1.
     rbind (static_kernel E h) (\<lambda>(library, link_options, _).
     rbind (copy_runtime h [NAME] s1) (\<lambda>s2.
     rbind (compile_extension E h stage_dir [NAME] library link_options s2) (\<lambda>s3.
     stage_metadata h version [DIST_INFO version] s3))))"

definition build_wheel :: "build_env \<Rightarrow> host \<Rightarrow> path \<Rightarrow> wheel bres" where
  "build_wheel E h stage_dir =
     rbind (VERSION h) (\<lambda>version.
     rbind (wheel_tag h) (\<lambda>tag.
     rbind (stage_wheel E h stage_dir version) (\<lambda>stage.
     rbind (build_archive E h version stage) (\<lambda>members.
     Inr \<lparr>wh_name = NAME @ lit ''-'' @ version @ lit ''-'' @ tag @ lit ''.whl'', wh_content = h_zip h members\<rparr>))))"

text \<open>\<^verbatim>\<open>main\<close> with the option \<^verbatim>\<open>--receipt\<close>: the wheel, and its receipt.\<close>

definition build_main :: "build_env \<Rightarrow> host \<Rightarrow> path \<Rightarrow> (wheel \<times> obj) bres" where
  "build_main E h stage_dir =
     rbind (build_wheel E h stage_dir) (\<lambda>w.
     rbind (static_kernel E h) (\<lambda>(_, _, kernel_digest).
     rbind (VERSION h) (\<lambda>version.
     rbind (wheel_tag h) (\<lambda>tag.
     rbind (case split_ws (isspace (b_uni E)) (h_sys_version h) of [] \<Rightarrow> Inl (OtherError (lit ''IndexError'')) | p # _ \<Rightarrow> Inr p) (\<lambda>python.
     rbind (build_receipt E w \<lparr>ra_name = NAME, ra_version = version, ra_tags = [tag], ra_platform_policy = lit ''linux_native'',
       ra_kernel_archive_sha256 = kernel_digest, ra_python = python, ra_metadata_version = METADATA_VERSION,
       ra_requires_python = REQUIRES_PYTHON, ra_project_url = PROJECT_URL, ra_license_files = receipt_license_files\<rparr>) (\<lambda>receipt.
     Inr (w, receipt)))))))"

end
