(* ===== verification/Release_Laws.thy ===== *)
theory Release_Laws
  imports Release
begin

text \<open>
  What holds of versions and receipts: parsing inverts printing, a release is newer than every other, and repairing a wheel
  keeps its identity.
\<close>

section \<open>Parsing and printing versions\<close>

fun phase_text :: "phase \<Rightarrow> pystr" where
  "phase_text Alpha = lit ''a''"
| "phase_text Beta = lit ''b''"
| "phase_text Candidate = lit ''rc''"

definition show_version :: "product_version \<Rightarrow> pystr" where
  "show_version v = digits_of (v_major v) @ [46] @ digits_of (v_minor v) @ [46] @ digits_of (v_patch v) @
     (case (v_phase v, v_serial v) of (Some p, Some n) \<Rightarrow> phase_text p @ digits_of n | _ \<Rightarrow> [])"

text \<open>A version as the parser makes them: a phase has a positive serial number, and no number has too many digits.\<close>

definition short :: "nat \<Rightarrow> bool" where
  "short n \<longleftrightarrow> length (digits_of n) \<le> max_str_digits"

definition proper_version :: "product_version \<Rightarrow> bool" where
  "proper_version v \<longleftrightarrow> (v_phase v = None \<longleftrightarrow> v_serial v = None) \<and> v_serial v \<noteq> Some 0 \<and>
     short (v_major v) \<and> short (v_minor v) \<and> short (v_patch v) \<and> (\<forall>n. v_serial v = Some n \<longrightarrow> short n)"

lemma digits_of_Cons: "\<exists>d ds. digits_of n = d # ds \<and> (d = 48 \<longrightarrow> n = 0 \<and> ds = [])"
proof (induction n rule: digits_of.induct)
  case (1 n)
  show ?case
  proof (cases "n < 10")
    case True
    then show ?thesis by (simp add: digits_of.simps [of n])
  next
    case False
    with 1 obtain d ds where "digits_of (n div 10) = d # ds" "d = 48 \<longrightarrow> n div 10 = 0 \<and> ds = []" by blast
    then show ?thesis using False by (auto simp: digits_of.simps [of n] div_eq_0_iff)
  qed
qed

lemma digits_of_step: "0 < m \<Longrightarrow> k < 10 \<Longrightarrow> digits_of (m * 10 + k) = digits_of m @ [48 + k]"
  by (subst digits_of.simps) simp

lemma digits_of_nat_of_digits:
  assumes "list_all ascii_digit ds" and "ds \<noteq> []" and "hd ds = 48 \<longrightarrow> ds = [48]"
  shows "digits_of (nat_of_digits 10 ds) = ds \<and> (nat_of_digits 10 ds = 0 \<longrightarrow> ds = [48])"
  using assms
proof (induction ds rule: rev_induct)
  case (snoc c ds)
  have c: "digit_value c = c - 48" "48 \<le> c" "c - 48 < 10" using snoc.prems(1) by (auto simp: digit_value_def ascii_digit_def)
  have n: "nat_of_digits 10 (ds @ [c]) = nat_of_digits 10 ds * 10 + (c - 48)" using c by (simp add: nat_of_digits_def)
  show ?case
  proof (cases "ds = []")
    case True
    then show ?thesis using c by (auto simp: nat_of_digits_def digits_of.simps [of "c - 48"])
  next
    case False
    then have "hd ds \<noteq> 48" using snoc.prems(3) by (cases ds) auto
    then have ih: "digits_of (nat_of_digits 10 ds) = ds" "nat_of_digits 10 ds \<noteq> 0" using snoc.IH snoc.prems(1) False by auto
    show ?thesis using digits_of_step [OF _ c(3), of "nat_of_digits 10 ds"] ih c(2) unfolding n by simp
  qed
qed simp

lemma number_front_iff:
  "number_front pos s = Some (ds, r) \<longleftrightarrow> s = ds @ r \<and> (r = [] \<or> \<not> ascii_digit (hd r)) \<and> (\<exists>n. ds = digits_of n \<and> (pos \<longrightarrow> 0 < n))"
proof
  assume nf: "number_front pos s = Some (ds, r)"
  then have ds: "ds = takeWhile ascii_digit s" "r = dropWhile ascii_digit s" "ds \<noteq> []" "\<not> (hd ds = 48 \<and> (pos \<or> ds \<noteq> [48]))"
    by (auto simp: number_front_def Let_def split: if_splits)
  have "list_all ascii_digit ds" by (simp add: ds(1) list_all_iff) (metis set_takeWhileD)
  from digits_of_nat_of_digits [OF this ds(3)] ds(4) have n: "digits_of (nat_of_digits 10 ds) = ds" "nat_of_digits 10 ds = 0 \<longrightarrow> ds = [48]" by auto
  have "r = [] \<or> \<not> ascii_digit (hd r)" using hd_dropWhile [of ascii_digit s] ds(2) by auto
  then show "s = ds @ r \<and> (r = [] \<or> \<not> ascii_digit (hd r)) \<and> (\<exists>n. ds = digits_of n \<and> (pos \<longrightarrow> 0 < n))"
    using ds n by (auto intro!: exI [of _ "nat_of_digits 10 ds"])
next
  assume r: "s = ds @ r \<and> (r = [] \<or> \<not> ascii_digit (hd r)) \<and> (\<exists>n. ds = digits_of n \<and> (pos \<longrightarrow> 0 < n))"
  then obtain n where n: "ds = digits_of n" "pos \<longrightarrow> 0 < n" by blast
  have d: "\<forall>c\<in>set ds. ascii_digit c" using digits_of_ascii n(1) by auto
  have "takeWhile ascii_digit s = ds" "dropWhile ascii_digit s = r"
    using r d by (cases r; simp add: takeWhile_append2 dropWhile_append2)+
  moreover obtain c cs where "ds = c # cs" "c = 48 \<longrightarrow> n = 0 \<and> cs = []" using digits_of_Cons [of n] n(1) by blast
  ultimately show "number_front pos s = Some (ds, r)" using n(2) by (auto simp: number_front_def Let_def)
qed

lemma suffix_groups_iff:
  "suffix_groups s = Some e \<longleftrightarrow> (case e of None \<Rightarrow> s = [] | Some (p, ds) \<Rightarrow> s = phase_text p @ ds \<and> (\<exists>n. ds = digits_of n \<and> 0 < n))"
proof -
  have front: "phase_front (phase_text p @ r) = Some (p, r)" for p r by (cases p) (simp_all add: phase_front_def lit_def)
  have inv: "s = phase_text p @ r" if "phase_front s = Some (p, r)" for p r
    using that by (auto simp: phase_front_def lit_def split: if_splits) (metis append_Cons append_Nil append_take_drop_id)+
  have ne: "phase_text p @ r \<noteq> []" for p r by (cases p) (simp_all add: lit_def)
  have num: "number_front True r = Some (ds, []) \<longleftrightarrow> r = ds \<and> (\<exists>n. ds = digits_of n \<and> 0 < n)" for r ds
    by (auto simp: number_front_iff)
  show ?thesis
  proof (cases e)
    case None
    then show ?thesis by (auto simp: suffix_groups_def split: option.splits prod.splits list.splits)
  next
    case (Some x)
    obtain p ds where x: "x = (p, ds)" by (cases x)
    have "suffix_groups s = Some (Some (p, ds)) \<longleftrightarrow> s \<noteq> [] \<and> (\<exists>r. phase_front s = Some (p, r) \<and> number_front True r = Some (ds, []))"
      by (auto simp: suffix_groups_def split: option.splits prod.splits list.splits)
    also have "\<dots> \<longleftrightarrow> s = phase_text p @ ds \<and> (\<exists>n. ds = digits_of n \<and> 0 < n)" using front inv ne num by metis
    finally show ?thesis using Some x by simp
  qed
qed

lemma phase_text_start: "\<not> ascii_digit (hd (phase_text p @ r))"
  by (cases p) (simp_all add: lit_def ascii_digit_def)

lemma dot_iff: "dot s = Some r \<longleftrightarrow> s = 46 # r"
  by (cases s) auto

lemma version_groups_iff:
  "version_groups s = Some (ma, mi, pa, e) \<longleftrightarrow>
     (\<exists>a b c. ma = digits_of a \<and> mi = digits_of b \<and> pa = digits_of c \<and> s = ma @ 46 # mi @ 46 # pa @
        (case e of None \<Rightarrow> [] | Some (p, ds) \<Rightarrow> phase_text p @ ds) \<and>
        (case e of None \<Rightarrow> True | Some (p, ds) \<Rightarrow> \<exists>n. ds = digits_of n \<and> 0 < n))"
proof -
  have tail: "r = [] \<or> \<not> ascii_digit (hd r)" if "suffix_groups r = Some e" for r
    using that phase_text_start by (auto simp: suffix_groups_iff split: option.splits)
  have "version_groups s = Some (ma, mi, pa, e) \<longleftrightarrow> (\<exists>s2 s3 r3. number_front False s = Some (ma, 46 # s2) \<and>
      number_front False s2 = Some (mi, 46 # s3) \<and> number_front False s3 = Some (pa, r3) \<and> suffix_groups r3 = Some e)"
    by (auto simp: version_groups_def dot_iff split: option.splits prod.splits)
  also have "\<dots> \<longleftrightarrow> (\<exists>a b c r. ma = digits_of a \<and> mi = digits_of b \<and> pa = digits_of c \<and> s = ma @ 46 # mi @ 46 # pa @ r \<and> suffix_groups r = Some e)"
    using tail by (auto simp: number_front_iff ascii_digit_def)
  also have "\<dots> \<longleftrightarrow> (\<exists>a b c. ma = digits_of a \<and> mi = digits_of b \<and> pa = digits_of c \<and> s = ma @ 46 # mi @ 46 # pa @
        (case e of None \<Rightarrow> [] | Some (p, ds) \<Rightarrow> phase_text p @ ds) \<and>
        (case e of None \<Rightarrow> True | Some (p, ds) \<Rightarrow> \<exists>n. ds = digits_of n \<and> 0 < n))"
    by (cases e) (auto simp: suffix_groups_iff split: prod.splits)
  finally show ?thesis .
qed

lemma int_digits_of: "int_digits (digits_of n) = Inr m \<longleftrightarrow> short n \<and> m = n"
  by (auto simp: int_digits_def short_def)

lemma parse_version_iff:
  "parse_version s = Inr v \<longleftrightarrow> proper_version v \<and> s = show_version v \<and> v_text v = s"
proof
  assume "parse_version s = Inr v"
  then obtain ma mi pa e where g: "version_groups s = Some (ma, mi, pa, e)"
    and v: "rbind (int_digits ma) (\<lambda>a. rbind (int_digits mi) (\<lambda>b. rbind (int_digits pa) (\<lambda>c.
          rbind (case e of None \<Rightarrow> Inr None | Some (_, ds) \<Rightarrow> rbind (int_digits ds) (\<lambda>n. Inr (Some n))) (\<lambda>serial.
          Inr \<lparr>v_text = s, v_major = a, v_minor = b, v_patch = c, v_phase = map_option fst e, v_serial = serial\<rparr>)))) = Inr v"
    by (auto simp: parse_version_def split: option.splits prod.splits)
  from g obtain a b c where abc: "ma = digits_of a" "mi = digits_of b" "pa = digits_of c"
    and s: "s = ma @ 46 # mi @ 46 # pa @ (case e of None \<Rightarrow> [] | Some (p, ds) \<Rightarrow> phase_text p @ ds)"
    and e: "case e of None \<Rightarrow> True | Some (p, ds) \<Rightarrow> \<exists>n. ds = digits_of n \<and> 0 < n"
    by (auto simp: version_groups_iff)
  show "proper_version v \<and> s = show_version v \<and> v_text v = s"
    using v abc s e
    by (cases e) (auto simp: rbind_eq_Inr int_digits_of proper_version_def show_version_def split: prod.splits)
next
  assume p: "proper_version v \<and> s = show_version v \<and> v_text v = s"
  let ?e = "case (v_phase v, v_serial v) of (Some p, Some n) \<Rightarrow> Some (p, digits_of n) | _ \<Rightarrow> None"
  have "version_groups s = Some (digits_of (v_major v), digits_of (v_minor v), digits_of (v_patch v), ?e)"
    unfolding version_groups_iff using p by (auto simp: show_version_def proper_version_def split: option.splits)
  then show "parse_version s = Inr v"
    using p by (cases "v_phase v"; cases "v_serial v") (auto simp: parse_version_def proper_version_def int_digits_of [THEN iffD2] rbind_def short_def)
qed

text \<open>
  C22: Versions are parsed exactly from their canonical text. \<^verbatim>\<open>parse_version\<close> accepts a text if and only if it is the printed form of a
  version (three numbers without leading zeros, and optionally a phase with a positive serial number), and the version it
  returns is that one: parsing inverts printing and no version has two spellings.
\<close>

theorem version_roundtrip:
  "parse_version s = Inr v \<longleftrightarrow> proper_version v \<and> s = show_version v \<and> v_text v = s"
  by (rule parse_version_iff)

section \<open>Release order\<close>

lemma latest_greatest:
  assumes "vs \<noteq> []"
  shows "latest vs \<in> set vs \<and> (\<forall>v\<in>set vs. ordering_key v \<le> ordering_key (latest vs))"
proof -
  have "foldl (\<lambda>m v. if ordering_key m < ordering_key v then v else m) m vs \<in> insert m (set vs) \<and>
      (\<forall>v\<in>insert m (set vs). ordering_key v \<le> ordering_key (foldl (\<lambda>m v. if ordering_key m < ordering_key v then v else m) m vs))" for m vs
  proof (induction vs arbitrary: m)
    case (Cons x vs)
    show ?case using Cons [of "if ordering_key m < ordering_key x then x else m"] by (auto split: if_splits)
  qed simp
  from this [of "hd vs" "tl vs"] show ?thesis using assms by (cases vs) (auto simp: latest_def)
qed

text \<open>The releases among the tags, other than the one being made.\<close>

definition other_releases :: "pystr list \<Rightarrow> pystr \<Rightarrow> product_version set" where
  "other_releases names tag = {v. \<exists>t\<in>set names. t \<noteq> tag \<and> parse_version (remove_v t) = Inr v}"

lemma other_releases_Cons:
  "other_releases (t # names) tag = (case parse_version (remove_v t) of Inr v \<Rightarrow> (if t = tag then {} else {v}) | Inl _ \<Rightarrow> {}) \<union> other_releases names tag"
  by (auto simp: other_releases_def split: sum.splits)

lemma earlier_steps:
  "each (earlier_step current tag) names es = Inr es' \<Longrightarrow> set es' = set es \<union> other_releases names tag \<and>
    (\<forall>v\<in>other_releases names tag. ordering_key v < ordering_key current)"
proof (induction names arbitrary: es)
  case Nil
  then show ?case by (simp add: other_releases_def)
next
  case (Cons t names)
  then obtain fs where f: "earlier_step current tag t es = Inr fs" "each (earlier_step current tag) names fs = Inr es'" by (auto simp: rbind_eq_Inr)
  from f(1) Cons.IH [OF f(2)] show ?case
    by (cases "parse_version (remove_v t)") (auto simp: earlier_step_def other_releases_Cons not_le split: if_splits)
qed

text \<open>
  C23: A checked release is the newest. When the tags of the repository could be listed and \<^verbatim>\<open>previous_release_tag\<close> succeeds, the new
  version is greater in the release order than the version of every other tag, and the previous release it reports is the
  greatest of those; none is reported exactly when there is none.
\<close>

theorem release_is_newest:
  assumes "previous_release_tag True (Inr names) current (Some tag) = Inr (checked, previous)"
  shows "checked \<and> (\<forall>t\<in>set names. \<forall>v. t \<noteq> tag \<and> parse_version (remove_v t) = Inr v \<longrightarrow> ordering_key v < ordering_key current) \<and>
    (case previous of
       None \<Rightarrow> \<forall>t\<in>set names. t \<noteq> tag \<longrightarrow> isl (parse_version (remove_v t))
     | Some p \<Rightarrow> \<exists>t\<in>set names. \<exists>v. t \<noteq> tag \<and> parse_version (remove_v t) = Inr v \<and> p = version_tag v \<and>
         (\<forall>t'\<in>set names. \<forall>v'. t' \<noteq> tag \<and> parse_version (remove_v t') = Inr v' \<longrightarrow> ordering_key v' \<le> ordering_key v))"
proof -
  obtain es where e: "each (earlier_step current tag) names [] = Inr es" and c: "checked"
    and p: "previous = (if es = [] then None else Some (version_tag (latest es)))"
    using assms by (auto simp: previous_release_tag_def rbind_eq_Inr)
  note s = earlier_steps [OF e]
  have new: "\<forall>t\<in>set names. \<forall>v. t \<noteq> tag \<and> parse_version (remove_v t) = Inr v \<longrightarrow> ordering_key v < ordering_key current"
    using s by (auto simp: other_releases_def)
  show ?thesis
  proof (cases "es = []")
    case True
    then have "isl (parse_version (remove_v t))" if "t \<in> set names" "t \<noteq> tag" for t
      using s that by (cases "parse_version (remove_v t)") (auto simp: other_releases_def)
    then show ?thesis using c new p True by simp
  next
    case False
    from latest_greatest [OF False] have l: "latest es \<in> other_releases names tag" "\<And>v. v \<in> other_releases names tag \<Longrightarrow> ordering_key v \<le> ordering_key (latest es)"
      using s by auto
    then obtain t where "t \<in> set names" "t \<noteq> tag" "parse_version (remove_v t) = Inr (latest es)" by (auto simp: other_releases_def)
    moreover have "ordering_key v' \<le> ordering_key (latest es)" if "t' \<in> set names" "t' \<noteq> tag" "parse_version (remove_v t') = Inr v'" for t' v'
      using that l(2) by (auto simp: other_releases_def)
    ultimately show ?thesis using c new p False by (auto intro!: bexI [of _ t])
  qed
qed

definition sample_version :: product_version where
  "sample_version = \<lparr>v_text = lit ''1.2.0'', v_major = 1, v_minor = 2, v_patch = 0, v_phase = None, v_serial = None\<rparr>"

definition sample_prerelease :: product_version where
  "sample_prerelease = \<lparr>v_text = lit ''1.2.0rc1'', v_major = 1, v_minor = 2, v_patch = 0, v_phase = Some Candidate, v_serial = Some 1\<rparr>"

theorem release_is_newest_witness:
  "previous_release_tag True (Inr [lit ''v1.2.0rc1'', lit ''v1.2.0'', lit ''vnext'']) sample_version (Some (lit ''v1.2.0'')) = Inr (True, Some (lit ''v1.2.0rc1'')) \<and>
   ordering_key sample_prerelease < ordering_key sample_version"
proof -
  have d: "digits_of 0 = lit ''0''" "digits_of 1 = lit ''1''" "digits_of 2 = lit ''2''" by (simp_all add: digits_of.simps lit_def)
  have ms: "length (lit ''0'') \<le> max_str_digits" "length (lit ''1'') \<le> max_str_digits" "length (lit ''2'') \<le> max_str_digits"
    by (simp_all add: lit_def max_str_digits_def)
  have rc: "parse_version (lit ''1.2.0rc1'') = Inr sample_prerelease"
    unfolding parse_version_iff using ms d
    by (simp add: sample_prerelease_def proper_version_def show_version_def short_def) (simp add: lit_def)
  have bad: "parse_version (lit ''next'') = Inl version_error"
    by (simp add: parse_version_def version_groups_def number_front_def lit_def ascii_digit_def)
  have run: "previous_release_tag True (Inr [lit ''v1.2.0rc1'', lit ''v1.2.0'', lit ''vnext'']) sample_version (Some (lit ''v1.2.0'')) = Inr (True, Some (lit ''v1.2.0rc1''))"
  proof -
    have "remove_v (lit ''v1.2.0rc1'') = lit ''1.2.0rc1''" "remove_v (lit ''vnext'') = lit ''next''" by (simp_all add: remove_v_def lit_def)
    moreover have "\<not> ordering_key sample_version \<le> ordering_key sample_prerelease" "version_tag sample_prerelease = lit ''v1.2.0rc1''"
      by (simp_all add: ordering_key_def sample_version_def sample_prerelease_def version_tag_def lit_def)
    ultimately show ?thesis by (simp add: previous_release_tag_def earlier_step_def rc bad latest_def)
  qed
  have "remove_v (lit ''v1.2.0rc1'') = lit ''1.2.0rc1''" by (simp add: remove_v_def lit_def)
  with release_is_newest [OF run] rc run show ?thesis by simp
qed

section \<open>Receipts\<close>

lemma map_of_dict_merge: "k \<notin> fst ` set e \<Longrightarrow> map_of (dict_merge d e) k = map_of d k"
  unfolding dict_merge_def by (induction e arbitrary: d) (auto simp: update_conv')

text \<open>
  Repairing a wheel keeps its identity. The receipt of a repaired wheel is valid, names the new file with its digest and
  size, and differs from the receipt of the original wheel in no field besides the file name, digest, size, tags and platform
  policy.
\<close>

theorem repaired_receipt_identity:
  assumes "receipt_for_repaired_wheel E source w tags platform_policy = Inr d'"
  shows "\<exists>d. source = JObj d \<and> validate_receipt E (JObj d) = Inr () \<and> validate_receipt E (JObj d') = Inr () \<and>
    (\<forall>k. k \<notin> set (map lit [''filename'', ''sha256'', ''size'', ''tags'', ''platform_policy'']) \<longrightarrow> map_of d' k = map_of d k) \<and>
    map_of d' (lit ''filename'') = Some (JStr (wh_name w)) \<and> map_of d' (lit ''sha256'') = Some (JStr (sha256 E (wh_content w))) \<and>
    map_of d' (lit ''size'') = Some (JInt (int (length (wh_content w)))) \<and> map_of d' (lit ''tags'') = Some (JArr (map JStr tags)) \<and>
    map_of d' (lit ''platform_policy'') = Some (JStr platform_policy)"
proof -
  obtain d where d: "source = JObj d" "validate_receipt E source = Inr ()" using assms by (cases source) (auto simp: receipt_for_repaired_wheel_def rbind_eq_Inr)
  let ?m = "dict_merge d (artifact_fields E w)"
  have d': "d' = dict_set (dict_set ?m (lit ''tags'') (JArr (map JStr tags))) (lit ''platform_policy'') (JStr platform_policy)"
    "validate_receipt E (JObj d') = Inr ()"
    using assms d by (auto simp: receipt_for_repaired_wheel_def rbind_eq_Inr Let_def)
  have "map_of ?m k = map_of d k" if "k \<notin> set (map lit [''filename'', ''sha256'', ''size''])" for k
    using that by (intro map_of_dict_merge) (auto simp: artifact_fields_def)
  moreover have "map_of ?m (lit ''filename'') = Some (JStr (wh_name w))" "map_of ?m (lit ''sha256'') = Some (JStr (sha256 E (wh_content w)))"
    "map_of ?m (lit ''size'') = Some (JInt (int (length (wh_content w))))"
    by (simp_all add: dict_merge_def artifact_fields_def update_conv')
  ultimately show ?thesis using d d' by (simp add: update_conv')
qed

definition receipt_env :: build_env where
  "receipt_env = \<lparr>b_uni = latin1, sha256 = (\<lambda>b. replicate 64 48), print_json = (\<lambda>_. [])\<rparr>"

definition sample_receipt :: obj where
  "sample_receipt = FIXED_FIELDS @ map (\<lambda>k. (lit k, JStr (if k \<in> {''sha256'', ''kernel_archive_sha256''} then replicate 64 49 else lit ''x''))) TEXT_FIELDS @
     map (\<lambda>k. (lit k, JArr [JStr (lit ''t'')])) LIST_FIELDS @ [(lit ''size'', JInt 5)]"

theorem repaired_receipt_identity_witness:
  "\<exists>d'. receipt_for_repaired_wheel receipt_env (JObj sample_receipt) \<lparr>wh_name = lit ''w.whl'', wh_content = [1, 2]\<rparr> [lit ''m''] (lit ''p'') = Inr d' \<and>
     map_of d' (lit ''name'') = Some (JStr (lit ''x'')) \<and> map_of d' (lit ''size'') = Some (JInt 2)"
proof -
  have t: "is_text receipt_env (JStr (lit ''x''))" "is_text receipt_env (JStr (lit ''t''))" "is_text receipt_env (JStr (lit ''m''))"
    "is_text receipt_env (JStr (lit ''p''))" "is_text receipt_env (JStr (lit ''w.whl''))"
    "is_text receipt_env (JStr (replicate 64 48))" "is_text receipt_env (JStr (replicate 64 49))"
    by (simp_all add: is_text_def receipt_env_def strip_def lstrip_def rstrip_def latin1_def lit_def eval_nat_numeral ascii_space_def)
  have g: "is_digest (JStr (replicate 64 48))" "is_digest (JStr (replicate 64 49))" by (simp_all add: list_all_iff ascii_digit_def)
  note defs = FIXED_FIELDS_def TEXT_FIELDS_def LIST_FIELDS_def receipt_fields_def check_fields_def jget_def jget_or_def
  have v: "validate_receipt receipt_env (JObj sample_receipt) = Inr ()"
    using t g by (simp add: validate_receipt_def sample_receipt_def defs is_names_def)
  have sha: "sha256 receipt_env b = replicate 64 48" for b by (simp add: receipt_env_def)
  obtain d' where run: "receipt_for_repaired_wheel receipt_env (JObj sample_receipt) \<lparr>wh_name = lit ''w.whl'', wh_content = [1, 2]\<rparr> [lit ''m''] (lit ''p'') = Inr d'"
    using t g by (simp add: receipt_for_repaired_wheel_def v)
      (simp add: validate_receipt_def sample_receipt_def artifact_fields_def dict_merge_def sha defs is_names_def)
  have "map_of sample_receipt (lit ''name'') = Some (JStr (lit ''x''))" by (simp add: sample_receipt_def defs)
  with repaired_receipt_identity [OF run] run show ?thesis by auto
qed

end
