(* ===== verification/Wheel_Laws.thy ===== *)
theory Wheel_Laws
  imports Wheel Release_Laws
begin

text \<open>
  What holds of the wheels the backend builds: their version is the one of the release, their \<^verbatim>\<open>RECORD\<close> lists their members, and their
  receipts are accepted.
\<close>

section \<open>Versions\<close>

lemma find_from_complete:
  "startswith_at s p j \<Longrightarrow> j + length p \<le> length s \<Longrightarrow> i \<le> j \<Longrightarrow> find_from s p i \<noteq> None"
proof (induction s p i rule: find_from.induct)
  case (1 s p i)
  show ?case
  proof (cases "i = j")
    case True
    then show ?thesis using "1.prems" by (subst find_from.simps) auto
  next
    case False
    then have "Suc i \<le> j" using "1.prems" by simp
    then show ?thesis using 1 by (subst find_from.simps) auto
  qed
qed

lemma contains_iff: "contains p s \<longleftrightarrow> (\<exists>a b. s = a @ p @ b)"
proof
  assume "contains p s"
  then obtain j where "find_from s p 0 = Some j" by (auto simp: contains_def)
  from find_from_Some [OF this] have "take (length p) (drop j s) = p" by (simp add: startswith_at_def)
  then have "s = take j s @ p @ drop (length p) (drop j s)" by (metis append_take_drop_id)
  then show "\<exists>a b. s = a @ p @ b" by blast
next
  assume "\<exists>a b. s = a @ p @ b"
  then obtain a b where s: "s = a @ p @ b" by blast
  have "find_from s p 0 \<noteq> None" by (rule find_from_complete [of _ _ "length a"]) (simp_all add: s startswith_at_def)
  then show "contains p s" by (simp add: contains_def)
qed

lemma contains_char: "contains [c] s \<longleftrightarrow> c \<in> set s"
  by (auto simp: contains_iff in_set_conv_decomp)

lemma version_characters:
  "c \<in> set (show_version v) \<Longrightarrow> ascii_digit c \<or> c = 46 \<or> (\<exists>p. v_phase v = Some p \<and> c \<in> set (phase_text p))"
  by (auto simp: show_version_def dest: digits_of_ascii split: option.splits)

lemma phase_characters: "set (phase_text p) = (case p of Alpha \<Rightarrow> {97} | Beta \<Rightarrow> {98} | Candidate \<Rightarrow> {114, 99})"
  by (cases p) (auto simp: lit_def)

lemma major_zero: "take 2 (show_version v) = lit ''0.'' \<longleftrightarrow> v_major v = 0"
proof -
  obtain d ds where d: "digits_of (v_major v) = d # ds" "d = 48 \<longrightarrow> v_major v = 0 \<and> ds = []" using digits_of_Cons by blast
  have "digits_of 0 = [48]" by (simp add: digits_of.simps)
  moreover have "\<not> (d = 48 \<and> take 1 (ds @ 46 # r) = [46] \<and> v_major v \<noteq> 0)" for r using d by simp
  ultimately show ?thesis using d by (auto simp: show_version_def lit_def)
qed

lemma development_status_phase:
  assumes "proper_version v"
  shows "development_status (show_version v) =
    (case v_phase v of Some Alpha \<Rightarrow> ''3 - Alpha'' | Some _ \<Rightarrow> ''4 - Beta'' | None \<Rightarrow> if v_major v = 0 then ''4 - Beta'' else ''5 - Production/Stable'')"
proof -
  have in_phase: "phase_text p @ digits_of n = drop (length (digits_of (v_major v) @ [46] @ digits_of (v_minor v) @ [46] @ digits_of (v_patch v))) (show_version v)"
    if "v_phase v = Some p" "v_serial v = Some n" for p n
    using that by (simp add: show_version_def)
  have letter: "c \<in> set (show_version v) \<longleftrightarrow> (\<exists>p. v_phase v = Some p \<and> c \<in> set (phase_text p))" if "c \<in> {97, 98, 114}" for c
  proof
    assume "c \<in> set (show_version v)"
    then show "\<exists>p. v_phase v = Some p \<and> c \<in> set (phase_text p)" using version_characters that by (fastforce simp: ascii_digit_def)
  next
    assume "\<exists>p. v_phase v = Some p \<and> c \<in> set (phase_text p)"
    then show "c \<in> set (show_version v)" using assms by (auto simp: show_version_def proper_version_def split: option.splits)
  qed
  have a: "contains (lit ''a'') (show_version v) \<longleftrightarrow> v_phase v = Some Alpha"
    using letter [of 97] by (cases "v_phase v"; cases "the (v_phase v)") (simp_all add: lit_def contains_char)
  have b: "contains (lit ''b'') (show_version v) \<longleftrightarrow> v_phase v = Some Beta"
    using letter [of 98] by (cases "v_phase v"; cases "the (v_phase v)") (simp_all add: lit_def contains_char)
  have rc: "contains (lit ''rc'') (show_version v) \<longleftrightarrow> v_phase v = Some Candidate"
  proof
    assume "contains (lit ''rc'') (show_version v)"
    then have "114 \<in> set (show_version v)" by (auto simp: contains_iff lit_def)
    then show "v_phase v = Some Candidate" using letter [of 114] by (cases "v_phase v"; cases "the (v_phase v)") (simp_all add: lit_def)
  next
    assume c: "v_phase v = Some Candidate"
    then obtain n where "v_serial v = Some n" using assms by (auto simp: proper_version_def)
    with c have "show_version v = (digits_of (v_major v) @ [46] @ digits_of (v_minor v) @ [46] @ digits_of (v_patch v)) @ lit ''rc'' @ digits_of n"
      by (simp add: show_version_def)
    then show "contains (lit ''rc'') (show_version v)" unfolding contains_iff by blast
  qed
  show ?thesis unfolding development_status_def a b rc major_zero by (auto split: option.splits phase.splits)
qed

lemma version_groups_no_newline: "version_groups s = Some g \<Longrightarrow> 10 \<notin> set s \<and> 13 \<notin> set s"
proof -
  assume g: "version_groups s = Some g"
  obtain ma mi pa e where e: "g = (ma, mi, pa, e)" by (cases g) auto
  have "set (phase_text p) \<inter> {10, 13} = {}" for p by (cases p) (auto simp: lit_def)
  then show ?thesis using g unfolding e version_groups_iff
    by (auto dest!: digits_of_ascii simp: ascii_digit_def split: option.splits)
qed

text \<open>
  C21: The build backend and the release check read the same version. Whenever \<^verbatim>\<open>read_version\<close> accepts the bytes of the file
  \<^verbatim>\<open>VERSION\<close>, the backend builds a wheel of exactly that version and the development status it declares is the one of
  the phase of the version; and what the backend accepts \<^verbatim>\<open>read_version\<close> accepts too, unless a number has too many digits to be converted.
\<close>

theorem backend_version_agrees:
  "(\<forall>v. read_version data = Inr v \<longrightarrow> distribution_version data = Inr (v_text v) \<and>
      development_status (v_text v) = (case v_phase v of Some Alpha \<Rightarrow> ''3 - Alpha'' | Some _ \<Rightarrow> ''4 - Beta''
        | None \<Rightarrow> if v_major v = 0 then ''4 - Beta'' else ''5 - Production/Stable'')) \<and>
   (\<forall>s. distribution_version data = Inr s \<longrightarrow> (\<exists>v. read_version data = Inr v \<and> v_text v = s) \<or> read_version data = Inl BadValue)"
proof (intro conjI allI impI)
  fix v
  assume "read_version data = Inr v"
  then obtain s where s: "ascii_decode data = Inr s" and c: "universal_newlines s \<noteq> []" "last (universal_newlines s) = 10"
    and p: "parse_version (butlast (universal_newlines s)) = Inr v"
    by (auto simp: read_version_def Let_def split: sum.splits if_splits)
  from p have "version_groups (butlast (universal_newlines s)) \<noteq> None" by (auto simp: parse_version_def split: option.splits)
  moreover have "butlast (universal_newlines s) = v_text v" "proper_version v" "v_text v = show_version v" using p by (simp_all add: parse_version_iff)
  ultimately show "distribution_version data = Inr (v_text v)" and "development_status (v_text v) = (case v_phase v of Some Alpha \<Rightarrow> ''3 - Alpha'' | Some _ \<Rightarrow> ''4 - Beta''
        | None \<Rightarrow> if v_major v = 0 then ''4 - Beta'' else ''5 - Production/Stable'')"
    using s c development_status_phase by (simp_all add: distribution_version_def)
next
  fix s
  assume "distribution_version data = Inr s"
  then obtain t where t: "ascii_decode data = Inr t" "universal_newlines t = s @ [10]" and g: "version_groups s \<noteq> None"
    by (auto simp: distribution_version_def Let_def split: sum.splits if_splits) (metis append_butlast_last_id)
  have "length (filter (\<lambda>c. c = 10) (s @ [10])) = 1" using g version_groups_no_newline by (auto simp: filter_empty_conv)
  then have r: "read_version data = parse_version s" using t by (simp add: read_version_def)
  show "(\<exists>v. read_version data = Inr v \<and> v_text v = s) \<or> read_version data = Inl BadValue"
  proof (cases "parse_version s")
    case (Inr v)
    then show ?thesis using r by (auto simp: parse_version_iff)
  next
    case (Inl x)
    then show ?thesis using r g by (auto simp: parse_version_def int_digits_def rbind_def split: option.splits prod.splits if_splits)
  qed
qed

theorem backend_version_agrees_witness:
  "distribution_version (lit ''1.2.0rc1'' @ [10]) = Inr (lit ''1.2.0rc1'') \<and> development_status (lit ''1.2.0rc1'') = ''4 - Beta''"
proof -
  let ?v = "\<lparr>v_text = lit ''1.2.0rc1'', v_major = 1, v_minor = 2, v_patch = 0, v_phase = Some Candidate, v_serial = Some 1\<rparr>"
  have d: "digits_of 0 = [48]" "digits_of (Suc 0) = [49]" "digits_of 2 = [50]" by (simp_all add: digits_of.simps)
  have "parse_version (lit ''1.2.0rc1'') = Inr ?v"
    unfolding parse_version_iff by (simp add: proper_version_def short_def show_version_def d max_str_digits_def) (simp add: d lit_def)
  then have "read_version (lit ''1.2.0rc1'' @ [10]) = Inr ?v"
    by (simp add: read_version_def ascii_decode_def) (simp add: lit_def)
  with backend_version_agrees [of "lit ''1.2.0rc1'' @ [10]"] show ?thesis by simp
qed

section \<open>The record of an archive\<close>

text \<open>Reading what \<^verbatim>\<open>csv.writer\<close> writes: fields separated by commas, quoted where necessary, three in a line.\<close>

fun read_quoted :: "pystr \<Rightarrow> pystr \<Rightarrow> (pystr \<times> pystr) option" where
  "read_quoted acc [] = None"
| "read_quoted acc (c # s) =
     (if c \<noteq> 34 then read_quoted (acc @ [c]) s
      else if take 1 s = [34] then read_quoted (acc @ [34]) (drop 1 s) else Some (acc, s))"

definition read_field :: "pystr \<Rightarrow> (pystr \<times> pystr) option" where
  "read_field s =
     (if take 1 s = [34] then read_quoted [] (drop 1 s)
      else Some (takeWhile (\<lambda>c. c \<notin> {44, 10, 13}) s, dropWhile (\<lambda>c. c \<notin> {44, 10, 13}) s))"

fun ended_by :: "cp \<Rightarrow> (pystr \<times> pystr) option \<Rightarrow> (pystr \<times> pystr) option" where
  "ended_by c (Some (a, d # s)) = (if d = c then Some (a, s) else None)"
| "ended_by c _ = None"

definition read_row :: "pystr \<Rightarrow> ((pystr \<times> pystr \<times> pystr) \<times> pystr) option" where
  "read_row s = (case ended_by 44 (read_field s) of None \<Rightarrow> None | Some (a, s1) \<Rightarrow>
     case ended_by 44 (read_field s1) of None \<Rightarrow> None | Some (b, s2) \<Rightarrow>
     case ended_by 10 (read_field s2) of None \<Rightarrow> None | Some (c, s3) \<Rightarrow> Some ((a, b, c), s3))"

function read_rows :: "pystr \<Rightarrow> (pystr \<times> pystr \<times> pystr) list option" where
  "read_rows s =
     (if s = [] then Some []
      else case read_row s of
        None \<Rightarrow> None
      | Some (r, s') \<Rightarrow> if length s' < length s then map_option ((#) r) (read_rows s') else None)"
  by pat_completeness auto
termination
  by (relation "measure length") auto

declare read_rows.simps [simp del]

lemma read_quoted_written:
  assumes "take 1 r \<noteq> [34]"
  shows "read_quoted acc (replace_cp 34 [34, 34] s @ 34 # r) = Some (acc @ s, r)"
  using assms by (induction s arbitrary: acc) (auto simp: replace_cp_def)

lemma read_field_written:
  assumes "c \<in> {44, 10}" and "13 \<notin> set s \<or> q"
  shows "read_field (csv_field q s @ c # r) = Some (s, c # r)"
proof (cases "list_ex (\<lambda>c. c \<in> {44, 34, 10} \<or> q \<and> c = 13) s")
  case True
  have "take 1 (c # r) \<noteq> [34]" using assms(1) by auto
  then show ?thesis using True read_quoted_written [of "c # r" "[]" s] by (simp add: csv_field_def read_field_def)
next
  case False
  then have plain: "\<forall>x\<in>set s. x \<notin> {44, 10, 13} \<and> x \<noteq> 34" using assms(2) by (auto simp: list_ex_iff)
  have t: "takeWhile (\<lambda>c. c \<notin> {44, 10, 13}) (s @ c # r) = s" "dropWhile (\<lambda>c. c \<notin> {44, 10, 13}) (s @ c # r) = c # r"
    using plain assms(1) by (auto simp: takeWhile_append2 dropWhile_append2)
  obtain x xs where x: "s @ c # r = x # xs" "x \<noteq> 34" using plain assms(1) by (cases s) auto
  show ?thesis using t False x unfolding csv_field_def read_field_def by (auto split: list.splits)
qed

definition clean_row :: "bool \<Rightarrow> pystr \<times> pystr \<times> pystr \<Rightarrow> bool" where
  "clean_row q = (\<lambda>(a, b, c). 13 \<notin> set a \<union> set b \<union> set c \<or> q)"

lemma read_rows_written:
  assumes "\<forall>x\<in>set rows. clean_row q x"
  shows "read_rows (concat (map (csv_row q) rows)) = Some rows"
  using assms
proof (induction rows)
  case Nil
  then show ?case by (simp add: read_rows.simps)
next
  case (Cons x rows)
  obtain a b c where x: "x = (a, b, c)" by (cases x) auto
  have "13 \<notin> set a \<or> q" "13 \<notin> set b \<or> q" "13 \<notin> set c \<or> q" using Cons.prems by (auto simp: x clean_row_def)
  then have "read_row (csv_row q x @ r) = Some (x, r)" for r
    by (simp add: x csv_row_def read_row_def read_field_written)
  moreover have "csv_row q x \<noteq> []" by (simp add: x csv_row_def)
  ultimately show ?case using Cons by (subst read_rows.simps) simp
qed

lemma record_digest_characters: "c \<in> set (record_digest E content) \<Longrightarrow> c \<noteq> 13 \<and> c < 128"
proof -
  have "b64_char n \<noteq> 13" "b64_char n < 128" for n by (auto simp: b64_char_def)
  then have "\<forall>c\<in>set (urlsafe_b64encode bs). c \<noteq> 13 \<and> c < 128" for bs
    by (induction bs rule: urlsafe_b64encode.induct) simp_all
  moreover have "set (rstrip (\<lambda>c. c = 61) s) \<subseteq> set s" for s by (auto simp: rstrip_def dest: set_dropWhileD)
  ultimately show "c \<in> set (record_digest E content) \<Longrightarrow> c \<noteq> 13 \<and> c < 128" by (auto simp: record_digest_def lit_def)
qed

lemma digits_characters: "c \<in> set (digits_of n) \<Longrightarrow> c \<noteq> 13 \<and> c < 128"
  by (auto dest: digits_of_ascii simp: ascii_digit_def)

text \<open>The components of a path are not empty and have no slash in them.\<close>

definition proper_path :: "path \<Rightarrow> bool" where
  "proper_path p \<longleftrightarrow> p \<noteq> [] \<and> (\<forall>c\<in>set p. 47 \<notin> set c)"

lemma upto_slash: "47 \<notin> set c \<Longrightarrow> takeWhile (\<lambda>x. x \<noteq> 47) (c @ 47 # r) = c \<and> dropWhile (\<lambda>x. x \<noteq> (47::nat)) (c @ 47 # r) = 47 # r"
  by (induction c) auto

lemma as_posix_split:
  "47 \<notin> set c \<Longrightarrow> takeWhile (\<lambda>x. x \<noteq> 47) (as_posix (c # p)) = c \<and>
     dropWhile (\<lambda>x. x \<noteq> 47) (as_posix (c # p)) = (if p = [] then [] else 47 # as_posix p)"
  by (cases p) (auto simp: as_posix_def upto_slash takeWhile_eq_all_conv)

lemma as_posix_inject: "proper_path p \<Longrightarrow> proper_path q \<Longrightarrow> as_posix p = as_posix q \<Longrightarrow> p = q"
proof (induction p arbitrary: q)
  case (Cons c p)
  obtain d q' where q: "q = d # q'" using Cons.prems(2) by (cases q) (auto simp: proper_path_def)
  have s: "47 \<notin> set c" "47 \<notin> set d" using Cons.prems q by (auto simp: proper_path_def)
  have e: "c = d" "(if p = [] then [] else 47 # as_posix p) = (if q' = [] then [] else 47 # as_posix q')"
    using as_posix_split [OF s(1), of p] as_posix_split [OF s(2), of q'] Cons.prems(3) q by auto
  show ?case
  proof (cases "p = []")
    case True
    then show ?thesis using e q by (auto split: if_splits)
  next
    case False
    then have "q' \<noteq> []" "as_posix p = as_posix q'" using e by (auto split: if_splits)
    then have "p = q'" using Cons.IH Cons.prems(1,2) False q by (auto simp: proper_path_def)
    then show ?thesis using e q by simp
  qed
qed (simp add: proper_path_def)

lemma RECORD_name_plain: "version_groups version \<noteq> None \<Longrightarrow> 13 \<notin> set (RECORD_name version)"
  using version_groups_no_newline by (auto simp: RECORD_name_def DIST_INFO_def NAME_def lit_def)

text \<open>
  C20: The \<^verbatim>\<open>RECORD\<close> of a wheel is complete and correct. Every staged file is a member of the archive under its own name, with its bytes and
  permissions; no name occurs twice; the last member is the \<^verbatim>\<open>RECORD\<close>, and reading it back gives one line for each
  other member with its name, digest and size, and a line without digest and size for itself.
\<close>

theorem record_lists_members:
  assumes "build_archive E h version stage = Inr members" and "version_groups version \<noteq> None" and "distinct (map fst stage)"
    and "\<forall>p\<in>fst ` set stage. proper_path p \<and> (13 \<notin> set (as_posix p) \<or> h_quotes_cr h)"
  shows "distinct (map mb_name members) \<and> mb_name (last members) = RECORD_name version \<and>
    (\<exists>text. utf8_decode (mb_content (last members)) = Inr text \<and>
       read_rows text = Some (map (record_row E) (butlast members) @ [(RECORD_name version, [], [])])) \<and>
    (\<forall>(p, f)\<in>set stage. as_posix p \<noteq> RECORD_name version \<longrightarrow>
       zip_info (as_posix p) (df_mode f mod 512) (df_content f) \<in> set (butlast members))"
proof -
  let ?kept = "filter (\<lambda>(p, _). as_posix p \<noteq> RECORD_name version) (sort_key fst stage)"
  let ?ms = "map (\<lambda>(p, f). zip_info (as_posix p) (df_mode f mod 512) (df_content f)) ?kept"
  let ?rows = "map (record_row E) ?ms @ [(RECORD_name version, [], [])]"
  obtain data where data: "utf8 (concat (map (csv_row (h_quotes_cr h)) ?rows)) = Inr data"
    and m: "members = ?ms @ [zip_info (RECORD_name version) 420 data]"
    using assms(1) unfolding build_archive_def Let_def rbind_eq_Inr by blast
  have names: "map mb_name ?ms = map as_posix (map fst ?kept)" by (simp add: zip_info_def case_prod_beta comp_def)
  have kept: "set ?kept \<subseteq> set stage" by auto
  have "distinct (map fst (sort_key fst stage))" using assms(3) by (simp add: distinct_map)
  then have "distinct (map fst ?kept)" by (rule distinct_map_filter)
  moreover have "inj_on as_posix (set (map fst ?kept))" using as_posix_inject assms(4) kept by (intro inj_onI) auto
  ultimately have "distinct (map mb_name ?ms)" unfolding names distinct_map [of as_posix] by blast
  moreover have "RECORD_name version \<notin> set (map mb_name ?ms)" unfolding names by auto
  ultimately have "distinct (map mb_name members)" by (simp add: m zip_info_def)
  moreover have "utf8_decode data = Inr (concat (map (csv_row (h_quotes_cr h)) ?rows))"
    using data by (intro utf8_decode_encode) (simp add: utf8_def split: sum.splits)
  moreover have "\<forall>x\<in>set ?rows. clean_row (h_quotes_cr h) x"
    using assms(4) kept RECORD_name_plain [OF assms(2)] record_digest_characters digits_characters
    by (fastforce simp: record_row_def zip_info_def clean_row_def)
  then have "read_rows (concat (map (csv_row (h_quotes_cr h)) ?rows)) = Some ?rows" by (rule read_rows_written)
  ultimately show ?thesis by (auto simp: m zip_info_def)
qed

lemma csv_row_ascii: "is_ascii a \<Longrightarrow> is_ascii b \<Longrightarrow> is_ascii c \<Longrightarrow> is_ascii (csv_row q (a, b, c))"
  by (auto simp: csv_row_def csv_field_def replace_cp_def is_ascii_def split: if_splits)

lemma build_archive_ascii:
  assumes "\<forall>p\<in>fst ` set stage. is_ascii (as_posix p)" and "is_ascii version"
  shows "\<exists>ms. build_archive E h version stage = Inr ms"
proof -
  let ?ms = "map (\<lambda>(p, f). zip_info (as_posix p) (df_mode f mod 512) (df_content f)) (filter (\<lambda>(p, _). as_posix p \<noteq> RECORD_name version) (sort_key fst stage))"
  have n: "is_ascii (RECORD_name version)" using assms(2) by (simp add: RECORD_name_def DIST_INFO_def NAME_def is_ascii_lit)
  have d: "is_ascii (record_digest E s)" for s using record_digest_characters by (auto simp: is_ascii_def)
  have "is_ascii (csv_row (h_quotes_cr h) (record_row E m))" if "m \<in> set ?ms" for m
    using that assms(1) d by (auto simp: record_row_def zip_info_def intro!: csv_row_ascii)
  then have "is_ascii (concat (map (csv_row (h_quotes_cr h)) (map (record_row E) ?ms @ [(RECORD_name version, [], [])])))"
    using n csv_row_ascii [OF n, of "[]" "[]"] by auto
  from utf8_is_ascii [OF this] show ?thesis by (simp only: build_archive_def Let_def rbind_simps) simp
qed

definition plain_file :: "pybytes \<Rightarrow> disk_file" where
  "plain_file content = \<lparr>df_mode = 420, df_content = content\<rparr>"

definition sample_kernel_receipt :: json where
  "sample_kernel_receipt = JObj [(lit ''schema_version'', JInt 1), (lit ''kind'', JStr (lit ''postgamma.static-library-build'')),
     (lit ''status'', JStr (lit ''pass'')), (lit ''linkage'', JStr (lit ''static'')), (lit ''version'', JStr (lit ''1.4'')),
     (lit ''output_sha256'', JStr (replicate 64 48)), (lit ''output_size'', JInt 1), (lit ''public_symbol_count'', JInt 76),
     (lit ''consumer_link_options'', JArr [JStr (lit ''-pthread''), JStr (lit ''-lm'')]),
     (lit ''determinism'', JObj [(lit ''build_count'', JInt 2), (lit ''identical'', JBool True)])]"

text \<open>A machine with the files a build needs.\<close>

definition sample_host :: host where
  "sample_host = \<lparr>h_implementation = lit ''cpython'', h_major = 3, h_minor = 12, h_abiflags = [], h_platform = lit ''linux-x86_64'',
     h_sys_version = lit ''3.12.1'', h_environ = (\<lambda>k. if k = ''CFLAGS'' then Some (lit ''-g'') else None),
     h_config = (\<lambda>k. if k = ''CC'' then Some (lit ''gcc -pipe'') else Some (lit ''.so'')), h_here = [lit ''r'', lit ''python''],
     h_disk = map (\<lambda>(p, s). (map lit p, plain_file s))
       ([([''r'', ''VERSION''], lit ''1.0.0'' @ [10]), ([''r'', ''python'', ''README.md''], lit ''readme''),
         ([''r'', ''python'', ''src'', ''postgamma'', ''_api.py''], lit ''pass''),
         ([''.so'', ''Python.h''], []), ([''r'', ''embedded-c'', ''include'', ''postgamma'', ''postgamma.h''], []),
         ([''r'', ''build'', ''embedded-release'', ''resource-pack'', ''bin'', ''postgres''], [127]),
         ([''r'', ''build'', ''embedded-release'', ''resource-pack'', ''share'', ''postgres.bki''], [])] @
        map (\<lambda>n. ([''r'', n], [])) [''LICENSE'', ''NOTICE'', ''THIRD_PARTY_NOTICES''] @
        map (\<lambda>n. ([''r'', ''licenses'', n], [])) [''LICENSE.postgresql'', ''LICENSE.pgvector''] @
        map (\<lambda>(p, s). ([''r'', ''build'', ''python-product'', ''kernel-build'', ''embedded-kernel''] @ p, s))
          [([''lib'', ''libpostgamma_python_abi1.a''], [1]), ([''lib'', ''postgamma-static-libs.txt''], lit ''-pthread -lm'' @ [10]),
           ([''reports'', ''static-library-link.json''], [])]),
     h_path = (\<lambda>s. [s]), h_expanduser = (\<lambda>p. p), h_resolve = Some, h_json = (\<lambda>_. Some sample_kernel_receipt), h_new_mode = 420,
     h_compiler = (\<lambda>_. (0, [], [], Some (plain_file [127, 69]))), h_zip = (\<lambda>ms. [80, 75]), h_quotes_cr = False\<rparr>"

theorem record_lists_members_witness:
  "\<exists>members. build_archive receipt_env sample_host (lit ''1.0.0'') [([lit ''b,c''], \<lparr>df_mode = 420, df_content = [7]\<rparr>)] = Inr members \<and>
     map mb_name members = [lit ''b,c'', RECORD_name (lit ''1.0.0'')] \<and>
     (\<exists>text digest. utf8_decode (mb_content (last members)) = Inr text \<and>
        read_rows text = Some [(lit ''b,c'', digest, lit ''1''), (RECORD_name (lit ''1.0.0''), [], [])])"
proof -
  let ?stage = "[([lit ''b,c''], \<lparr>df_mode = 420, df_content = [7]\<rparr>)]"
  have n: "as_posix [lit ''b,c''] = lit ''b,c''" "lit ''b,c'' \<noteq> RECORD_name (lit ''1.0.0'')"
    by (simp add: as_posix_def) (simp add: RECORD_name_def DIST_INFO_def NAME_def lit_def)
  have d: "digits_of (Suc 0) = lit ''1''" by (simp add: digits_of.simps lit_def)
  obtain members where m: "build_archive receipt_env sample_host (lit ''1.0.0'') ?stage = Inr members"
    using build_archive_ascii [of ?stage "lit ''1.0.0''"] n by (auto simp: is_ascii_lit)
  have g: "version_groups (lit ''1.0.0'') \<noteq> None" by (simp add: version_groups_def number_front_def suffix_groups_def ascii_digit_def lit_def Let_def)
  have p: "\<forall>p\<in>fst ` set ?stage. proper_path p \<and> (13 \<notin> set (as_posix p) \<or> h_quotes_cr sample_host)"
    by (simp add: proper_path_def as_posix_def lit_def)
  have b: "butlast members = [zip_info (lit ''b,c'') 420 [7]]" "map mb_name members = [lit ''b,c'', RECORD_name (lit ''1.0.0'')]"
    using m n by (auto simp: build_archive_def Let_def rbind_eq_Inr zip_info_def)
  have "record_row receipt_env (zip_info (lit ''b,c'') 420 [7]) = (lit ''b,c'', record_digest receipt_env [7], lit ''1'')"
    by (simp add: record_row_def zip_info_def d)
  with record_lists_members [OF m g _ p] b m show ?thesis by auto
qed

section \<open>Receipts of built wheels\<close>

lemma static_kernel_Inr:
  assumes "static_kernel E h = Inr (library, options, digest)"
  shows "options \<noteq> [] \<and> list_all static_link_option options \<and> (\<exists>f. map_of (h_disk h) library = Some f \<and> digest = sha256 E (df_content f))"
  using assms by (auto simp: static_kernel_def rbind_eq_Inr file_required_def Let_def split: if_splits option.splits sum.splits)

lemma update_same: "map_of d k = Some v \<Longrightarrow> AList.update k v d = d"
  by (induction d) auto

lemma build_receipt_Inr:
  assumes "build_receipt E w a = Inr d" and "sort (ra_license_files a) = ra_license_files a"
  shows "validate_receipt E (JObj d) = Inr () \<and> (\<forall>(k, v)\<in>set (artifact_fields E w @ [(lit ''name'', JStr (ra_name a)), (lit ''version'', JStr (ra_version a)),
        (lit ''tags'', JArr (map JStr (ra_tags a))), (lit ''kernel_archive_sha256'', JStr (ra_kernel_archive_sha256 a)),
        (lit ''metadata_version'', JStr (ra_metadata_version a)), (lit ''requires_python'', JStr (ra_requires_python a)),
        (lit ''project_url'', JStr (ra_project_url a)), (lit ''license_files'', JArr (map JStr (ra_license_files a)))]). map_of d k = Some v)"
proof -
  let ?d = "FIXED_FIELDS @ artifact_fields E w @ [(lit ''name'', JStr (ra_name a)), (lit ''version'', JStr (ra_version a)),
        (lit ''tags'', JArr (map JStr (ra_tags a))), (lit ''platform_policy'', JStr (ra_platform_policy a)),
        (lit ''kernel_archive_sha256'', JStr (ra_kernel_archive_sha256 a)), (lit ''python'', JStr (ra_python a)),
        (lit ''metadata_version'', JStr (ra_metadata_version a)), (lit ''requires_python'', JStr (ra_requires_python a)),
        (lit ''project_url'', JStr (ra_project_url a)), (lit ''license_files'', JArr (map JStr (ra_license_files a)))]"
  have "map_of ?d (lit ''license_files'') = Some (JArr (map JStr (ra_license_files a)))" by (simp add: FIXED_FIELDS_def artifact_fields_def)
  from update_same [OF this] assms have d: "d = ?d" "validate_receipt E (JObj ?d) = Inr ()"
    by (auto simp: build_receipt_def Let_def rbind_eq_Inr)
  show ?thesis using d(2) unfolding d(1) by (simp add: FIXED_FIELDS_def artifact_fields_def)
qed

text \<open>
  C19: A built wheel comes with a receipt a release accepts. The receipt names the wheel with the digest of its bytes, the version of the file \<^verbatim>\<open>VERSION\<close>
  and the digest of the kernel archive that was linked, whose link options are only \<^verbatim>\<open>-pthread\<close> and libraries; and it passes
  the release check against every baseline with the name, version, metadata, Python requirement, project page and licenses of the backend.
\<close>

theorem built_wheel_accepted:
  assumes "build_main E h stage_dir = Inr (w, receipt)" and "VERSION h = Inr version"
    and "jitem baseline ''release'' = Inr release" and "jsub release ''name'' = Inr (JStr NAME)" and "jsub release ''version'' = Inr (JStr version)"
    and "jitem baseline ''wheel'' = Inr wheel" and "jsub wheel ''metadata_version'' = Inr (JStr METADATA_VERSION)"
    and "jitem baseline ''python'' = Inr python" and "jsub python ''requires_python'' = Inr (JStr REQUIRES_PYTHON)"
    and "jsub wheel ''project_urls'' = Inr urls" and "jsub urls ''Homepage'' = Inr (JStr PROJECT_URL)"
    and "release_license_files baseline = Inr licenses" and "sort licenses = receipt_license_files"
  shows "validate_release_receipt E (JObj receipt) baseline = Inr () \<and>
    map_of receipt (lit ''filename'') = Some (JStr (wh_name w)) \<and> map_of receipt (lit ''sha256'') = Some (JStr (sha256 E (wh_content w))) \<and>
    (\<exists>library options f. static_kernel E h = Inr (library, options, sha256 E (df_content f)) \<and> map_of (h_disk h) library = Some f \<and>
       list_all static_link_option options \<and> map_of receipt (lit ''kernel_archive_sha256'') = Some (JStr (sha256 E (df_content f))))"
proof -
  from assms(1,2) obtain library options digest tag p where k: "static_kernel E h = Inr (library, options, digest)"
    and r: "build_receipt E w \<lparr>ra_name = NAME, ra_version = version, ra_tags = [tag], ra_platform_policy = lit ''linux_native'',
       ra_kernel_archive_sha256 = digest, ra_python = p, ra_metadata_version = METADATA_VERSION,
       ra_requires_python = REQUIRES_PYTHON, ra_project_url = PROJECT_URL, ra_license_files = receipt_license_files\<rparr> = Inr receipt"
    by (auto simp: build_main_def rbind_eq_Inr)
  have s: "sort receipt_license_files = receipt_license_files" by (simp add: receipt_license_files_def sorted_sort_id)
  note fields = build_receipt_Inr [OF r, simplified, OF s]
  have f: "jget receipt ''name'' = JStr NAME" "jget receipt ''version'' = JStr version" "jget receipt ''metadata_version'' = JStr METADATA_VERSION"
    "jget receipt ''requires_python'' = JStr REQUIRES_PYTHON" "jget receipt ''project_url'' = JStr PROJECT_URL"
    "jget receipt ''license_files'' = JArr (map JStr receipt_license_files)"
    using fields by (simp_all add: jget_def jget_or_def)
  have j: "jeq (JArr (map JStr xs)) (JArr (map JStr xs))" for xs by (simp add: list_all2_map1 list_all2_map2 list.rel_eq list_all2_refl)
  have "validate_release_receipt E (JObj receipt) baseline = Inr ()"
    using fields assms(3-13) f j by (simp add: validate_release_receipt_def)
  then show ?thesis using fields k static_kernel_Inr [OF k] by (auto simp: artifact_fields_def)
qed

lemma lit_append: "lit a @ lit b = lit (a @ b)"
  by (simp add: lit_def)

lemma metadata_headers_ascii:
  assumes "is_ascii version"
  shows "\<forall>s\<in>set (metadata_headers version). is_ascii s"
proof -
  have "is_ascii (lit (development_status version))" unfolding development_status_def by (intro is_ascii_lit) simp
  with assms show ?thesis
    by (simp add: metadata_headers_def METADATA_VERSION_def NAME_def REQUIRES_PYTHON_def PROJECT_URL_def LICENSE_SOURCES_def is_ascii_lit)
qed

lemma universal_newlines_plain: "13 \<notin> set s \<Longrightarrow> universal_newlines s = s"
  by (induction s rule: universal_newlines.induct) auto

lemma text_of_ascii: "\<forall>c\<in>set s. c < 128 \<and> c \<noteq> 13 \<Longrightarrow> text_of s = Inr s"
proof -
  assume a: "\<forall>c\<in>set s. c < 128 \<and> c \<noteq> 13"
  then have "utf8_decode s = Inr s" by (intro utf8_decode_encode utf8_encode_ascii) auto
  then show "text_of s = Inr s" using a by (auto simp: text_of_def intro: universal_newlines_plain)
qed

lemma sample_host_version: "VERSION sample_host = Inr (lit ''1.0.0'')"
  by (simp add: VERSION_def sample_host_def ROOT_def read_file_def plain_file_def distribution_version_def ascii_decode_def)
     (simp add: lit_def version_groups_def number_front_def suffix_groups_def ascii_digit_def Let_def)

lemma sample_tag: "wheel_tag sample_host = Inr (lit ''cp312-cp312-linux_x86_64'')"
  by (simp add: wheel_tag_def python_tag_def platform_tag_def sample_host_def replace_cp_def digits_of.simps Let_def) (simp add: lit_def)

lemma sample_kernel: "\<exists>library. static_kernel receipt_env sample_host = Inr (library, [lit ''-pthread'', lit ''-lm''], replicate 64 48)"
proof -
  have o: "rbind (text_of (lit ''-pthread -lm'' @ [10])) shlex_split = Inr [lit ''-pthread'', lit ''-lm'']"
    by (subst text_of_ascii) (simp_all add: lit_def shlex_split_def)
  have s: "list_all static_link_option [lit ''-pthread'', lit ''-lm'']"
    by (simp add: static_link_option_def) (simp add: lit_def option_char_def ascii_alpha_def)
  have r: "kernel_receipt_ok sample_kernel_receipt (replicate 64 48) (Suc 0) [lit ''-pthread'', lit ''-lm'']"
    by (simp add: kernel_receipt_ok_def sample_kernel_receipt_def jget_def jget_or_def)
  have h: "h_json sample_host = (\<lambda>_. Some sample_kernel_receipt)" by (simp add: sample_host_def)
  have e: "text_of [] = Inr []" by (simp add: text_of_ascii)
  show ?thesis
    using o s r e
    by (simp add: static_kernel_def h project_path_def file_required_def kernel_lib_def ROOT_def Let_def receipt_env_def)
       (simp add: sample_host_def plain_file_def)
qed

lemma sample_staged: "\<exists>stage. stage_wheel receipt_env sample_host dir (lit ''1.0.0'') = Inr stage \<and> (\<forall>p\<in>fst ` set stage. is_ascii (as_posix p))"
proof -
  obtain library where k: "static_kernel receipt_env sample_host = Inr (library, [lit ''-pthread'', lit ''-lm''], replicate 64 48)" using sample_kernel by blast
  let ?s1 = "[([NAME, lit ''_api.py''], plain_file (lit ''pass''))]"
  let ?res = "[([NAME, lit ''_resources'', lit ''bin'', lit ''postgres''], plain_file [127]), ([NAME, lit ''_resources'', lit ''share'', lit ''postgres.bki''], plain_file []),
      ([NAME, lit ''_resources'', lit ''lib'', lit ''postgamma-static-kernel.json''], plain_file MARKER_TEXT)]"
  have "\<not> left_out [lit ''_api.py'']" by (simp add: left_out_def lit_def)
  then have s1: "copy_python_sources sample_host [NAME] [] = Inr ?s1"
    by (simp add: copy_python_sources_def below_def PACKAGE_SOURCE_def) (simp add: sample_host_def)
  have "utf8 MARKER_TEXT = Inr MARKER_TEXT" by (rule utf8_ascii) (simp add: MARKER_TEXT_def lit_def)
  then have s2: "copy_runtime sample_host [NAME] ?s1 = Inr (?s1 @ ?res)"
    by (simp add: copy_runtime_def project_path_def ROOT_def below_def write_bytes_def Let_def sample_host_def NAME_def plain_file_def)
  have "shlex_split (lit ''-g'') = Inr [lit ''-g'']" "shlex_split (lit ''gcc -pipe'') = Inr [lit ''gcc'', lit ''-pipe'']"
    by (simp_all add: shlex_split_def lit_def)
  moreover have t: "text_or (Some (lit ''.so'')) x = lit ''.so''" "lit ''.so'' \<noteq> []" "text_or (Some (lit ''gcc -pipe'')) x = lit ''gcc -pipe''" "text_or None x = x" for x
    by (simp_all add: text_or_def lit_def)
  ultimately have s3: "compile_extension receipt_env sample_host dir [NAME] library [lit ''-pthread'', lit ''-lm''] (?s1 @ ?res) =
      Inr (?s1 @ ?res @ [([NAME, lit ''_native'' @ lit ''.so''], plain_file [127, 69])])"
    by (simp add: compile_extension_def ROOT_def Let_def sample_host_def NAME_def plain_file_def lit_append)
  let ?m = "join [10] (metadata_headers (lit ''1.0.0'')) @ [10, 10] @ lit ''readme''"
  have "text_of (lit ''readme'') = Inr (lit ''readme'')" by (rule text_of_ascii) (simp add: lit_def)
  moreover have "utf8 ?m = Inr ?m"
    using metadata_headers_ascii [of "lit ''1.0.0''"] by (intro utf8_is_ascii) (simp add: is_ascii_lit is_ascii_join)
  ultimately have m: "metadata sample_host (lit ''1.0.0'') = Inr ?m"
    by (simp add: metadata_def read_file_def) (simp add: sample_host_def plain_file_def)
  have w: "\<exists>w. wheel_metadata sample_host = Inr w"
    unfolding wheel_metadata_def sample_tag rbind_simps by (subst utf8_ascii) (simp_all add: lit_def)
  then obtain w where w: "wheel_metadata sample_host = Inr w" by blast
  have top: "utf8 (NAME @ [10]) = Inr (NAME @ [10])" by (rule utf8_ascii) (simp add: NAME_def lit_def)
  have di: "DIST_INFO (lit ''1.0.0'') = lit ''postgamma-1.0.0.dist-info''" by (simp add: DIST_INFO_def NAME_def lit_def)
  have "\<exists>stage. stage_metadata sample_host (lit ''1.0.0'') [DIST_INFO (lit ''1.0.0'')] (?s1 @ ?res @ [([NAME, lit ''_native'' @ lit ''.so''], plain_file [127, 69])]) = Inr stage \<and>
      fst ` set stage \<subseteq> map lit ` set ([[''postgamma'', ''_api.py''], [''postgamma'', ''_resources'', ''bin'', ''postgres''], [''postgamma'', ''_resources'', ''share'', ''postgres.bki''],
        [''postgamma'', ''_resources'', ''lib'', ''postgamma-static-kernel.json''], [''postgamma'', ''_native.so'']] @
        map ((@) [''postgamma-1.0.0.dist-info'']) [[''METADATA''], [''WHEEL''], [''top_level.txt''], [''licenses'', ''LICENSE''], [''licenses'', ''NOTICE''],
          [''licenses'', ''THIRD_PARTY_NOTICES''], [''licenses'', ''LICENSE.postgresql''], [''licenses'', ''LICENSE.pgvector'']])"
    using m w top
    by (simp add: stage_metadata_def LICENSE_SOURCES_def copy_license_def di read_file_def write_bytes_def NAME_def lit_append ROOT_def)
       (simp add: sample_host_def)
  then obtain stage where st: "stage_metadata sample_host (lit ''1.0.0'') [DIST_INFO (lit ''1.0.0'')] (?s1 @ ?res @ [([NAME, lit ''_native'' @ lit ''.so''], plain_file [127, 69])]) = Inr stage"
    "fst ` set stage \<subseteq> map lit ` set ([[''postgamma'', ''_api.py''], [''postgamma'', ''_resources'', ''bin'', ''postgres''], [''postgamma'', ''_resources'', ''share'', ''postgres.bki''],
        [''postgamma'', ''_resources'', ''lib'', ''postgamma-static-kernel.json''], [''postgamma'', ''_native.so'']] @
        map ((@) [''postgamma-1.0.0.dist-info'']) [[''METADATA''], [''WHEEL''], [''top_level.txt''], [''licenses'', ''LICENSE''], [''licenses'', ''NOTICE''],
          [''licenses'', ''THIRD_PARTY_NOTICES''], [''licenses'', ''LICENSE.postgresql''], [''licenses'', ''LICENSE.pgvector'']])" (is "_ \<subseteq> ?names")
    by blast
  have "\<forall>p\<in>?names. is_ascii (as_posix p)" by (simp add: as_posix_def is_ascii_lit)
  then have "\<forall>p\<in>fst ` set stage. is_ascii (as_posix p)" using st(2) by blast
  moreover have "stage_wheel receipt_env sample_host dir (lit ''1.0.0'') = Inr stage"
    unfolding stage_wheel_def s1 k rbind_simps prod.case s2 s3 using st(1) by simp
  ultimately show ?thesis by blast
qed

lemma strip_Nil: "strip ws s = [] \<longleftrightarrow> (\<forall>c\<in>set s. ws c)"
proof -
  have "(\<forall>c\<in>set (dropWhile ws s). ws c) \<longleftrightarrow> (\<forall>c\<in>set s. ws c)" by (induction s) auto
  then show ?thesis by (simp add: strip_def rstrip_def lstrip_def)
qed

lemma is_text_lit: "s \<noteq> [] \<Longrightarrow> 32 < (of_char (hd s) :: nat) \<Longrightarrow> (of_char (hd s) :: nat) < 128 \<Longrightarrow> is_text receipt_env (JStr (lit s))"
  by (cases s) (auto simp: is_text_def receipt_env_def strip_Nil lit_def latin1_def ascii_space_def)

lemma sample_wheel:
  "build_wheel receipt_env sample_host dir = Inr \<lparr>wh_name = lit ''postgamma-1.0.0-cp312-cp312-linux_x86_64.whl'', wh_content = [80, 75]\<rparr>"
proof -
  obtain stage where st: "stage_wheel receipt_env sample_host dir (lit ''1.0.0'') = Inr stage" "\<forall>p\<in>fst ` set stage. is_ascii (as_posix p)"
    using sample_staged by blast
  obtain ms where "build_archive receipt_env sample_host (lit ''1.0.0'') stage = Inr ms"
    using build_archive_ascii [OF st(2), of "lit ''1.0.0''"] by (auto simp: is_ascii_lit)
  then show ?thesis unfolding build_wheel_def sample_host_version sample_tag rbind_simps st(1) by (simp add: NAME_def lit_append) (simp add: sample_host_def)
qed

lemma sample_receipt_valid: "\<exists>receipt. build_main receipt_env sample_host dir = Inr (\<lparr>wh_name = lit ''postgamma-1.0.0-cp312-cp312-linux_x86_64.whl'', wh_content = [80, 75]\<rparr>, receipt)"
proof -
  obtain library where k: "static_kernel receipt_env sample_host = Inr (library, [lit ''-pthread'', lit ''-lm''], replicate 64 48)" using sample_kernel by blast
  have "split_ws (isspace (b_uni receipt_env)) (h_sys_version sample_host) = [lit ''3.12.1'']"
    by (subst split_ws.simps, simp add: sample_host_def receipt_env_def latin1_def ascii_space_def lit_def, subst split_ws.simps, simp)
  moreover have t: "is_text receipt_env (JStr (lit s))" if "s \<in> {''postgamma'', ''1.0.0'', ''postgamma-1.0.0-cp312-cp312-linux_x86_64.whl'', ''linux_native'', ''3.12.1'', ''2.4'', ''>=3.10'',
      ''https://postgamma.com'', ''cp312-cp312-linux_x86_64'', ''LICENSE'', ''NOTICE'', ''THIRD_PARTY_NOTICES'', ''LICENSE.postgresql'', ''LICENSE.pgvector''}" for s
    using that by (elim insertE emptyE) (simp_all add: is_text_lit)
  have d: "is_digest (JStr (replicate 64 48))" "is_text receipt_env (JStr (replicate 64 48))"
    by (simp_all add: ascii_digit_def list_all_iff is_text_def receipt_env_def strip_Nil latin1_def ascii_space_def)
  have set: "set receipt_license_files = set (map fst LICENSE_SOURCES)" by (simp add: receipt_license_files_def)
  have "distinct receipt_license_files" unfolding receipt_license_files_def distinct_sort by (simp add: LICENSE_SOURCES_def)
  then have "distinct (map JStr receipt_license_files)" by (simp add: distinct_map inj_on_def)
  moreover have "set receipt_license_files \<noteq> {}" unfolding set by (simp add: LICENSE_SOURCES_def)
  then have "receipt_license_files \<noteq> []" by (simp only: set_empty simp_thms)
  moreover have "\<forall>s\<in>set (map fst LICENSE_SOURCES). is_text receipt_env (JStr s)" using t by (simp add: LICENSE_SOURCES_def)
  then have "list_all (is_text receipt_env) (map JStr receipt_license_files)" unfolding list_all_iff set [symmetric] by (simp only: set_map ball_simps)
  ultimately show ?thesis
    unfolding build_main_def sample_wheel k sample_host_version sample_tag rbind_simps prod.case
    using t d
    by (simp add: build_receipt_def Let_def validate_receipt_def receipt_fields_def FIXED_FIELDS_def TEXT_FIELDS_def LIST_FIELDS_def artifact_fields_def check_fields_def
      jget_def jget_or_def is_names_def NAME_def METADATA_VERSION_def REQUIRES_PYTHON_def PROJECT_URL_def) (simp add: receipt_env_def)
qed

definition sample_baseline :: obj where
  "sample_baseline = [(lit ''release'', JObj [(lit ''name'', JStr NAME), (lit ''version'', JStr (lit ''1.0.0''))]),
     (lit ''wheel'', JObj [(lit ''metadata_version'', JStr METADATA_VERSION), (lit ''project_urls'', JObj [(lit ''Homepage'', JStr PROJECT_URL)]),
        (lit ''project_license'', JObj [(lit ''LICENSE'', JNull), (lit ''NOTICE'', JNull), (lit ''THIRD_PARTY_NOTICES'', JNull)]),
        (lit ''third_party_licenses'', JObj [(lit ''LICENSE.postgresql'', JNull), (lit ''LICENSE.pgvector'', JNull)])]),
     (lit ''python'', JObj [(lit ''requires_python'', JStr REQUIRES_PYTHON)])]"

theorem built_wheel_accepted_witness:
  "\<exists>w receipt. build_main receipt_env sample_host [lit ''tmp''] = Inr (w, receipt) \<and>
     validate_release_receipt receipt_env (JObj receipt) sample_baseline = Inr ()"
proof -
  obtain w receipt where r: "build_main receipt_env sample_host [lit ''tmp''] = Inr (w, receipt)" using sample_receipt_valid by blast
  have l: "release_license_files sample_baseline = Inr (map fst LICENSE_SOURCES)"
    by (simp add: release_license_files_def sample_baseline_def jitem_def dict_merge_def LICENSE_SOURCES_def)
  from built_wheel_accepted [OF r sample_host_version _ _ _ _ _ _ _ _ _ l] r show ?thesis
    by (simp add: sample_baseline_def jitem_def receipt_license_files_def)
qed

end
