(* ===== verification/Dbapi.thy ===== *)
theory Dbapi
  imports Results
begin

text \<open>
  The constructors PEP 249 requires, \<^verbatim>\<open>_dbapi.py\<close>. The argument \<open>localtime\<close> is \<^verbatim>\<open>time.localtime\<close>: the fields of the local time, or
  the exception for a number of seconds the platform cannot convert.
\<close>

definition leap_year :: "int \<Rightarrow> bool" where
  "leap_year y \<longleftrightarrow> 4 dvd y \<and> (\<not> 100 dvd y \<or> 400 dvd y)"

definition days_in_month :: "int \<Rightarrow> int \<Rightarrow> int" where
  "days_in_month y m = (if m = 2 then (if leap_year y then 29 else 28) else if m \<in> {4, 6, 9, 11} then 30 else 31)"

text \<open>\<^verbatim>\<open>datetime.date(year, month, day)\<close> and \<^verbatim>\<open>datetime.time(hour, minute, second)\<close>\<close>

definition date_new :: "int \<Rightarrow> int \<Rightarrow> int \<Rightarrow> pydate res" where
  "date_new year month day =
     (if year < 1 \<or> 9999 < year then Inl (ValueErr (lit ''year is out of range''))
      else if month < 1 \<or> 12 < month then Inl (ValueErr (lit ''month must be in 1..12''))
      else if day < 1 \<or> days_in_month year month < day then Inl (ValueErr (lit ''day is out of range for month''))
      else Inr \<lparr>dt_year = nat year, dt_month = nat month, dt_day = nat day\<rparr>)"

definition time_new :: "int \<Rightarrow> int \<Rightarrow> int \<Rightarrow> pytime res" where
  "time_new hour minute second =
     (if hour < 0 \<or> 23 < hour then Inl (ValueErr (lit ''hour must be in 0..23''))
      else if minute < 0 \<or> 59 < minute then Inl (ValueErr (lit ''minute must be in 0..59''))
      else if second < 0 \<or> 59 < second then Inl (ValueErr (lit ''second must be in 0..59''))
      else Inr \<lparr>tm_hour = nat hour, tm_minute = nat minute, tm_second = nat second, tm_microsecond = 0, tm_offset = None\<rparr>)"

definition Date :: "int \<Rightarrow> int \<Rightarrow> int \<Rightarrow> pyval res" where
  "Date year month day = rbind (date_new year month day) (\<lambda>d. Inr (PDate d))"

definition Time :: "int \<Rightarrow> int \<Rightarrow> int \<Rightarrow> pyval res" where
  "Time hour minute second = rbind (time_new hour minute second) (\<lambda>t. Inr (PTime t))"

definition Timestamp :: "int \<Rightarrow> int \<Rightarrow> int \<Rightarrow> int \<Rightarrow> int \<Rightarrow> int \<Rightarrow> pyval res" where
  "Timestamp year month day hour minute second =
     rbind (date_new year month day) (\<lambda>d. rbind (time_new hour minute second) (\<lambda>t. Inr (PDateTime d t)))"

record struct_time =
  st_year :: int
  st_mon :: int
  st_mday :: int
  st_hour :: int
  st_min :: int
  st_sec :: int

definition DateFromTicks :: "(pyval \<Rightarrow> struct_time res) \<Rightarrow> pyval \<Rightarrow> pyval res" where
  "DateFromTicks localtime ticks = rbind (localtime ticks) (\<lambda>s. Date (st_year s) (st_mon s) (st_mday s))"

definition TimeFromTicks :: "(pyval \<Rightarrow> struct_time res) \<Rightarrow> pyval \<Rightarrow> pyval res" where
  "TimeFromTicks localtime ticks = rbind (localtime ticks) (\<lambda>s. Time (st_hour s) (st_min s) (st_sec s))"

definition TimestampFromTicks :: "(pyval \<Rightarrow> struct_time res) \<Rightarrow> pyval \<Rightarrow> pyval res" where
  "TimestampFromTicks localtime ticks = rbind (localtime ticks) (\<lambda>s.
     Timestamp (st_year s) (st_mon s) (st_mday s) (st_hour s) (st_min s) (st_sec s))"

text \<open>\<^verbatim>\<open>bytes(value)\<close>: an integer is a number of zero bytes, other values are iterated.\<close>

fun byte_of :: "pyval \<Rightarrow> nat res" where
  "byte_of (PInt i) = (if 0 \<le> i \<and> i < 256 then Inr (nat i) else Inl (ValueErr (lit ''bytes must be in range(0, 256)'')))"
| "byte_of (PBool b) = Inr (of_bool b)"
| "byte_of _ = Inl (TypeErr (lit ''object cannot be interpreted as an integer''))"

fun bytes_of :: "pyval list \<Rightarrow> pybytes res" where
  "bytes_of [] = Inr []"
| "bytes_of (v # vs) = rbind (byte_of v) (\<lambda>b. rbind (bytes_of vs) (\<lambda>bs. Inr (b # bs)))"

definition Binary :: "pyval \<Rightarrow> pyval res" where
  "Binary v =
     (case v of
        PBytes bs \<Rightarrow> Inr (PBytes bs)
      | PByteArray bs \<Rightarrow> Inr (PBytes bs)
      | PMemoryView bs \<Rightarrow> Inr (PBytes bs)
      | PStr _ \<Rightarrow> Inl (TypeErr (lit ''string argument without an encoding''))
      | PInt i \<Rightarrow> if i < 0 then Inl (ValueErr (lit ''negative count'')) else Inr (PBytes (replicate (nat i) 0))
      | PBool b \<Rightarrow> Inr (PBytes (replicate (of_bool b) 0))
      | _ \<Rightarrow> rbind (iter_values v) (\<lambda>vs. rbind (bytes_of vs) (\<lambda>bs. Inr (PBytes bs))))"

lemma days_in_month_bound: "days_in_month y m \<le> 31"
  by (simp add: days_in_month_def)

lemma date_text:
  assumes "date_new y m d = Inr x"
  shows "length (date_isoformat x) = 10 \<and> nat_of_digits 10 (take 4 (date_isoformat x)) = nat y \<and>
    nat_of_digits 10 (take 2 (drop 5 (date_isoformat x))) = nat m \<and> nat_of_digits 10 (drop 8 (date_isoformat x)) = nat d"
proof -
  have x: "x = \<lparr>dt_year = nat y, dt_month = nat m, dt_day = nat d\<rparr>" and b: "nat y < 10 ^ 4" "nat m < 10 ^ 2" "nat d < 10 ^ 2"
    using assms days_in_month_bound [of y m] by (auto simp: date_new_def split: if_splits)
  show ?thesis using zfill_props [OF _ b(1)] zfill_props [OF _ b(2)] zfill_props [OF _ b(3)] by (simp add: x date_isoformat_def)
qed

lemma time_text:
  assumes "time_new h m s = Inr x"
  shows "length (time_isoformat x) = 8 \<and> nat_of_digits 10 (take 2 (time_isoformat x)) = nat h \<and>
    nat_of_digits 10 (take 2 (drop 3 (time_isoformat x))) = nat m \<and> nat_of_digits 10 (drop 6 (time_isoformat x)) = nat s"
proof -
  have x: "x = \<lparr>tm_hour = nat h, tm_minute = nat m, tm_second = nat s, tm_microsecond = 0, tm_offset = None\<rparr>"
    and b: "nat h < 10 ^ 2" "nat m < 10 ^ 2" "nat s < 10 ^ 2"
    using assms by (auto simp: time_new_def split: if_splits)
  show ?thesis using zfill_props [OF _ b(1)] zfill_props [OF _ b(2)] zfill_props [OF _ b(3)] by (simp add: x time_isoformat_def)
qed

text \<open>
  A timestamp of PEP 249 is sent as text with a fixed place for each of its fields, from which they can be read back.
\<close>

lemma timestamp_text:
  assumes "Timestamp y mo d h mi s = Inr v"
  shows "\<exists>x t. v = PDateTime x t \<and> tm_offset t = None \<and> length (datetime_isoformat 32 x t) = 19 \<and>
    map (\<lambda>(i, n). nat_of_digits 10 (take n (drop i (datetime_isoformat 32 x t)))) [(0, 4), (5, 2), (8, 2), (11, 2), (14, 2), (17, 2)] =
    map nat [y, mo, d, h, mi, s]"
proof -
  obtain x t where x: "date_new y mo d = Inr x" "time_new h mi s = Inr t" "v = PDateTime x t"
    using assms by (auto simp: Timestamp_def rbind_eq_Inr)
  have "tm_offset t = None" using x(2) by (auto simp: time_new_def split: if_splits)
  then show ?thesis using date_text [OF x(1)] time_text [OF x(2)] x(3)
    by (simp add: datetime_isoformat_def)
qed

end
