(* ===== verification/Reconcile.thy ===== *)
theory Reconcile
  imports Replacements State_Layout
begin

text \<open>
  Sources that the backend and the frontend tools share: \<^verbatim>\<open>buildsys/reconcile_context_state_plans.py\<close>. Each of the two has a plan that
  replaces the uses of its own state; a use that both replace is given an access that finds the state of the context it runs in.
\<close>

text \<open>The place of a replacement: the path of the file, the offset and the length.\<close>

type_synonym place = "pystr \<times> int \<times> int"
type_synonym placed_edits = "(place \<times> obj) list"

definition load_state_plan :: "plan_input \<Rightarrow> string \<Rightarrow> obj bres" where
  "load_state_plan p expected_kind =
     (case pi_document p of
        JObj d \<Rightarrow>
          (case jget d ''files'' of
             JArr _ \<Rightarrow>
               if jeq (jget d ''schema_version'') (JInt 1) \<and> jget d ''mode'' = JStr (lit ''plan'') \<and> jget d ''kind'' = JStr (lit expected_kind) then Inr d
               else Inl (Refused ''{}: invalid {} document'' [JStr (pi_name p), JStr (lit expected_kind)])
           | _ \<Rightarrow> Inl (Refused ''{}: invalid {} document'' [JStr (pi_name p), JStr (lit expected_kind)]))
      | _ \<Rightarrow> Inl (Refused ''{}: invalid {} document'' [JStr (pi_name p), JStr (lit expected_kind)]))"

definition place_of :: "pystr \<Rightarrow> obj \<Rightarrow> place" where
  "place_of path r = (path, int_of (jget r ''offset''), int_of (jget r ''length''))"

definition map_replacement :: "string \<Rightarrow> pystr \<Rightarrow> json \<Rightarrow> placed_edits \<Rightarrow> placed_edits bres" where
  "map_replacement label path replacement result =
     (case replacement of
        JObj r \<Rightarrow>
          if \<not> is_int (jget r ''offset'') \<or> \<not> is_int (jget r ''length'') then Inl (Refused ''{}: invalid replacement location'' [JStr (lit label)])
          else if place_of path r \<in> fst ` set result
          then Inl (Refused ''{}: duplicate replacement at {}'' [JStr (lit label), JArr [JStr path, jget r ''offset'', jget r ''length'']])
          else Inr (result @ [(place_of path r, r)])
      | _ \<Rightarrow> Inl (Refused ''{}: invalid replacement in {}'' [JStr (lit label), JStr path]))"

definition map_file :: "string \<Rightarrow> json \<Rightarrow> placed_edits \<times> (pystr \<times> pystr) list \<Rightarrow> (placed_edits \<times> (pystr \<times> pystr) list) bres" where
  "map_file label file_entry = (\<lambda>(result, digests).
     case file_entry of
       JObj d \<Rightarrow> (case (jget d ''path'', jget d ''sha256'', jget d ''replacements'') of
         (JStr path, JStr digest, JArr replacements) \<Rightarrow>
           if map_of digests path \<noteq> None \<and> map_of digests path \<noteq> Some digest
           then Inl (Refused ''{}: inconsistent digest for {}'' [JStr (lit label), JStr path])
           else rbind (each (map_replacement label path) replacements result) (\<lambda>result'. Inr (result', dict_set digests path digest))
       | _ \<Rightarrow> Inl (Refused ''{}: invalid file facts'' [JStr (lit label)]))
     | _ \<Rightarrow> Inl (Refused ''{}: invalid file entry'' [JStr (lit label)]))"

definition replacement_map :: "obj \<Rightarrow> string \<Rightarrow> (placed_edits \<times> (pystr \<times> pystr) list) bres" where
  "replacement_map plan label =
     rbind (jitem plan ''files'') (\<lambda>files. rbind (iterate files) (\<lambda>entries. each (map_file label) entries ([], [])))"

text \<open>
  \<^verbatim>\<open>BACKEND_PATTERN\<close> and \<^verbatim>\<open>TOOL_PATTERN\<close>: the slot, 16 hexadecimal digits, and the name of the variable in the text of an access.
\<close>

definition access_groups :: "pystr \<Rightarrow> pystr \<Rightarrow> (pystr \<times> pystr) option" where
  "access_groups prefix s =
     (let rest = drop (length prefix) s; digest = take 16 rest; tail = drop 16 rest; name = butlast (drop 2 tail)
      in if take (length prefix) s = prefix \<and> length digest = 16 \<and> list_all (\<lambda>c. ascii_digit c \<or> 65 \<le> c \<and> c \<le> 70) digest \<and>
            take 2 tail = lit '', '' \<and> drop 2 tail \<noteq> [] \<and> last (drop 2 tail) = 41 \<and> c_identifier name
         then Some (digest, name) else None)"

definition BACKEND_PREFIX :: pystr where "BACKEND_PREFIX = lit ''POSTGAMMA_BACKEND_STATE_VALUE(POSTGAMMA_BACKEND_STATE_SLOT_''"
definition TOOL_PREFIX :: pystr where "TOOL_PREFIX = lit ''POSTGAMMA_TOOL_STATE_VALUE(POSTGAMMA_TOOL_STATE_SLOT_''"

fun matched :: "pystr \<Rightarrow> json \<Rightarrow> (pystr \<times> pystr) option bres" where
  "matched prefix (JStr s) = Inr (access_groups prefix s)"
| "matched prefix _ = Inl TypeError"

definition place_json :: "place \<Rightarrow> json" where
  "place_json = (\<lambda>(path, offset, n). JArr [JStr path, JInt offset, JInt n])"

definition shared_replacement :: "obj \<Rightarrow> obj \<Rightarrow> place \<Rightarrow> obj bres" where
  "shared_replacement backend tool key =
     (if \<not> jeq (jget backend ''original'') (jget tool ''original'') \<or> \<not> jeq (jget backend ''rule_id'') (jget tool ''rule_id'')
      then Inl (Refused ''state-domain collision has different symbols at {}'' [place_json key])
      else rbind (matched BACKEND_PREFIX (jget_or backend ''replacement'' (JStr []))) (\<lambda>backend_match.
        rbind (matched TOOL_PREFIX (jget_or tool ''replacement'' (JStr []))) (\<lambda>tool_match.
        case (backend_match, tool_match) of
          (Some (digest, name), Some groups) \<Rightarrow>
            if (digest, name) \<noteq> groups then Inl (Refused ''state-domain slot identity differs at {}'' [place_json key])
            else Inr (dict_set (dict_set (dict_set (dict_set backend
              (lit ''replacement'') (JStr (lit ''POSTGAMMA_CONTEXT_STATE_VALUE('' @ digest @ lit '', '' @ name @ lit '')'')))
              (lit ''kind'') (JStr (lit ''context_state'')))
              (lit ''use_kind'') (if jeq (jget backend ''use_kind'') (jget tool ''use_kind'') then jget backend ''use_kind'' else JStr (lit ''mixed'')))
              (lit ''domains'') (JArr [JStr (lit ''backend''), JStr (lit ''frontend-tool'')]))
        | _ \<Rightarrow> Inl (Refused ''state-domain collision needs an unsupported relocation at {}'' [place_json key]))))"

definition reconcile_place :: "placed_edits \<Rightarrow> placed_edits \<Rightarrow> place \<Rightarrow> (place \<times> obj) bres" where
  "reconcile_place backend tool key =
     (case (map_of backend key, map_of tool key) of
        (Some b, Some t) \<Rightarrow> rbind (shared_replacement b t key) (\<lambda>r. Inr (key, r))
      | (Some b, None) \<Rightarrow> Inr (key, b)
      | (None, Some t) \<Rightarrow> Inr (key, t)
      | (None, None) \<Rightarrow> Inl (OtherError (lit ''AssertionError'')))"

text \<open>The entry of a file. Sorting looks up the rule of every replacement, though two of them never share a place.\<close>

definition reconcile_file ::
  "(pystr \<times> pystr) list \<Rightarrow> (pystr \<times> pystr) list \<Rightarrow> placed_edits \<Rightarrow> pystr \<Rightarrow> (pystr \<times> pystr \<times> json list) bres" where
  "reconcile_file backend_digests tool_digests edits path =
     (let own = map snd (filter (\<lambda>(k, _). fst k = path) edits)
      in rbind (collect (\<lambda>r. jitem r ''rule_id'') own) (\<lambda>_.
        Inr (path, the (case map_of backend_digests path of Some d \<Rightarrow> Some d | None \<Rightarrow> map_of tool_digests path),
          map JObj (sort_key (\<lambda>r. (int_of (jget r ''offset''), int_of (jget r ''length''))) own))))"

definition all_places :: "placed_edits \<Rightarrow> placed_edits \<Rightarrow> place list" where
  "all_places backend tool = sort (remdups (map fst backend @ map fst tool))"

text \<open>Of several paths with different digests the source reports any; this is the first of the backend's plan.\<close>

definition reconcile_files :: "obj \<Rightarrow> obj \<Rightarrow> (pystr \<times> pystr \<times> json list) list bres" where
  "reconcile_files backend_plan tool_plan =
     rbind (replacement_map backend_plan ''backend'') (\<lambda>(backend, backend_digests).
     rbind (replacement_map tool_plan ''frontend-tool'') (\<lambda>(tool, tool_digests).
     case find (\<lambda>(path, digest). map_of tool_digests path \<noteq> None \<and> map_of tool_digests path \<noteq> Some digest) backend_digests of
       Some (path, _) \<Rightarrow> Inl (Refused ''source digest differs between domains for {}'' [JStr path])
     | None \<Rightarrow>
         rbind (collect (reconcile_place backend tool) (all_places backend tool)) (\<lambda>edits.
         collect (reconcile_file backend_digests tool_digests edits) (sort (remdups (map (\<lambda>(k, _). fst k) edits))))))"

definition shared_places :: "placed_edits \<Rightarrow> placed_edits \<Rightarrow> nat" where
  "shared_places backend tool = length (filter (\<lambda>k. k \<in> fst ` set backend \<and> k \<in> fst ` set tool) (all_places backend tool))"

definition reconcile :: "obj \<Rightarrow> obj \<Rightarrow> obj bres" where
  "reconcile backend_plan tool_plan =
     rbind (reconcile_files backend_plan tool_plan) (\<lambda>files.
     rbind (replacement_map backend_plan ''backend'') (\<lambda>(backend, _).
     rbind (replacement_map tool_plan ''frontend-tool'') (\<lambda>(tool, _).
     Inr [(lit ''schema_version'', JInt 1), (lit ''mode'', JStr (lit ''plan'')), (lit ''kind'', JStr (lit ''postgamma.context-state-plan'')),
       (lit ''source_root'', JStr (lit ''.'')), (lit ''files'', JArr (map (\<lambda>f. JObj (file_json f)) files)),
       (lit ''summary'', JObj [(lit ''file_count'', JInt (int (length files))),
          (lit ''replacement_count'', JInt (int (length (all_places backend tool)))),
          (lit ''shared_domain_replacement_count'', JInt (int (shared_places backend tool)))])])))"

end
