(* ===== verification/Reconcile_Laws.thy ===== *)
theory Reconcile_Laws
  imports Reconcile
begin

text \<open>
  What reconciling two plans does: no replacement of either is lost, changed or made twice, and a shared one refers to the slot and the
  variable both plans agree on.
\<close>

text \<open>What \<^verbatim>\<open>replacement_map\<close> returns.\<close>

definition well_placed :: "placed_edits \<Rightarrow> bool" where
  "well_placed es \<longleftrightarrow> distinct (map fst es) \<and> (\<forall>(k, r)\<in>set es. place_of (fst k) r = k)"

lemma map_replacement_placed:
  assumes "map_replacement label path x es = Inr es'" and "well_placed es"
  shows "well_placed es'"
  using assms by (cases x) (auto simp: map_replacement_def well_placed_def place_of_def split: if_splits)

lemma map_file_Inr:
  assumes "map_file label x (es, ds) = Inr s'"
  obtains path digest rs es' where "each (map_replacement label path) rs es = Inr es'" "s' = (es', dict_set ds path digest)"
proof -
  obtain d where d: "x = JObj d" using assms by (cases x) (simp_all add: map_file_def)
  obtain path digest rs where p: "jget d ''path'' = JStr path" "jget d ''sha256'' = JStr digest" "jget d ''replacements'' = JArr rs"
    using assms by (cases "jget d ''path''"; cases "jget d ''sha256''"; cases "jget d ''replacements''") (simp_all add: map_file_def d)
  obtain es' where "each (map_replacement label path) rs es = Inr es'" "s' = (es', dict_set ds path digest)"
    using assms by (auto simp: map_file_def d p rbind_eq_Inr simp del: not_None_eq split: if_splits)
  then show thesis by (rule that)
qed

lemma map_file_placed:
  assumes "map_file label x s = Inr s'" and "well_placed (fst s)"
  shows "well_placed (fst s')"
proof -
  obtain es ds where s: "s = (es, ds)" by (cases s)
  obtain path digest rs es' where e: "each (map_replacement label path) rs es = Inr es'" "s' = (es', dict_set ds path digest)"
    by (rule map_file_Inr [OF assms(1) [unfolded s]])
  have "well_placed es'"
    using each_invariant [where P = well_placed, OF map_replacement_placed _ e(1)] assms(2) s by simp
  then show ?thesis using e(2) by simp
qed

lemma replacement_map_placed:
  assumes "replacement_map plan label = Inr (es, ds)"
  shows "well_placed es"
proof -
  obtain entries where "each (map_file label) entries ([], []) = Inr (es, ds)" using assms by (auto simp: replacement_map_def rbind_eq_Inr)
  from each_invariant [where P = "\<lambda>s. well_placed (fst s)", OF map_file_placed _ this] show ?thesis by (simp add: well_placed_def)
qed

text \<open>Every file with a replacement has a digest.\<close>

definition digested :: "placed_edits \<Rightarrow> (pystr \<times> pystr) list \<Rightarrow> bool" where
  "digested es ds \<longleftrightarrow> (\<forall>k\<in>fst ` set es. map_of ds (fst k) \<noteq> None)"

lemma map_file_digested:
  assumes "map_file label x s = Inr s'" and "digested (fst s) (snd s)"
  shows "digested (fst s') (snd s')"
proof -
  obtain es ds where s: "s = (es, ds)" by (cases s)
  obtain path digest rs es' where e: "each (map_replacement label path) rs es = Inr es'" "s' = (es', dict_set ds path digest)"
    by (rule map_file_Inr [OF assms(1) [unfolded s]])
  have step: "digested es2 (dict_set ds path digest)"
    if "map_replacement label path y es1 = Inr es2" "digested es1 (dict_set ds path digest)" for y es1 es2
    using that by (cases y) (auto simp: map_replacement_def digested_def place_of_def update_conv' split: if_splits)
  have "digested es (dict_set ds path digest)" using assms(2) by (auto simp: s digested_def update_conv')
  from each_invariant [where P = "\<lambda>es. digested es (dict_set ds path digest)", OF _ this e(1)] step
  have "digested es' (dict_set ds path digest)" by blast
  then show ?thesis using e(2) by simp
qed

lemma replacement_map_digested:
  assumes "replacement_map plan label = Inr (es, ds)"
  shows "digested es ds"
proof -
  obtain entries where "each (map_file label) entries ([], []) = Inr (es, ds)" using assms by (auto simp: replacement_map_def rbind_eq_Inr)
  from each_invariant [where P = "\<lambda>s. digested (fst s) (snd s)", OF map_file_digested _ this] show ?thesis by (simp add: digested_def)
qed

section \<open>Shared replacements\<close>

lemma access_groups_text:
  assumes "access_groups prefix s = Some (digest, name)"
  shows "s = prefix @ digest @ lit '', '' @ name @ [41]"
proof -
  let ?rest = "drop (length prefix) s"
  have g: "take (length prefix) s = prefix" "digest = take 16 ?rest" "take 2 (drop 16 ?rest) = lit '', ''" "drop 2 (drop 16 ?rest) \<noteq> []"
    "last (drop 2 (drop 16 ?rest)) = 41" "name = butlast (drop 2 (drop 16 ?rest))"
    using assms by (auto simp: access_groups_def Let_def split: if_splits)
  have "s = prefix @ ?rest" using g(1) by (metis append_take_drop_id)
  also have "?rest = digest @ drop 16 ?rest" unfolding g(2) by (rule append_take_drop_id [symmetric])
  also have "drop 16 ?rest = lit '', '' @ drop 2 (drop 16 ?rest)" using g(3) by (metis append_take_drop_id)
  also have "drop 2 (drop 16 ?rest) = name @ [41]" using g(4-6) by (metis append_butlast_last_id)
  finally show ?thesis .
qed

lemma matched_text: "matched prefix (jget_or d ''replacement'' (JStr [])) = Inr (Some (digest, name)) \<Longrightarrow>
  jget d ''replacement'' = JStr (prefix @ digest @ lit '', '' @ name @ [41])"
proof -
  assume m: "matched prefix (jget_or d ''replacement'' (JStr [])) = Inr (Some (digest, name))"
  then obtain s where s: "jget_or d ''replacement'' (JStr []) = JStr s" "access_groups prefix s = Some (digest, name)"
    by (cases "jget_or d ''replacement'' (JStr [])") auto
  have t: "s = prefix @ digest @ lit '', '' @ name @ [41]" by (rule access_groups_text [OF s(2)])
  then have "s \<noteq> []" by simp
  then show ?thesis using s(1) t by (auto simp: jget_def jget_or_def split: option.splits)
qed

lemma shared_replacement_Inr:
  assumes "shared_replacement b t k = Inr r"
  shows "(\<forall>path. place_of path r = place_of path b) \<and> jeq (jget b ''original'') (jget t ''original'') \<and> jget r ''original'' = jget b ''original'' \<and>
    (\<exists>digest name. jget b ''replacement'' = JStr (BACKEND_PREFIX @ digest @ lit '', '' @ name @ [41]) \<and>
       jget t ''replacement'' = JStr (TOOL_PREFIX @ digest @ lit '', '' @ name @ [41]) \<and>
       jget r ''replacement'' = JStr (lit ''POSTGAMMA_CONTEXT_STATE_VALUE('' @ digest @ lit '', '' @ name @ lit '')''))"
proof -
  from assms obtain bm tm where m: "matched BACKEND_PREFIX (jget_or b ''replacement'' (JStr [])) = Inr bm"
    "matched TOOL_PREFIX (jget_or t ''replacement'' (JStr [])) = Inr tm" and o: "jeq (jget b ''original'') (jget t ''original'')"
    by (auto simp: shared_replacement_def rbind_eq_Inr split: if_splits)
  obtain digest name where bm: "bm = Some (digest, name)" and tm: "tm = Some (digest, name)"
    using assms by (cases bm; cases tm) (auto simp: shared_replacement_def m split: if_splits)
  have r: "r = dict_set (dict_set (dict_set (dict_set b
              (lit ''replacement'') (JStr (lit ''POSTGAMMA_CONTEXT_STATE_VALUE('' @ digest @ lit '', '' @ name @ lit '')'')))
              (lit ''kind'') (JStr (lit ''context_state'')))
              (lit ''use_kind'') (if jeq (jget b ''use_kind'') (jget t ''use_kind'') then jget b ''use_kind'' else JStr (lit ''mixed'')))
              (lit ''domains'') (JArr [JStr (lit ''backend''), JStr (lit ''frontend-tool'')])"
    using assms by (simp add: shared_replacement_def m bm tm split: if_splits)
  show ?thesis using matched_text [OF m(1) [unfolded bm]] matched_text [OF m(2) [unfolded tm]] o
    by (auto simp: r place_of_def jget_def jget_or_def update_conv')
qed

section \<open>The reconciled plan\<close>

lemma reconcile_place_Inr:
  assumes "reconcile_place B T k = Inr x" and "well_placed B" and "well_placed T"
  shows "fst x = k \<and> place_of (fst k) (snd x) = k"
proof -
  have p: "place_of (fst k) r = k" if "map_of es k = Some r" "well_placed es" for es r
    using that by (auto simp: well_placed_def dest: map_of_SomeD)
  show ?thesis
    using assms(1) p [OF _ assms(2)] p [OF _ assms(3)]
    by (auto simp: reconcile_place_def rbind_eq_Inr dest!: shared_replacement_Inr split: option.splits)
qed

text \<open>What a reconciled plan owes to the two plans at a place.\<close>

definition owed :: "placed_edits \<Rightarrow> placed_edits \<Rightarrow> place \<Rightarrow> obj \<Rightarrow> bool" where
  "owed B T k r \<longleftrightarrow>
     (case (map_of B k, map_of T k) of
        (Some b, Some t) \<Rightarrow> shared_replacement b t k = Inr r
      | (Some b, None) \<Rightarrow> r = b
      | (None, Some t) \<Rightarrow> r = t
      | (None, None) \<Rightarrow> False)"

lemma reconcile_place_owed: "reconcile_place B T k = Inr x \<longleftrightarrow> (\<exists>r. x = (k, r) \<and> owed B T k r)"
  by (auto simp: reconcile_place_def owed_def rbind_eq_Inr split: option.splits)

lemma owed_member: "owed B T k r \<Longrightarrow> k \<in> set (all_places B T)"
  by (auto simp: owed_def all_places_def split: option.splits dest!: map_of_SomeD)
    (force simp: image_iff)+

lemma collected_edits:
  assumes "collect (reconcile_place B T) (all_places B T) = Inr edits"
  shows "map fst edits = all_places B T" and "(k, r) \<in> set edits \<longleftrightarrow> owed B T k r"
proof -
  have all2: "list_all2 (\<lambda>k x. reconcile_place B T k = Inr x) (all_places B T) edits" by (rule collect_all2 [OF assms])
  have "list_all2 (\<lambda>k x. k = fst x) (all_places B T) edits"
    by (rule list_all2_mono [OF all2]) (auto simp: reconcile_place_owed)
  then show "map fst edits = all_places B T" by (simp add: list_all2_conv_all_nth list_eq_iff_nth_eq)
  show "(k, r) \<in> set edits \<longleftrightarrow> owed B T k r"
  proof
    assume "(k, r) \<in> set edits"
    from collect_source [OF assms this] show "owed B T k r" by (auto simp: reconcile_place_owed)
  next
    assume o: "owed B T k r"
    from collect_member [OF assms owed_member [OF o]] obtain x where "x \<in> set edits" "reconcile_place B T k = Inr x" by blast
    moreover have "reconcile_place B T k = Inr (k, r)" using o by (simp add: reconcile_place_owed)
    ultimately show "(k, r) \<in> set edits" by simp
  qed
qed

definition position :: "json \<Rightarrow> int \<times> int" where
  "position = (\<lambda>r. case r of JObj d \<Rightarrow> (int_of (jget d ''offset''), int_of (jget d ''length'')) | _ \<Rightarrow> (0, 0))"

lemma sorted_positions:
  assumes "map fst edits = all_places B T" and placed: "\<And>k r. (k, r) \<in> set edits \<Longrightarrow> place_of (fst k) r = k"
  shows "sorted_wrt (<) (map position (map JObj (sort_key (\<lambda>r. (int_of (jget r ''offset''), int_of (jget r ''length'')))
    (map snd (filter (\<lambda>(k, _). fst k = path) edits)))))"
proof -
  let ?key = "\<lambda>r. (int_of (jget r ''offset''), int_of (jget r ''length''))"
  let ?own = "filter (\<lambda>(k, _). fst k = path) edits"
  have "distinct (map fst edits)" by (simp add: assms(1) all_places_def)
  then have "distinct (map fst ?own)" by (rule distinct_map_filter)
  moreover have keys: "map fst ?own = map (\<lambda>x. (path, ?key (snd x))) ?own"
    using placed by (auto simp: place_of_def)
  ultimately have "distinct (map (\<lambda>x. ?key (snd x)) ?own)" by (auto simp: distinct_map inj_on_def)
  then have "distinct (map ?key (map snd ?own))" by (simp add: o_def)
  then have "distinct (map ?key (sort_key ?key (map snd ?own)))" by (simp only: distinct_map set_sort distinct_sort)
  moreover have "sorted (map ?key (sort_key ?key (map snd ?own)))" by simp
  ultimately have "sorted_wrt (<) (map ?key (sort_key ?key (map snd ?own)))" by (simp add: strict_sorted_iff)
  then show ?thesis by (simp add: position_def o_def sorted_wrt_map)
qed

lemma reconcile_file_Inr:
  "reconcile_file bd td edits path = Inr f \<Longrightarrow>
   f = (path, the (case map_of bd path of Some d \<Rightarrow> Some d | None \<Rightarrow> map_of td path),
     map JObj (sort_key (\<lambda>r. (int_of (jget r ''offset''), int_of (jget r ''length''))) (map snd (filter (\<lambda>(k, _). fst k = path) edits))))"
  by (simp add: reconcile_file_def Let_def rbind_eq_Inr)

text \<open>Where a plan of files has a replacement.\<close>

definition replaced_at :: "(pystr \<times> pystr \<times> json list) list \<Rightarrow> place \<Rightarrow> obj \<Rightarrow> bool" where
  "replaced_at files k r \<longleftrightarrow> (\<exists>digest rs. (fst k, digest, rs) \<in> set files \<and> JObj r \<in> set rs \<and> place_of (fst k) r = k)"

lemma reconciled_files:
  assumes "collect (reconcile_file bd td edits) (sort (remdups (map (\<lambda>(k, _). fst k) edits))) = Inr files"
    and placed: "\<And>k r. (k, r) \<in> set edits \<Longrightarrow> place_of (fst k) r = k"
  shows "map fst files = sort (remdups (map (\<lambda>(k, _). fst k) edits))" and "replaced_at files k r \<longleftrightarrow> (k, r) \<in> set edits"
proof -
  let ?paths = "sort (remdups (map (\<lambda>(k, _). fst k) edits))"
  have "list_all2 (\<lambda>path f. path = fst f) ?paths files"
    by (rule list_all2_mono [OF collect_all2 [OF assms(1)]]) (auto dest!: reconcile_file_Inr)
  then show "map fst files = ?paths" by (simp add: list_all2_conv_all_nth list_eq_iff_nth_eq)
  show "replaced_at files k r \<longleftrightarrow> (k, r) \<in> set edits"
  proof
    assume "replaced_at files k r"
    then obtain digest rs where f: "(fst k, digest, rs) \<in> set files" "JObj r \<in> set rs" "place_of (fst k) r = k"
      by (auto simp: replaced_at_def)
    obtain path where "reconcile_file bd td edits path = Inr (fst k, digest, rs)" using collect_source [OF assms(1) f(1)] by blast
    from reconcile_file_Inr [OF this] f(2) obtain j where "(j, r) \<in> set edits" "fst j = fst k" by auto
    then show "(k, r) \<in> set edits" using placed f(3) by metis
  next
    assume e: "(k, r) \<in> set edits"
    then have "fst k \<in> set ?paths" by force
    from collect_member [OF assms(1) this] obtain f where f: "f \<in> set files" "reconcile_file bd td edits (fst k) = Inr f" by blast
    show "replaced_at files k r"
    proof -
      let ?key = "\<lambda>r. (int_of (jget r ''offset''), int_of (jget r ''length''))"
      from e have "r \<in> set (map snd (filter (\<lambda>(j, _). fst j = fst k) edits))" by force
      then have "JObj r \<in> set (map JObj (sort_key ?key (map snd (filter (\<lambda>(j, _). fst j = fst k) edits))))"
        by (simp only: list.set_map set_sort) (rule imageI)
      then show ?thesis using f(1) placed [OF e] unfolding reconcile_file_Inr [OF f(2)] replaced_at_def by blast
    qed
  qed
qed

lemma reconciled_digest:
  assumes "find (\<lambda>(path, digest). map_of td path \<noteq> None \<and> map_of td path \<noteq> Some digest) bd = None"
    and "map_of bd path \<noteq> None \<or> map_of td path \<noteq> None"
    and "digest = the (case map_of bd path of Some d \<Rightarrow> Some d | None \<Rightarrow> map_of td path)"
  shows "map_of bd path \<in> {None, Some digest}" and "map_of td path \<in> {None, Some digest}"
proof -
  have "map_of td path \<in> {None, Some d}" if "map_of bd path = Some d" for d
    using map_of_SomeD [OF that] assms(1) by (auto simp: find_None_iff)
  then show "map_of bd path \<in> {None, Some digest}" "map_of td path \<in> {None, Some digest}"
    using assms(2,3) by (auto split: option.splits)
qed

lemma owed_path: "owed B T k r \<Longrightarrow> digested B bd \<Longrightarrow> digested T td \<Longrightarrow> map_of bd (fst k) \<noteq> None \<or> map_of td (fst k) \<noteq> None"
  by (auto simp: owed_def digested_def split: option.splits dest!: map_of_SomeD) (metis fst_conv imageI not_Some_eq)+

text \<open>
  C17: Reconciling the plan of the backend with the plan of the frontend tools yields one entry for each file; its digest is the digest of every
  plan that lists the file, and its replacements are in strictly increasing order of their places, so that no place is replaced twice. A place
  carries a replacement in the result exactly when one of the plans has one there: the replacement of that plan when only one does, and the
  shared replacement when both do.
\<close>

theorem reconciled_plan_covers_both:
  assumes "replacement_map backend_plan ''backend'' = Inr (B, bd)" and "replacement_map tool_plan ''frontend-tool'' = Inr (T, td)"
    and "reconcile_files backend_plan tool_plan = Inr files"
  shows "distinct (map fst files) \<and> (\<forall>k r. replaced_at files k r \<longleftrightarrow> owed B T k r) \<and>
    (\<forall>(path, digest, rs)\<in>set files. map_of bd path \<in> {None, Some digest} \<and> map_of td path \<in> {None, Some digest} \<and>
      (map_of bd path \<noteq> None \<or> map_of td path \<noteq> None) \<and> sorted_wrt (<) (map position rs))"
proof -
  from assms obtain edits where
    agree: "find (\<lambda>(path, digest). map_of td path \<noteq> None \<and> map_of td path \<noteq> Some digest) bd = None" and
    edits: "collect (reconcile_place B T) (all_places B T) = Inr edits" and
    files: "collect (reconcile_file bd td edits) (sort (remdups (map (\<lambda>(k, _). fst k) edits))) = Inr files"
    by (auto simp: reconcile_files_def rbind_eq_Inr split: option.splits)
  have placed: "place_of (fst k) r = k" if "(k, r) \<in> set edits" for k r
    using collect_source [OF edits that] reconcile_place_Inr replacement_map_placed [OF assms(1)] replacement_map_placed [OF assms(2)]
    by (metis (no_types, lifting) fst_conv snd_conv)
  note of_files = reconciled_files [OF files placed]
  have entries: "map_of bd path \<in> {None, Some digest} \<and> map_of td path \<in> {None, Some digest} \<and>
      (map_of bd path \<noteq> None \<or> map_of td path \<noteq> None) \<and> sorted_wrt (<) (map position rs)"
    if f: "(path, digest, rs) \<in> set files" for path digest rs
  proof -
    from f have "path \<in> set (map fst files)" by force
    then obtain k r where "(k, r) \<in> set edits" "fst k = path" by (auto simp: of_files(1))
    then have some: "map_of bd path \<noteq> None \<or> map_of td path \<noteq> None"
      using owed_path [OF _ replacement_map_digested [OF assms(1)] replacement_map_digested [OF assms(2)]] collected_edits(2) [OF edits] by blast
    obtain p where "reconcile_file bd td edits p = Inr (path, digest, rs)" using collect_source [OF files f] by blast
    then have entry: "digest = the (case map_of bd path of Some d \<Rightarrow> Some d | None \<Rightarrow> map_of td path)"
      "rs = map JObj (sort_key (\<lambda>r. (int_of (jget r ''offset''), int_of (jget r ''length''))) (map snd (filter (\<lambda>(k, _). fst k = path) edits)))"
      by (auto dest!: reconcile_file_Inr)
    show ?thesis
      using reconciled_digest [OF agree some entry(1)] some sorted_positions [OF collected_edits(1) [OF edits] placed]
      unfolding entry(2) by blast
  qed
  have "replaced_at files k r \<longleftrightarrow> owed B T k r" for k r using of_files(2) collected_edits(2) [OF edits] by simp
  moreover have "distinct (map fst files)" by (simp add: of_files(1))
  ultimately show ?thesis using entries by blast
qed

text \<open>A variable both domains use, and one of the tools only.\<close>

definition sample_access :: "int \<Rightarrow> pystr \<Rightarrow> obj" where
  "sample_access offset prefix = [(lit ''offset'', JInt offset), (lit ''length'', JInt 1), (lit ''original'', JStr (lit ''x'')),
     (lit ''rule_id'', JStr (lit ''r'')), (lit ''replacement'', JStr (prefix @ lit ''0123456789ABCDEF, x)''))]"

definition sample_state_plan :: "obj list \<Rightarrow> obj" where
  "sample_state_plan rs = [(lit ''files'', JArr [JObj [(lit ''path'', JStr (lit ''a.c'')), (lit ''sha256'', JStr (lit ''d'')),
     (lit ''replacements'', JArr (map JObj rs))]])]"

definition sample_backend :: obj where "sample_backend = sample_state_plan [sample_access 4 BACKEND_PREFIX]"
definition sample_tool :: obj where "sample_tool = sample_state_plan [sample_access 9 TOOL_PREFIX, sample_access 4 TOOL_PREFIX]"

lemmas sample_defs = sample_backend_def sample_tool_def sample_state_plan_def replacement_map_def map_file_def map_replacement_def
  place_of_def jget_def jget_or_def jitem_def

lemma sample_maps:
  "replacement_map sample_backend ''backend'' = Inr ([((lit ''a.c'', 4, 1), sample_access 4 BACKEND_PREFIX)], [(lit ''a.c'', lit ''d'')])"
  "replacement_map sample_tool ''frontend-tool'' =
     Inr ([((lit ''a.c'', 9, 1), sample_access 9 TOOL_PREFIX), ((lit ''a.c'', 4, 1), sample_access 4 TOOL_PREFIX)], [(lit ''a.c'', lit ''d'')])"
  by (simp_all add: sample_defs sample_access_def)

lemma sample_shared:
  "\<exists>r. shared_replacement (sample_access 4 BACKEND_PREFIX) (sample_access 4 TOOL_PREFIX) k = Inr r \<and>
     jget r ''replacement'' = JStr (lit ''POSTGAMMA_CONTEXT_STATE_VALUE(0123456789ABCDEF, x)'') \<and> jitem r ''rule_id'' = Inr (JStr (lit ''r''))"
  by (simp add: shared_replacement_def sample_access_def access_groups_def BACKEND_PREFIX_def TOOL_PREFIX_def lit_def jget_def jget_or_def jitem_def
    Let_def c_identifier_def ascii_alpha_def ascii_digit_def)

lemma sample_reconciled: "\<exists>files. reconcile_files sample_backend sample_tool = Inr files"
proof -
  obtain r where r: "shared_replacement (sample_access 4 BACKEND_PREFIX) (sample_access 4 TOOL_PREFIX) (lit ''a.c'', 4, 1) = Inr r"
    "jitem r ''rule_id'' = Inr (JStr (lit ''r''))" using sample_shared by blast
  have places: "all_places [((lit ''a.c'', 4, 1), sample_access 4 BACKEND_PREFIX)]
      [((lit ''a.c'', 9, 1), sample_access 9 TOOL_PREFIX), ((lit ''a.c'', 4, 1), sample_access 4 TOOL_PREFIX)] =
    [(lit ''a.c'', 4, 1), (lit ''a.c'', 9, 1)]" by (simp add: all_places_def)
  have rule: "jitem (sample_access 9 TOOL_PREFIX) ''rule_id'' = Inr (JStr (lit ''r''))" by (simp add: sample_access_def jitem_def)
  show ?thesis by (simp add: reconcile_files_def sample_maps places reconcile_place_def r rule reconcile_file_def Let_def)
qed

theorem reconciled_plan_covers_both_witness:
  "\<exists>files r. reconcile_files sample_backend sample_tool = Inr files \<and> distinct (map fst files) \<and> replaced_at files (lit ''a.c'', 4, 1) r \<and>
     jget r ''replacement'' = JStr (lit ''POSTGAMMA_CONTEXT_STATE_VALUE(0123456789ABCDEF, x)'') \<and>
     replaced_at files (lit ''a.c'', 9, 1) (sample_access 9 TOOL_PREFIX) \<and>
     (\<exists>rs. (lit ''a.c'', lit ''d'', rs) \<in> set files \<and> sorted_wrt (<) (map position rs))"
proof -
  obtain files where files: "reconcile_files sample_backend sample_tool = Inr files" using sample_reconciled by blast
  note facts = reconciled_plan_covers_both [OF sample_maps files]
  obtain r where r: "shared_replacement (sample_access 4 BACKEND_PREFIX) (sample_access 4 TOOL_PREFIX) (lit ''a.c'', 4, 1) = Inr r"
    "jget r ''replacement'' = JStr (lit ''POSTGAMMA_CONTEXT_STATE_VALUE(0123456789ABCDEF, x)'')" using sample_shared by blast
  have at: "replaced_at files (lit ''a.c'', 4, 1) r" "replaced_at files (lit ''a.c'', 9, 1) (sample_access 9 TOOL_PREFIX)"
    using facts by (simp_all add: owed_def r(1))
  then obtain digest rs where f: "(lit ''a.c'', digest, rs) \<in> set files" by (auto simp: replaced_at_def)
  have "digest = lit ''d''" "sorted_wrt (<) (map position rs)" using facts f by auto
  then show ?thesis using files facts at r(2) f by blast
qed

end
