(* ===== verification/Spec2Isabelle.thy ===== *)
theory Spec2Isabelle
  imports Async_Laws Fd_Hub Stream_Laws Database_Laws Plan_Laws Runtime_Laws Wheel_Laws Dbapi Reconcile_Laws
begin

text \<open>
  \<^bold>\<open>PostGamma\<close> embeds PostgreSQL in a Python process. This development models the Python package \<^verbatim>\<open>src/python/src/postgamma\<close>, the
  backend \<^verbatim>\<open>src/python/build_backend.py\<close> that builds its wheel, and the tools of \<^verbatim>\<open>src/buildsys\<close> that rewrite the sources of PostgreSQL so that
  its global variables become state of an instance, a role or a session, and that fix the identity of a release.

  \<^bold>\<open>How code is modelled.\<close> A Python call is a function from the world to an outcome (a value, an exception, or not returning) and a world; the
  statements of the language are combinators (\<open>Py_Prelude\<close>, which also has the two program logics \<open>keeps\<close>, for invariants, and \<open>hoare\<close>). Functions
  without effects return a value or an exception. Text is a list of code points (\<open>Py_Text\<close>, \<open>Utf8\<close>); integers are unbounded as in Python,
  floats are rationals rounded to binary64 (\<open>Timeouts\<close>). The objects of the package are records in one heap per class (\<open>Kernel\<close>,
  \<open>Objects\<close>). The build tools work on JSON documents (\<open>Build_Json\<close>) and trees of files, and return a result or the error they report.

  \<^bold>\<open>The package\<close>, with the theories that model it and what they show:
  \<^item> \<open>Pg_Errors\<close> (\<^verbatim>\<open>_errors.py\<close>): the exceptions and the translation of native diagnostics, which keeps the diagnostic and the PEP 249 class.
  \<^item> \<open>Sql_Text\<close> (\<^verbatim>\<open>_sql.py\<close>): the marker rewriting changes markers only, leaves quoted text alone and misses no marker.
  \<^item> \<open>Py_Values\<close>, \<open>Codec\<close>, \<open>Codec_Laws\<close> (\<^verbatim>\<open>_codec.py\<close>): round trips of scalars and nested arrays, the outcomes of decoding, the codec registry.
  \<^item> \<open>Timeouts\<close>, \<open>Results\<close>, \<open>Dbapi\<close> (\<^verbatim>\<open>_api.py\<close>, \<^verbatim>\<open>_management.py\<close>, \<^verbatim>\<open>_dbapi.py\<close>): the range of timeouts; the fetches of a result refine a list of
    rows; the constructors of dates, times and timestamps.
  \<^item> \<open>Databases\<close>, \<open>Sessions\<close>, \<open>Connections\<close> (\<^verbatim>\<open>_api.py\<close>, \<^verbatim>\<open>_arrow.py\<close>): databases and their events, connections with transactions and cursors, closing, and the
    registry of implicit instances. \<open>Session_Laws\<close> and \<open>Database_Laws\<close>: the native traffic of a call, the outcome of a transaction scope, the draining
    of the event queue, the leases of an instance.
  \<^item> \<open>Requests\<close>, \<open>Streams\<close>, \<open>Operations\<close> (\<^verbatim>\<open>_stream.py\<close>, \<^verbatim>\<open>_management.py\<close>): requests, COPY, row streams, prepared statements, management operations.
    \<open>Gate\<close> and \<open>Reachable\<close>: in every world that public calls reach the gate of a connection is held by its one open request. \<open>Request_Laws\<close> and
    \<open>Stream_Laws\<close>: deadlines, closing, rows that are neither lost nor repeated, writes that end.
  \<^item> \<open>Fd_Hub\<close>, \<open>Async\<close>, \<open>Async_Streams\<close>, \<open>Async_Laws\<close> (\<^verbatim>\<open>_async.py\<close>): the hubs of descriptors as an inductive step relation that refines independent
    waits; the coroutines against any scheduler, with what they leave locked and what a cancellation does.

  \<^bold>\<open>The build tools\<close>:
  \<^item> \<open>Replacements\<close>, \<open>Replacement_Laws\<close> (\<^verbatim>\<open>apply_replacements.py\<close>, \<^verbatim>\<open>merge_replacement_plans.py\<close>): applying a plan is simultaneous substitution; merged plans
    apply; a failing plan leaves whole files.
  \<^item> \<open>State_Policy\<close>, \<open>State_Layout\<close>, \<open>State_Laws\<close> (\<^verbatim>\<open>state_policy.py\<close>, \<^verbatim>\<open>check_backend_state_policy.py\<close>, \<^verbatim>\<open>generate_backend_state_runtime.py\<close>): the slots of the
    variables do not overlap. \<open>State_Plan\<close>, \<open>Plan_Laws\<close> (\<^verbatim>\<open>generate_backend_state_plan.py\<close>): the compiled plan applies and covers every use. \<open>Runtime_Laws\<close>: the
    report of the layout is an input the plan compiler accepts.
  \<^item> \<open>Reconcile\<close>, \<open>Reconcile_Laws\<close> (\<^verbatim>\<open>reconcile_context_state_plans.py\<close>): the plans of backend and tools combined without a loss.
  \<^item> \<open>Release\<close>, \<open>Release_Laws\<close> (\<^verbatim>\<open>product_version.py\<close>, \<^verbatim>\<open>python_wheel_receipt.py\<close>): versions parse in one way, a release is newer than all others.
  \<^item> \<open>Wheel\<close>, \<open>Wheel_Laws\<close> (\<^verbatim>\<open>build_backend.py\<close>): the wheel has the version of the release, its \<^verbatim>\<open>RECORD\<close> reads back as its members, its receipt is accepted.

  \<^bold>\<open>Interfaces.\<close> The locale \<open>driver\<close> (\<open>Frames\<close>) is the contract between an invariant and the operations that drive and close requests; it is interpreted for the gate
  invariant, for the trace of native calls and for the streams. \<open>row_source\<close> (\<open>Results\<close>) is what a sequence of fetches promises, \<open>lookup_table\<close> (\<open>Codec_Laws\<close>) the
  codec registry, \<open>unicode\<close> (\<open>Py_Text\<close>) what the text functions use of the Unicode database.

  \<^bold>\<open>Parameters.\<close> What is outside of the repository or below it is an argument: the native module, the clock, callbacks and files (\<open>host\<close> in \<open>Kernel\<close>), the Unicode database,
  the parsers of the standard library whose behaviour depends on the version (\<open>stdlib\<close>), the scheduler of the event loop, SHA-256 and the printing of JSON (\<open>build_env\<close>), the
  machine a wheel is built on (\<open>host\<close> in \<open>Wheel\<close>). \<open>Sample\<close> and the witnesses instantiate them.

  \<^bold>\<open>Fuel and recursion.\<close> A loop that polls the server need not end; it takes fuel, and used-up fuel is the outcome of a call that does not return. Where the code
  promises to end (draining a queue, writing all bytes) the theorem says how much fuel is enough. Closing calls itself through other objects; the depth is the
  interpreter's recursion limit, an argument. All other loops are total functions.

  \<^bold>\<open>Not modelled.\<close> Threads other than the scheduler's tasks and the garbage collector (finalizers are operations of their own); the native C code and PostgreSQL; the
  re-exports, version constant and capability flags of the package; reading the command line and writing reports in the build tools; and the other scripts of
  \<^verbatim>\<open>src/buildsys\<close>, which run compilers, test programs and containers or inspect binaries: nearly all they do is input and output.
\<close>

end
